(* ===== verification/Prelude.thy ===== *)
theory Prelude
  imports Main
begin

text \<open>
  Shared ground of the development.

  \<^item> The effect of a Rust function that may fail: a state transformer whose result is either an
    abort or a value, and whose state survives an abort (nothing in the modelled code runs inside
    a transaction that rolls back). \<open>bindE\<close> is Rust's \<open>?\<close>, \<open>tryE\<close> and \<open>okE\<close> are the places where
    a \<open>Result\<close> is matched or dropped, \<open>forE\<close> is a \<open>for\<close> loop with early return. A panic is an
    abort of its own kind, which no \<open>match\<close> on a \<open>Result\<close> can catch.
  \<^item> The part of Rust's \<open>str\<close> and \<open>Vec\<close> interface the sources use. A string is its UTF-8 byte
    sequence; case mapping and white space are the ASCII part of Rust's.
  \<^item> The interfaces every component instantiates: \<open>event_machine\<close> (a deterministic step function
    with an invariant), \<open>text_codec\<close> (a printed enum and its parser).
\<close>

named_theorems runs "results of the monadic combinators"
named_theorems calms "computations that end with a value or an error"
named_theorems rets "computations that end with a value"
named_theorems keeps "frame and invariant lemmas of effectful operations"

section \<open>Effects and errors\<close>

datatype 'e abort = Err 'e | Panic

type_synonym ('s, 'e, 'a) eff = "'s \<Rightarrow> ('e abort + 'a) \<times> 's"

definition returnE :: "'a \<Rightarrow> ('s, 'e, 'a) eff" where
  "returnE x = (\<lambda>s. (Inr x, s))"

definition throwE :: "'e \<Rightarrow> ('s, 'e, 'a) eff" where
  "throwE e = (\<lambda>s. (Inl (Err e), s))"

definition panicE :: "('s, 'e, 'a) eff" where
  "panicE = (\<lambda>s. (Inl Panic, s))"

definition bindE :: "('s, 'e, 'a) eff \<Rightarrow> ('a \<Rightarrow> ('s, 'e, 'b) eff) \<Rightarrow> ('s, 'e, 'b) eff" where
  "bindE m f = (\<lambda>s. case m s of (Inl e, s') \<Rightarrow> (Inl e, s') | (Inr x, s') \<Rightarrow> f x s')"

definition thenE :: "('s, 'e, 'a) eff \<Rightarrow> ('s, 'e, 'b) eff \<Rightarrow> ('s, 'e, 'b) eff" where
  "thenE m k = bindE m (\<lambda>_. k)"

definition getsE :: "('s \<Rightarrow> 'a) \<Rightarrow> ('s, 'e, 'a) eff" where
  "getsE f = (\<lambda>s. (Inr (f s), s))"

definition modifyE :: "('s \<Rightarrow> 's) \<Rightarrow> ('s, 'e, unit) eff" where
  "modifyE f = (\<lambda>s. (Inr (), f s))"

definition requireE :: "bool \<Rightarrow> 'e \<Rightarrow> ('s, 'e, unit) eff" where
  "requireE b e = (if b then returnE () else throwE e)"

text \<open>\<open>match m { Ok(x) => .., Err(e) => .. }\<close>: the result becomes a value, a panic still unwinds.\<close>

definition tryE :: "('s, 'e, 'a) eff \<Rightarrow> ('s, 'e, 'e + 'a) eff" where
  "tryE m = (\<lambda>s. case m s of
      (Inl (Err e), s') \<Rightarrow> (Inr (Inl e), s')
    | (Inl Panic, s') \<Rightarrow> (Inl Panic, s')
    | (Inr x, s') \<Rightarrow> (Inr (Inr x), s'))"

text \<open>\<open>let _ = m;\<close> and \<open>m.ok();\<close>: an error is dropped, its effects stay.\<close>

definition okE :: "('s, 'e, 'a) eff \<Rightarrow> ('s, 'e, unit) eff" where
  "okE m = bindE (tryE m) (\<lambda>_. returnE ())"

fun forE :: "('a \<Rightarrow> ('s, 'e, unit) eff) \<Rightarrow> 'a list \<Rightarrow> ('s, 'e, unit) eff" where
  "forE f [] = returnE ()"
| "forE f (x # xs) = thenE (f x) (forE f xs)"

fun liftE :: "'e + 'a \<Rightarrow> ('s, 'e, 'a) eff" where
  "liftE (Inl e) = throwE e"
| "liftE (Inr x) = returnE x"

lemma run_simps [runs]:
  "returnE x s = (Inr x, s)"
  "throwE e s = (Inl (Err e), s)"
  "panicE s = (Inl Panic, s)"
  "getsE g s = (Inr (g s), s)"
  "modifyE h s = (Inr (), h s)"
  by (simp_all add: returnE_def throwE_def panicE_def getsE_def modifyE_def)

lemma bindE_run [runs]:
  "bindE m f s = (case m s of (Inl e, s') \<Rightarrow> (Inl e, s') | (Inr x, s') \<Rightarrow> f x s')"
  by (simp add: bindE_def)

lemma thenE_run [runs]:
  "thenE m k s = (case m s of (Inl e, s') \<Rightarrow> (Inl e, s') | (Inr _, s') \<Rightarrow> k s')"
  by (simp add: thenE_def bindE_def)

lemma requireE_run [runs]:
  "requireE b e s = (if b then Inr () else Inl (Err e), s)"
  by (simp add: requireE_def runs)

lemma tryE_run [runs]:
  "tryE m s = (case m s of
      (Inl (Err e), s') \<Rightarrow> (Inr (Inl e), s')
    | (Inl Panic, s') \<Rightarrow> (Inl Panic, s')
    | (Inr x, s') \<Rightarrow> (Inr (Inr x), s'))"
  by (simp add: tryE_def)

lemma okE_run [runs]:
  "okE m s = (case m s of (Inl Panic, s') \<Rightarrow> (Inl Panic, s') | (_, s') \<Rightarrow> (Inr (), s'))"
  by (simp add: okE_def bindE_def tryE_def returnE_def split: prod.splits sum.splits abort.splits)

text \<open>
  A predicate on states that a computation keeps whatever its outcome. The rules below let the
  classical reasoner walk through a handler's body, so that one lemma per database primitive gives
  the invariance of every operation built from it.
\<close>

definition preserves :: "('s \<Rightarrow> bool) \<Rightarrow> ('s, 'e, 'a) eff \<Rightarrow> bool" where
  "preserves P m \<longleftrightarrow> (\<forall>s. P s \<longrightarrow> P (snd (m s)))"

lemma preservesI: "(\<And>s. P s \<Longrightarrow> P (snd (m s))) \<Longrightarrow> preserves P m"
  by (simp add: preserves_def)

lemma preservesD: "preserves P m \<Longrightarrow> P s \<Longrightarrow> P (snd (m s))"
  by (simp add: preserves_def)

lemma preservesE: "preserves P m \<Longrightarrow> P s \<Longrightarrow> m s = (r, s') \<Longrightarrow> P s'"
  using preservesD by fastforce

lemma preserves_pure [keeps]:
  "preserves P (returnE x)" "preserves P (throwE e)" "preserves P panicE"
  "preserves P (getsE g)" "preserves P (requireE b e)" "preserves P (liftE r)"
  by (auto simp: preserves_def runs requireE_def) (cases r; simp add: runs)

lemma preserves_modifyE: "(\<And>s. P s \<Longrightarrow> P (h s)) \<Longrightarrow> preserves P (modifyE h)"
  by (simp add: preserves_def runs)

lemma preserves_bindE [keeps]:
  assumes "preserves P m" and "\<And>x. preserves P (f x)"
  shows "preserves P (bindE m f)"
proof (rule preservesI)
  fix s assume "P s"
  obtain r s' where m: "m s = (r, s')" by (cases "m s")
  with assms(1) \<open>P s\<close> have "P s'" by (rule_tac preservesE)
  with assms(2) m show "P (snd (bindE m f s))"
    by (cases r) (auto simp: runs dest: preservesD)
qed

lemma preserves_thenE [keeps]:
  "preserves P m \<Longrightarrow> preserves P k \<Longrightarrow> preserves P (thenE m k)"
  by (simp add: thenE_def keeps)

lemma preserves_tryE [keeps]: "preserves P m \<Longrightarrow> preserves P (tryE m)"
  by (rule preservesI)
     (auto simp: runs split: prod.splits sum.splits abort.splits dest: preservesE)

lemma preserves_okE [keeps]: "preserves P m \<Longrightarrow> preserves P (okE m)"
  by (simp add: okE_def keeps)

lemma preserves_forE [keeps]: "(\<And>x. preserves P (f x)) \<Longrightarrow> preserves P (forE f xs)"
  by (induction xs) (simp_all add: keeps)

lemma preserves_if [keeps]:
  "(b \<Longrightarrow> preserves P m) \<Longrightarrow> (\<not> b \<Longrightarrow> preserves P k) \<Longrightarrow> preserves P (if b then m else k)"
  by simp

lemma preserves_case_option [keeps]:
  "preserves P m \<Longrightarrow> (\<And>x. preserves P (f x)) \<Longrightarrow>
   preserves P (case z of None \<Rightarrow> m | Some x \<Rightarrow> f x)"
  by (cases z) auto

lemma preserves_case_sum [keeps]:
  "(\<And>e. preserves P (f e)) \<Longrightarrow> (\<And>x. preserves P (g x)) \<Longrightarrow>
   preserves P (case z of Inl e \<Rightarrow> f e | Inr x \<Rightarrow> g x)"
  by (cases z) auto

lemma preserves_case_prod [keeps]:
  "(\<And>a b. preserves P (f a b)) \<Longrightarrow> preserves P (case z of (a, b) \<Rightarrow> f a b)"
  by (cases z) auto

lemma preserves_Let [keeps]:
  "(\<And>x. preserves P (f x)) \<Longrightarrow> preserves P (Let v f)"
  by (simp add: Let_def)

subsection \<open>Symbolic execution\<close>

text \<open>
  \<open>wpE m Q R s\<close>: run from \<open>s\<close>, the computation ends with a value and a state in \<open>Q\<close>, or aborts in
  \<open>R\<close>. The rules are equations on the combinators, so the simplifier executes a handler's body down
  to its primitives; loops take an invariant.
\<close>

named_theorems wps "weakest preconditions of combinators and primitives"

definition wpE :: "('s, 'e, 'a) eff \<Rightarrow> ('a \<Rightarrow> 's \<Rightarrow> bool) \<Rightarrow> ('e abort \<Rightarrow> 's \<Rightarrow> bool) \<Rightarrow> 's \<Rightarrow> bool" where
  "wpE m Q R s = (case m s of (Inr x, s') \<Rightarrow> Q x s' | (Inl e, s') \<Rightarrow> R e s')"

lemma wpE_combinators [wps]:
  "wpE (returnE x) Q R s = Q x s"
  "wpE (throwE e) Q R s = R (Err e) s"
  "wpE panicE Q R s = R Panic s"
  "wpE (getsE g) Q R s = Q (g s) s"
  "wpE (modifyE h) Q2 R s = Q2 () (h s)"
  "wpE (requireE b e) Q2 R s = (if b then Q2 () s else R (Err e) s)"
  "wpE (bindE m f) Q R s = wpE m (\<lambda>x. wpE (f x) Q R) R s"
  "wpE (thenE m' k) Q R s = wpE m' (\<lambda>_. wpE k Q R) R s"
  by (auto simp: wpE_def runs split: prod.splits sum.splits)

lemma wpE_tryE [wps]:
  "wpE (tryE m) Q R s =
     wpE m (\<lambda>x. Q (Inr x)) (\<lambda>e. case e of Err e' \<Rightarrow> Q (Inl e') | Panic \<Rightarrow> R Panic) s"
  by (auto simp: wpE_def runs split: prod.splits sum.splits abort.splits)

lemma wpE_okE [wps]:
  "wpE (okE m) Q R s =
     wpE m (\<lambda>_. Q ()) (\<lambda>e. case e of Err _ \<Rightarrow> Q () | Panic \<Rightarrow> R Panic) s"
  by (auto simp: wpE_def runs split: prod.splits sum.splits abort.splits)

lemma wpE_liftE [wps]:
  "wpE (liftE r) Q R s = (case r of Inl e \<Rightarrow> R (Err e) s | Inr x \<Rightarrow> Q x s)"
  by (cases r) (simp_all add: wps)

lemma wpE_forE_Nil [wps]: "wpE (forE f []) Q R s = Q () s"
  by (simp add: wps)

lemma wpE_mono:
  "wpE m Q R s \<Longrightarrow> (\<And>x s'. Q x s' \<Longrightarrow> Q' x s') \<Longrightarrow> (\<And>e s'. R e s' \<Longrightarrow> R' e s') \<Longrightarrow> wpE m Q' R' s"
  by (auto simp: wpE_def split: prod.splits sum.splits)

lemma wpE_forE:
  assumes "I s" and "\<And>x s. x \<in> set xs \<Longrightarrow> I s \<Longrightarrow> wpE (f x) (\<lambda>_. I) R s"
    and "\<And>s. I s \<Longrightarrow> Q () s"
  shows "wpE (forE f xs) Q R s"
proof -
  have "wpE (forE f xs) (\<lambda>_. I) R s"
    using assms(1,2)
  proof (induction xs arbitrary: s)
    case (Cons x xs)
    have "wpE (f x) (\<lambda>_. I) R s" using Cons.prems by simp
    then have "wpE (f x) (\<lambda>_. wpE (forE f xs) (\<lambda>_. I) R) R s"
      by (rule wpE_mono) (use Cons in simp_all)
    then show ?case by (simp add: wps)
  qed (simp add: wps)
  then show ?thesis by (rule wpE_mono) (use assms(3) in simp_all)
qed

lemma wpE_snd: "wpE m (\<lambda>_. P) (\<lambda>_. P) s \<longleftrightarrow> P (snd (m s))"
  by (auto simp: wpE_def split: prod.splits sum.splits)

lemma preserves_wpE: "preserves P m \<longleftrightarrow> (\<forall>s. P s \<longrightarrow> wpE m (\<lambda>_. P) (\<lambda>_. P) s)"
  by (simp add: preserves_def wpE_snd)

lemma wpE_result: "m s = (Inr x, s') \<Longrightarrow> wpE m Q R s \<Longrightarrow> Q x s'"
  by (simp add: wpE_def)

subsection \<open>Computations that do not panic, and that return\<close>

definition calm :: "('s, 'e, 'a) eff \<Rightarrow> bool" where
  "calm m \<longleftrightarrow> (\<forall>s. fst (m s) \<noteq> Inl Panic)"

lemma calm_pure [calms]:
  "calm (returnE x)" "calm (throwE e)" "calm (getsE g)" "calm (modifyE h)" "calm (requireE b e)" "calm (liftE r)"
  by (simp_all add: calm_def runs) (cases r; simp add: runs)

lemma calm_bindE [calms]: "calm m \<Longrightarrow> (\<And>x. calm (f x)) \<Longrightarrow> calm (bindE m f)"
  by (auto simp: calm_def runs split: prod.split sum.split) (metis fst_conv)

lemma calm_thenE [calms]: "calm m \<Longrightarrow> calm k \<Longrightarrow> calm (thenE m k)"
  by (simp add: thenE_def calms)

lemma calm_tryE [calms]: "calm m \<Longrightarrow> calm (tryE m)"
  by (auto simp: calm_def runs split: prod.split sum.split abort.split) (metis fst_conv)

lemma calm_okE [calms]: "calm m \<Longrightarrow> calm (okE m)"
  by (simp add: okE_def calms)

lemma calm_forE [calms]: "(\<And>x. calm (f x)) \<Longrightarrow> calm (forE f xs)"
  by (induction xs) (simp_all add: calms)

lemma calm_cases [calms]:
  "calm m \<Longrightarrow> calm k \<Longrightarrow> calm (if b then m else k)"
  "calm m \<Longrightarrow> (\<And>x. calm (f x)) \<Longrightarrow> calm (case z of None \<Rightarrow> m | Some x \<Rightarrow> f x)"
  "(\<And>e. calm (g e)) \<Longrightarrow> (\<And>x. calm (h x)) \<Longrightarrow> calm (case y of Inl e \<Rightarrow> g e | Inr x \<Rightarrow> h x)"
  "(\<And>a b. calm (k2 a b)) \<Longrightarrow> calm (case p of (a, b) \<Rightarrow> k2 a b)"
  by (auto split: option.split sum.split prod.split)

definition returns :: "('s, 'e, 'a) eff \<Rightarrow> bool" where
  "returns m \<longleftrightarrow> (\<forall>s. \<exists>x. fst (m s) = Inr x)"

lemma returns_calm: "returns m \<Longrightarrow> calm m"
  unfolding returns_def calm_def by (metis sum.distinct(1))

lemma returns_pure [rets]: "returns (returnE x)" "returns (getsE f)" "returns (modifyE h)"
  by (auto simp: returns_def runs)

lemma returns_bindE [rets]: "returns m \<Longrightarrow> (\<And>x. returns (f x)) \<Longrightarrow> returns (bindE m f)"
  by (auto simp: returns_def runs split: prod.split sum.split) (metis fst_conv sum.distinct(1))

lemma returns_thenE [rets]: "returns m \<Longrightarrow> returns k \<Longrightarrow> returns (thenE m k)"
  by (simp add: thenE_def rets)

lemma returns_tryE [rets]: "calm m \<Longrightarrow> returns (tryE m)"
  by (auto simp: calm_def returns_def runs split: prod.split sum.split abort.split) (metis fst_conv)

lemma returns_okE [rets]: "calm m \<Longrightarrow> returns (okE m)"
  by (simp add: okE_def rets)

lemma returns_forE [rets]: "(\<And>x. returns (f x)) \<Longrightarrow> returns (forE f xs)"
  by (induction xs) (simp_all add: rets)

lemma returns_cases [rets]:
  "returns m \<Longrightarrow> returns k \<Longrightarrow> returns (if b then m else k)"
  "returns m \<Longrightarrow> (\<And>x. returns (f x)) \<Longrightarrow> returns (case z of None \<Rightarrow> m | Some x \<Rightarrow> f x)"
  "(\<And>e. returns (g e)) \<Longrightarrow> (\<And>x. returns (h x)) \<Longrightarrow> returns (case y of Inl e \<Rightarrow> g e | Inr x \<Rightarrow> h x)"
  "(\<And>a b. returns (k2 a b)) \<Longrightarrow> returns (case p of (a, b) \<Rightarrow> k2 a b)"
  by (auto split: option.split sum.split prod.split)

lemma returnsD: "returns m \<Longrightarrow> \<exists>x s'. m s = (Inr x, s')"
  unfolding returns_def by (metis prod.collapse)

section \<open>Strings\<close>

definition utf8 :: "nat list \<Rightarrow> string" where
  "utf8 ns = map char_of ns"

definition code :: "char \<Rightarrow> nat" where
  "code c = of_char c"

definition ascii_lower_char :: "char \<Rightarrow> char" where
  "ascii_lower_char c = (if 65 \<le> code c \<and> code c \<le> 90 then char_of (code c + 32) else c)"

definition ascii_upper_char :: "char \<Rightarrow> char" where
  "ascii_upper_char c = (if 97 \<le> code c \<and> code c \<le> 122 then char_of (code c - 32) else c)"

definition to_lowercase :: "string \<Rightarrow> string" where
  "to_lowercase s = map ascii_lower_char s"

definition to_uppercase :: "string \<Rightarrow> string" where
  "to_uppercase s = map ascii_upper_char s"

definition eq_ignore_ascii_case :: "string \<Rightarrow> string \<Rightarrow> bool" where
  "eq_ignore_ascii_case a b \<longleftrightarrow> to_lowercase a = to_lowercase b"

definition is_ascii_alphanumeric :: "char \<Rightarrow> bool" where
  "is_ascii_alphanumeric c \<longleftrightarrow>
     (48 \<le> code c \<and> code c \<le> 57) \<or> (65 \<le> code c \<and> code c \<le> 90) \<or> (97 \<le> code c \<and> code c \<le> 122)"

definition is_whitespace :: "char \<Rightarrow> bool" where
  "is_whitespace c \<longleftrightarrow> code c = 32 \<or> (9 \<le> code c \<and> code c \<le> 13)"

fun starts_with :: "'a list \<Rightarrow> 'a list \<Rightarrow> bool" where
  "starts_with s [] = True"
| "starts_with [] (p # ps) = False"
| "starts_with (c # s) (p # ps) = (c = p \<and> starts_with s ps)"

definition strip_prefix :: "string \<Rightarrow> string \<Rightarrow> string option" where
  "strip_prefix p s = (if starts_with s p then Some (drop (length p) s) else None)"

definition ends_with :: "'a list \<Rightarrow> 'a list \<Rightarrow> bool" where
  "ends_with s p = starts_with (rev s) (rev p)"

definition strip_suffix :: "string \<Rightarrow> string \<Rightarrow> string option" where
  "strip_suffix p s = (if ends_with s p then Some (take (length s - length p) s) else None)"

fun contains_str :: "'a list \<Rightarrow> 'a list \<Rightarrow> bool" where
  "contains_str [] p = (p = [])"
| "contains_str (c # s) p = (starts_with (c # s) p \<or> contains_str s p)"

fun split_once :: "char \<Rightarrow> string \<Rightarrow> (string \<times> string) option" where
  "split_once c [] = None"
| "split_once c (x # s) =
     (if x = c then Some ([], s) else map_option (\<lambda>(a, b). (x # a, b)) (split_once c s))"

fun split_char :: "char \<Rightarrow> string \<Rightarrow> string list" where
  "split_char c [] = [[]]"
| "split_char c (x # s) =
     (if x = c then [] # split_char c s
      else (case split_char c s of [] \<Rightarrow> [[x]] | w # ws \<Rightarrow> (x # w) # ws))"

definition trim_start :: "string \<Rightarrow> string" where
  "trim_start s = dropWhile is_whitespace s"

definition trim :: "string \<Rightarrow> string" where
  "trim s = rev (dropWhile is_whitespace (rev (dropWhile is_whitespace s)))"

fun ws_words :: "string \<Rightarrow> string \<Rightarrow> string list" where
  "ws_words acc [] = (if acc = [] then [] else [rev acc])"
| "ws_words acc (c # s) =
     (if is_whitespace c then (if acc = [] then ws_words [] s else rev acc # ws_words [] s)
      else ws_words (c # acc) s)"

definition split_whitespace :: "string \<Rightarrow> string list" where
  "split_whitespace s = ws_words [] s"

fun join :: "string \<Rightarrow> string list \<Rightarrow> string" where
  "join sep [] = []"
| "join sep [x] = x"
| "join sep (x # y # xs) = x @ sep @ join sep (y # xs)"

definition nth_opt :: "'a list \<Rightarrow> nat \<Rightarrow> 'a option" where
  "nth_opt xs i = (if i < length xs then Some (xs ! i) else None)"

definition unwrap_or :: "'a \<Rightarrow> 'a option \<Rightarrow> 'a" where
  "unwrap_or d z = (case z of None \<Rightarrow> d | Some x \<Rightarrow> x)"

fun show_nat :: "nat \<Rightarrow> string" where
  "show_nat n = (if n < 10 then [char_of (48 + n)] else show_nat (n div 10) @ [char_of (48 + n mod 10)])"

declare show_nat.simps [simp del]

fun filter_map :: "('a \<Rightarrow> 'b option) \<Rightarrow> 'a list \<Rightarrow> 'b list" where
  "filter_map f [] = []"
| "filter_map f (x # xs) = (case f x of None \<Rightarrow> filter_map f xs | Some y \<Rightarrow> y # filter_map f xs)"

lemma starts_with_append [simp]: "starts_with (p @ s) p"
  by (induction p) auto

lemma starts_with_iff: "starts_with s p \<longleftrightarrow> (\<exists>r. s = p @ r)"
  by (induction s p rule: starts_with.induct) auto

lemma strip_prefix_append [simp]: "strip_prefix p (p @ s) = Some s"
  by (simp add: strip_prefix_def)

lemma strip_prefix_Some_iff: "strip_prefix p s = Some r \<longleftrightarrow> s = p @ r"
  by (auto simp: strip_prefix_def starts_with_iff)

lemma strip_suffix_Some_iff: "strip_suffix p s = Some r \<longleftrightarrow> s = r @ p"
proof -
  have "ends_with s p \<longleftrightarrow> (\<exists>q. s = q @ p)"
    unfolding ends_with_def starts_with_iff by (metis rev_append rev_rev_ident)
  then show ?thesis by (auto simp: strip_suffix_def)
qed

lemma split_once_Some_iff:
  "split_once c s = Some (a, b) \<longleftrightarrow> s = a @ c # b \<and> c \<notin> set a"
proof (induction s arbitrary: a)
  case (Cons x s)
  then show ?case by (cases a) auto
qed simp

lemma split_once_None_iff: "split_once c s = None \<longleftrightarrow> c \<notin> set s"
  by (induction s) auto

lemma contains_str_iff: "contains_str s p \<longleftrightarrow> (\<exists>a b. s = a @ p @ b)"
proof (induction s)
  case (Cons c s)
  have "(\<exists>a b. c # s = a @ p @ b) \<longleftrightarrow> (\<exists>b. c # s = p @ b) \<or> (\<exists>a b. s = a @ p @ b)"
    by (metis append_Cons append_Nil list.exhaust list.inject)
  then show ?case
    using Cons by (auto simp: starts_with_iff)
qed auto

lemma code_char_of [simp]: "n < 256 \<Longrightarrow> code (char_of n) = n"
  by (simp add: code_def)

lemma ascii_lower_char_idem [simp]: "ascii_lower_char (ascii_lower_char c) = ascii_lower_char c"
  by (auto simp: ascii_lower_char_def)

lemma to_lowercase_idem [simp]: "to_lowercase (to_lowercase s) = to_lowercase s"
  by (simp add: to_lowercase_def)

lemma to_lowercase_append [simp]: "to_lowercase (a @ b) = to_lowercase a @ to_lowercase b"
  by (simp add: to_lowercase_def)

lemma show_nat_inject: "show_nat m = show_nat n \<Longrightarrow> m = n"
proof (induction m arbitrary: n rule: show_nat.induct)
  case (1 m)
  have single: "\<And>k. length (show_nat k) = 1 \<longleftrightarrow> k < 10"
    by (subst show_nat.simps) (auto simp: show_nat.simps)
  have nonempty: "\<And>k. show_nat k \<noteq> []"
    by (subst show_nat.simps) simp
  have digit: "\<And>a b. a < 10 \<Longrightarrow> b < 10 \<Longrightarrow> char_of (48 + a) = (char_of (48 + b) :: char) \<Longrightarrow> a = (b::nat)"
  proof -
    fix a b :: nat
    assume "a < 10" "b < 10" and eq: "char_of (48 + a) = (char_of (48 + b) :: char)"
    then have "code (char_of (48 + a)) = 48 + a" "code (char_of (48 + b)) = 48 + b" by simp_all
    then show "a = b" using arg_cong [OF eq, of code] by linarith
  qed
  show ?case
  proof (cases "m < 10")
    case True
    then have "n < 10" using 1(2) single by metis
    with True 1(2) digit show ?thesis by (simp add: show_nat.simps)
  next
    case False
    then have n: "\<not> n < 10" using 1(2) single by metis
    have "show_nat (m div 10) @ [char_of (48 + m mod 10)] = show_nat (n div 10) @ [char_of (48 + n mod 10)]"
      using 1(2) False n by (metis show_nat.simps)
    then have "show_nat (m div 10) = show_nat (n div 10)" "m mod 10 = n mod 10"
      using digit by auto
    with 1(1) False have "m div 10 = n div 10" by blast
    with \<open>m mod 10 = n mod 10\<close> show ?thesis by (metis div_mult_mod_eq)
  qed
qed

lemma show_nat_eq_iff [simp]: "show_nat m = show_nat n \<longleftrightarrow> m = n"
  using show_nat_inject by blast

lemma set_filter_map: "set (filter_map f xs) = {y. \<exists>x \<in> set xs. f x = Some y}"
  by (induction xs) (auto split: option.splits)

lemma nth_opt_Some_iff: "nth_opt xs i = Some x \<longleftrightarrow> i < length xs \<and> xs ! i = x"
  by (auto simp: nth_opt_def)

section \<open>Interfaces\<close>

text \<open>
  A component driven by a sequence of events (commands, scheduler ticks): what holds at the start
  and is kept by every single event holds after any sequence of them, in any order.
\<close>

locale event_machine =
  fixes step :: "'ev \<Rightarrow> 's \<Rightarrow> 's" and inv :: "'s \<Rightarrow> bool"
  assumes step_inv: "inv s \<Longrightarrow> inv (step e s)"
begin

lemma run_inv: "inv s \<Longrightarrow> inv (fold step es s)"
  by (induction es arbitrary: s) (auto intro: step_inv)

end

text \<open>A printed enumeration and its parser: what is printed is read back.\<close>

locale text_codec =
  fixes print :: "'a \<Rightarrow> string" and read :: "string \<Rightarrow> 'a option"
  assumes read_print: "read (print x) = Some x"
begin

lemma print_inject: "print x = print y \<longleftrightarrow> x = y"
  using read_print by (metis option.inject)

lemma printed_accepted: "s \<in> range print \<Longrightarrow> \<exists>x. read s = Some x \<and> print x = s"
  using read_print by auto

end

end
