(* ===== verification/Json.thy ===== *)
theory Json
  imports Prelude
begin

text \<open>
  The value type of the \<open>serde_json\<close> crate as the sources use it: reading (\<open>get\<close>, \<open>as_str\<close>,
  \<open>as_array\<close>) never fails but returns an option, and writing through an index (\<open>v["k"] = x\<close>) panics
  unless the value is an object or null. Parsing and printing JSON text are parameters wherever
  they occur; only their effect on values is modelled here.
\<close>

datatype json =
    JNull
  | JBool bool
  | JNum int
  | JStr string
  | JArr "json list"
  | JObj "(string \<times> json) list"

fun jget :: "json \<Rightarrow> string \<Rightarrow> json option" where
  "jget (JObj kvs) k = map_of kvs k"
| "jget _ k = None"

fun as_str :: "json \<Rightarrow> string option" where
  "as_str (JStr s) = Some s"
| "as_str _ = None"

fun as_array :: "json \<Rightarrow> json list option" where
  "as_array (JArr xs) = Some xs"
| "as_array _ = None"

fun obj_insert :: "string \<Rightarrow> json \<Rightarrow> (string \<times> json) list \<Rightarrow> (string \<times> json) list" where
  "obj_insert k v [] = [(k, v)]"
| "obj_insert k v ((k', v') # kvs) =
     (if k = k' then (k, v) # kvs else (k', v') # obj_insert k v kvs)"

text \<open>\<open>v["k"] = x\<close>: \<open>None\<close> is the panic of \<open>IndexMut\<close> on a value that is neither object nor null.\<close>

fun jset :: "json \<Rightarrow> string \<Rightarrow> json \<Rightarrow> json option" where
  "jset (JObj kvs) k v = Some (JObj (obj_insert k v kvs))"
| "jset JNull k v = Some (JObj [(k, v)])"
| "jset _ k v = None"

text \<open>\<open>p.and_then(|p| p.get(k).and_then(|v| v.as_str()))\<close>, the shape of every parameter read.\<close>

definition get_str :: "json option \<Rightarrow> string \<Rightarrow> string option" where
  "get_str p k = Option.bind p (\<lambda>v. Option.bind (jget v k) as_str)"

definition get_arr :: "json option \<Rightarrow> string \<Rightarrow> json list option" where
  "get_arr p k = Option.bind p (\<lambda>v. Option.bind (jget v k) as_array)"

text \<open>\<open>v.get(k).and_then(as_array).map(|a| a.iter().filter_map(as_str).collect()).unwrap_or_default()\<close>.\<close>

definition get_strings :: "json \<Rightarrow> string \<Rightarrow> string list" where
  "get_strings v k = (case get_arr (Some v) k of None \<Rightarrow> [] | Some xs \<Rightarrow> filter_map as_str xs)"

lemma map_of_obj_insert: "map_of (obj_insert k v kvs) = (map_of kvs)(k \<mapsto> v)"
  by (induction k v kvs rule: obj_insert.induct) auto

lemma jget_jset: "jset v k x = Some v' \<Longrightarrow> jget v' k' = (if k' = k then Some x else jget v k')"
  by (cases "(v, k, x)" rule: jset.cases) (auto simp: map_of_obj_insert)

lemma jset_None_iff: "jset v k x = None \<longleftrightarrow> v \<noteq> JNull \<and> (\<forall>kvs. v \<noteq> JObj kvs)"
  by (cases v) auto

lemma get_str_None [simp]: "get_str None k = None"
  by (simp add: get_str_def)

end
