(* ===== verification/App_Error.thy ===== *)
theory App_Error
  imports Prelude
begin

text \<open>
  The application error type of \<open>src/src/core/errors.rs\<close>, the status code and the short name every
  variant maps to, and the text \<open>Display\<close> prints. The payload of a database error is the outcome class the callers
  depend on; the text the SQLite binding prints for it is a parameter of \<open>display\<close>.
\<close>

datatype db_error = QueryReturnedNoRows | ConstraintViolation | NoSuchTable

datatype app_error =
    Database db_error
  | Io string
  | Config string
  | Smtp string
  | Validation string
  | Serde string
  | HttpClient string
  | NotFound string
  | Forbidden string
  | BadRequest string
  | Conflict string
  | Internal string
  | Parse string
  | DnsResolve string
  | ActivationCodeGone string
  | AttachmentTooLarge string
  | AttachmentContentType string

fun app_error_status :: "app_error \<Rightarrow> nat" where
  "app_error_status (NotFound _) = 404"
| "app_error_status (Validation _) = 400"
| "app_error_status (Config _) = 400"
| "app_error_status (BadRequest _) = 400"
| "app_error_status (Forbidden _) = 403"
| "app_error_status (Conflict _) = 409"
| "app_error_status (ActivationCodeGone _) = 410"
| "app_error_status (AttachmentTooLarge _) = 413"
| "app_error_status (AttachmentContentType _) = 415"
| "app_error_status _ = 500"

fun variant_name :: "app_error \<Rightarrow> string" where
  "variant_name (Database _) = ''database''"
| "variant_name (Io _) = ''io''"
| "variant_name (Config _) = ''config''"
| "variant_name (Smtp _) = ''smtp''"
| "variant_name (Validation _) = ''validation''"
| "variant_name (Serde _) = ''serde''"
| "variant_name (HttpClient _) = ''http_client''"
| "variant_name (NotFound _) = ''not_found''"
| "variant_name (Forbidden _) = ''forbidden''"
| "variant_name (BadRequest _) = ''bad_request''"
| "variant_name (Conflict _) = ''conflict''"
| "variant_name (Internal _) = ''internal''"
| "variant_name (Parse _) = ''parse''"
| "variant_name (DnsResolve _) = ''dns_resolve''"
| "variant_name (ActivationCodeGone _) = ''activation_code_gone''"
| "variant_name (AttachmentTooLarge _) = ''attachment_too_large''"
| "variant_name (AttachmentContentType _) = ''attachment_content_type''"

fun display :: "(db_error \<Rightarrow> string) \<Rightarrow> app_error \<Rightarrow> string" where
  "display dbm (Database e) = ''database error: '' @ dbm e"
| "display dbm (Io m) = ''io error: '' @ m"
| "display dbm (Config m) = ''config error: '' @ m"
| "display dbm (Smtp m) = ''smtp error: '' @ m"
| "display dbm (Validation m) = ''validation error: '' @ m"
| "display dbm (Serde m) = ''serde error: '' @ m"
| "display dbm (HttpClient m) = ''http client error: '' @ m"
| "display dbm (NotFound m) = ''not found: '' @ m"
| "display dbm (Forbidden m) = ''forbidden: '' @ m"
| "display dbm (BadRequest m) = ''bad request: '' @ m"
| "display dbm (Conflict m) = ''conflict: '' @ m"
| "display dbm (Internal m) = ''internal error: '' @ m"
| "display dbm (Parse m) = ''parse error: '' @ m"
| "display dbm (DnsResolve m) = ''dns resolve error: '' @ m"
| "display dbm (ActivationCodeGone m) = ''activation code gone: '' @ m"
| "display dbm (AttachmentTooLarge m) = ''attachment too large: '' @ m"
| "display dbm (AttachmentContentType m) = ''attachment content type not allowed: '' @ m"

text \<open>The JSON \<open>error\<close> field determines the status: two errors with one name get one status.\<close>

lemma variant_name_status:
  "variant_name a = variant_name b \<Longrightarrow> app_error_status a = app_error_status b"
  by (cases a; cases b; simp)

end
