(* ===== verification/Board_Models.thy ===== *)
theory Board_Models
  imports Json App_Error
begin

text \<open>
  The data of the A2A board (\<open>src/src/board/models.rs\<close>): boards, members, tasks, events, commands
  and responses, the printed statuses, and the derivation of identifiers from addresses. A record
  that exists both as a database row and as a Rust struct is one record type with the type of its
  status field as a parameter: the row stores the printed status, the struct the enum value.

  \<open>ext\<close> collects what the board takes from other crates: the hex digest of SHA-256, the RFC 3339
  reader (instants in nanoseconds), JSON text, and SQLite's error texts.
\<close>

record ext =
  sha256_hex :: "string \<Rightarrow> string"
  parse_rfc3339 :: "string \<Rightarrow> int option"
  json_text :: "json \<Rightarrow> string"
  json_pretty :: "json \<Rightarrow> string"
  json_parse :: "string \<Rightarrow> json option"
  db_message :: "db_error \<Rightarrow> string"

datatype board_status = BActive | BAwaitingOwner | BCompleted | BArchived | BFrozen

datatype task_status =
    Triage | Todo | Ready | Running | Reviewing | Done | Blocked | Cancelled | Archived

record 's board_rec =
  bd_id :: string
  bd_short_id :: string
  bd_board_email :: string
  bd_goal :: "string option"
  bd_status :: 's
  bd_output_task_id :: "string option"
  bd_plan_version :: "string option"
  bd_plan_text :: "string option"
  bd_plan_confirmed_at :: "string option"
  bd_criteria_version :: "string option"
  bd_criteria_text :: "string option"
  bd_criteria_confirmed_at :: "string option"
  bd_created_at :: string
  bd_completed_at :: "string option"
  bd_system_id :: "string option"

type_synonym board = "board_status board_rec"
type_synonym board_row = "string board_rec"

record member =
  mb_email :: string
  mb_role :: string
  mb_display_name :: string
  mb_board_id :: string
  mb_board_token :: "string option"
  mb_board_token_salt :: "string option"
  mb_joined_at :: "string option"
  mb_domains :: "string list option"
  mb_capability_snapshot :: "string option"

record 's task_rec =
  tk_id :: string
  tk_short_id :: string
  tk_board_id :: string
  tk_title :: string
  tk_body :: string
  tk_status :: 's
  tk_assignee :: string
  tk_reviewer :: "string option"
  tk_parent_ids :: "string list"
  tk_tags :: "string list"
  tk_summary :: string
  tk_metadata :: "string option"
  tk_created_by :: string
  tk_created_at :: string
  tk_updated_at :: string
  tk_completed_at :: "string option"
  tk_cancelled_at :: "string option"
  tk_deadline :: "string option"

type_synonym task = "task_status task_rec"
type_synonym task_row = "string task_rec"

record task_event =
  ev_task_id :: string
  ev_event_type :: string
  ev_actor :: string
  ev_payload :: "json option"
  ev_created_at :: string

record a2a_command =
  cm_verb :: string
  cm_task_id :: "string option"
  cm_params :: "json option"

record command_response =
  rs_status :: string
  rs_task :: "task option"
  rs_data :: "json option"
  rs_error :: "string option"

fun show_board_status :: "board_status \<Rightarrow> string" where
  "show_board_status BActive = ''active''"
| "show_board_status BAwaitingOwner = ''awaiting_owner''"
| "show_board_status BCompleted = ''completed''"
| "show_board_status BArchived = ''archived''"
| "show_board_status BFrozen = ''frozen''"

definition parse_board_status :: "string \<Rightarrow> board_status" where
  "parse_board_status s =
     (if s = ''awaiting_owner'' then BAwaitingOwner
      else if s = ''completed'' then BCompleted
      else if s = ''archived'' then BArchived
      else if s = ''frozen'' then BFrozen
      else BActive)"

fun show_task_status :: "task_status \<Rightarrow> string" where
  "show_task_status Triage = ''triage''"
| "show_task_status Todo = ''todo''"
| "show_task_status Ready = ''ready''"
| "show_task_status Running = ''running''"
| "show_task_status Reviewing = ''reviewing''"
| "show_task_status Done = ''done''"
| "show_task_status Blocked = ''blocked''"
| "show_task_status Cancelled = ''cancelled''"
| "show_task_status Archived = ''archived''"

definition derive_board_id :: "ext \<Rightarrow> string \<Rightarrow> string" where
  "derive_board_id E board_email = take 20 (sha256_hex E (to_lowercase board_email))"

text \<open>One padding character from one random byte: ten digits, then twenty-six letters.\<close>

definition pad_char :: "nat \<Rightarrow> char" where
  "pad_char r = (let idx = r mod 36 in if idx < 10 then char_of (48 + idx) else char_of (97 + (idx - 10)))"

definition sanitize_short_id :: "(nat \<Rightarrow> nat) \<Rightarrow> string \<Rightarrow> string" where
  "sanitize_short_id rand raw =
     (let filtered = take 16 (filter (\<lambda>c. is_ascii_alphanumeric c \<or> c = CHR ''-'' \<or> c = CHR ''_'') raw)
      in if 5 \<le> length filtered then filtered
         else filtered @ map (\<lambda>i. pad_char (rand i)) [0..<5 - length filtered])"

definition parse_board_email :: "ext \<Rightarrow> string \<Rightarrow> (string \<times> string \<times> string) option" where
  "parse_board_email E to_addr =
     (case split_once (CHR ''@'') to_addr of
        None \<Rightarrow> None
      | Some (local_part, domain) \<Rightarrow>
          (case strip_suffix ''.a2a'' local_part of
             None \<Rightarrow> None
           | Some body \<Rightarrow>
               Some (hd (split_char (CHR ''.'') body), derive_board_id E to_addr, domain)))"

lemma parse_show_board_status [simp]: "parse_board_status (show_board_status st) = st"
  by (cases st) (simp_all add: parse_board_status_def)

interpretation board_status_codec: text_codec show_board_status "\<lambda>s. Some (parse_board_status s)"
  by unfold_locales simp

lemma show_task_status_inject [simp]: "show_task_status a = show_task_status b \<longleftrightarrow> a = b"
  by (cases a; cases b; simp)

lemma split_char_nonempty [simp]: "split_char c s \<noteq> []"
  by (cases s) (auto split: list.splits)

lemma hd_split_char_prefix: "c \<notin> set a \<Longrightarrow> hd (split_char c (a @ c # b)) = a"
  by (induction a) (auto split: list.splits)

lemma hd_split_char_whole: "c \<notin> set a \<Longrightarrow> hd (split_char c a) = a"
  by (induction a) (auto split: list.splits)

definition short_id_char :: "char \<Rightarrow> bool" where
  "short_id_char c \<longleftrightarrow> is_ascii_alphanumeric c \<or> c = CHR ''-'' \<or> c = CHR ''_''"

lemma pad_char_alnum: "is_ascii_alphanumeric (pad_char r)"
proof -
  have "r mod 36 < 36" by simp
  then show ?thesis
    by (auto simp: pad_char_def Let_def is_ascii_alphanumeric_def)
qed

lemma sanitize_short_id_shape:
  "set (sanitize_short_id rand raw) \<subseteq> {c. short_id_char c}"
  "5 \<le> length (sanitize_short_id rand raw)" "length (sanitize_short_id rand raw) \<le> 16"
  by (auto simp: sanitize_short_id_def Let_def short_id_char_def pad_char_alnum dest!: in_set_takeD)

lemma short_id_char_not_sep: "short_id_char c \<Longrightarrow> c \<noteq> CHR ''.'' \<and> c \<noteq> CHR ''@''"
  by (auto simp: short_id_char_def is_ascii_alphanumeric_def code_def)

text \<open>
  An address built from a sanitized short id parses back to that short id, in the plain layout and
  in the layout that embeds the system name of a shared domain.
\<close>

lemma parse_board_email_plain:
  assumes "set short \<subseteq> {c. short_id_char c}"
  shows "parse_board_email E (short @ ''.a2a@'' @ host) =
    Some (short, derive_board_id E (short @ ''.a2a@'' @ host), host)"
proof -
  have seps: "CHR ''@'' \<notin> set short" "CHR ''.'' \<notin> set short"
    using assms short_id_char_not_sep by blast+
  have "split_once (CHR ''@'') (short @ ''.a2a@'' @ host) = Some (short @ ''.a2a'', host)"
    using seps by (simp add: split_once_Some_iff)
  moreover have "strip_suffix ''.a2a'' (short @ ''.a2a'') = Some short"
    by (simp add: strip_suffix_Some_iff)
  ultimately show ?thesis
    using seps by (simp add: parse_board_email_def hd_split_char_whole)
qed

lemma parse_board_email_shared:
  assumes "set short \<subseteq> {c. short_id_char c}" and "CHR ''@'' \<notin> set sys"
  shows "parse_board_email E (short @ ''.'' @ sys @ ''.a2a@'' @ host) =
    Some (short, derive_board_id E (short @ ''.'' @ sys @ ''.a2a@'' @ host), host)"
proof -
  have seps: "CHR ''@'' \<notin> set short" "CHR ''.'' \<notin> set short"
    using assms(1) short_id_char_not_sep by blast+
  have "split_once (CHR ''@'') (short @ ''.'' @ sys @ ''.a2a@'' @ host)
      = Some (short @ ''.'' @ sys @ ''.a2a'', host)"
    using seps assms(2) by (simp add: split_once_Some_iff)
  moreover have "strip_suffix ''.a2a'' (short @ ''.'' @ sys @ ''.a2a'') = Some (short @ ''.'' @ sys)"
    by (simp add: strip_suffix_Some_iff)
  ultimately show ?thesis
    using seps hd_split_char_prefix [of "CHR ''.''" short sys] by (simp add: parse_board_email_def)
qed

end
