(* ===== verification/Board_Db.thy ===== *)
theory Board_Db
  imports Board_Models "HOL-Library.Word"
begin

text \<open>
  The board database (\<open>src/src/board/db.rs\<close>). Each board has a SQLite file of its own; its state is
  a record of tables, a table the list of its rows in insertion order. Every function is the SQL
  statement it issues: \<open>UPDATE ... WHERE\<close> maps over the rows, a primary key, \<open>UNIQUE\<close> or foreign key
  that an \<open>INSERT\<close> or \<open>UPDATE\<close> would break makes the statement fail (the connection has
  \<open>foreign_keys=ON\<close>), \<open>query_row\<close> takes the first row. The clock and the random generator are
  sequences of answers read through a counter, so no two readings are assumed equal or ordered.
  \<open>w_outbox\<close> is the log of notification mails, written by \<open>Board_Notify\<close>.
\<close>

unbundle bit_operations_syntax

record notice =
  nt_to :: string
  nt_subject :: string
  nt_body :: string
  nt_headers :: "(string \<times> string) list option"
  nt_internal :: bool
  nt_attachments :: "string option"

record bst =
  db_boards :: "board_row list"
  db_members :: "member list"
  db_tasks :: "task_row list"
  db_perms :: "(string \<times> string) list"
  db_events :: "task_event list"
  db_task_seq :: "(string \<times> nat) list"
  w_now :: "nat \<Rightarrow> string"
  w_ticks :: nat
  w_random :: "nat \<Rightarrow> string"
  w_draws :: nat
  w_outbox :: "notice list"

type_synonym 'a bm = "(bst, app_error, 'a) eff"

section \<open>SQL statements\<close>

definition update_where :: "('r \<Rightarrow> bool) \<Rightarrow> ('r \<Rightarrow> 'r) \<Rightarrow> 'r list \<Rightarrow> 'r list" where
  "update_where p f rows = map (\<lambda>r. if p r then f r else r) rows"

definition insert_or_ignore :: "'r \<Rightarrow> 'r list \<Rightarrow> 'r list" where
  "insert_or_ignore r rows = (if r \<in> set rows then rows else rows @ [r])"

definition insert_or_replace :: "'r \<Rightarrow> 'r list \<Rightarrow> 'r list" where
  "insert_or_replace r rows = filter (\<lambda>x. x \<noteq> r) rows @ [r]"

definition query_row :: "('r \<Rightarrow> bool) \<Rightarrow> 'r list \<Rightarrow> app_error + 'r" where
  "query_row p rows = (case find p rows of None \<Rightarrow> Inl (Database QueryReturnedNoRows) | Some r \<Rightarrow> Inr r)"

definition constraint :: "bool \<Rightarrow> unit bm" where
  "constraint ok = requireE ok (Database ConstraintViolation)"

definition now :: "string bm" where
  "now = (\<lambda>s. (Inr (w_now s (w_ticks s)), s\<lparr>w_ticks := Suc (w_ticks s)\<rparr>))"

definition random_hex16 :: "string bm" where
  "random_hex16 = (\<lambda>s. (Inr (w_random s (w_draws s)), s\<lparr>w_draws := Suc (w_draws s)\<rparr>))"

section \<open>Boards\<close>

fun board_of_row :: "board_row \<Rightarrow> board" where
  "board_of_row r = \<lparr>bd_id = bd_id r, bd_short_id = bd_short_id r, bd_board_email = bd_board_email r,
     bd_goal = bd_goal r, bd_status = parse_board_status (bd_status r),
     bd_output_task_id = bd_output_task_id r, bd_plan_version = bd_plan_version r,
     bd_plan_text = bd_plan_text r, bd_plan_confirmed_at = bd_plan_confirmed_at r,
     bd_criteria_version = bd_criteria_version r, bd_criteria_text = bd_criteria_text r,
     bd_criteria_confirmed_at = bd_criteria_confirmed_at r, bd_created_at = bd_created_at r,
     bd_completed_at = bd_completed_at r, bd_system_id = bd_system_id r\<rparr>"

definition create_board :: "board \<Rightarrow> unit bm" where
  "create_board b = bindE (getsE db_boards) (\<lambda>rows.
     if length (filter (\<lambda>r. bd_id r = bd_id b) rows) > 0
     then throwE (Validation (''board '' @ [CHR 39] @ bd_id b @ [CHR 39] @ '' already exists (short id ''
            @ [CHR 39] @ bd_short_id b @ [CHR 39] @ '')''))
     else thenE (constraint (bd_id b \<notin> bd_id ` set rows \<and> bd_short_id b \<notin> bd_short_id ` set rows))
       (modifyE (\<lambda>s. s\<lparr>db_boards := db_boards s @
          [\<lparr>bd_id = bd_id b, bd_short_id = bd_short_id b, bd_board_email = bd_board_email b,
            bd_goal = bd_goal b, bd_status = show_board_status (bd_status b),
            bd_output_task_id = None, bd_plan_version = None, bd_plan_text = None,
            bd_plan_confirmed_at = None, bd_criteria_version = None, bd_criteria_text = None,
            bd_criteria_confirmed_at = None, bd_created_at = bd_created_at b,
            bd_completed_at = None, bd_system_id = bd_system_id b\<rparr>]\<rparr>)))"

definition archive_board :: "string \<Rightarrow> unit bm" where
  "archive_board board_id = bindE now (\<lambda>ts. modifyE (\<lambda>s. s\<lparr>db_boards :=
     update_where (\<lambda>r. bd_id r = board_id)
       (\<lambda>r. r\<lparr>bd_status := ''archived'', bd_completed_at := Some ts\<rparr>) (db_boards s)\<rparr>))"

definition set_board_status :: "string \<Rightarrow> string \<Rightarrow> bool bm" where
  "set_board_status board_id status = bindE (getsE db_boards) (\<lambda>rows.
     thenE (modifyE (\<lambda>s. s\<lparr>db_boards :=
              update_where (\<lambda>r. bd_id r = board_id) (\<lambda>r. r\<lparr>bd_status := status\<rparr>) (db_boards s)\<rparr>))
       (returnE (length (filter (\<lambda>r. bd_id r = board_id) rows) > 0)))"

definition get_board :: "string \<Rightarrow> board bm" where
  "get_board board_id = bindE (getsE db_boards) (\<lambda>rows.
     bindE (liftE (query_row (\<lambda>r. bd_id r = board_id) rows)) (\<lambda>r. returnE (board_of_row r)))"

definition update_board :: "board \<Rightarrow> unit bm" where
  "update_board b = modifyE (\<lambda>s. s\<lparr>db_boards := update_where (\<lambda>r. bd_id r = bd_id b)
     (\<lambda>r. r\<lparr>bd_status := show_board_status (bd_status b), bd_output_task_id := bd_output_task_id b,
        bd_plan_version := bd_plan_version b, bd_plan_text := bd_plan_text b,
        bd_plan_confirmed_at := bd_plan_confirmed_at b, bd_criteria_version := bd_criteria_version b,
        bd_criteria_text := bd_criteria_text b, bd_criteria_confirmed_at := bd_criteria_confirmed_at b,
        bd_completed_at := bd_completed_at b, bd_goal := bd_goal b, bd_system_id := bd_system_id b\<rparr>)
     (db_boards s)\<rparr>)"

definition short_id_exists :: "string \<Rightarrow> bool bm" where
  "short_id_exists short_id =
     getsE (\<lambda>s. length (filter (\<lambda>r. bd_short_id r = short_id) (db_boards s)) > 0)"

section \<open>Members and tokens\<close>

definition board_token_hash :: "ext \<Rightarrow> string \<Rightarrow> string \<Rightarrow> string" where
  "board_token_hash E raw salt = sha256_hex E (raw @ ''|'' @ salt)"

definition generate_board_token :: "string bm" where
  "generate_board_token = bindE random_hex16 (\<lambda>h. returnE (''bdt_'' @ h))"

definition generate_board_token_salt :: "string bm" where
  "generate_board_token_salt = random_hex16"

definition stored_credential :: "ext \<Rightarrow> member \<Rightarrow> (string option \<times> string option) bm" where
  "stored_credential E m =
     (case (mb_board_token m, mb_board_token_salt m) of
        (Some raw, None) \<Rightarrow> bindE generate_board_token_salt (\<lambda>salt.
           returnE (Some (board_token_hash E raw salt), Some salt))
      | (Some stored, salt) \<Rightarrow> returnE (Some stored, salt)
      | (None, _) \<Rightarrow> returnE (None, None))"

definition upsert_member :: "member \<Rightarrow> string option \<Rightarrow> string option \<Rightarrow> unit bm" where
  "upsert_member m tok salt = bindE (getsE (\<lambda>s. s)) (\<lambda>s.
     thenE (constraint (mb_board_id m \<in> bd_id ` set (db_boards s)))
       (if mb_email m \<in> mb_email ` set (db_members s)
        then modifyE (\<lambda>s. s\<lparr>db_members := update_where (\<lambda>r. mb_email r = mb_email m)
               (\<lambda>r. r\<lparr>mb_role := mb_role m, mb_display_name := mb_display_name m,
                  mb_board_id := mb_board_id m, mb_joined_at := mb_joined_at m,
                  mb_domains := mb_domains m\<rparr>) (db_members s)\<rparr>)
        else modifyE (\<lambda>s. s\<lparr>db_members := db_members s @
               [m\<lparr>mb_board_token := tok, mb_board_token_salt := salt,
                  mb_capability_snapshot := None\<rparr>]\<rparr>)))"

definition add_member :: "ext \<Rightarrow> member \<Rightarrow> unit bm" where
  "add_member E m = bindE (stored_credential E m) (\<lambda>(tok, salt). upsert_member m tok salt)"

definition KNOWN_ROLES :: "string list" where
  "KNOWN_ROLES = [''orchestrator'', ''verifier'', ''worker'', ''owner'']"

definition KNOWN_VERBS :: "string list" where
  "KNOWN_VERBS = [''tasks'', ''create'', ''assign'', ''review'', ''block'', ''unblock'', ''cancel'',
     ''reassign'', ''edit'', ''deadline'', ''output'', ''notify'', ''members'', ''roles'', ''config'',
     ''arbitrate'', ''comment'', ''list'', ''show'', ''status'', ''heartbeat'', ''verify'', ''approve'',
     ''reject'', ''complete'', ''continue'', ''commit'', ''reopen'']"

definition insert_role_permissions :: "(string \<times> string list) list \<Rightarrow> unit bm" where
  "insert_role_permissions permissions =
     forE (\<lambda>(role, verbs). forE (\<lambda>verb. modifyE (\<lambda>s. s\<lparr>db_perms :=
       insert_or_replace (role, verb) (db_perms s)\<rparr>)) verbs) permissions"

definition default_permissions :: "(string \<times> string list) list" where
  "default_permissions =
     [(''orchestrator'', [''tasks'', ''create'', ''assign'', ''review'', ''block'', ''unblock'',
         ''cancel'', ''reassign'', ''edit'', ''deadline'', ''output'', ''notify'', ''members'',
         ''roles'', ''config'', ''arbitrate'', ''continue'', ''comment'', ''list'', ''show'',
         ''status'', ''heartbeat'']),
      (''verifier'', [''verify'', ''approve'', ''reject'', ''output'', ''continue'', ''comment'',
         ''list'', ''show'', ''roles'', ''members'', ''status'', ''heartbeat'']),
      (''worker'', [''complete'', ''commit'', ''block'', ''heartbeat'', ''continue'', ''comment'',
         ''list'', ''show'', ''roles'', ''members'', ''status'']),
      (''owner'', [''create'', ''tasks'', ''unblock'', ''reassign'', ''reopen'', ''continue'',
         ''comment'', ''list'', ''show'', ''status'', ''members'', ''roles'', ''heartbeat''])]"

definition seed_default_role_permissions :: "unit bm" where
  "seed_default_role_permissions =
     forE (\<lambda>(role, verbs). forE (\<lambda>verb. modifyE (\<lambda>s. s\<lparr>db_perms :=
       insert_or_ignore (role, verb) (db_perms s)\<rparr>)) verbs) default_permissions"

definition check_role_permission :: "string \<Rightarrow> string \<Rightarrow> bool bm" where
  "check_role_permission role verb = bindE (getsE db_perms) (\<lambda>rows.
     if length (filter (\<lambda>(r, v). r = role) rows) = 0 then
       (if role \<in> set KNOWN_ROLES
        then thenE seed_default_role_permissions
               (getsE (\<lambda>s. length (filter (\<lambda>rv. rv = (role, verb)) (db_perms s)) > 0))
        else returnE False)
     else getsE (\<lambda>s. length (filter (\<lambda>rv. rv = (role, verb)) (db_perms s)) > 0))"

definition get_member :: "string \<Rightarrow> string \<Rightarrow> member option bm" where
  "get_member board_id email =
     getsE (\<lambda>s. find (\<lambda>m. mb_board_id m = board_id \<and> mb_email m = email) (db_members s))"

definition list_members :: "string \<Rightarrow> member list bm" where
  "list_members board_id = getsE (\<lambda>s. filter (\<lambda>m. mb_board_id m = board_id) (db_members s))"

definition byte_of :: "char \<Rightarrow> 8 word" where
  "byte_of c = of_nat (code c)"

definition ct_eq :: "string \<Rightarrow> string \<Rightarrow> bool" where
  "ct_eq a b = (if length a \<noteq> length b then False
     else fold (\<lambda>(x, y) diff. diff OR (byte_of x XOR byte_of y)) (zip a b) 0 = (0 :: 8 word))"

definition verify_member_token_cfg ::
    "ext \<Rightarrow> string \<Rightarrow> string \<Rightarrow> string \<Rightarrow> bool \<Rightarrow> string option bm" where
  "verify_member_token_cfg E board_id token member_email allow_plaintext =
     (if member_email = [] \<or> token = [] then returnE None
      else bindE (get_member board_id member_email) (\<lambda>row.
        case row of None \<Rightarrow> returnE None | Some m \<Rightarrow>
        (case mb_board_token m of None \<Rightarrow> returnE None | Some stored \<Rightarrow>
        (case mb_board_token_salt m of
           Some salt \<Rightarrow>
             (if ct_eq (board_token_hash E token salt) stored
              then returnE (Some (mb_email m)) else returnE None)
         | None \<Rightarrow>
             (if \<not> allow_plaintext then returnE None
              else if ct_eq token stored
              then bindE generate_board_token_salt (\<lambda>salt.
                let hashed = board_token_hash E token salt in
                thenE (modifyE (\<lambda>s. s\<lparr>db_members :=
                    update_where (\<lambda>r. mb_board_id r = board_id \<and> mb_email r = member_email)
                      (\<lambda>r. r\<lparr>mb_board_token := Some hashed, mb_board_token_salt := Some salt\<rparr>)
                      (db_members s)\<rparr>))
                  (returnE (Some (mb_email m))))
              else returnE None)))))"

definition verify_member_token :: "ext \<Rightarrow> string \<Rightarrow> string \<Rightarrow> string \<Rightarrow> string option bm" where
  "verify_member_token E board_id token member_email =
     verify_member_token_cfg E board_id token member_email True"

section \<open>Tasks\<close>

definition parse_task_status :: "string \<Rightarrow> task_status" where
  "parse_task_status s =
     (if s = ''ready'' then Ready
      else if s = ''running'' then Running
      else if s = ''reviewing'' then Reviewing
      else if s = ''done'' then Done
      else if s = ''blocked'' then Blocked
      else if s = ''cancelled'' then Cancelled
      else Todo)"

fun task_from_row :: "task_row \<Rightarrow> task" where
  "task_from_row r = \<lparr>tk_id = tk_id r, tk_short_id = tk_short_id r, tk_board_id = tk_board_id r,
     tk_title = tk_title r, tk_body = tk_body r, tk_status = parse_task_status (tk_status r),
     tk_assignee = tk_assignee r, tk_reviewer = tk_reviewer r, tk_parent_ids = tk_parent_ids r,
     tk_tags = tk_tags r, tk_summary = tk_summary r, tk_metadata = tk_metadata r,
     tk_created_by = tk_created_by r, tk_created_at = tk_created_at r, tk_updated_at = tk_updated_at r,
     tk_completed_at = tk_completed_at r, tk_cancelled_at = tk_cancelled_at r,
     tk_deadline = tk_deadline r\<rparr>"

definition create_task :: "task \<Rightarrow> unit bm" where
  "create_task t = bindE (getsE (\<lambda>s. s)) (\<lambda>s.
     thenE (constraint (tk_id t \<notin> tk_id ` set (db_tasks s) \<and>
         tk_board_id t \<in> bd_id ` set (db_boards s) \<and>
         tk_assignee t \<in> mb_email ` set (db_members s)))
       (modifyE (\<lambda>s. s\<lparr>db_tasks := db_tasks s @
          [\<lparr>tk_id = tk_id t, tk_short_id = tk_short_id t, tk_board_id = tk_board_id t,
            tk_title = tk_title t, tk_body = tk_body t, tk_status = show_task_status (tk_status t),
            tk_assignee = tk_assignee t, tk_reviewer = tk_reviewer t,
            tk_parent_ids = tk_parent_ids t, tk_tags = tk_tags t, tk_summary = tk_summary t,
            tk_metadata = tk_metadata t, tk_created_by = tk_created_by t,
            tk_created_at = tk_created_at t, tk_updated_at = tk_updated_at t,
            tk_completed_at = None, tk_cancelled_at = None, tk_deadline = None\<rparr>]\<rparr>)))"

definition find_task_row :: "string \<Rightarrow> task_row list \<Rightarrow> app_error + task_row" where
  "find_task_row task_ref rows =
     (case query_row (\<lambda>r. tk_id r = task_ref) rows of
        Inr r \<Rightarrow> Inr r
      | Inl e \<Rightarrow> (if e = Database QueryReturnedNoRows
                  then query_row (\<lambda>r. tk_short_id r = task_ref) rows else Inl e))"

definition get_task :: "string \<Rightarrow> task bm" where
  "get_task task_ref = bindE (getsE db_tasks) (\<lambda>rows.
     bindE (liftE (find_task_row task_ref rows)) (\<lambda>r. returnE (task_from_row r)))"

definition resolve_task_id :: "string \<Rightarrow> string bm" where
  "resolve_task_id task_ref = bindE (get_task task_ref) (\<lambda>t. returnE (tk_id t))"

definition list_tasks :: "string \<Rightarrow> string option \<Rightarrow> string option \<Rightarrow> task list bm" where
  "list_tasks board_id status_filter assignee_filter =
     getsE (\<lambda>s. map task_from_row (filter (\<lambda>r. tk_board_id r = board_id \<and>
        (case status_filter of None \<Rightarrow> True | Some st \<Rightarrow> tk_status r = st) \<and>
        (case assignee_filter of None \<Rightarrow> True | Some a \<Rightarrow> tk_assignee r = a)) (db_tasks s)))"

definition set_task_cols :: "task \<Rightarrow> task_row \<Rightarrow> task_row" where
  "set_task_cols k r = r\<lparr>tk_status := show_task_status (tk_status k), tk_title := tk_title k,
     tk_body := tk_body k, tk_assignee := tk_assignee k, tk_reviewer := tk_reviewer k,
     tk_parent_ids := tk_parent_ids k, tk_tags := tk_tags k, tk_summary := tk_summary k,
     tk_metadata := tk_metadata k, tk_updated_at := tk_updated_at k,
     tk_completed_at := tk_completed_at k, tk_cancelled_at := tk_cancelled_at k,
     tk_deadline := tk_deadline k\<rparr>"

definition update_task :: "task \<Rightarrow> unit bm" where
  "update_task k = bindE (getsE (\<lambda>s. s)) (\<lambda>s.
     thenE (constraint (tk_id k \<in> tk_id ` set (db_tasks s) \<longrightarrow>
         tk_assignee k \<in> mb_email ` set (db_members s)))
       (modifyE (\<lambda>s. s\<lparr>db_tasks :=
          update_where (\<lambda>r. tk_id r = tk_id k) (set_task_cols k) (db_tasks s)\<rparr>)))"

definition touch_task :: "string \<Rightarrow> unit bm" where
  "touch_task task_id = bindE now (\<lambda>ts. modifyE (\<lambda>s. s\<lparr>db_tasks :=
     update_where (\<lambda>r. tk_id r = task_id) (\<lambda>r. r\<lparr>tk_updated_at := ts\<rparr>) (db_tasks s)\<rparr>))"

definition insert_event :: "task_event \<Rightarrow> unit bm" where
  "insert_event e = bindE (getsE (\<lambda>s. s)) (\<lambda>s.
     thenE (constraint (ev_task_id e \<in> tk_id ` set (db_tasks s)))
       (modifyE (\<lambda>s. s\<lparr>db_events := db_events s @ [e]\<rparr>)))"

definition pipeline_settled :: "string list" where
  "pipeline_settled = [''done'', ''cancelled'', ''triage'', ''archived'']"

definition verify_pipeline_integrity :: "string \<Rightarrow> string list bm" where
  "verify_pipeline_integrity board_id =
     getsE (\<lambda>s. map (\<lambda>r. tk_short_id r @ '' status='' @ tk_status r)
        (filter (\<lambda>r. tk_board_id r = board_id \<and> tk_status r \<notin> set pipeline_settled) (db_tasks s)))"

definition seq_val :: "string \<Rightarrow> bst \<Rightarrow> nat" where
  "seq_val board_id s = (case map_of (db_task_seq s) board_id of None \<Rightarrow> 0 | Some n \<Rightarrow> n)"

fun seq_put :: "string \<Rightarrow> nat \<Rightarrow> (string \<times> nat) list \<Rightarrow> (string \<times> nat) list" where
  "seq_put k n [] = [(k, n)]"
| "seq_put k n ((k', n') # rows) = (if k = k' then (k, n) # rows else (k', n') # seq_put k n rows)"

definition next_short_id :: "string \<Rightarrow> string bm" where
  "next_short_id board_id = (\<lambda>s. let n = Suc (seq_val board_id s) in
     (Inr (''T'' @ show_nat n), s\<lparr>db_task_seq := seq_put board_id n (db_task_seq s)\<rparr>))"

text \<open>A byte offset at which Rust may cut a string: not inside a multi-byte character.\<close>

definition is_char_boundary :: "string \<Rightarrow> nat \<Rightarrow> bool" where
  "is_char_boundary s i \<longleftrightarrow>
     i = length s \<or> (i < length s \<and> \<not> (128 \<le> code (s ! i) \<and> code (s ! i) < 192))"

definition make_task_id :: "string \<Rightarrow> string \<Rightarrow> string bm" where
  "make_task_id board_id short_id =
     (if is_char_boundary board_id 8
      then returnE (''t_'' @ short_id @ ''_'' @ take 8 board_id) else panicE)"

section \<open>Well-formed databases\<close>

text \<open>
  What the schema guarantees (keys are unique, references resolve) and what the code relies on
  beyond it: every stored status is a printed one, and every member has a known role.
\<close>

definition keys_unique :: "bst \<Rightarrow> bool" where
  "keys_unique s \<longleftrightarrow> distinct (map bd_id (db_boards s)) \<and> distinct (map bd_short_id (db_boards s)) \<and>
     distinct (map mb_email (db_members s)) \<and> distinct (map tk_id (db_tasks s)) \<and>
     distinct (db_perms s) \<and> distinct (map fst (db_task_seq s))"

definition refs_resolve :: "bst \<Rightarrow> bool" where
  "refs_resolve s \<longleftrightarrow>
     (\<forall>m \<in> set (db_members s). mb_board_id m \<in> bd_id ` set (db_boards s)) \<and>
     (\<forall>k \<in> set (db_tasks s). tk_board_id k \<in> bd_id ` set (db_boards s) \<and>
        tk_assignee k \<in> mb_email ` set (db_members s)) \<and>
     (\<forall>e \<in> set (db_events s). ev_task_id e \<in> tk_id ` set (db_tasks s))"

definition statuses_printed :: "bst \<Rightarrow> bool" where
  "statuses_printed s \<longleftrightarrow>
     (\<forall>b \<in> set (db_boards s). bd_status b \<in> range show_board_status) \<and>
     (\<forall>k \<in> set (db_tasks s). tk_status k \<in> range show_task_status)"

definition wf_db :: "bst \<Rightarrow> bool" where
  "wf_db s \<longleftrightarrow> keys_unique s \<and> refs_resolve s \<and> statuses_printed s"

lemmas wf_defs = wf_db_def keys_unique_def refs_resolve_def statuses_printed_def

lemma map_update_where [simp]:
  "(\<And>r. p r \<Longrightarrow> key (f r) = key r) \<Longrightarrow> map key (update_where p f rows) = map key rows"
  by (induction rows) (auto simp: update_where_def)

lemma image_update_where [simp]:
  "(\<And>r. p r \<Longrightarrow> key (f r) = key r) \<Longrightarrow> key ` set (update_where p f rows) = key ` set rows"
  by (metis map_update_where set_map)

lemma in_update_where:
  "x \<in> set (update_where p f rows) \<Longrightarrow> \<exists>r \<in> set rows. x = (if p r then f r else r)"
  by (auto simp: update_where_def)

lemma distinct_insert_or_ignore [simp]: "distinct rows \<Longrightarrow> distinct (insert_or_ignore r rows)"
  by (simp add: insert_or_ignore_def)

lemma set_insert_or_ignore [simp]: "set (insert_or_ignore r rows) = insert r (set rows)"
  by (auto simp: insert_or_ignore_def)

lemma distinct_insert_or_replace [simp]: "distinct rows \<Longrightarrow> distinct (insert_or_replace r rows)"
  by (simp add: insert_or_replace_def)

lemma set_insert_or_replace [simp]: "set (insert_or_replace r rows) = insert r (set rows)"
  by (auto simp: insert_or_replace_def)

lemma set_seq_put_keys: "fst ` set (seq_put k n rows) = insert k (fst ` set rows)"
  by (induction k n rows rule: seq_put.induct) auto

lemma distinct_seq_put: "distinct (map fst rows) \<Longrightarrow> distinct (map fst (seq_put k n rows))"
proof (induction k n rows rule: seq_put.induct)
  case (2 k n k' n' rows)
  then show ?case using set_seq_put_keys [of k n rows] by auto
qed simp

lemma map_of_seq_put: "map_of (seq_put k n rows) = (map_of rows)(k \<mapsto> n)"
  by (induction k n rows rule: seq_put.induct) auto

text \<open>Every statement keeps the database well formed, whether it succeeds or is refused.\<close>

lemma wf_clock [keeps]: "preserves wf_db now" "preserves wf_db random_hex16"
  by (auto simp: preserves_def now_def random_hex16_def wf_defs)

lemma wf_constraint [keeps]: "preserves P (constraint ok)"
  by (simp add: constraint_def keeps)

lemma preserves_guarded:
  assumes "\<And>s. P s \<Longrightarrow> ok s \<Longrightarrow> P (h s)"
  shows "preserves P (bindE (getsE (\<lambda>s. s)) (\<lambda>s. thenE (constraint (ok s)) (modifyE h)))"
  using assms by (auto simp: preserves_def constraint_def runs)

lemma wf_create_board [keeps]: "preserves wf_db (create_board b)"
  by (auto simp: preserves_def create_board_def constraint_def runs wf_defs)

lemma wf_archive_board [keeps]: "preserves wf_db (archive_board board_id)"
proof -
  have "''archived'' \<in> range show_board_status" by (metis rangeI show_board_status.simps(4))
  then show ?thesis
    unfolding archive_board_def
    by (intro keeps preserves_modifyE) (auto simp: wf_defs dest!: in_update_where)
qed

lemma wf_update_board [keeps]: "preserves wf_db (update_board b)"
  unfolding update_board_def
  by (intro preserves_modifyE) (auto simp: wf_defs dest!: in_update_where)

lemma wf_get_board [keeps]: "preserves P (get_board board_id)"
  unfolding get_board_def by (intro keeps)

lemma wf_stored_credential [keeps]: "preserves wf_db (stored_credential E m)"
  unfolding stored_credential_def generate_board_token_salt_def
  by (auto intro!: keeps split: option.splits)

lemma wf_generate_board_token [keeps]: "preserves wf_db generate_board_token"
  unfolding generate_board_token_def by (intro keeps)

lemma wf_upsert_member [keeps]: "preserves wf_db (upsert_member m tok salt)"
  by (auto simp: preserves_def upsert_member_def constraint_def runs wf_defs dest!: in_update_where)

lemma wf_add_member [keeps]: "preserves wf_db (add_member E m)"
  unfolding add_member_def by (intro keeps)

lemma wf_perms [keeps]:
  "preserves wf_db (insert_role_permissions ps)" "preserves wf_db seed_default_role_permissions"
  unfolding insert_role_permissions_def seed_default_role_permissions_def
  by (auto intro!: keeps preserves_modifyE simp: wf_defs)

lemma wf_check_role_permission [keeps]: "preserves wf_db (check_role_permission role verb)"
  unfolding check_role_permission_def by (intro keeps)

lemma preserves_reads [keeps]:
  "preserves P (get_member board_id email)" "preserves P (list_members board_id)"
  "preserves P (get_task task_ref)" "preserves P (resolve_task_id task_ref)"
  "preserves P (list_tasks board_id st a)" "preserves P (verify_pipeline_integrity board_id)"
  unfolding get_member_def list_members_def get_task_def resolve_task_id_def list_tasks_def
    verify_pipeline_integrity_def
  by (intro keeps)+

lemma wf_verify_member_token [keeps]:
  "preserves wf_db (verify_member_token_cfg E board_id token member_email allow)"
  unfolding verify_member_token_cfg_def generate_board_token_salt_def Let_def
  by (intro keeps preserves_modifyE) (auto simp: wf_defs dest!: in_update_where)

lemma wf_create_task [keeps]: "preserves wf_db (create_task k)"
  unfolding create_task_def
  by (rule preserves_guarded) (auto simp: wf_defs)

lemma wf_update_task [keeps]: "preserves wf_db (update_task k)"
  unfolding update_task_def
  by (rule preserves_guarded) (auto simp: wf_defs set_task_cols_def dest!: in_update_where, metis image_eqI)

lemma wf_touch_task [keeps]: "preserves wf_db (touch_task task_id)"
  unfolding touch_task_def
  by (intro keeps preserves_modifyE) (auto simp: wf_defs dest!: in_update_where)

lemma wf_insert_event [keeps]: "preserves wf_db (insert_event e)"
  unfolding insert_event_def
  by (rule preserves_guarded) (auto simp: wf_defs)

lemma wf_next_short_id [keeps]: "preserves wf_db (next_short_id board_id)"
  by (auto simp: preserves_def next_short_id_def Let_def wf_defs distinct_seq_put)

lemma preserves_make_task_id [keeps]: "preserves P (make_task_id board_id short_id)"
  unfolding make_task_id_def by (intro keeps)

section \<open>Symbolic execution of the statements\<close>

text \<open>The permission rows after the idempotent seed, and after a check of \<open>role\<close>.\<close>

definition default_rows :: "(string \<times> string) list" where
  "default_rows = concat (map (\<lambda>(role, verbs). map (Pair role) verbs) default_permissions)"

definition seeded :: "(string \<times> string) list \<Rightarrow> (string \<times> string) list" where
  "seeded rows = fold insert_or_ignore default_rows rows"

definition perms_checked :: "string \<Rightarrow> (string \<times> string) list \<Rightarrow> (string \<times> string) list" where
  "perms_checked role rows =
     (if role \<notin> fst ` set rows \<and> role \<in> set KNOWN_ROLES then seeded rows else rows)"

lemma set_seeded: "set (seeded rows) = set rows \<union> set default_rows"
proof -
  have "set (fold insert_or_ignore ps rows) = set rows \<union> set ps" for ps :: "(string \<times> string) list"
    by (induction ps arbitrary: rows) auto
  then show ?thesis by (simp add: seeded_def)
qed

lemma fold_insert_present: "set ps \<subseteq> set rows \<Longrightarrow> fold insert_or_ignore ps rows = rows"
  by (induction ps) (auto simp: insert_or_ignore_def)

lemma seeded_idem: "seeded (seeded rows) = seeded rows"
  using fold_insert_present [of default_rows "seeded rows"] set_seeded [of rows]
  by (simp add: seeded_def)

lemma forE_modify: "forE (\<lambda>x. modifyE (h x)) xs s = (Inr (), fold h xs s)"
  by (induction xs arbitrary: s) (simp_all add: runs)

lemma seed_run: "seed_default_role_permissions s = (Inr (), s\<lparr>db_perms := seeded (db_perms s)\<rparr>)"
proof -
  have inner: "forE (\<lambda>v. modifyE (\<lambda>s. s\<lparr>db_perms := insert_or_ignore (r, v) (db_perms s)\<rparr>)) vs
      = (\<lambda>s. (Inr (), s\<lparr>db_perms := fold insert_or_ignore (map (Pair r) vs) (db_perms s)\<rparr>))"
    for r :: string and vs :: "string list"
  proof (induction vs)
    case Nil
    then show ?case by (simp add: runs fun_eq_iff)
  next
    case (Cons v vs)
    then show ?case by (simp add: runs fun_eq_iff)
  qed
  have "forE (\<lambda>(role, verbs). forE (\<lambda>verb. modifyE (\<lambda>s. s\<lparr>db_perms :=
       insert_or_ignore (role, verb) (db_perms s)\<rparr>)) verbs) ds s
      = (Inr (), s\<lparr>db_perms := fold insert_or_ignore
           (concat (map (\<lambda>(role, verbs). map (Pair role) verbs) ds)) (db_perms s)\<rparr>)" for ds
    by (induction ds arbitrary: s) (auto simp: runs inner)
  then show ?thesis
    by (simp add: seed_default_role_permissions_def seeded_def default_rows_def)
qed

lemma check_role_permission_run:
  "check_role_permission role verb s =
     (Inr ((role, verb) \<in> set (perms_checked role (db_perms s))),
      s\<lparr>db_perms := perms_checked role (db_perms s)\<rparr>)"
proof -
  have has: "filter (\<lambda>rv. rv = (role, verb)) xs \<noteq> [] \<longleftrightarrow> (role, verb) \<in> set xs" for xs
    by (auto simp: filter_empty_conv)
  have none: "filter (\<lambda>(r, v). r = role) xs = [] \<longleftrightarrow> role \<notin> fst ` set xs"
    for xs :: "(string \<times> string) list"
    by (auto simp: filter_empty_conv image_iff)
  show ?thesis
    by (auto simp: check_role_permission_def runs seed_run has none perms_checked_def image_iff)
qed

lemma wp_statements [wps]:
  "wpE now Q1 R s = Q1 (w_now s (w_ticks s)) (s\<lparr>w_ticks := Suc (w_ticks s)\<rparr>)"
  "wpE random_hex16 Q1 R s = Q1 (w_random s (w_draws s)) (s\<lparr>w_draws := Suc (w_draws s)\<rparr>)"
  "wpE (constraint ok) Q R s = (if ok then Q () s else R (Err (Database ConstraintViolation)) s)"
  "wpE (get_member b e) Q2 R s =
     Q2 (find (\<lambda>m. mb_board_id m = b \<and> mb_email m = e) (db_members s)) s"
  "wpE (list_members b) Q3 R s = Q3 (filter (\<lambda>m. mb_board_id m = b) (db_members s)) s"
  "wpE (get_task ref) Q4 R s = (case find_task_row ref (db_tasks s) of
     Inl e \<Rightarrow> R (Err e) s | Inr r \<Rightarrow> Q4 (task_from_row r) s)"
  "wpE (resolve_task_id ref) Q1 R s = (case find_task_row ref (db_tasks s) of
     Inl e \<Rightarrow> R (Err e) s | Inr r \<Rightarrow> Q1 (tk_id r) s)"
  "wpE (check_role_permission role verb) Q5 R s =
     Q5 ((role, verb) \<in> set (perms_checked role (db_perms s)))
        (s\<lparr>db_perms := perms_checked role (db_perms s)\<rparr>)"
  "wpE seed_default_role_permissions Q R s = Q () (s\<lparr>db_perms := seeded (db_perms s)\<rparr>)"
  by (auto simp: wpE_def runs now_def random_hex16_def constraint_def get_member_def list_members_def
      get_task_def resolve_task_id_def check_role_permission_run seed_run
      split: sum.splits)

lemma wp_task_statements [wps]:
  "wpE (update_task k) Q R s =
     (if tk_id k \<in> tk_id ` set (db_tasks s) \<longrightarrow> tk_assignee k \<in> mb_email ` set (db_members s)
      then Q () (s\<lparr>db_tasks := update_where (\<lambda>r. tk_id r = tk_id k) (set_task_cols k) (db_tasks s)\<rparr>)
      else R (Err (Database ConstraintViolation)) s)"
  "wpE (touch_task i) Q R s = Q () (s\<lparr>w_ticks := Suc (w_ticks s), db_tasks :=
     update_where (\<lambda>r. tk_id r = i) (\<lambda>r. r\<lparr>tk_updated_at := w_now s (w_ticks s)\<rparr>) (db_tasks s)\<rparr>)"
  "wpE (insert_event e) Q R s =
     (if ev_task_id e \<in> tk_id ` set (db_tasks s) then Q () (s\<lparr>db_events := db_events s @ [e]\<rparr>)
      else R (Err (Database ConstraintViolation)) s)"
  "wpE (list_tasks b st a) Q1 R s = Q1 (map task_from_row (filter (\<lambda>r. tk_board_id r = b \<and>
        (case st of None \<Rightarrow> True | Some st \<Rightarrow> tk_status r = st) \<and>
        (case a of None \<Rightarrow> True | Some a \<Rightarrow> tk_assignee r = a)) (db_tasks s))) s"
  "wpE (verify_pipeline_integrity b) Q2 R s = Q2 (map (\<lambda>r. tk_short_id r @ '' status='' @ tk_status r)
        (filter (\<lambda>r. tk_board_id r = b \<and> tk_status r \<notin> set pipeline_settled) (db_tasks s))) s"
  "wpE (next_short_id b) Q3 R s = Q3 (''T'' @ show_nat (Suc (seq_val b s)))
     (s\<lparr>db_task_seq := seq_put b (Suc (seq_val b s)) (db_task_seq s)\<rparr>)"
  "wpE (make_task_id b sid) Q3 R s =
     (if is_char_boundary b 8 then Q3 (''t_'' @ sid @ ''_'' @ take 8 b) s else R Panic s)"
  by (simp_all add: update_task_def touch_task_def insert_event_def list_tasks_def
      verify_pipeline_integrity_def next_short_id_def make_task_id_def wps Let_def)
     (simp add: wpE_def Let_def)

lemma wp_board_statements [wps]:
  "wpE (get_board b) Q R s = (case find (\<lambda>r. bd_id r = b) (db_boards s) of
     None \<Rightarrow> R (Err (Database QueryReturnedNoRows)) s | Some r \<Rightarrow> Q (board_of_row r) s)"
  by (simp add: get_board_def wps query_row_def split: option.splits)

lemma find_task_row_Inr:
  "find_task_row ref rows = Inr r \<Longrightarrow> r \<in> set rows \<and> (tk_id r = ref \<or> tk_short_id r = ref)"
  by (auto simp: find_task_row_def query_row_def find_Some_iff split: option.splits sum.splits if_splits)

lemma find_task_row_id:
  assumes "distinct (map tk_id rows)" and "r \<in> set rows"
  shows "find_task_row (tk_id r) rows = Inr r"
proof -
  have "find (\<lambda>x. tk_id x = tk_id r) rows = Some r"
    using assms by (induction rows) (auto simp: image_iff)
  then show ?thesis by (simp add: find_task_row_def query_row_def)
qed

lemma find_member_Some:
  "find (\<lambda>m. mb_board_id m = b \<and> mb_email m = e) ms = Some m \<Longrightarrow>
   m \<in> set ms \<and> mb_board_id m = b \<and> mb_email m = e"
  by (auto simp: find_Some_iff)

end
