(* ===== verification/Board_Notify.thy ===== *)
theory Board_Notify
  imports Board_Db
begin

text \<open>
  Board notifications (\<open>src/src/board/notify.rs\<close>): which member is told what. Sending appends a
  \<open>notice\<close> to the outbox of the state; the record holds what the mail factory is given (recipient,
  subject, body, headers, attachments, and whether the recipient is on this gateway). Creating the
  mail row and waking the scheduler are the mail component's part. Texts are byte for byte those of
  the source: Chinese labels and typographic dashes are given as their UTF-8 bytes.
\<close>

section \<open>Text of the notifications\<close>

definition zh_task :: string where
  "zh_task = utf8 [228, 187, 187, 229, 138, 161]"

definition zh_board :: string where
  "zh_board = utf8 [231, 156, 139, 230, 157, 191]"

definition zh_context :: string where
  "zh_context = utf8 [228, 184, 138, 228, 184, 139, 230, 150, 135]"

definition zh_action :: string where
  "zh_action = utf8 [230, 147, 141, 228, 189, 156]"

definition zh_description :: string where
  "zh_description = utf8 [230, 143, 143, 232, 191, 176]"

definition zh_assignee :: string where
  "zh_assignee = utf8 [229, 136, 134, 233, 133, 141, 228, 186, 186]"

definition zh_reviewer_of :: string where
  "zh_reviewer_of = utf8 [229, 174, 161, 233, 152, 133, 232, 128, 133]"

definition zh_none :: string where
  "zh_none = utf8 [40, 230, 151, 160, 41]"

definition zh_created_by :: string where
  "zh_created_by = utf8 [229, 136, 155, 229, 187, 186, 228, 186, 186]"

definition zh_new_task :: string where
  "zh_new_task = utf8 [230, 150, 176, 228, 187, 187, 229, 138, 161, 229, 136, 134, 233, 133, 141]"

definition zh_send_after_starting :: string where
  "zh_send_after_starting = utf8 [229, 188, 128, 229, 167, 139, 230, 137, 167, 232, 161, 140, 229, 144, 142, 229, 143, 145]"

definition zh_completed_by :: string where
  "zh_completed_by = utf8 [229, 174, 140, 230, 136, 144, 228, 186, 186]"

definition zh_output :: string where
  "zh_output = utf8 [228, 186, 167, 229, 135, 186, 231, 137, 169]"

definition zh_pending_review :: string where
  "zh_pending_review = utf8 [229, 190, 133, 229, 174, 161, 233, 152, 133]"

definition zh_approve :: string where
  "zh_approve = utf8 [233, 128, 154, 232, 191, 135]"

definition zh_reject :: string where
  "zh_reject = utf8 [233, 128, 128, 229, 155, 158]"

definition zh_reviewed_by :: string where
  "zh_reviewed_by = utf8 [229, 174, 161, 233, 152, 133, 228, 186, 186]"

definition zh_approved :: string where
  "zh_approved = utf8 [229, 174, 161, 233, 152, 133, 233, 128, 154, 232, 191, 135]"

definition zh_no_further_action :: string where
  "zh_no_further_action = utf8 [229, 183, 178, 229, 174, 140, 230, 136, 144, 239, 188, 140, 230, 151, 160, 229, 144, 142, 231, 187, 173, 230, 147, 141, 228, 189, 156]"

definition zh_reason :: string where
  "zh_reason = utf8 [229, 142, 159, 229, 155, 160]"

definition zh_rejected :: string where
  "zh_rejected = utf8 [229, 174, 161, 233, 152, 133, 233, 128, 128, 229, 155, 158]"

definition zh_revise :: string where
  "zh_revise = utf8 [228, 191, 174, 230, 148, 185, 229, 144, 142, 233, 135, 141, 230, 150, 176]"

definition zh_task_blocked :: string where
  "zh_task_blocked = utf8 [228, 187, 187, 229, 138, 161, 233, 152, 187, 229, 161, 158]"

definition zh_blocker :: string where
  "zh_blocker = utf8 [233, 152, 187, 230, 140, 161, 228, 186, 186]"

definition zh_orchestrator_coordinates :: string where
  "zh_orchestrator_coordinates = utf8 [79, 114, 99, 104, 101, 115, 116, 114, 97, 116, 111, 114, 32, 229, 141, 143, 232, 176, 131, 229, 164, 132, 231, 144, 134]"

definition zh_unblocked :: string where
  "zh_unblocked = utf8 [233, 152, 187, 229, 161, 158, 232, 167, 163, 233, 153, 164]"

definition zh_unblocked_by :: string where
  "zh_unblocked_by = utf8 [232, 167, 163, 233, 153, 164, 228, 186, 186]"

definition zh_resume :: string where
  "zh_resume = utf8 [231, 187, 167, 231, 187, 173, 230, 137, 167, 232, 161, 140]"

definition zh_task_cancelled :: string where
  "zh_task_cancelled = utf8 [228, 187, 187, 229, 138, 161, 229, 143, 150, 230, 182, 136]"

definition zh_terminated :: string where
  "zh_terminated = utf8 [229, 183, 178, 231, 187, 136, 230, 173, 162]"

definition zh_stop_work :: string where
  "zh_stop_work = utf8 [229, 129, 156, 230, 173, 162, 229, 183, 165, 228, 189, 156, 231, 173, 137, 229, 190, 133, 230, 150, 176, 229, 136, 134, 233, 133, 141]"

definition zh_final_output :: string where
  "zh_final_output = utf8 [230, 156, 128, 231, 187, 136, 232, 190, 147, 229, 135, 186]"

definition zh_project_output :: string where
  "zh_project_output = utf8 [233, 161, 185, 231, 155, 174, 232, 190, 147, 229, 135, 186]"

definition zh_accepted :: string where
  "zh_accepted = utf8 [233, 170, 140, 230, 148, 182, 233, 128, 154, 232, 191, 135]"

definition zh_new_comment :: string where
  "zh_new_comment = utf8 [230, 150, 176, 232, 175, 132, 232, 174, 186]"

definition zh_from :: string where
  "zh_from = utf8 [230, 157, 165, 232, 135, 170]"

definition zh_reply_directly :: string where
  "zh_reply_directly = utf8 [231, 155, 180, 230, 142, 165, 229, 155, 158, 229, 164, 141, 233, 130, 174, 228, 187, 182, 229, 143, 130, 228, 184, 142, 232, 174, 168, 232, 174, 186]"

definition zh_arbitration :: string where
  "zh_arbitration = utf8 [228, 187, 178, 232, 163, 129, 232, 175, 183, 230, 177, 130]"

definition zh_dispute :: string where
  "zh_dispute = utf8 [228, 186, 137, 232, 174, 174]"

definition zh_submitted :: string where
  "zh_submitted = utf8 [228, 187, 178, 232, 163, 129, 232, 175, 183, 230, 177, 130, 229, 183, 178, 230, 143, 144, 228, 186, 164, 231, 187, 153, 32, 65, 100, 109, 105, 110, 227, 128, 130]"

definition txt_truncated :: string where
  "txt_truncated = utf8 [226, 128, 166, 32, 229, 183, 178, 230, 136, 170, 230, 150, 173, 40, 229, 133, 177, 32]"

definition txt_bytes :: string where
  "txt_bytes = utf8 [32, 229, 173, 151, 232, 138, 130, 41]"

definition txt_full :: string where
  "txt_full = utf8 [229, 133, 168, 233, 135, 143, 58, 32, 71, 69, 84, 32]"

definition nl :: string where
  "nl = [CHR 10]"

definition em_dash :: string where
  "em_dash = utf8 [226, 128, 148]"

definition rule2 :: string where
  "rule2 = utf8 [226, 148, 128, 226, 148, 128]"

text \<open>The scalar values of a UTF-8 byte sequence: the lead byte says how many bytes follow.\<close>

definition utf8_extra :: "nat \<Rightarrow> nat" where
  "utf8_extra b = (if b < 192 then 0 else if b < 224 then 1 else if b < 240 then 2 else 3)"

fun utf8_scalars :: "nat list \<Rightarrow> nat list" where
  "utf8_scalars [] = []"
| "utf8_scalars (b # bs) =
     (let k = utf8_extra b;
          lead = (if k = 0 then b else if k = 1 then b mod 32 else if k = 2 then b mod 16 else b mod 8)
      in fold (\<lambda>c acc. acc * 64 + c mod 64) (take k bs) lead # utf8_scalars (drop k bs))"

definition has_cjk :: "string \<Rightarrow> bool" where
  "has_cjk text = list_ex (\<lambda>c. (19968 \<le> c \<and> c \<le> 40959) \<or> (12288 \<le> c \<and> c \<le> 12351) \<or>
     (65280 \<le> c \<and> c \<le> 65519)) (utf8_scalars (map code text))"

definition t_cn :: "task \<Rightarrow> bool" where
  "t_cn task = (has_cjk (tk_title task) \<or> has_cjk (tk_body task))"

definition t_lang :: "task \<Rightarrow> string \<Rightarrow> string \<Rightarrow> string" where
  "t_lang task cn en = (if t_cn task then cn else en)"

section \<open>Command acknowledgements\<close>

datatype reply_policy = Off | ReadOnlyAndErrors | All

definition parse_reply_policy :: "string \<Rightarrow> reply_policy" where
  "parse_reply_policy s =
     (let k = to_lowercase (trim s) in
      if k = ''off'' \<or> k = ''none'' \<or> k = ''false'' then Off
      else if k = ''all'' then All else ReadOnlyAndErrors)"

definition is_read_only_verb :: "string \<Rightarrow> bool" where
  "is_read_only_verb verb =
     (verb \<in> {''show'', ''list'', ''status'', ''members'', ''roles'', ''gateway-info''})"

fun allows :: "reply_policy \<Rightarrow> string \<Rightarrow> bool \<Rightarrow> bool" where
  "allows Off verb ok = False"
| "allows All verb ok = True"
| "allows ReadOnlyAndErrors verb ok = (\<not> ok \<or> is_read_only_verb verb)"

definition COMMAND_REPLY_JSON_CAP :: nat where
  "COMMAND_REPLY_JSON_CAP = 16 * 1024"

text \<open>\<open>char_indices\<close> walks the characters; the cut is behind the last one that starts before \<open>cap\<close>.\<close>

fun trunc_end :: "nat \<Rightarrow> nat \<Rightarrow> string \<Rightarrow> nat" where
  "trunc_end cap i [] = i"
| "trunc_end cap i (c # s) =
     (if cap \<le> i then i
      else let k = utf8_extra (code c) in trunc_end cap (i + 1 + min k (length s)) (drop k s))"

definition truncate_on_char_boundary :: "string \<Rightarrow> nat \<Rightarrow> string" where
  "truncate_on_char_boundary s cap =
     (if length s \<le> cap then s else take (trunc_end cap 0 s) s)"

definition fence :: string where
  "fence = ''```''"

definition format_command_result ::
    "ext \<Rightarrow> string \<Rightarrow> bool \<Rightarrow> string \<Rightarrow> json option \<Rightarrow> string \<Rightarrow> string \<times> string" where
  "format_command_result E verb ok summary data api_hint =
     (let status = (if ok then ''ok'' else ''error'');
          subject = ''[A2A-RESULT] '' @ verb @ '' '' @ status;
          body = ''[A2A-RESULT] verb='' @ verb @ '' status='' @ status @ nl @ summary @ nl
      in (subject, body @ (case data of None \<Rightarrow> [] | Some d \<Rightarrow>
           (let pretty = json_pretty E d in
            if COMMAND_REPLY_JSON_CAP < length pretty
            then nl @ fence @ ''json'' @ nl @ truncate_on_char_boundary pretty COMMAND_REPLY_JSON_CAP
                 @ nl @ txt_truncated @ show_nat (length pretty) @ txt_bytes @ nl @ fence @ nl
                 @ txt_full @ api_hint @ nl
            else nl @ fence @ ''json'' @ nl @ pretty @ nl @ fence @ nl))))"

section \<open>The notifier\<close>

record notifier =
  nf_factory :: bool
  nf_system_id :: string
  nf_board_short_id :: string
  nf_board_email :: string
  nf_board_id :: string
  nf_gateway_domain :: string
  nf_gateway_url :: string
  nf_attachments_json :: "string option"
  nf_reply_policy :: reply_policy

definition x_board_members :: string where
  "x_board_members = ''X-Board-Members''"

text \<open>
  An internal recipient gets an inbound mail without the member header and without attachments, any
  other an outbound one. The id of the mail takes the first eight bytes of the board id, a slice
  that panics on a shorter one; without a factory the notification is only logged.
\<close>

definition create_email ::
    "notifier \<Rightarrow> string \<Rightarrow> string \<Rightarrow> string \<Rightarrow> (string \<times> string) list option \<Rightarrow> unit bm" where
  "create_email n to subject body headers =
     (if \<not> nf_factory n then returnE ()
      else if \<not> is_char_boundary (nf_board_id n) 8 then panicE
      else let internal = contains_str to (''@'' @ nf_gateway_domain n) in
        modifyE (\<lambda>s. s\<lparr>w_outbox := w_outbox s @
          [\<lparr>nt_to = to, nt_subject = subject, nt_body = body,
            nt_headers = (if internal then map_option (filter (\<lambda>(k, _). k \<noteq> x_board_members)) headers
                          else headers),
            nt_internal = internal,
            nt_attachments = (if internal then None else nf_attachments_json n)\<rparr>]\<rparr>))"

definition create_email_to_all :: "notifier \<Rightarrow> member list \<Rightarrow> string \<Rightarrow> string \<Rightarrow> unit bm" where
  "create_email_to_all n members subject body =
     (let csv = join '','' (map mb_email members);
          header = [(x_board_members, nf_board_email n @ '';'' @ csv)]
      in forE (\<lambda>m. create_email n (mb_email m) subject body (Some header)) members)"

definition notify_command_result ::
    "ext \<Rightarrow> notifier \<Rightarrow> string \<Rightarrow> string \<Rightarrow> bool \<Rightarrow> string \<Rightarrow> json option \<Rightarrow> bool \<Rightarrow> unit bm" where
  "notify_command_result E n to verb ok summary data is_member =
     (if \<not> is_member \<or> \<not> allows (nf_reply_policy n) verb ok then returnE ()
      else let hint = nf_gateway_url n @ ''/api/v1/board/'' @ nf_board_email n @ ''/tasks'';
               (subject, body) = format_command_result E verb ok summary data hint
           in create_email n to subject body None)"

definition format_body ::
    "notifier \<Rightarrow> bool \<Rightarrow> string \<Rightarrow> task \<Rightarrow> string \<Rightarrow> string \<Rightarrow> string" where
  "format_body n cn label task context action =
     (let task_l = (if cn then zh_task else ''Task''); board_l = (if cn then zh_board else ''Board'');
          ctx_l = (if cn then zh_context else ''Context''); act_l = (if cn then zh_action else ''Action'')
      in rule2 @ '' A2A Board '' @ rule2 @ nl @ nl @ label @ nl @ ''  '' @ task_l @ '': ''
         @ tk_short_id task @ '' '' @ em_dash @ '' '' @ tk_title task @ nl @ ''  '' @ board_l @ '': ''
         @ nf_board_short_id n @ nl @ nl @ rule2 @ '' '' @ ctx_l @ '' '' @ rule2 @ nl @ context
         @ nl @ nl @ rule2 @ '' '' @ act_l @ '' '' @ rule2 @ nl @ action)"

definition task_subject :: "string \<Rightarrow> task \<Rightarrow> string" where
  "task_subject what task = ''[A2A] '' @ what @ '' '' @ tk_short_id task @ '': '' @ tk_title task"

definition notify_assigned :: "notifier \<Rightarrow> task \<Rightarrow> unit bm" where
  "notify_assigned n task =
     (let context = t_lang task zh_description ''Description'' @ nl
            @ t_lang task zh_assignee ''Assignee'' @ '': '' @ tk_assignee task @ nl
            @ t_lang task zh_reviewer_of ''Reviewer'' @ '': ''
            @ unwrap_or (t_lang task zh_none ''(none)'') (tk_reviewer task) @ nl
            @ t_lang task zh_created_by ''Created by'' @ '': '' @ tk_created_by task;
          body = format_body n (t_cn task) (t_lang task zh_new_task ''New Task Assigned'') task context
            (t_lang task zh_send_after_starting ''Send after starting:'' @ '' [A2A] heartbeat ''
             @ tk_short_id task)
      in create_email n (tk_assignee task) (task_subject ''assigned'' task) body None)"

definition notify_review_needed :: "notifier \<Rightarrow> task \<Rightarrow> unit bm" where
  "notify_review_needed n task =
     (let context = t_lang task zh_completed_by ''Completed by'' @ '': '' @ tk_assignee task @ nl
            @ t_lang task zh_output ''Output'' @ '': '' @ tk_summary task;
          body = format_body n (t_cn task) (t_lang task zh_pending_review ''Pending Review'') task context
            (''[A2A] approve '' @ tk_short_id task @ ''  '' @ em_dash @ '' ''
             @ t_lang task zh_approve ''Approve'' @ nl @ ''  [A2A] reject '' @ tk_short_id task @ ''   ''
             @ em_dash @ '' '' @ t_lang task zh_reject ''Reject'')
      in case tk_reviewer task of
           None \<Rightarrow> returnE ()
         | Some reviewer \<Rightarrow> create_email n reviewer (task_subject ''review-needed'' task) body None)"

definition notify_approved :: "notifier \<Rightarrow> task \<Rightarrow> unit bm" where
  "notify_approved n task =
     (let context = t_lang task zh_reviewed_by ''Reviewer'' @ '': ''
            @ unwrap_or (t_lang task zh_none ''(none)'') (tk_reviewer task);
          body = format_body n (t_cn task) (t_lang task zh_approved ''Approved'') task context
            (t_lang task zh_no_further_action ''Completed, no further action'')
      in create_email n (tk_assignee task) (task_subject ''approved'' task) body None)"

definition notify_rejected :: "notifier \<Rightarrow> task \<Rightarrow> string \<Rightarrow> unit bm" where
  "notify_rejected n task reason =
     (let context = t_lang task zh_reviewed_by ''Reviewer'' @ '': ''
            @ unwrap_or ''unknown'' (tk_reviewer task) @ nl
            @ t_lang task zh_reason ''Reason'' @ '': '' @ reason;
          body = format_body n (t_cn task) (t_lang task zh_rejected ''Rejected'') task context
            (t_lang task zh_revise ''Revise and re-submit'' @ '' [A2A] complete '' @ tk_short_id task)
      in create_email n (tk_assignee task) (task_subject ''rejected'' task) body None)"

definition notify_blocked :: "notifier \<Rightarrow> task \<Rightarrow> string \<Rightarrow> unit bm" where
  "notify_blocked n task blocker =
     (let body = format_body n (t_cn task) (t_lang task zh_task_blocked ''Task Blocked'') task
            (t_lang task zh_blocker ''Blocker'' @ '': '' @ blocker)
            (t_lang task zh_orchestrator_coordinates ''Orchestrator will coordinate'')
      in bindE (list_members (tk_board_id task)) (\<lambda>members.
           forE (\<lambda>m. if mb_role m = ''orchestrator'' \<or> mb_email m = blocker
                     then create_email n (mb_email m) (task_subject ''blocked'' task) body None
                     else returnE ()) members))"

definition notify_unblocked :: "notifier \<Rightarrow> task \<Rightarrow> string \<Rightarrow> unit bm" where
  "notify_unblocked n task unblocker =
     (let body = format_body n (t_cn task) (t_lang task zh_unblocked ''Unblocked'') task
            (t_lang task zh_unblocked_by ''Unblocked by'' @ '': '' @ unblocker)
            (t_lang task zh_resume ''Resume execution'')
      in create_email n (tk_assignee task) (task_subject ''unblocked'' task) body None)"

definition notify_cancelled :: "notifier \<Rightarrow> task \<Rightarrow> unit bm" where
  "notify_cancelled n task =
     (let body = format_body n (t_cn task) (t_lang task zh_task_cancelled ''Task Cancelled'') task
            (t_lang task zh_terminated ''Terminated'')
            (t_lang task zh_stop_work ''Stop work, await re-assignment'')
      in create_email n (tk_assignee task) (task_subject ''cancelled'' task) body None)"

definition notify_output :: "notifier \<Rightarrow> task \<Rightarrow> unit bm" where
  "notify_output n task =
     (let subject = ''[A2A] output: '' @ nf_board_short_id n @ '' '' @ tk_title task;
          context = t_lang task zh_final_output ''Final Output'' @ '': '' @ tk_title task @ nl
            @ ''summary: '' @ tk_summary task;
          body = format_body n (t_cn task) (t_lang task zh_project_output ''Project Output'') task context
            (''[Confirm] output '' @ nf_board_short_id n @ '' '' @ em_dash @ '' ''
             @ t_lang task zh_accepted ''Accepted'')
      in bindE (list_members (nf_board_id n)) (\<lambda>members.
           forE (\<lambda>m. if mb_role m = ''owner'' then create_email n (mb_email m) subject body None
                     else returnE ()) members))"

definition notify_comment :: "notifier \<Rightarrow> task \<Rightarrow> string \<Rightarrow> string \<Rightarrow> unit bm" where
  "notify_comment n task commenter comment =
     (let body = format_body n (t_cn task) (t_lang task zh_new_comment ''New Comment'') task
            (t_lang task zh_from ''From'' @ '': '' @ commenter @ nl @ comment)
            (t_lang task zh_reply_directly ''Reply directly to join the discussion'');
          recipient = (if commenter = tk_assignee task then unwrap_or [] (tk_reviewer task)
                       else tk_assignee task)
      in if recipient = [] then returnE ()
         else create_email n recipient (task_subject ''comment'' task) body None)"

definition notify_all :: "notifier \<Rightarrow> string \<Rightarrow> string \<Rightarrow> unit bm" where
  "notify_all n board_id message =
     (let subject = ''[A2A] notice: '' @ nf_board_short_id n @ '' '' @ message
      in bindE (list_members board_id) (\<lambda>members. create_email_to_all n members subject message))"

definition notify_invite ::
    "notifier \<Rightarrow> string \<Rightarrow> string \<Rightarrow> string \<Rightarrow> string \<Rightarrow> string \<Rightarrow> unit bm" where
  "notify_invite n member_email board_token board_email short_id members_csv =
     (let body = rule2 @ '' A2A Board '' @ rule2 @ nl @ nl @ ''Board Invitation'' @ nl @ ''  Board: ''
            @ short_id @ nl @ ''  Board Email: '' @ board_email @ nl @ nl @ rule2
            @ '' Information '' @ rule2 @ nl @ ''API: '' @ nf_gateway_url n @ nl @ ''Token: ''
            @ board_token;
          header = [(x_board_members, board_email @ '';'' @ members_csv)]
      in create_email n member_email (''[A2A] invite: '' @ short_id) body (Some header))"

definition notify_arbitrate ::
    "notifier \<Rightarrow> task option \<Rightarrow> string \<Rightarrow> string \<Rightarrow> string \<Rightarrow> unit bm" where
  "notify_arbitrate n task requester admin_email dispute =
     (let cn = (case task of None \<Rightarrow> False | Some tk \<Rightarrow> t_cn tk);
          task_info = (case task of None \<Rightarrow> [] | Some tk \<Rightarrow>
            (if cn then zh_task else ''Task'') @ '': '' @ tk_short_id tk @ '' ('' @ tk_title tk @ '')'');
          subject = ''[A2A] arbitrate: '' @ nf_board_short_id n;
          arb_req = (if cn then zh_arbitration else ''Arbitration Request'');
          from = (if cn then zh_from else ''From'');
          dispute_l = (if cn then zh_dispute else ''Dispute'');
          submitted = (if cn then zh_submitted else ''Arbitration request submitted to Admin.'');
          body = arb_req @ nl @ from @ '': '' @ requester @ nl @ task_info @ nl @ dispute_l @ '': ''
            @ dispute
      in thenE (if admin_email = [] then returnE () else create_email n admin_email subject body None)
           (create_email n requester subject submitted None))"

section \<open>What notifying does to the state\<close>

text \<open>
  Notifying writes the outbox and nothing else, and aborts only by the panic on a board id that
  cannot be cut after eight bytes.
\<close>

definition outbox_only :: "unit bm \<Rightarrow> bool" where
  "outbox_only m \<longleftrightarrow> (\<forall>s. \<exists>ob. m s \<in> {(Inr (), s\<lparr>w_outbox := ob\<rparr>), (Inl Panic, s\<lparr>w_outbox := ob\<rparr>)})"

lemma outbox_onlyD:
  assumes "outbox_only m"
  obtains ob where "m s = (Inr (), s\<lparr>w_outbox := ob\<rparr>)" | ob where "m s = (Inl Panic, s\<lparr>w_outbox := ob\<rparr>)"
  using assms by (fastforce simp: outbox_only_def)

named_theorems notifies "operations that only write the outbox"

lemma outbox_same: "\<exists>ob. s = s\<lparr>w_outbox := ob\<rparr>" for s :: bst
  by (rule exI [of _ "w_outbox s"]) simp

lemma outbox_only_return [notifies]: "outbox_only (returnE ())"
  by (auto simp: outbox_only_def runs outbox_same)

lemma outbox_only_thenE [notifies]:
  assumes "outbox_only m" and "outbox_only k"
  shows "outbox_only (thenE m k)"
  unfolding outbox_only_def
proof
  fix s
  show "\<exists>ob. thenE m k s \<in> {(Inr (), s\<lparr>w_outbox := ob\<rparr>), (Inl Panic, s\<lparr>w_outbox := ob\<rparr>)}"
    by (rule outbox_onlyD [OF assms(1), of s]; rule outbox_onlyD [OF assms(2), of "snd (m s)"])
       (auto simp: runs)
qed

lemma outbox_only_forE [notifies]: "(\<And>x. outbox_only (f x)) \<Longrightarrow> outbox_only (forE f xs)"
  by (induction xs) (simp_all add: notifies)

lemma outbox_only_list_members [notifies]:
  "(\<And>ms. outbox_only (f ms)) \<Longrightarrow> outbox_only (bindE (list_members board_id) f)"
  by (auto simp: outbox_only_def list_members_def runs)

lemma outbox_only_if [notifies]:
  "outbox_only m \<Longrightarrow> outbox_only k \<Longrightarrow> outbox_only (if b then m else k)"
  by simp

lemma outbox_only_create_email [notifies]: "outbox_only (create_email n to subject body headers)"
  by (auto simp: outbox_only_def create_email_def Let_def runs outbox_same)

lemma outbox_only_notify [notifies]:
  "outbox_only (notify_assigned n k)" "outbox_only (notify_review_needed n k)"
  "outbox_only (notify_approved n k)" "outbox_only (notify_rejected n k r)"
  "outbox_only (notify_blocked n k who)" "outbox_only (notify_unblocked n k who)"
  "outbox_only (notify_cancelled n k)" "outbox_only (notify_output n k)"
  "outbox_only (notify_comment n k who txt)" "outbox_only (notify_all n board_id msg)"
  "outbox_only (notify_invite n em tok be sid csv)" "outbox_only (notify_arbitrate n ko who adm d)"
  "outbox_only (notify_command_result E n to verb ok sm dat mem)"
  unfolding notify_assigned_def notify_review_needed_def notify_approved_def notify_rejected_def
    notify_blocked_def notify_unblocked_def notify_cancelled_def notify_output_def notify_comment_def
    notify_all_def notify_invite_def notify_arbitrate_def notify_command_result_def
    create_email_to_all_def Let_def
  by (auto intro!: notifies split: option.splits prod.splits)

lemma wpE_notify:
  assumes "outbox_only m" and "\<And>ob. Q () (s\<lparr>w_outbox := ob\<rparr>)" and "\<And>ob. R Panic (s\<lparr>w_outbox := ob\<rparr>)"
  shows "wpE m Q R s"
  by (rule outbox_onlyD [OF assms(1), of s]) (use assms(2,3) in \<open>simp_all add: wpE_def\<close>)

lemma preserves_notify:
  "outbox_only m \<Longrightarrow> (\<And>s ob. P (s\<lparr>w_outbox := ob\<rparr>) = P s) \<Longrightarrow> preserves P m"
  by (auto simp: preserves_wpE intro: wpE_notify)

text \<open>With a board id of at least eight ASCII characters no notification panics.\<close>

definition cuttable :: "notifier \<Rightarrow> bool" where
  "cuttable n \<longleftrightarrow> is_char_boundary (nf_board_id n) 8"

end
