(* ===== verification/Board_Awareness.thy ===== *)
theory Board_Awareness
  imports Board_Notify "HOL-Library.Char_ord" "HOL-Library.List_Lexorder"
    "HOL-Library.Product_Lexorder"
begin

text \<open>
  The agent-facing queries and the liveness report (\<open>src/src/board/awareness.rs\<close>), shared by the
  mail command path and the HTTP path.
\<close>

definition brief :: "task \<Rightarrow> json" where
  "brief k = JObj [(''short_id'', JStr (tk_short_id k)), (''assignee'', JStr (tk_assignee k))]"

definition opt_json :: "string option \<Rightarrow> json" where
  "opt_json z = (case z of None \<Rightarrow> JNull | Some x \<Rightarrow> JStr x)"

definition pipeline_keys :: "string list" where
  "pipeline_keys = [''triage'', ''todo'', ''ready'', ''running'', ''reviewing'', ''done'', ''blocked'',
     ''cancelled'', ''archived'']"

definition pipeline_entry :: "task list \<Rightarrow> string \<Rightarrow> string \<times> json" where
  "pipeline_entry tasks k =
     (let lst = map brief (filter (\<lambda>x. show_task_status (tk_status x) = k) tasks)
      in (k, JObj [(''count'', JNum (int (length lst))), (''tasks'', JArr lst)]))"

definition board_status_json :: "string \<Rightarrow> json bm" where
  "board_status_json board_id = bindE (get_board board_id) (\<lambda>b.
     bindE (list_tasks board_id None None) (\<lambda>tasks.
       returnE (JObj
         [(''board'', JObj [(''id'', JStr (bd_id b)), (''short_id'', JStr (bd_short_id b)),
             (''status'', JStr (show_board_status (bd_status b))), (''goal'', opt_json (bd_goal b)),
             (''plan_version'', opt_json (bd_plan_version b)),
             (''plan_confirmed_at'', opt_json (bd_plan_confirmed_at b)),
             (''output_task_id'', opt_json (bd_output_task_id b))]),
          (''pipeline'', JObj (map (pipeline_entry tasks) pipeline_keys))])))"

definition aw_list_tasks :: "string \<Rightarrow> string option \<Rightarrow> string option \<Rightarrow> task list bm" where
  "aw_list_tasks board_id status assignee = list_tasks board_id status assignee"

definition parent_summary :: "task list \<Rightarrow> string \<Rightarrow> json option" where
  "parent_summary tasks pid = map_option (\<lambda>p. JObj [(''short_id'', JStr (tk_short_id p)),
      (''title'', JStr (tk_title p)), (''summary'', JStr (tk_summary p))])
     (find (\<lambda>x. tk_short_id x = pid) tasks)"

definition aw_get_task :: "string \<Rightarrow> (task \<times> json list) bm" where
  "aw_get_task task_id = bindE (get_task task_id) (\<lambda>k.
     bindE (list_tasks (tk_board_id k) None None) (\<lambda>tasks.
       returnE (k, filter_map (parent_summary tasks) (tk_parent_ids k))))"

definition aw_list_members :: "string \<Rightarrow> string option \<Rightarrow> member list bm" where
  "aw_list_members board_id email = bindE (list_members board_id) (\<lambda>members.
     returnE (case email of None \<Rightarrow> members | Some e \<Rightarrow> filter (\<lambda>m. mb_email m = e) members))"

text \<open>\<open>map.entry(role).or_insert_with(Vec::new).push(verb)\<close> over the rows in \<open>ORDER BY role, verb\<close>.\<close>

fun push_verb :: "string \<times> string \<Rightarrow> (string \<times> string list) list \<Rightarrow> (string \<times> string list) list" where
  "push_verb (r, v) [] = [(r, [v])]"
| "push_verb (r, v) ((r', vs) # rest) =
     (if r = r' then (r', vs @ [v]) # rest else (r', vs) # push_verb (r, v) rest)"

definition list_roles :: "(string \<times> string list) list bm" where
  "list_roles = getsE (\<lambda>s. fold push_verb (sort (db_perms s)) [])"

definition heartbeat :: "string \<Rightarrow> string \<Rightarrow> unit bm" where
  "heartbeat task_ref actor = bindE (get_task task_ref) (\<lambda>task.
     if tk_assignee task \<noteq> actor then throwE (Forbidden ''only assignee can heartbeat'')
     else thenE
       (if tk_status task = Ready then update_task (task\<lparr>tk_status := Running\<rparr>)
        else if tk_status task \<noteq> Running
        then throwE (BadRequest (''heartbeat invalid for task status: ''
               @ show_task_status (tk_status task)))
        else returnE ())
       (thenE (touch_task (tk_id task)) (bindE now (\<lambda>ts.
          insert_event \<lparr>ev_task_id = tk_id task, ev_event_type = ''heartbeat'', ev_actor = actor,
            ev_payload = None, ev_created_at = ts\<rparr>))))"

end
