(* ===== verification/Board_Commands.thy ===== *)
theory Board_Commands
  imports Board_Awareness
begin

text \<open>
  The verbs of the board (\<open>src/src/board/commands.rs\<close>): one definition per handler, in the source's
  order, and the dispatcher \<open>execute_command\<close>. A handler works on the open board database and a
  notifier; it returns a response or an error, and what it wrote before an error stays written.
\<close>

section \<open>Helpers\<close>

definition quoted :: "string \<Rightarrow> string" where
  "quoted x = [CHR 39] @ x @ [CHR 39]"

definition not_member :: "string \<Rightarrow> app_error" where
  "not_member sender = Forbidden (''sender not a board member: '' @ sender)"

definition require_role :: "string \<Rightarrow> string \<Rightarrow> string \<Rightarrow> unit bm" where
  "require_role board_id sender verb = bindE (get_member board_id sender) (\<lambda>member.
     case member of
       Some m \<Rightarrow> bindE (check_role_permission (mb_role m) verb) (\<lambda>ok.
         if ok then returnE ()
         else throwE (Forbidden (''role '' @ quoted (mb_role m) @ '' not permitted for verb ''
                @ quoted verb)))
     | None \<Rightarrow> throwE (not_member sender))"

definition require_assignee :: "task \<Rightarrow> string \<Rightarrow> unit bm" where
  "require_assignee task sender = requireE (tk_assignee task = sender)
     (Forbidden (''only assignee can perform this action: '' @ sender))"

definition require_member :: "string \<Rightarrow> string \<Rightarrow> unit bm" where
  "require_member board_id sender = bindE (get_member board_id sender) (\<lambda>member.
     case member of Some _ \<Rightarrow> returnE () | None \<Rightarrow> throwE (not_member sender))"

definition require_reviewer :: "task \<Rightarrow> string \<Rightarrow> unit bm" where
  "require_reviewer task sender = requireE (tk_reviewer task = Some sender)
     (Forbidden (''only the assigned reviewer can perform this action: '' @ sender))"

definition extract_task_id :: "a2a_command \<Rightarrow> string bm" where
  "extract_task_id cmd = (case cm_task_id cmd of
     Some x \<Rightarrow> returnE x | None \<Rightarrow> throwE (BadRequest ''task_id required''))"

definition ok_response :: "task option \<Rightarrow> command_response" where
  "ok_response k = \<lparr>rs_status = ''ok'', rs_task = k, rs_data = None, rs_error = None\<rparr>"

definition data_response :: "json \<Rightarrow> command_response" where
  "data_response d = \<lparr>rs_status = ''ok'', rs_task = None, rs_data = Some d, rs_error = None\<rparr>"

definition param :: "a2a_command \<Rightarrow> string \<Rightarrow> string option" where
  "param cmd k = get_str (cm_params cmd) k"

definition log_event :: "string \<Rightarrow> string \<Rightarrow> string \<Rightarrow> json option \<Rightarrow> string \<Rightarrow> unit bm" where
  "log_event task_id what actor payload ts =
     insert_event \<lparr>ev_task_id = task_id, ev_event_type = what, ev_actor = actor,
       ev_payload = payload, ev_created_at = ts\<rparr>"

text \<open>The children that one more done parent makes runnable.\<close>

definition promote_children :: "notifier \<Rightarrow> task \<Rightarrow> unit bm" where
  "promote_children n parent = bindE (list_tasks (tk_board_id parent) None None) (\<lambda>tasks.
     let done_ids = map tk_short_id (filter (\<lambda>x. tk_status x = Done) tasks) in
     forE (\<lambda>child.
       if tk_short_id parent \<in> set (tk_parent_ids child) \<and>
          list_all (\<lambda>pid. pid \<in> set done_ids) (tk_parent_ids child) \<and> tk_status child = Todo
       then let child' = child\<lparr>tk_status := Ready\<rparr> in
         thenE (okE (update_task child')) (notify_assigned n child')
       else returnE ()) tasks)"

section \<open>Handlers\<close>

definition do_complete :: "notifier \<Rightarrow> string \<Rightarrow> string \<Rightarrow> string option \<Rightarrow> task bm" where
  "do_complete n task_id sender summary = bindE (get_task task_id) (\<lambda>task0.
     thenE (require_assignee task0 sender)
       (let task1 = (case summary of None \<Rightarrow> task0 | Some x \<Rightarrow> task0\<lparr>tk_summary := x\<rparr>) in
        bindE now (\<lambda>ts.
          let task2 = (if tk_reviewer task1 \<noteq> None then task1\<lparr>tk_status := Reviewing\<rparr>
                       else task1\<lparr>tk_status := Done, tk_completed_at := Some ts\<rparr>);
              task = task2\<lparr>tk_updated_at := ts\<rparr> in
          thenE (update_task task)
          (thenE (log_event (tk_id task) ''completed'' sender None ts)
          (thenE (if tk_reviewer task \<noteq> None then notify_review_needed n task
                  else thenE (promote_children n task) (notify_approved n task))
            (returnE task))))))"

definition handle_complete :: "notifier \<Rightarrow> a2a_command \<Rightarrow> string \<Rightarrow> command_response bm" where
  "handle_complete n cmd sender = bindE (extract_task_id cmd) (\<lambda>task_id.
     bindE (do_complete n task_id sender (param cmd ''summary'')) (\<lambda>task.
       returnE (ok_response (Some task))))"

definition handle_review :: "notifier \<Rightarrow> a2a_command \<Rightarrow> string \<Rightarrow> command_response bm" where
  "handle_review n cmd sender = bindE (extract_task_id cmd) (\<lambda>task_id.
     case param cmd ''reviewer'' of
       None \<Rightarrow> throwE (BadRequest ''reviewer required'')
     | Some reviewer \<Rightarrow> bindE (get_task task_id) (\<lambda>task0.
         thenE (require_role (tk_board_id task0) sender ''review'') (bindE now (\<lambda>ts.
           let task = task0\<lparr>tk_reviewer := Some reviewer, tk_status := Reviewing,
                        tk_updated_at := ts\<rparr> in
           thenE (update_task task) (thenE (notify_review_needed n task)
             (returnE (ok_response (Some task))))))))"

definition handle_approve :: "notifier \<Rightarrow> a2a_command \<Rightarrow> string \<Rightarrow> command_response bm" where
  "handle_approve n cmd sender = bindE (extract_task_id cmd) (\<lambda>task_id.
     bindE (get_task task_id) (\<lambda>task0.
       thenE (require_reviewer task0 sender)
       (if tk_status task0 \<noteq> Reviewing
        then throwE (BadRequest (''approve invalid for task status: ''
               @ show_task_status (tk_status task0)))
        else bindE now (\<lambda>ts.
          let task = task0\<lparr>tk_status := Done, tk_completed_at := Some ts, tk_updated_at := ts\<rparr> in
          thenE (update_task task)
          (thenE (log_event (tk_id task) ''approved'' sender None ts)
          (thenE (notify_approved n task)
          (thenE (promote_children n task) (returnE (ok_response (Some task))))))))))"

definition handle_reject :: "notifier \<Rightarrow> a2a_command \<Rightarrow> string \<Rightarrow> command_response bm" where
  "handle_reject n cmd sender = bindE (extract_task_id cmd) (\<lambda>task_id.
     bindE (get_task task_id) (\<lambda>task0.
       thenE (require_reviewer task0 sender)
       (if tk_status task0 \<noteq> Reviewing
        then throwE (BadRequest (''reject invalid for task status: ''
               @ show_task_status (tk_status task0)))
        else let reason = unwrap_or [] (param cmd ''reason'') in bindE now (\<lambda>ts.
          let task = task0\<lparr>tk_status := Running, tk_updated_at := ts\<rparr> in
          thenE (update_task task)
          (thenE (log_event (tk_id task) ''rejected'' sender
                    (Some (JObj [(''reason'', JStr reason)])) ts)
          (thenE (notify_rejected n task reason) (returnE (ok_response (Some task)))))))))"

definition handle_block :: "notifier \<Rightarrow> a2a_command \<Rightarrow> string \<Rightarrow> command_response bm" where
  "handle_block n cmd sender = bindE (extract_task_id cmd) (\<lambda>task_id.
     bindE (get_task task_id) (\<lambda>task0.
       thenE (if sender \<noteq> tk_assignee task0 then require_role (tk_board_id task0) sender ''block''
              else returnE ())
       (bindE now (\<lambda>ts.
          let task = task0\<lparr>tk_status := Blocked, tk_updated_at := ts\<rparr> in
          thenE (update_task task)
          (thenE (log_event (tk_id task) ''blocked'' sender None ts)
          (thenE (notify_blocked n task sender) (returnE (ok_response (Some task)))))))))"

definition handle_unblock :: "notifier \<Rightarrow> a2a_command \<Rightarrow> string \<Rightarrow> command_response bm" where
  "handle_unblock n cmd sender = bindE (extract_task_id cmd) (\<lambda>task_id.
     bindE (get_task task_id) (\<lambda>task0.
       thenE (require_role (tk_board_id task0) sender ''unblock'')
       (bindE now (\<lambda>ts.
          let task = task0\<lparr>tk_status := Running, tk_updated_at := ts\<rparr> in
          thenE (update_task task)
          (thenE (log_event (tk_id task) ''unblocked'' sender None ts)
          (thenE (notify_unblocked n task sender) (returnE (ok_response (Some task)))))))))"

definition handle_heartbeat :: "a2a_command \<Rightarrow> string \<Rightarrow> command_response bm" where
  "handle_heartbeat cmd sender = bindE (extract_task_id cmd) (\<lambda>task_id.
     thenE (heartbeat task_id sender) (returnE (ok_response None)))"

definition handle_comment :: "notifier \<Rightarrow> a2a_command \<Rightarrow> string \<Rightarrow> command_response bm" where
  "handle_comment n cmd sender = bindE (extract_task_id cmd) (\<lambda>task_id.
     let comment = unwrap_or [] (param cmd ''text'') in
     bindE (get_task task_id) (\<lambda>task.
       thenE (require_role (tk_board_id task) sender ''comment'')
       (bindE now (\<lambda>ts.
          thenE (log_event task_id ''comment'' sender (Some (JObj [(''text'', JStr comment)])) ts)
          (thenE (notify_comment n task sender comment) (returnE (ok_response None)))))))"

definition handle_continue :: "notifier \<Rightarrow> a2a_command \<Rightarrow> string \<Rightarrow> command_response bm" where
  "handle_continue n cmd sender = bindE (extract_task_id cmd) (\<lambda>task_id.
     bindE (get_task task_id) (\<lambda>task0.
       thenE (require_role (tk_board_id task0) sender ''continue'')
       (thenE (require_assignee task0 sender)
       (let progress = unwrap_or [] (param cmd ''progress'') in
        if progress = [] then throwE (BadRequest ''continue: progress is required'')
        else let note = unwrap_or [] (param cmd ''note'') in bindE now (\<lambda>ts.
          let task = task0\<lparr>tk_summary := progress, tk_updated_at := ts\<rparr> in
          thenE (update_task task)
          (thenE (log_event task_id ''continue_request'' sender
                    (Some (JObj [(''progress'', JStr progress), (''note'', JStr note)])) ts)
          (thenE (notify_assigned n task) (returnE (ok_response (Some task))))))))))"

definition handle_cancel :: "notifier \<Rightarrow> a2a_command \<Rightarrow> string \<Rightarrow> command_response bm" where
  "handle_cancel n cmd sender = bindE (extract_task_id cmd) (\<lambda>task_id.
     bindE (get_task task_id) (\<lambda>task0.
       thenE (require_role (tk_board_id task0) sender ''cancel'')
       (if tk_status task0 \<noteq> Blocked
        then throwE (BadRequest ''cancel only allowed for blocked tasks'')
        else bindE now (\<lambda>ts.
          let task = task0\<lparr>tk_status := Cancelled, tk_cancelled_at := Some ts, tk_updated_at := ts\<rparr> in
          thenE (update_task task)
          (thenE (log_event (tk_id task) ''cancelled'' sender None ts)
          (thenE (notify_cancelled n task) (returnE (ok_response (Some task)))))))))"

definition handle_reassign :: "notifier \<Rightarrow> a2a_command \<Rightarrow> string \<Rightarrow> command_response bm" where
  "handle_reassign n cmd sender = bindE (extract_task_id cmd) (\<lambda>task_id.
     bindE (get_task task_id) (\<lambda>task0.
       thenE (require_role (tk_board_id task0) sender ''reassign'')
       (let new_assignee = unwrap_or [] (param cmd ''assignee'') in
        if new_assignee = [] then throwE (BadRequest ''assignee required'')
        else bindE (get_member (tk_board_id task0) new_assignee) (\<lambda>m.
          if m = None
          then throwE (BadRequest (''assignee not a board member: '' @ new_assignee))
          else bindE now (\<lambda>ts.
            let task = task0\<lparr>tk_assignee := new_assignee, tk_updated_at := ts\<rparr> in
            thenE (update_task task)
            (thenE (notify_assigned n task) (returnE (ok_response (Some task)))))))))"

definition handle_edit :: "a2a_command \<Rightarrow> string \<Rightarrow> command_response bm" where
  "handle_edit cmd sender = bindE (extract_task_id cmd) (\<lambda>task_id.
     bindE (get_task task_id) (\<lambda>task0.
       thenE (require_role (tk_board_id task0) sender ''edit'')
       (let task1 = (case param cmd ''title'' of None \<Rightarrow> task0 | Some x \<Rightarrow> task0\<lparr>tk_title := x\<rparr>);
            task2 = (case param cmd ''body'' of None \<Rightarrow> task1 | Some x \<Rightarrow> task1\<lparr>tk_body := x\<rparr>) in
        bindE now (\<lambda>ts. let task = task2\<lparr>tk_updated_at := ts\<rparr> in
          thenE (update_task task) (returnE (ok_response (Some task)))))))"

definition handle_deadline :: "ext \<Rightarrow> a2a_command \<Rightarrow> string \<Rightarrow> command_response bm" where
  "handle_deadline E cmd sender = bindE (extract_task_id cmd) (\<lambda>task_id.
     bindE (get_task task_id) (\<lambda>task0.
       thenE (require_role (tk_board_id task0) sender ''deadline'')
       (let deadline = unwrap_or [] (param cmd ''deadline'') in
        if deadline = [] then throwE (BadRequest ''deadline required'')
        else if parse_rfc3339 E deadline = None
        then throwE (BadRequest (''deadline must be RFC3339, got: '' @ deadline))
        else bindE now (\<lambda>ts.
          let task = task0\<lparr>tk_deadline := Some deadline, tk_updated_at := ts\<rparr> in
          thenE (update_task task) (returnE (ok_response (Some task)))))))"

definition handle_output :: "notifier \<Rightarrow> a2a_command \<Rightarrow> string \<Rightarrow> command_response bm" where
  "handle_output n cmd sender = bindE (extract_task_id cmd) (\<lambda>task_id.
     bindE (get_task task_id) (\<lambda>task.
       thenE (require_role (tk_board_id task) sender ''output'')
       (if tk_status task \<noteq> Done then throwE (BadRequest ''output task is not done yet'')
        else bindE (verify_pipeline_integrity (tk_board_id task)) (\<lambda>issues.
          if issues \<noteq> []
          then throwE (BadRequest (''pipeline issues: '' @ join '', '' issues))
          else bindE now (\<lambda>ts.
            thenE (log_event (tk_id task) ''output'' sender None ts)
            (bindE (get_board (tk_board_id task)) (\<lambda>b.
              thenE (update_board (b\<lparr>bd_output_task_id := Some (tk_id task),
                                     bd_status := BAwaitingOwner\<rparr>))
              (thenE (notify_output n task) (returnE (ok_response (Some task)))))))))))"

definition handle_show :: "a2a_command \<Rightarrow> string \<Rightarrow> command_response bm" where
  "handle_show cmd sender = bindE (extract_task_id cmd) (\<lambda>task_id.
     bindE (aw_get_task task_id) (\<lambda>(task, parent_summaries).
       thenE (require_member (tk_board_id task) sender)
         (returnE (if parent_summaries = [] then ok_response (Some task)
            else (ok_response (Some task))\<lparr>rs_data :=
                   Some (JObj [(''parent_summaries'', JArr parent_summaries)])\<rparr>))))"

definition list_entry :: "task \<Rightarrow> json" where
  "list_entry k = JObj [(''id'', JStr (tk_id k)), (''short_id'', JStr (tk_short_id k)),
     (''title'', JStr (tk_title k)), (''status'', JStr (show_task_status (tk_status k))),
     (''assignee'', JStr (tk_assignee k)), (''reviewer'', opt_json (tk_reviewer k)),
     (''parent_ids'', JArr (map JStr (tk_parent_ids k)))]"

definition handle_list :: "a2a_command \<Rightarrow> string \<Rightarrow> command_response bm" where
  "handle_list cmd sender =
     (let board_id = unwrap_or [] (param cmd ''board_id'') in
      thenE (require_member board_id sender)
      (bindE (aw_list_tasks board_id (param cmd ''status'') (param cmd ''assignee'')) (\<lambda>tasks.
         returnE (data_response (JObj [(''tasks'', JArr (map list_entry tasks))])))))"

definition handle_roles :: "a2a_command \<Rightarrow> string \<Rightarrow> command_response bm" where
  "handle_roles cmd sender =
     (let board_id = unwrap_or [] (param cmd ''board_id'') in
      thenE (require_member board_id sender)
      (bindE list_roles (\<lambda>roles.
         returnE (data_response (JObj [(''roles'',
           JObj (map (\<lambda>(r, vs). (r, JArr (map JStr vs))) roles))])))))"

definition handle_board_status :: "a2a_command \<Rightarrow> string \<Rightarrow> command_response bm" where
  "handle_board_status cmd sender =
     (case param cmd ''board_id'' of
        None \<Rightarrow> throwE (BadRequest ''board_id required'')
      | Some board_id \<Rightarrow> thenE (require_member board_id sender)
          (bindE (board_status_json board_id) (\<lambda>st. returnE (data_response st))))"

definition handle_members :: "a2a_command \<Rightarrow> string \<Rightarrow> command_response bm" where
  "handle_members cmd sender =
     (let board_id = unwrap_or [] (param cmd ''board_id'') in
      thenE (require_member board_id sender)
      (bindE (aw_list_members board_id None) (\<lambda>members.
         returnE (data_response (JObj [(''members'', JArr (map (\<lambda>m.
           JObj [(''email'', JStr (mb_email m)), (''role'', JStr (mb_role m)),
             (''display_name'', JStr (mb_display_name m))]) members))])))))"

definition handle_gateway_info :: "a2a_command \<Rightarrow> command_response bm" where
  "handle_gateway_info cmd =
     returnE \<lparr>rs_status = ''ok'', rs_task = None, rs_data = None, rs_error = None\<rparr>"

text \<open>The body of the loop of \<open>handle_create\<close>: one task of the batch.\<close>

definition create_one :: "ext \<Rightarrow> notifier \<Rightarrow> string \<Rightarrow> string \<Rightarrow> json \<Rightarrow> unit bm" where
  "create_one E n board_id sender j =
     (let title = unwrap_or [] (get_str (Some j) ''title'');
          assignee = unwrap_or [] (get_str (Some j) ''assignee'');
          reviewer = get_str (Some j) ''reviewer'' in
      bindE (get_member board_id assignee) (\<lambda>am.
      if assignee \<noteq> [] \<and> am = None
      then throwE (BadRequest (''assignee not a board member: '' @ assignee))
      else bindE (get_member board_id (unwrap_or [] reviewer)) (\<lambda>rm.
      if unwrap_or [] reviewer \<noteq> [] \<and> rm = None
      then throwE (BadRequest (''reviewer not a board member: '' @ unwrap_or [] reviewer))
      else bindE (next_short_id board_id) (\<lambda>short_id.
        bindE (make_task_id board_id short_id) (\<lambda>task_id.
        bindE now (\<lambda>ts.
          let task = \<lparr>tk_id = task_id, tk_short_id = short_id, tk_board_id = board_id,
                tk_title = title, tk_body = unwrap_or [] (get_str (Some j) ''body''),
                tk_status = (if assignee = [] then Triage else Ready), tk_assignee = assignee,
                tk_reviewer = reviewer, tk_parent_ids = get_strings j ''parents'',
                tk_tags = get_strings j ''tags'', tk_summary = [],
                tk_metadata = map_option (json_text E) (jget j ''metadata''),
                tk_created_by = sender, tk_created_at = ts, tk_updated_at = ts,
                tk_completed_at = None, tk_cancelled_at = None, tk_deadline = None\<rparr> in
          thenE (create_task task) (notify_assigned n task)))))))"

definition handle_create :: "ext \<Rightarrow> notifier \<Rightarrow> a2a_command \<Rightarrow> string \<Rightarrow> command_response bm" where
  "handle_create E n cmd sender =
     (case param cmd ''board_id'' of
        None \<Rightarrow> throwE (BadRequest ''board_id required'')
      | Some board_id \<Rightarrow> thenE (require_role board_id sender ''create'')
          (thenE (case get_arr (cm_params cmd) ''tasks'' of
                    None \<Rightarrow> returnE ()
                  | Some tasks \<Rightarrow> forE (create_one E n board_id sender) tasks)
             (returnE (ok_response None))))"

text \<open>
  The board file has no table \<open>board_whitelists\<close>: \<open>init_schema\<close> does not create one, the table of that
  name is in the gateway's main database. The two statements \<open>handle_refresh\<close> issues against it on
  the board connection therefore fail, and their results are dropped.
\<close>

definition board_whitelists_stmt :: "unit bm" where
  "board_whitelists_stmt = throwE (Database NoSuchTable)"

definition refresh_whitelist :: "string list \<Rightarrow> unit bm" where
  "refresh_whitelist emails =
     thenE (okE board_whitelists_stmt) (forE (\<lambda>e. okE board_whitelists_stmt) emails)"

definition unknown_role :: "string \<Rightarrow> string \<Rightarrow> app_error" where
  "unknown_role role scope_txt = BadRequest (''unknown role '' @ quoted role @ scope_txt @ '' '' @ em_dash
     @ '' known roles: '' @ join '', '' KNOWN_ROLES)"

text \<open>The body of the member loop of \<open>handle_refresh\<close>; the fresh tokens are collected for the invites.\<close>

definition refresh_member ::
    "ext \<Rightarrow> notifier \<Rightarrow> string \<Rightarrow> (string \<rightharpoonup> string \<times> string option) \<Rightarrow> json \<Rightarrow>
     (string \<times> string) list \<Rightarrow> (string \<times> string) list bm" where
  "refresh_member E n ts existing j acc =
     (let email = unwrap_or [] (get_str (Some j) ''email'');
          role = unwrap_or ''worker'' (get_str (Some j) ''role'');
          display_name = unwrap_or email (get_str (Some j) ''display_name'') in
      if role \<notin> set KNOWN_ROLES then throwE (unknown_role role [])
      else if email = [] then returnE acc
      else bindE (case existing email of
             Some (tok, salt) \<Rightarrow> returnE (tok, salt, acc)
           | None \<Rightarrow> bindE generate_board_token (\<lambda>tok. returnE (tok, None, acc @ [(email, tok)])))
        (\<lambda>(tok, salt, acc').
          thenE (add_member E \<lparr>mb_email = email, mb_role = role, mb_display_name = display_name,
                   mb_board_id = nf_board_id n, mb_board_token = Some tok,
                   mb_board_token_salt = salt, mb_joined_at = Some ts, mb_domains = None,
                   mb_capability_snapshot = None\<rparr>)
            (returnE acc')))"

fun refresh_members ::
    "ext \<Rightarrow> notifier \<Rightarrow> string \<Rightarrow> (string \<rightharpoonup> string \<times> string option) \<Rightarrow> json list \<Rightarrow>
     (string \<times> string) list \<Rightarrow> (string \<times> string) list bm" where
  "refresh_members E n ts existing [] acc = returnE acc"
| "refresh_members E n ts existing (j # js) acc =
     bindE (refresh_member E n ts existing j acc) (refresh_members E n ts existing js)"

definition perm_entry :: "json \<Rightarrow> (string \<times> string list) option" where
  "perm_entry j = Option.bind (jget j ''role'') (\<lambda>r. Option.bind (as_str r) (\<lambda>role.
     Option.bind (jget j ''verbs'') (\<lambda>v. Option.bind (as_array v) (\<lambda>verbs.
       Some (role, filter_map as_str verbs)))))"

definition check_overrides :: "(string \<times> string list) list \<Rightarrow> unit bm" where
  "check_overrides perms = forE (\<lambda>(role, verbs).
     thenE (requireE (role \<in> set KNOWN_ROLES) (unknown_role role '' in role_permissions''))
       (forE (\<lambda>verb. requireE (verb \<in> set KNOWN_VERBS)
          (BadRequest (''unknown verb '' @ quoted verb @ '' for role '' @ quoted role @ '' ''
             @ em_dash @ '' known verbs: '' @ join '', '' KNOWN_VERBS))) verbs)) perms"

definition override_permissions :: "a2a_command \<Rightarrow> unit bm" where
  "override_permissions cmd = (case get_arr (cm_params cmd) ''role_permissions'' of
     None \<Rightarrow> returnE ()
   | Some permissions \<Rightarrow> let perms = filter_map perm_entry permissions in
       thenE (check_overrides perms) (insert_role_permissions perms))"

definition existing_creds :: "member list \<Rightarrow> string \<rightharpoonup> string \<times> string option" where
  "existing_creds members = map_of (rev (filter_map
     (\<lambda>m. map_option (\<lambda>tok. (mb_email m, (tok, mb_board_token_salt m))) (mb_board_token m)) members))"

definition refresh_notify :: "notifier \<Rightarrow> (string \<times> string) list \<Rightarrow> unit bm" where
  "refresh_notify n new_members = bindE (list_members (nf_board_id n)) (\<lambda>all_members.
     let full_csv = join '','' (map mb_email all_members) in
     thenE (forE (\<lambda>(email, tok). notify_invite n email tok (nf_board_email n)
                    (nf_board_short_id n) full_csv) new_members)
       (notify_all n (nf_board_id n)
          (''member list updated ('' @ show_nat (length all_members) @ '' members)'')))"

definition handle_refresh :: "ext \<Rightarrow> notifier \<Rightarrow> a2a_command \<Rightarrow> string \<Rightarrow> command_response bm" where
  "handle_refresh E n cmd sender = (let board_id = nf_board_id n in bindE now (\<lambda>ts.
     bindE (get_member board_id sender) (\<lambda>sm.
     if \<not> (case sm of Some m \<Rightarrow> mb_role m = ''owner'' | None \<Rightarrow> False)
     then throwE (Forbidden ''only human can refresh board'')
     else bindE (tryE (get_board board_id)) (\<lambda>found.
       case found of
         Inl _ \<Rightarrow> throwE (NotFound (''board '' @ board_id @ '' not found '' @ em_dash
                   @ '' refresh requires an existing board (use [A2A] new to create)''))
       | Inr b \<Rightarrow>
         (let goal = (case param cmd ''description'' of Some d \<Rightarrow> Some d | None \<Rightarrow> bd_goal b) in
          thenE (update_board (b\<lparr>bd_goal := goal, bd_status := BActive\<rparr>))
          (case get_arr (cm_params cmd) ''members'' of
             None \<Rightarrow> throwE (BadRequest ''members array required'')
           | Some members_arr \<Rightarrow>
               bindE (list_members board_id) (\<lambda>old.
               bindE (refresh_members E n ts (existing_creds old) members_arr []) (\<lambda>new_members.
               bindE (list_members board_id) (\<lambda>all_members.
               thenE (refresh_whitelist (map mb_email all_members))
               (thenE seed_default_role_permissions
               (thenE (override_permissions cmd)
               (thenE (refresh_notify n new_members)
                 (returnE (ok_response None))))))))))))))"

text \<open>The body of the task loop of \<open>handle_reopen\<close>.\<close>

definition reopen_one :: "string list \<Rightarrow> task \<Rightarrow> unit bm" where
  "reopen_one reopened task =
     (if tk_status task = Done
      then bindE now (\<lambda>ts. update_task (task\<lparr>tk_status := Running, tk_updated_at := ts\<rparr>))
      else if tk_status task = Ready \<and> list_ex (\<lambda>p. p \<in> set reopened) (tk_parent_ids task)
      then bindE now (\<lambda>ts. update_task (task\<lparr>tk_status := Todo, tk_updated_at := ts\<rparr>))
      else returnE ())"

definition handle_reopen :: "a2a_command \<Rightarrow> string \<Rightarrow> command_response bm" where
  "handle_reopen cmd sender =
     (case param cmd ''board_id'' of
        None \<Rightarrow> throwE (BadRequest ''board_id required'')
      | Some board_id \<Rightarrow> thenE (require_role board_id sender ''reopen'')
          (bindE (get_board board_id) (\<lambda>b.
            if bd_status b \<noteq> BAwaitingOwner
            then throwE (BadRequest ''board is not awaiting owner review'')
            else bindE (list_tasks board_id None None) (\<lambda>tasks.
              let reopened = map tk_short_id (filter (\<lambda>k. tk_status k = Done) tasks) in
              thenE (forE (reopen_one reopened) tasks)
              (thenE (update_board (b\<lparr>bd_status := BActive, bd_plan_version := None,
                                      bd_criteria_version := None\<rparr>))
                (returnE (ok_response None)))))))"

text \<open>\<open>resolve_task_id(..).ok().and_then(|full| get_task(.., &full).ok())\<close>.\<close>

definition arbitrate_task :: "string \<Rightarrow> task option bm" where
  "arbitrate_task task_id =
     (if task_id = [] then returnE None
      else bindE (tryE (resolve_task_id task_id)) (\<lambda>r.
        case r of Inl _ \<Rightarrow> returnE None
        | Inr full \<Rightarrow> bindE (tryE (get_task full)) (\<lambda>g.
            returnE (case g of Inl _ \<Rightarrow> None | Inr k \<Rightarrow> Some k))))"

definition handle_arbitrate :: "notifier \<Rightarrow> a2a_command \<Rightarrow> string \<Rightarrow> command_response bm" where
  "handle_arbitrate n cmd sender =
     bindE (arbitrate_task (unwrap_or [] (cm_task_id cmd))) (\<lambda>task.
     let board_id = (case task of None \<Rightarrow> [] | Some k \<Rightarrow> tk_board_id k) in
     bindE (get_member board_id sender) (\<lambda>m.
     let requester_role = (case m of None \<Rightarrow> [] | Some x \<Rightarrow> mb_role x) in
     if requester_role \<noteq> ''orchestrator'' \<and> requester_role \<noteq> ''verifier''
     then throwE (Forbidden ''only orchestrator or verifier can arbitrate'')
     else thenE (notify_arbitrate n task sender [] (unwrap_or [] (param cmd ''dispute'')))
            (returnE (ok_response None))))"

section \<open>Dispatch\<close>

definition TASK_SCOPED :: "string list" where
  "TASK_SCOPED = [''complete'', ''continue'', ''approve'', ''verify'', ''reject'', ''block'',
     ''unblock'', ''heartbeat'', ''comment'', ''cancel'', ''assign'', ''reassign'', ''edit'',
     ''deadline'', ''reopen'', ''output'', ''show'']"

definition resolve_command :: "a2a_command \<Rightarrow> a2a_command bm" where
  "resolve_command cmd = (case cm_task_id cmd of
     None \<Rightarrow> returnE cmd
   | Some raw \<Rightarrow>
       (if raw \<noteq> [] \<and> cm_verb cmd \<in> set TASK_SCOPED
        then bindE (resolve_task_id raw) (\<lambda>full. returnE (cmd\<lparr>cm_task_id := Some full\<rparr>))
        else returnE cmd))"

definition dispatch :: "ext \<Rightarrow> notifier \<Rightarrow> a2a_command \<Rightarrow> string \<Rightarrow> command_response bm" where
  "dispatch E n cmd sender =
     (let v = cm_verb cmd in
      if v = ''complete'' then handle_complete n cmd sender
      else if v = ''continue'' then handle_continue n cmd sender
      else if v = ''approve'' then handle_approve n cmd sender
      else if v = ''review'' then handle_review n cmd sender
      else if v = ''verify'' then handle_approve n cmd sender
      else if v = ''reject'' then handle_reject n cmd sender
      else if v = ''block'' then handle_block n cmd sender
      else if v = ''unblock'' then handle_unblock n cmd sender
      else if v = ''heartbeat'' then handle_heartbeat cmd sender
      else if v = ''comment'' then handle_comment n cmd sender
      else if v = ''cancel'' then handle_cancel n cmd sender
      else if v = ''assign'' then handle_reassign n cmd sender
      else if v = ''reassign'' then handle_reassign n cmd sender
      else if v = ''edit'' then handle_edit cmd sender
      else if v = ''deadline'' then handle_deadline E cmd sender
      else if v = ''reopen'' then handle_reopen cmd sender
      else if v = ''output'' then handle_output n cmd sender
      else if v = ''show'' then handle_show cmd sender
      else if v = ''list'' then handle_list cmd sender
      else if v = ''members'' then handle_members cmd sender
      else if v = ''roles'' then handle_roles cmd sender
      else if v = ''status'' then handle_board_status cmd sender
      else if v = ''gateway-info'' then handle_gateway_info cmd
      else if v = ''create'' then handle_create E n cmd sender
      else if v = ''refresh'' then handle_refresh E n cmd sender
      else if v = ''arbitrate'' then handle_arbitrate n cmd sender
      else returnE \<lparr>rs_status = ''error'', rs_task = None, rs_data = None,
             rs_error = Some (''unknown verb: '' @ v)\<rparr>)"

definition execute_command :: "ext \<Rightarrow> notifier \<Rightarrow> a2a_command \<Rightarrow> string \<Rightarrow> command_response bm" where
  "execute_command E n cmd sender =
     bindE (resolve_command cmd) (\<lambda>cmd'. dispatch E n cmd' sender)"

end
