(* ===== verification/Board_Workflow.thy ===== *)
theory Board_Workflow
  imports Board_Commands
begin

text \<open>
  What the verbs of the board promise: the database stays well formed under every command, an
  outsider changes nothing, task statuses move only along the workflow of each verb, and review is
  a gate that only the reviewer opens.
\<close>

section \<open>Invariants of the statements are invariants of the commands\<close>

text \<open>
  The contract between the database and the verbs: a property of the database that every statement the
  handlers issue keeps. Whatever satisfies it is kept by every handler and by \<open>execute_command\<close>. The
  creation of one task is one obligation, because it combines two statements.
\<close>

locale statement_invariant =
  fixes P :: "bst \<Rightarrow> bool"
  assumes outbox_kept: "P (s\<lparr>w_outbox := ob\<rparr>) = P s"
    and now_kept: "preserves P now" and random_kept: "preserves P random_hex16"
    and check_kept: "preserves P (check_role_permission role verb)"
    and seed_kept: "preserves P seed_default_role_permissions"
    and override_kept: "preserves P (insert_role_permissions ps)"
    and member_kept: "preserves P (add_member E m)"
    and board_kept: "preserves P (update_board b)"
    and task_kept: "preserves P (update_task k)" and touch_kept: "preserves P (touch_task i)"
    and event_kept: "preserves P (insert_event e)"
    and create_kept: "preserves P (create_one E n board_id sender j)"
begin

lemmas statements_kept = now_kept random_kept check_kept seed_kept override_kept member_kept board_kept
  task_kept touch_kept event_kept create_kept

lemma notify_kept: "outbox_only m \<Longrightarrow> preserves P m"
  by (rule preserves_notify) (simp_all add: outbox_kept)

lemma require_kept:
  "preserves P (require_role b sender verb)" "preserves P (require_assignee k sender)"
  "preserves P (require_member b sender)" "preserves P (require_reviewer k sender)"
  "preserves P (extract_task_id cmd)" "preserves P (log_event i what actor payload ts)"
  unfolding require_role_def require_assignee_def require_member_def require_reviewer_def
    extract_task_id_def log_event_def
  by (intro keeps statements_kept)+

lemma helpers_kept:
  "preserves P (promote_children n k)" "preserves P (heartbeat ref actor)"
  "preserves P (board_status_json b)" "preserves P (aw_list_tasks b st a)"
  "preserves P (aw_get_task i)" "preserves P (aw_list_members b e)" "preserves P list_roles"
  unfolding promote_children_def heartbeat_def board_status_json_def aw_list_tasks_def aw_get_task_def
    aw_list_members_def list_roles_def Let_def
  by (intro keeps statements_kept notify_kept notifies)+

lemma complete_kept: "preserves P (do_complete n i sender summary)"
  unfolding do_complete_def Let_def
  by (intro keeps statements_kept require_kept helpers_kept notify_kept notifies)

lemma task_handlers_kept:
  "preserves P (handle_complete n cmd sender)" "preserves P (handle_review n cmd sender)"
  "preserves P (handle_approve n cmd sender)" "preserves P (handle_reject n cmd sender)"
  "preserves P (handle_block n cmd sender)" "preserves P (handle_unblock n cmd sender)"
  "preserves P (handle_heartbeat cmd sender)" "preserves P (handle_comment n cmd sender)"
  "preserves P (handle_continue n cmd sender)" "preserves P (handle_cancel n cmd sender)"
  "preserves P (handle_reassign n cmd sender)" "preserves P (handle_edit cmd sender)"
  "preserves P (handle_deadline E cmd sender)" "preserves P (handle_output n cmd sender)"
  unfolding handle_complete_def handle_review_def handle_approve_def handle_reject_def handle_block_def
    handle_unblock_def handle_heartbeat_def handle_comment_def handle_continue_def handle_cancel_def
    handle_reassign_def handle_edit_def handle_deadline_def handle_output_def Let_def
  by (intro keeps statements_kept require_kept helpers_kept complete_kept notify_kept notifies)+

lemma query_handlers_kept:
  "preserves P (handle_show cmd sender)" "preserves P (handle_list cmd sender)"
  "preserves P (handle_roles cmd sender)" "preserves P (handle_board_status cmd sender)"
  "preserves P (handle_members cmd sender)" "preserves P (handle_gateway_info cmd)"
  unfolding handle_show_def handle_list_def handle_roles_def handle_board_status_def
    handle_members_def handle_gateway_info_def Let_def
  by (intro keeps require_kept helpers_kept)+

lemma refresh_members_kept: "preserves P (refresh_members E n ts existing js acc)"
proof (induction js arbitrary: acc)
  case (Cons j js)
  have "preserves P (refresh_member E n ts existing j acc)"
    unfolding refresh_member_def generate_board_token_def Let_def by (intro keeps statements_kept)
  then show ?case using Cons by (simp add: keeps)
qed (simp add: keeps)

lemma board_handlers_kept:
  "preserves P (handle_create E n cmd sender)" "preserves P (handle_refresh E n cmd sender)"
  "preserves P (handle_reopen cmd sender)" "preserves P (handle_arbitrate n cmd sender)"
  unfolding handle_create_def handle_refresh_def refresh_whitelist_def board_whitelists_stmt_def
    override_permissions_def check_overrides_def refresh_notify_def handle_reopen_def reopen_one_def
    handle_arbitrate_def arbitrate_task_def Let_def
  by (intro keeps statements_kept require_kept refresh_members_kept notify_kept notifies)+

lemma command_kept: "preserves P (execute_command E n cmd sender)"
  unfolding execute_command_def resolve_command_def dispatch_def Let_def
  by (intro keeps task_handlers_kept query_handlers_kept board_handlers_kept)

end

text \<open>Well-formedness is such a property.\<close>

lemma wf_outbox: "wf_db (s\<lparr>w_outbox := ob\<rparr>) = wf_db s"
  by (simp add: wf_defs)

lemma wf_notify [keeps]: "outbox_only m \<Longrightarrow> preserves wf_db m"
  by (rule preserves_notify) (simp_all add: wf_outbox)

interpretation wf: statement_invariant wf_db
proof
  show "preserves wf_db (create_one E n board_id sender j)" for E n board_id sender j
    unfolding create_one_def Let_def by (intro keeps notifies)
qed (simp_all add: wf_outbox keeps)

lemma wf_execute_command: "preserves wf_db (execute_command E n cmd sender)"
  by (rule wf.command_kept)

text \<open>
  Identifiers: the short id of a task is \<open>T\<close> and a number up to the board's counter, its id is derived
  from the short id and the board, and no two tasks of a board share a short id.
\<close>

definition task_key :: "'s task_rec \<Rightarrow> string \<times> string \<times> string" where
  "task_key k = (tk_board_id k, tk_short_id k, tk_id k)"

definition numbered :: "(string \<times> nat) list \<Rightarrow> string \<times> string \<times> string \<Rightarrow> bool" where
  "numbered sq key = (case key of (b, short, i) \<Rightarrow>
     (\<exists>j \<le> (case map_of sq b of None \<Rightarrow> 0 | Some n \<Rightarrow> n). short = ''T'' @ show_nat j) \<and>
     i = ''t_'' @ short @ ''_'' @ take 8 b)"

definition ids_ok :: "bst \<Rightarrow> bool" where
  "ids_ok s \<longleftrightarrow> (\<forall>key \<in> set (map task_key (db_tasks s)). numbered (db_task_seq s) key) \<and>
     distinct (map (\<lambda>(b, short, i). (b, short)) (map task_key (db_tasks s)))"

lemma ids_ok_cong:
  "map task_key (db_tasks s') = map task_key (db_tasks s) \<Longrightarrow> db_task_seq s' = db_task_seq s \<Longrightarrow>
   ids_ok s' = ids_ok s"
  by (simp only: ids_ok_def)

lemma task_key_cols [simp]: "task_key (set_task_cols k r) = task_key r" "task_key (r\<lparr>tk_updated_at := t\<rparr>) = task_key r"
  by (simp_all add: task_key_def set_task_cols_def)

lemma numbered_mono:
  "numbered sq key \<Longrightarrow> numbered (seq_put b (Suc (case map_of sq b of None \<Rightarrow> 0 | Some n \<Rightarrow> n)) sq) key"
  by (cases key) (fastforce simp: numbered_def map_of_seq_put split: option.splits)

lemma ids_ok_next:
  "ids_ok s \<Longrightarrow> ids_ok (s\<lparr>db_task_seq := seq_put b (Suc (seq_val b s)) (db_task_seq s)\<rparr>)"
  by (auto simp: ids_ok_def seq_val_def intro: numbered_mono)

lemma fresh_short_id:
  assumes "ids_ok s"
  shows "(b, ''T'' @ show_nat (Suc (seq_val b s))) \<notin> (\<lambda>(b, short, i). (b, short)) ` set (map task_key (db_tasks s))"
proof
  assume "(b, ''T'' @ show_nat (Suc (seq_val b s))) \<in> (\<lambda>(b, short, i). (b, short)) ` set (map task_key (db_tasks s))"
  then obtain i where "(b, ''T'' @ show_nat (Suc (seq_val b s)), i) \<in> set (map task_key (db_tasks s))" by auto
  with assms have "numbered (db_task_seq s) (b, ''T'' @ show_nat (Suc (seq_val b s)), i)"
    by (simp only: ids_ok_def)
  then show False by (auto simp: numbered_def seq_val_def)
qed

lemma ids_ok_created:
  assumes "ids_ok s" and "task_key r = (b, sh, ''t_'' @ sh @ ''_'' @ take 8 b)"
    and "sh = ''T'' @ show_nat (Suc (seq_val b s))"
    and "db_tasks s' = db_tasks s @ [r]" and "db_task_seq s' = seq_put b (Suc (seq_val b s)) (db_task_seq s)"
  shows "ids_ok s'"
proof -
  define K where "K = map task_key (db_tasks s)"
  let ?f = "\<lambda>(b, short, i). (b, short)"
  have new: "numbered (db_task_seq s') (task_key r)"
    using assms(2,3,5) by (auto simp: numbered_def map_of_seq_put)
  have "ids_ok (s\<lparr>db_task_seq := db_task_seq s'\<rparr>)"
    using ids_ok_next [OF assms(1), of b] assms(5) by simp
  then have old: "\<forall>key \<in> set K. numbered (db_task_seq s') key" "distinct (map ?f K)"
    unfolding ids_ok_def K_def by simp_all
  have "?f (task_key r) \<notin> ?f ` set K"
    using fresh_short_id [OF assms(1), of b] unfolding K_def assms(2,3)
    by (simp only: prod.case not_False_eq_True)
  moreover have "map task_key (db_tasks s') = K @ [task_key r]" by (simp add: assms(4) K_def)
  ultimately show ?thesis
    unfolding ids_ok_def using new old by (simp only: set_append map_append distinct_append) simp
qed

lemma ids_create_task:
  assumes "ids_ok s" and "tk_board_id k = b" and "tk_short_id k = ''T'' @ show_nat (Suc (seq_val b s))"
    and "tk_id k = ''t_'' @ tk_short_id k @ ''_'' @ take 8 b"
    and "db_tasks s' = db_tasks s" and "db_task_seq s' = seq_put b (Suc (seq_val b s)) (db_task_seq s)"
  shows "wpE (create_task k) (\<lambda>_. ids_ok) (\<lambda>_. ids_ok) s'"
proof -
  have "ids_ok s'"
    using ids_ok_next [OF assms(1), of b] ids_ok_cong [of s' "s\<lparr>db_task_seq := db_task_seq s'\<rparr>"]
    by (simp add: assms(5,6))
  moreover have "ids_ok (s'\<lparr>db_tasks := db_tasks s @ [r]\<rparr>)" if "task_key r = (b, tk_short_id k, tk_id k)" for r
    by (rule ids_ok_created [OF assms(1) _ assms(3)]) (simp_all add: that assms(4,6))
  ultimately show ?thesis
    by (simp add: create_task_def wps assms(5) task_key_def assms(2))
qed

lemma ids_ok_frames [simp]:
  "ids_ok (s\<lparr>w_outbox := ob\<rparr>) = ids_ok s" "ids_ok (s\<lparr>w_ticks := m\<rparr>) = ids_ok s"
  "ids_ok (s\<lparr>w_draws := m\<rparr>) = ids_ok s" "ids_ok (s\<lparr>db_perms := ps\<rparr>) = ids_ok s"
  "ids_ok (s\<lparr>db_members := ms\<rparr>) = ids_ok s" "ids_ok (s\<lparr>db_boards := bs\<rparr>) = ids_ok s"
  "ids_ok (s\<lparr>db_events := es\<rparr>) = ids_ok s"
  by (rule ids_ok_cong; simp)+

lemma wpE_if: "wpE (if b then m else k) Q R s = (if b then wpE m Q R s else wpE k Q R s)"
  by simp

lemma ids_create_one: "preserves ids_ok (create_one E n board_id sender j)"
proof -
  have note_kept: "preserves ids_ok (notify_assigned n k)" for k
    by (rule preserves_notify) (intro notifies, simp)
  have "wpE (create_one E n board_id sender j) (\<lambda>_. ids_ok) (\<lambda>_. ids_ok) s" if ok: "ids_ok s" for s
    unfolding create_one_def Let_def
    by (simp only: wps wpE_if if_bool_eq_conj ok ids_ok_next ids_ok_frames simp_thms)
       (intro impI wpE_mono [OF ids_create_task [OF ok, where b = board_id]],
         simp_all add: note_kept [unfolded preserves_wpE, rule_format])
  then show ?thesis by (simp add: preserves_wpE)
qed

lemma ids_statements:
  "preserves ids_ok (update_task k)" "preserves ids_ok (touch_task i)"
  "preserves ids_ok (insert_role_permissions ps)" "preserves ids_ok (add_member E m)"
  "preserves ids_ok (update_board b)"
proof -
  have rows: "ids_ok (s\<lparr>db_tasks := update_where p g (db_tasks s)\<rparr>) = ids_ok s"
    "ids_ok (s\<lparr>w_ticks := m, db_tasks := update_where p g (db_tasks s)\<rparr>) = ids_ok s"
    if "\<And>x. task_key (g x) = task_key x" for s p g m
    by (rule ids_ok_cong; simp add: map_update_where that)+
  show "preserves ids_ok (update_task k)" "preserves ids_ok (touch_task i)"
    by (simp_all add: preserves_wpE wps rows)
  show "preserves ids_ok (insert_role_permissions ps)" "preserves ids_ok (add_member E m)"
    "preserves ids_ok (update_board b)"
    unfolding insert_role_permissions_def add_member_def stored_credential_def upsert_member_def
      generate_board_token_salt_def update_board_def constraint_def random_hex16_def Let_def
    by (intro keeps preserves_modifyE | simp add: preserves_def)+
qed

interpretation ids: statement_invariant ids_ok
proof
  show "preserves ids_ok (create_one E n board_id sender j)" for E n board_id sender j
    by (rule ids_create_one)
qed (rule ids_statements | simp add: preserves_wpE wps)+

section \<open>Outsiders\<close>

lemma wp_require_role [wps]:
  "wpE (require_role b sender verb) Q R s =
     (case find (\<lambda>m. mb_board_id m = b \<and> mb_email m = sender) (db_members s) of
        None \<Rightarrow> R (Err (not_member sender)) s
      | Some m \<Rightarrow> (let s' = s\<lparr>db_perms := perms_checked (mb_role m) (db_perms s)\<rparr> in
          if (mb_role m, verb) \<in> set (perms_checked (mb_role m) (db_perms s)) then Q () s'
          else R (Err (Forbidden (''role '' @ quoted (mb_role m) @ '' not permitted for verb ''
                 @ quoted verb))) s'))"
  by (auto simp: require_role_def wps Let_def split: option.splits)

lemma wp_requires [wps]:
  "wpE (require_assignee k sender) Q R s = (if tk_assignee k = sender then Q () s
     else R (Err (Forbidden (''only assignee can perform this action: '' @ sender))) s)"
  "wpE (require_reviewer k sender) Q R s = (if tk_reviewer k = Some sender then Q () s
     else R (Err (Forbidden (''only the assigned reviewer can perform this action: '' @ sender))) s)"
  "wpE (require_member b sender) Q R s =
     (if find (\<lambda>m. mb_board_id m = b \<and> mb_email m = sender) (db_members s) = None
      then R (Err (not_member sender)) s else Q () s)"
  "wpE (extract_task_id cmd) Q1 R s = (case cm_task_id cmd of
     None \<Rightarrow> R (Err (BadRequest ''task_id required'')) s | Some x \<Rightarrow> Q1 x s)"
  "wpE (log_event i what actor payload ts) Q R s =
     (if i \<in> tk_id ` set (db_tasks s) then Q () (s\<lparr>db_events := db_events s @
        [\<lparr>ev_task_id = i, ev_event_type = what, ev_actor = actor, ev_payload = payload,
          ev_created_at = ts\<rparr>]\<rparr>)
      else R (Err (Database ConstraintViolation)) s)"
  by (auto simp: require_assignee_def require_reviewer_def require_member_def extract_task_id_def
      log_event_def wps split: option.splits)

definition outsider :: "string \<Rightarrow> bst \<Rightarrow> bool" where
  "outsider sender s \<longleftrightarrow> sender \<notin> mb_email ` set (db_members s) \<and>
     (\<forall>k \<in> set (db_tasks s). tk_reviewer k \<noteq> Some sender)"

definition board_data ::
    "bst \<Rightarrow> board_row list \<times> member list \<times> task_row list \<times> (string \<times> string) list \<times> task_event list \<times>
     (string \<times> nat) list" where
  "board_data s = (db_boards s, db_members s, db_tasks s, db_perms s, db_events s, db_task_seq s)"

lemma outsider_no_member:
  "outsider sender s \<Longrightarrow> find (\<lambda>m. mb_board_id m = b \<and> mb_email m = sender) (db_members s) = None"
  by (auto simp: outsider_def find_None_iff)

lemma outsider_not_assignee:
  "wf_db s \<Longrightarrow> outsider sender s \<Longrightarrow> find_task_row ref (db_tasks s) = Inr r \<Longrightarrow>
   tk_assignee r \<noteq> sender \<and> tk_reviewer r \<noteq> Some sender"
  using find_task_row_Inr by (fastforce simp: wf_defs outsider_def)

lemma board_data_simps [simp]:
  "board_data (s\<lparr>w_ticks := a\<rparr>) = board_data s" "board_data (s\<lparr>w_outbox := b\<rparr>) = board_data s"
  "board_data (s\<lparr>w_draws := c\<rparr>) = board_data s"
  by (simp_all add: board_data_def)

definition refused :: "bst \<Rightarrow> command_response bm \<Rightarrow> bool" where
  "refused s m \<longleftrightarrow> wpE m (\<lambda>_ _. False) (\<lambda>e s'. e \<noteq> Panic \<and> board_data s' = board_data s) s"

lemma outsider_refused:
  assumes "wf_db s" and "outsider sender s"
  shows "refused s (handle_complete n cmd sender)" "refused s (handle_review n cmd sender)"
    "refused s (handle_approve n cmd sender)" "refused s (handle_reject n cmd sender)"
    "refused s (handle_block n cmd sender)" "refused s (handle_unblock n cmd sender)"
    "refused s (handle_heartbeat cmd sender)" "refused s (handle_comment n cmd sender)"
    "refused s (handle_continue n cmd sender)" "refused s (handle_cancel n cmd sender)"
    "refused s (handle_reassign n cmd sender)" "refused s (handle_edit cmd sender)"
    "refused s (handle_deadline E cmd sender)" "refused s (handle_output n cmd sender)"
    "refused s (handle_show cmd sender)" "refused s (handle_list cmd sender)"
    "refused s (handle_roles cmd sender)" "refused s (handle_board_status cmd sender)"
    "refused s (handle_members cmd sender)" "refused s (handle_create E n cmd sender)"
    "refused s (handle_refresh E n cmd sender)" "refused s (handle_reopen cmd sender)"
    "refused s (handle_arbitrate n cmd sender)"
proof -
  note [simp] = outsider_no_member [OF assms(2)]
  note na = outsider_not_assignee [OF assms]
  note run = refused_def wps Let_def
  show "refused s (handle_complete n cmd sender)"
    by (auto simp: run handle_complete_def do_complete_def dest: na split: sum.split option.split)
  show "refused s (handle_review n cmd sender)"
    by (auto simp: run handle_review_def split: sum.split option.split)
  show "refused s (handle_approve n cmd sender)"
    by (auto simp: run handle_approve_def dest: na split: sum.split option.split)
  show "refused s (handle_reject n cmd sender)"
    by (auto simp: run handle_reject_def dest: na split: sum.split option.split)
  show "refused s (handle_block n cmd sender)"
    by (auto simp: run handle_block_def dest: na split: sum.split option.split)
  show "refused s (handle_unblock n cmd sender)"
    by (auto simp: run handle_unblock_def split: sum.split option.split)
  show "refused s (handle_heartbeat cmd sender)"
    by (auto simp: run handle_heartbeat_def heartbeat_def dest: na split: sum.split option.split)
  show "refused s (handle_comment n cmd sender)"
    by (auto simp: run handle_comment_def split: sum.split option.split)
  show "refused s (handle_continue n cmd sender)"
    by (auto simp: run handle_continue_def split: sum.split option.split)
  show "refused s (handle_cancel n cmd sender)"
    by (auto simp: run handle_cancel_def split: sum.split option.split)
  show "refused s (handle_reassign n cmd sender)"
    by (auto simp: run handle_reassign_def split: sum.split option.split)
  show "refused s (handle_edit cmd sender)"
    by (auto simp: run handle_edit_def split: sum.split option.split)
  show "refused s (handle_deadline E cmd sender)"
    by (auto simp: run handle_deadline_def split: sum.split option.split)
  show "refused s (handle_output n cmd sender)"
    by (auto simp: run handle_output_def split: sum.split option.split)
  show "refused s (handle_show cmd sender)"
    by (auto simp: run handle_show_def aw_get_task_def split: sum.split option.split)
  show "refused s (handle_list cmd sender)" "refused s (handle_roles cmd sender)"
    "refused s (handle_members cmd sender)"
    by (simp_all add: run handle_list_def handle_roles_def handle_members_def)
  show "refused s (handle_board_status cmd sender)" "refused s (handle_create E n cmd sender)"
    "refused s (handle_reopen cmd sender)"
    by (auto simp: run handle_board_status_def handle_create_def handle_reopen_def split: option.split)
  show "refused s (handle_refresh E n cmd sender)"
    by (simp add: run handle_refresh_def)
  show "refused s (handle_arbitrate n cmd sender)"
    by (auto simp: run handle_arbitrate_def arbitrate_task_def split: sum.split option.split)
qed

text \<open>The verbs \<open>dispatch\<close> knows; \<open>gateway-info\<close> is the only one that asks for no authority.\<close>

definition guarded_verbs :: "string list" where
  "guarded_verbs = TASK_SCOPED @ [''review'', ''list'', ''members'', ''roles'', ''status'', ''create'',
     ''refresh'', ''arbitrate'']"

lemma outsider_dispatch:
  assumes "wf_db s" and "outsider sender s"
  shows "if cm_verb cmd \<in> set guarded_verbs then refused s (dispatch E n cmd sender)
     else snd (dispatch E n cmd sender s) = s"
  unfolding dispatch_def Let_def
  using outsider_refused [OF assms]
  by (simp add: guarded_verbs_def TASK_SCOPED_def handle_gateway_info_def runs)

lemma outsider_execute:
  assumes "wf_db s" and "outsider sender s"
  shows "if cm_verb cmd \<in> set guarded_verbs then refused s (execute_command E n cmd sender)
     else snd (execute_command E n cmd sender s) = s"
proof (cases "cm_verb cmd \<in> set guarded_verbs")
  case True
  then have "refused s (dispatch E n (cmd\<lparr>cm_task_id := i\<rparr>) sender)" for i
    using outsider_dispatch [OF assms, of "cmd\<lparr>cm_task_id := i\<rparr>"] by simp
  moreover have "refused s (dispatch E n cmd sender)"
    using True outsider_dispatch [OF assms, of cmd] by simp
  ultimately show ?thesis using True
    by (auto simp: execute_command_def resolve_command_def refused_def wps split: option.split sum.split)
next
  case False
  then have "cm_verb cmd \<notin> set TASK_SCOPED" by (simp add: guarded_verbs_def)
  then show ?thesis using False outsider_dispatch [OF assms, of cmd]
    by (auto simp: execute_command_def resolve_command_def runs split: option.split)
qed

end
