(* ===== verification/Board_Tracks.thy ===== *)
theory Board_Tracks
  imports Board_Workflow
begin

text \<open>
  How task rows move under the verbs. \<open>task_step verb sender\<close> relates a task before a command to the
  same task after it: which columns a verb may write, along which edges the status moves, and who may
  take a task to \<open>Done\<close>. \<open>tracks\<close> lifts it to the table: every old row steps, rows are only added at
  the end and only by \<open>create\<close>.
\<close>

section \<open>The workflow of a task\<close>

definition flow :: "string \<Rightarrow> task_status \<Rightarrow> task_status \<Rightarrow> bool" where
  "flow v x y \<longleftrightarrow> x = y
     \<or> v = ''complete'' \<and> (y = Reviewing \<or> y = Done \<or> (x = Todo \<and> y = Ready))
     \<or> v \<in> {''approve'', ''verify''} \<and> (x = Reviewing \<and> y = Done \<or> x = Todo \<and> y = Ready)
     \<or> v = ''review'' \<and> y = Reviewing
     \<or> v = ''reject'' \<and> x = Reviewing \<and> y = Running
     \<or> v = ''block'' \<and> y = Blocked
     \<or> v = ''unblock'' \<and> y = Running
     \<or> v = ''heartbeat'' \<and> x = Ready \<and> y = Running
     \<or> v = ''cancel'' \<and> x = Blocked \<and> y = Cancelled
     \<or> v = ''reopen'' \<and> (x = Done \<and> y = Running \<or> x = Ready \<and> y = Todo)"

definition may_finish :: "string \<Rightarrow> string \<Rightarrow> task \<Rightarrow> bool" where
  "may_finish v sender a \<longleftrightarrow>
     (case tk_reviewer a of
        None \<Rightarrow> v = ''complete'' \<and> tk_assignee a = sender
      | Some rv \<Rightarrow> v \<in> {''approve'', ''verify''} \<and> rv = sender \<and> tk_status a = Reviewing)"

definition same_identity :: "'s task_rec \<Rightarrow> 's task_rec \<Rightarrow> bool" where
  "same_identity a b \<longleftrightarrow> tk_id b = tk_id a \<and> tk_short_id b = tk_short_id a \<and>
     tk_board_id b = tk_board_id a \<and> tk_parent_ids b = tk_parent_ids a \<and> tk_tags b = tk_tags a \<and>
     tk_metadata b = tk_metadata a \<and> tk_created_by b = tk_created_by a \<and>
     tk_created_at b = tk_created_at a"

definition task_step :: "string \<Rightarrow> string \<Rightarrow> task \<Rightarrow> task \<Rightarrow> bool" where
  "task_step v sender a b \<longleftrightarrow> same_identity a b \<and>
     flow v (tk_status a) (tk_status b) \<and>
     (tk_status b = Done \<and> tk_status a \<noteq> Done \<longrightarrow> may_finish v sender a) \<and>
     (tk_assignee b \<noteq> tk_assignee a \<longrightarrow> v \<in> {''assign'', ''reassign''}) \<and>
     (tk_reviewer b \<noteq> tk_reviewer a \<longrightarrow> v = ''review'') \<and>
     (tk_title b \<noteq> tk_title a \<or> tk_body b \<noteq> tk_body a \<longrightarrow> v = ''edit'') \<and>
     (tk_summary b \<noteq> tk_summary a \<longrightarrow> v \<in> {''complete'', ''continue''} \<and> tk_assignee a = sender) \<and>
     (tk_deadline b \<noteq> tk_deadline a \<longrightarrow> v = ''deadline'') \<and>
     (tk_completed_at b \<noteq> tk_completed_at a \<longrightarrow> v \<in> {''complete'', ''approve'', ''verify''} \<and>
        tk_status b = Done) \<and>
     (tk_cancelled_at b \<noteq> tk_cancelled_at a \<longrightarrow> v = ''cancel'' \<and> tk_status b = Cancelled)"

definition row_step :: "string \<Rightarrow> string \<Rightarrow> task_row \<Rightarrow> task_row \<Rightarrow> bool" where
  "row_step v sender r r' = task_step v sender (task_from_row r) (task_from_row r')"

definition freshly_created :: "string \<Rightarrow> task_row \<Rightarrow> bool" where
  "freshly_created sender k \<longleftrightarrow>
     tk_status k = (if tk_assignee k = [] then ''triage'' else ''ready'') \<and> tk_created_by k = sender \<and> tk_summary k = [] \<and>
     tk_completed_at k = None \<and> tk_cancelled_at k = None \<and> tk_deadline k = None"

definition tracks :: "string \<Rightarrow> string \<Rightarrow> task_row list \<Rightarrow> task_row list \<Rightarrow> bool" where
  "tracks v sender rows rows' \<longleftrightarrow> (\<exists>olds news. rows' = olds @ news \<and>
     list_all2 (row_step v sender) rows olds \<and> list_all (freshly_created sender) news \<and>
     (news \<noteq> [] \<longrightarrow> v = ''create''))"

lemma row_step_refl [simp]: "row_step v sender r r"
  by (simp add: row_step_def task_step_def same_identity_def flow_def)

lemma tracks_refl [simp]: "tracks v sender rows rows"
  unfolding tracks_def by (rule exI [of _ rows]) (simp add: list.rel_refl)

lemma tracks_map:
  "(\<And>r. r \<in> set rows \<Longrightarrow> row_step v sender r (f r)) \<Longrightarrow> tracks v sender rows (map f rows)"
  unfolding tracks_def by (rule exI [of _ "map f rows"]) (simp add: list_all2_conv_all_nth)

lemma tracks_update:
  assumes "\<And>r. r \<in> set rows \<Longrightarrow> p r \<Longrightarrow> row_step v sender r (f r)"
  shows "tracks v sender rows (update_where p f rows)"
  using assms unfolding update_where_def by (intro tracks_map) auto

lemma parse_show_stable [simp]:
  "parse_task_status (show_task_status (parse_task_status x)) = parse_task_status x"
  by (simp add: parse_task_status_def)

lemma parse_show_task_status:
  "st \<notin> {Triage, Archived} \<Longrightarrow> parse_task_status (show_task_status st) = st"
  by (cases st) (simp_all add: parse_task_status_def)

lemma parse_show_written [simp]:
  "parse_task_status (show_task_status Todo) = Todo" "parse_task_status (show_task_status Ready) = Ready"
  "parse_task_status (show_task_status Running) = Running"
  "parse_task_status (show_task_status Reviewing) = Reviewing"
  "parse_task_status (show_task_status Done) = Done"
  "parse_task_status (show_task_status Blocked) = Blocked"
  "parse_task_status (show_task_status Cancelled) = Cancelled"
  by (simp_all add: parse_task_status_def)

declare show_task_status.simps [simp del]

text \<open>
  A handler reads a task by reference and writes it back under its primary key: the row it read is
  the only one of that key, so the write touches exactly that row.
\<close>

lemma found_unique:
  assumes "wf_db s" and "find_task_row ref (db_tasks s) = Inr r" and "x \<in> set (db_tasks s)"
    and "tk_id x = tk_id r"
  shows "x = r"
proof -
  have "r \<in> set (db_tasks s)" using assms(2) find_task_row_Inr by blast
  with assms show ?thesis by (auto simp: wf_defs distinct_map inj_on_def)
qed

lemma found_assignee:
  "wf_db s \<Longrightarrow> find_task_row ref (db_tasks s) = Inr r \<Longrightarrow>
   tk_assignee r \<in> mb_email ` set (db_members s) \<and> tk_id r \<in> tk_id ` set (db_tasks s)"
  using find_task_row_Inr by (fastforce simp: wf_defs)

lemma tracks_write:
  assumes "wf_db s" and "find_task_row ref (db_tasks s) = Inr r"
    and "task_step v sender (task_from_row r) (task_from_row (set_task_cols k r))"
  shows "tracks v sender (db_tasks s)
    (update_where (\<lambda>x. tk_id x = tk_id r) (set_task_cols k) (db_tasks s))"
  using assms by (intro tracks_update) (auto simp: row_step_def dest!: found_unique [OF assms(1,2)])


section \<open>Single-task verbs\<close>

definition follows :: "string \<Rightarrow> string \<Rightarrow> bst \<Rightarrow> command_response bm \<Rightarrow> bool" where
  "follows v sender s m \<longleftrightarrow> wpE m (\<lambda>_ s'. tracks v sender (db_tasks s) (db_tasks s'))
     (\<lambda>_ s'. tracks v sender (db_tasks s) (db_tasks s')) s"

lemmas step_defs = task_step_def same_identity_def flow_def may_finish_def set_task_cols_def

lemma follows_edits:
  assumes "wf_db s"
  shows "follows ''review'' sender s (handle_review n cmd sender)"
    "follows ''reject'' sender s (handle_reject n cmd sender)"
    "follows ''block'' sender s (handle_block n cmd sender)"
    "follows ''unblock'' sender s (handle_unblock n cmd sender)"
    "follows ''comment'' sender s (handle_comment n cmd sender)"
    "follows ''continue'' sender s (handle_continue n cmd sender)"
    "follows ''cancel'' sender s (handle_cancel n cmd sender)"
    "v \<in> {''assign'', ''reassign''} \<Longrightarrow> follows v sender s (handle_reassign n cmd sender)"
    "follows ''edit'' sender s (handle_edit cmd sender)"
    "follows ''deadline'' sender s (handle_deadline E cmd sender)"
proof -
  note run = follows_def wps Let_def
  note wr = wpE_notify notifies tracks_write [OF assms]
  show "follows ''review'' sender s (handle_review n cmd sender)"
    by (auto simp: run handle_review_def step_defs intro!: wr del: imageE split: sum.split option.split)
  show "follows ''reject'' sender s (handle_reject n cmd sender)"
    by (auto simp: run handle_reject_def step_defs intro!: wr del: imageE split: sum.split option.split)
  show "follows ''block'' sender s (handle_block n cmd sender)"
    by (auto simp: run handle_block_def step_defs intro!: wr del: imageE split: sum.split option.split)
  show "follows ''unblock'' sender s (handle_unblock n cmd sender)"
    by (auto simp: run handle_unblock_def step_defs intro!: wr del: imageE split: sum.split option.split)
  show "follows ''comment'' sender s (handle_comment n cmd sender)"
    by (auto simp: run handle_comment_def step_defs intro!: wr del: imageE split: sum.split option.split)
  show "follows ''continue'' sender s (handle_continue n cmd sender)"
    by (auto simp: run handle_continue_def step_defs intro!: wr del: imageE split: sum.split option.split)
  show "follows ''cancel'' sender s (handle_cancel n cmd sender)"
    by (auto simp: run handle_cancel_def step_defs intro!: wr del: imageE split: sum.split option.split)
  show "v \<in> {''assign'', ''reassign''} \<Longrightarrow> follows v sender s (handle_reassign n cmd sender)"
    by (auto simp: run handle_reassign_def step_defs intro!: wr del: imageE split: sum.split option.split)
  show "follows ''edit'' sender s (handle_edit cmd sender)"
    by (auto simp: run handle_edit_def step_defs intro!: wr del: imageE split: sum.split option.split)
  show "follows ''deadline'' sender s (handle_deadline E cmd sender)"
    by (auto simp: run handle_deadline_def step_defs intro!: wr del: imageE split: sum.split option.split)
qed

section \<open>Loops over the tasks of a board\<close>

text \<open>
  \<open>promote_children\<close> and \<open>handle_reopen\<close> read all tasks and then write some of them back, one by one.
  Every task of the snapshot is written at most once, so each write finds the row the snapshot was
  taken from. The loop maps \<open>g\<close> over the rows it visits, or over some of them when it aborts.
\<close>

definition rest :: "bst \<Rightarrow> board_row list \<times> member list \<times> (string \<times> string) list \<times> task_event list \<times>
    (string \<times> nat) list" where
  "rest s = (db_boards s, db_members s, db_perms s, db_events s, db_task_seq s)"

definition remapped :: "(task_row \<Rightarrow> task_row \<Rightarrow> bool) \<Rightarrow> task_row set \<Rightarrow> task_row list \<Rightarrow> task_row list \<Rightarrow> bool" where
  "remapped G A rows rows' \<longleftrightarrow> list_all2 (\<lambda>r r'. if r \<in> A then G r r' else r' = r) rows rows'"

lemma remapped_trans:
  assumes ids: "distinct (map tk_id rows)" and sub: "insert r A \<subseteq> set rows" and r: "r \<notin> A"
    and G: "\<And>x y. G x y \<Longrightarrow> tk_id y = tk_id x"
    and one: "remapped G {r} rows rows1" and two: "remapped G A rows1 rows2"
  shows "remapped G (insert r A) rows rows2"
proof -
  have new: "G r y \<Longrightarrow> y \<notin> A" for y
    using ids sub r G by (simp add: distinct_map inj_on_def) (metis subsetD)
  show ?thesis
    unfolding remapped_def list_all2_conv_all_nth
  proof (intro conjI allI impI)
    show "length rows = length rows2" using one two by (simp add: remapped_def list_all2_lengthD)
    fix i assume i: "i < length rows"
    with one two have "if rows ! i = r then G r (rows1 ! i) else rows1 ! i = rows ! i"
      "if rows1 ! i \<in> A then G (rows1 ! i) (rows2 ! i) else rows2 ! i = rows1 ! i"
      by (auto simp: remapped_def list_all2_conv_all_nth)
    then show "if rows ! i \<in> insert r A then G (rows ! i) (rows2 ! i) else rows2 ! i = rows ! i"
      using new r by (cases "rows ! i = r") auto
  qed
qed

lemma remapped_write:
  assumes "distinct (map tk_id rows)" and "r \<in> set rows" and "G r (f r)"
  shows "remapped G {r} rows (update_where (\<lambda>x. tk_id x = tk_id r) f rows)"
  using assms
  by (auto simp: remapped_def update_where_def list_all2_conv_all_nth distinct_map inj_on_def)

lemma remapped_same: "(\<And>r. r \<in> A \<Longrightarrow> G r r) \<Longrightarrow> remapped G A rows rows"
  by (simp add: remapped_def list_all2_conv_all_nth)

lemma remapped_ids:
  "remapped G A rows rows' \<Longrightarrow> (\<And>x y. G x y \<Longrightarrow> tk_id y = tk_id x) \<Longrightarrow> map tk_id rows' = map tk_id rows"
  unfolding remapped_def by (induction rule: list_all2_induct) (auto split: if_splits)

lemma in_remapped:
  assumes "remapped G {r} rows rows'" and "x \<in> set rows" and "x \<noteq> r"
  shows "x \<in> set rows'"
  using assms by (auto simp: remapped_def list_all2_conv_all_nth in_set_conv_nth)

lemma remapped_fun: "remapped (\<lambda>r r'. r' = g r) A rows rows' \<longleftrightarrow> rows' = map (\<lambda>r. if r \<in> A then g r else r) rows"
  by (induction rows arbitrary: rows') (auto simp: remapped_def list_all2_Cons1)

lemma wp_row_loop:
  fixes s :: bst
  assumes ids: "distinct (map tk_id (db_tasks s))" and rs: "distinct rs" "set rs \<subseteq> set (db_tasks s)"
    and id: "\<And>x y. G x y \<Longrightarrow> tk_id y = tk_id x"
    and body: "\<And>r s1. r \<in> set rs \<Longrightarrow> r \<in> set (db_tasks s1) \<Longrightarrow> distinct (map tk_id (db_tasks s1)) \<Longrightarrow>
      rest s1 = rest s \<Longrightarrow>
      wpE (body (task_from_row r))
        (\<lambda>_ s'. remapped G {r} (db_tasks s1) (db_tasks s') \<and> rest s' = rest s)
        (\<lambda>e s'. ab e \<and> rest s' = rest s \<and> (\<exists>A \<subseteq> {r}. remapped G A (db_tasks s1) (db_tasks s'))) s1"
  shows "wpE (forE body (map task_from_row rs))
    (\<lambda>_ s'. remapped G (set rs) (db_tasks s) (db_tasks s') \<and> rest s' = rest s)
    (\<lambda>e s'. ab e \<and> rest s' = rest s \<and> (\<exists>A \<subseteq> set rs. remapped G A (db_tasks s) (db_tasks s'))) s"
  using assms
proof (induction rs arbitrary: s)
  case Nil
  then show ?case by (simp add: wps) (rule remapped_same; simp)
next
  case (Cons r rs)
  note [simp del] = task_from_row.simps
  let ?post = "\<lambda>B s0 s'. remapped G B (db_tasks s0) (db_tasks s') \<and> rest s' = rest s"
  let ?abort = "\<lambda>B s0 e s'. ab e \<and> rest s' = rest s \<and> (\<exists>A \<subseteq> B. remapped G A (db_tasks s0) (db_tasks s'))"
  have loop: "wpE (forE body (map task_from_row rs)) (\<lambda>_. ?post (set (r # rs)) s) (?abort (set (r # rs)) s) s1"
    if s1: "?post {r} s s1" for s1
  proof -
    have step: "remapped G (insert r A) (db_tasks s) rows" if "A \<subseteq> set rs" "remapped G A (db_tasks s1) rows" for A rows
      using s1 that Cons.prems(1-4) by (intro remapped_trans [of _ r A G "db_tasks s1"]) auto
    have sub: "set rs \<subseteq> set (db_tasks s1)"
      using s1 Cons.prems(2,3) by (auto intro: in_remapped)
    have eq: "rest s1 = rest s" using s1 by simp
    have "wpE (forE body (map task_from_row rs)) (\<lambda>_. ?post (set rs) s1) (?abort (set rs) s1) s1"
      unfolding eq [symmetric]
    proof (rule Cons.IH)
      show "distinct (map tk_id (db_tasks s1))"
        using s1 Cons.prems(1,4) remapped_ids by metis
    qed (use Cons.prems sub eq in auto)
    then show ?thesis
    proof (rule wpE_mono)
      fix e s' assume "?abort (set rs) s1 e s'"
      then obtain A where "ab e" "rest s' = rest s" "A \<subseteq> set rs" "remapped G A (db_tasks s1) (db_tasks s')"
        by blast
      with step show "?abort (set (r # rs)) s e s'"
        by (intro conjI exI [of _ "insert r A"]) auto
    qed (simp add: step)
  qed
  have "wpE (body (task_from_row r)) (\<lambda>_. ?post {r} s) (?abort {r} s) s"
    using Cons.prems by simp
  then have "wpE (body (task_from_row r)) (\<lambda>_. wpE (forE body (map task_from_row rs))
        (\<lambda>_. ?post (set (r # rs)) s) (?abort (set (r # rs)) s)) (?abort (set (r # rs)) s) s"
    by (rule wpE_mono) (use loop in auto)
  then show ?case by (simp add: wps)
qed

definition done_ids :: "string \<Rightarrow> task_row list \<Rightarrow> string set" where
  "done_ids board_id rows =
     {tk_short_id r |r. r \<in> set rows \<and> tk_board_id r = board_id \<and> parse_task_status (tk_status r) = Done}"

definition runnable :: "string set \<Rightarrow> task \<Rightarrow> task_row \<Rightarrow> bool" where
  "runnable finished parent r \<longleftrightarrow> tk_board_id r = tk_board_id parent \<and>
     tk_short_id parent \<in> set (tk_parent_ids r) \<and> set (tk_parent_ids r) \<subseteq> finished \<and>
     parse_task_status (tk_status r) = Todo"

definition promote_row :: "string set \<Rightarrow> task \<Rightarrow> task_row \<Rightarrow> task_row" where
  "promote_row finished parent r =
     (if runnable finished parent r then r\<lparr>tk_status := show_task_status Ready\<rparr> else r)"

lemma set_cols_status:
  "set_task_cols ((task_from_row r)\<lparr>tk_status := st\<rparr>) r = r\<lparr>tk_status := show_task_status st\<rparr>"
  by (simp add: set_task_cols_def)

lemma rest_simps [simp]:
  "rest (s\<lparr>w_outbox := a\<rparr>) = rest s" "rest (s\<lparr>w_ticks := b\<rparr>) = rest s"
  "rest (s\<lparr>db_tasks := c\<rparr>) = rest s"
  by (simp_all add: rest_def)

lemma rest_members: "rest s = rest s' \<Longrightarrow> db_members s = db_members s'"
  by (simp add: rest_def)

lemma task_cols:
  "tk_short_id (task_from_row r) = tk_short_id r" "tk_parent_ids (task_from_row r) = tk_parent_ids r"
  "tk_status (task_from_row r) = parse_task_status (tk_status r)" "tk_id (task_from_row r) = tk_id r"
  "tk_assignee (task_from_row r) = tk_assignee r" "tk_board_id (task_from_row r) = tk_board_id r"
  "tk_reviewer (task_from_row r) = tk_reviewer r"
  by simp_all

lemma wp_promote_child:
  assumes cur: "r \<in> set (db_tasks s)" and ids: "distinct (map tk_id (db_tasks s))"
    and ref: "tk_assignee r \<in> mb_email ` set (db_members s)" and brd: "tk_board_id r = tk_board_id k"
    and G: "G = (\<lambda>r r'. r' = promote_row finished k r)"
  shows "wpE (let child = task_from_row r in
       if tk_short_id k \<in> set (tk_parent_ids child) \<and>
          list_all (\<lambda>pid. pid \<in> finished) (tk_parent_ids child) \<and> tk_status child = Todo
       then let child' = child\<lparr>tk_status := Ready\<rparr> in
         thenE (okE (update_task child')) (notify_assigned n child')
       else returnE ()) (\<lambda>_ s'. remapped G {r} (db_tasks s) (db_tasks s') \<and> rest s' = rest s)
     (\<lambda>e s'. e = Panic \<and> rest s' = rest s \<and> remapped G {r} (db_tasks s) (db_tasks s')) s"
proof -
  note [simp del] = task_from_row.simps
  have run: "runnable finished k r \<longleftrightarrow> tk_short_id k \<in> set (tk_parent_ids r) \<and>
      list_all (\<lambda>pid. pid \<in> finished) (tk_parent_ids r) \<and> parse_task_status (tk_status r) = Todo"
    using brd by (auto simp: runnable_def list_all_iff)
  show ?thesis
  proof (cases "runnable finished k r")
    case True
    then have "remapped G {r} (db_tasks s) (update_where (\<lambda>x. tk_id x = tk_id r)
        (set_task_cols (task_from_row r\<lparr>tk_status := Ready\<rparr>)) (db_tasks s))"
      by (intro remapped_write [OF ids cur]) (simp add: set_cols_status G promote_row_def)
    then show ?thesis using True run ref
      by (auto simp: Let_def task_cols wps intro!: wpE_notify notifies)
  next
    case False
    then have "remapped G {r} (db_tasks s) (db_tasks s)"
      by (intro remapped_same) (simp add: G promote_row_def)
    moreover have "\<not> (tk_short_id k \<in> set (tk_parent_ids r) \<and>
        list_all (\<lambda>pid. pid \<in> finished) (tk_parent_ids r) \<and> parse_task_status (tk_status r) = Todo)"
      using False run by blast
    ultimately show ?thesis by (simp only: Let_def task_cols if_False) (simp add: wps)
  qed
qed

lemma wp_promote_children:
  assumes "wf_db s"
  shows "wpE (promote_children n k)
    (\<lambda>_ s'. db_tasks s' = map (promote_row (done_ids (tk_board_id k) (db_tasks s)) k) (db_tasks s) \<and>
       rest s' = rest s)
    (\<lambda>e s'. e = Panic \<and> rest s' = rest s \<and> (\<exists>A. remapped (\<lambda>r r'.
       r' = promote_row (done_ids (tk_board_id k) (db_tasks s)) k r) A (db_tasks s) (db_tasks s'))) s"
proof -
  note [simp del] = task_from_row.simps
  define finished where "finished = done_ids (tk_board_id k) (db_tasks s)"
  define G where "G = (\<lambda>r r'. r' = promote_row finished k r)"
  define rs where "rs = filter (\<lambda>r. tk_board_id r = tk_board_id k) (db_tasks s)"
  define body where "body = (\<lambda>child.
       if tk_short_id k \<in> set (tk_parent_ids child) \<and>
          list_all (\<lambda>pid. pid \<in> finished) (tk_parent_ids child) \<and> tk_status child = Todo
       then let child' = child\<lparr>tk_status := Ready\<rparr> in
         thenE (okE (update_task child')) (notify_assigned n child')
       else returnE ())"
  have snapshot: "tk_short_id ` {x \<in> task_from_row ` set rs. tk_status x = Done} = finished"
    by (force simp: finished_def done_ids_def rs_def task_cols)
  have "wpE (forE body (map task_from_row rs))
    (\<lambda>_ s'. remapped G (set rs) (db_tasks s) (db_tasks s') \<and> rest s' = rest s)
    (\<lambda>e s'. e = Panic \<and> rest s' = rest s \<and> (\<exists>A \<subseteq> set rs. remapped G A (db_tasks s) (db_tasks s'))) s"
  proof (rule wp_row_loop)
    fix r s1
    assume r: "r \<in> set rs" and cur: "r \<in> set (db_tasks s1)" and ids: "distinct (map tk_id (db_tasks s1))"
      and same: "rest s1 = rest s"
    have ref: "tk_assignee r \<in> mb_email ` set (db_members s1)" and brd: "tk_board_id r = tk_board_id k"
      using r assms rest_members [OF same] by (auto simp: rs_def wf_defs)
    have "wpE (body (task_from_row r)) (\<lambda>_ s'. remapped G {r} (db_tasks s1) (db_tasks s') \<and> rest s' = rest s1)
       (\<lambda>e s'. e = Panic \<and> rest s' = rest s1 \<and> remapped G {r} (db_tasks s1) (db_tasks s')) s1"
      using wp_promote_child [OF cur ids ref brd G_def, of n] by (simp add: body_def Let_def)
    then show "wpE (body (task_from_row r)) (\<lambda>_ s'. remapped G {r} (db_tasks s1) (db_tasks s') \<and> rest s' = rest s)
       (\<lambda>e s'. e = Panic \<and> rest s' = rest s \<and> (\<exists>A \<subseteq> {r}. remapped G A (db_tasks s1) (db_tasks s'))) s1"
      by (rule wpE_mono) (use same in auto)
  qed (use assms in \<open>auto simp: wf_defs rs_def G_def promote_row_def distinct_map\<close>)
  moreover have "remapped G (set rs) (db_tasks s) rows \<Longrightarrow> rows = map (promote_row finished k) (db_tasks s)" for rows
    by (auto simp: G_def remapped_fun rs_def promote_row_def runnable_def)
  ultimately show ?thesis
    unfolding promote_children_def
    by (simp add: wps Let_def rs_def [symmetric] snapshot body_def [symmetric] finished_def [symmetric] G_def [symmetric])
       (erule wpE_mono; auto)
qed

section \<open>Verbs that finish a task\<close>

lemma tracks_remapped:
  assumes "tracks v sender rows rows1" and "v \<noteq> ''create''" and "remapped G A rows1 rows2"
    and "\<And>a b c. row_step v sender a b \<Longrightarrow> G b c \<Longrightarrow> row_step v sender a c"
  shows "tracks v sender rows rows2"
proof -
  have "list_all2 (row_step v sender) rows rows1"
    using assms(1,2) by (auto simp: tracks_def)
  then have "list_all2 (row_step v sender) rows rows2"
    using assms(3,4) unfolding remapped_def list_all2_conv_all_nth by (metis (no_types, lifting))
  then show ?thesis
    unfolding tracks_def by (rule_tac exI [of _ rows2], rule_tac exI [of _ "[]"]) simp
qed

lemma step_then_ready:
  assumes "row_step v sender a b" and "parse_task_status (tk_status b) = Todo"
    and "v \<in> {''complete'', ''approve'', ''verify''}"
  shows "row_step v sender a (b\<lparr>tk_status := show_task_status Ready\<rparr>)"
  using assms by (auto simp: row_step_def task_step_def same_identity_def flow_def)

lemma follows_promote:
  assumes "wf_db s1" and "tracks v sender rows (db_tasks s1)"
    and "v \<in> {''complete'', ''approve'', ''verify''}"
    and "\<And>s'. tracks v sender rows (db_tasks s') \<Longrightarrow> Q () s'"
  shows "wpE (promote_children n k) Q (\<lambda>_ s'. tracks v sender rows (db_tasks s')) s1"
proof -
  let ?g = "promote_row (done_ids (tk_board_id k) (db_tasks s1)) k"
  have all: "remapped (\<lambda>r r'. r' = ?g r) UNIV (db_tasks s1) (map ?g (db_tasks s1))"
    by (simp add: remapped_fun)
  have step: "row_step v sender a (?g b)" if "row_step v sender a b" for a b
    using step_then_ready [OF that _ assms(3)] that by (simp add: promote_row_def runnable_def)
  have "tracks v sender rows rows'" if "remapped (\<lambda>r r'. r' = ?g r) A (db_tasks s1) rows'" for A rows'
    using assms(2) _ that by (rule tracks_remapped) (use assms(3) step in auto)
  then show ?thesis
    using wp_promote_children [OF assms(1), of n k] assms(4) all
    by (elim wpE_mono) auto
qed

text \<open>A row written back by its key leaves the table well formed.\<close>

lemma wf_written:
  assumes "wf_db s" and "tk_assignee k \<in> mb_email ` set (db_members s)"
  shows "wf_db (s\<lparr>db_tasks := update_where (\<lambda>r. tk_id r = i) (set_task_cols k) (db_tasks s)\<rparr>)"
  using assms
  by (auto simp: wf_defs set_task_cols_def dest!: in_update_where)

lemma wf_frame:
  "wf_db (s\<lparr>w_ticks := a\<rparr>) = wf_db s" "wf_db (s\<lparr>w_outbox := b\<rparr>) = wf_db s"
  by (simp_all add: wf_defs)

lemma wf_logged:
  "wf_db s \<Longrightarrow> ev_task_id e \<in> tk_id ` set (db_tasks s) \<Longrightarrow> wf_db (s\<lparr>db_events := db_events s @ [e]\<rparr>)"
  by (auto simp: wf_defs)

lemma wf_completed:
  assumes "wf_db s" and "find_task_row ref (db_tasks s) = Inr r" and "tk_assignee k = tk_assignee r"
    and "ev_task_id e = tk_id r"
  shows "wf_db (s\<lparr>w_ticks := a, db_tasks := update_where (\<lambda>x. tk_id x = tk_id r) (set_task_cols k) (db_tasks s),
      db_events := db_events s @ [e]\<rparr>)"
proof -
  let ?s1 = "s\<lparr>w_ticks := a, db_tasks := update_where (\<lambda>x. tk_id x = tk_id r) (set_task_cols k) (db_tasks s)\<rparr>"
  note found = found_assignee [OF assms(1,2)]
  have "wf_db ?s1"
    using wf_written [of "s\<lparr>w_ticks := a\<rparr>" k "tk_id r"] assms(1,3) found by (simp add: wf_frame)
  moreover have "ev_task_id e \<in> tk_id ` set (db_tasks ?s1)"
    using found assms(4) by (simp add: set_task_cols_def)
  ultimately show ?thesis using wf_logged by fastforce
qed

lemma follows_finish:
  assumes "wf_db s"
  shows "follows ''complete'' sender s (handle_complete n cmd sender)"
    "v \<in> {''approve'', ''verify''} \<Longrightarrow> follows v sender s (handle_approve n cmd sender)"
proof -
  note run = follows_def wps Let_def
  note wr = outbox_only_notify [THEN wpE_notify] follows_promote tracks_write [OF assms] wf_completed [OF assms]
  show "follows ''complete'' sender s (handle_complete n cmd sender)"
    by (auto simp: run handle_complete_def do_complete_def step_defs wf_frame intro!: wr del: imageE
        split: sum.split option.split)
  show "v \<in> {''approve'', ''verify''} \<Longrightarrow> follows v sender s (handle_approve n cmd sender)"
    by (auto simp: run handle_approve_def step_defs wf_frame intro!: wr del: imageE
        split: sum.split option.split)
qed

section \<open>Heartbeat and reopen\<close>

lemma update_where_twice:
  "(\<And>r. p r \<Longrightarrow> p (f r)) \<Longrightarrow> update_where p g (update_where p f rows) = update_where p (\<lambda>r. g (f r)) rows"
  by (simp add: update_where_def)

lemma follows_heartbeat:
  assumes "wf_db s"
  shows "follows ''heartbeat'' sender s (handle_heartbeat cmd sender)"
proof -
  have step: "tracks ''heartbeat'' w (db_tasks s)
      (update_where (\<lambda>x. tk_id x = tk_id r) f (db_tasks s))"
    if "find_task_row ref (db_tasks s) = Inr r" and "row_step ''heartbeat'' w r (f r)" for ref r f w
    using that by (intro tracks_update) (auto dest!: found_unique [OF assms that(1)])
  show ?thesis
    by (auto simp: follows_def wps handle_heartbeat_def heartbeat_def update_where_twice row_step_def
        step_defs intro!: step del: imageE split: sum.split option.split)
qed

text \<open>A row after \<open>reopen\<close>, up to the time of the write.\<close>

definition reopened_row :: "string \<Rightarrow> string set \<Rightarrow> task_row \<Rightarrow> task_row \<Rightarrow> bool" where
  "reopened_row board_id finished r r' \<longleftrightarrow>
     (if tk_board_id r \<noteq> board_id then r' = r
      else if parse_task_status (tk_status r) = Done
      then \<exists>ts. r' = r\<lparr>tk_status := show_task_status Running, tk_updated_at := ts\<rparr>
      else if parse_task_status (tk_status r) = Ready \<and> \<not> set (tk_parent_ids r) \<inter> finished = {}
      then \<exists>ts. r' = r\<lparr>tk_status := show_task_status Todo, tk_updated_at := ts\<rparr>
      else r' = r)"

lemma set_cols_status_time:
  "set_task_cols ((task_from_row r)\<lparr>tk_status := st, tk_updated_at := ts\<rparr>) r
     = r\<lparr>tk_status := show_task_status st, tk_updated_at := ts\<rparr>"
  by (simp add: set_task_cols_def)

lemma reopened_row_id: "reopened_row board_id finished r r' \<Longrightarrow> tk_id r' = tk_id r"
  by (auto simp: reopened_row_def split: if_splits)

lemma wp_reopen_one:
  assumes cur: "r \<in> set (db_tasks s)" and ids: "distinct (map tk_id (db_tasks s))"
    and ref: "tk_assignee r \<in> mb_email ` set (db_members s)" and brd: "tk_board_id r = board_id"
  shows "wpE (reopen_one reopened (task_from_row r))
     (\<lambda>_ s'. remapped (reopened_row board_id (set reopened)) {r} (db_tasks s) (db_tasks s') \<and> rest s' = rest s)
     (\<lambda>_ _. False) s"
proof -
  note [simp del] = task_from_row.simps
  have any: "list_ex (\<lambda>p. p \<in> set reopened) ps \<longleftrightarrow> set ps \<inter> set reopened \<noteq> {}" for ps
    by (auto simp: list_ex_iff)
  let ?G = "reopened_row board_id (set reopened)"
  have put: "wpE (bindE now (\<lambda>ts. update_task ((task_from_row r)\<lparr>tk_status := st, tk_updated_at := ts\<rparr>)))
      (\<lambda>_ s'. remapped ?G {r} (db_tasks s) (db_tasks s') \<and> rest s' = rest s) (\<lambda>_ _. False) s"
    if "\<And>ts. ?G r (r\<lparr>tk_status := show_task_status st, tk_updated_at := ts\<rparr>)" for st
    using ref that remapped_write [OF ids cur, of ?G]
    by (simp add: wps task_cols set_cols_status_time)
  have stay: "?G r r \<Longrightarrow> remapped ?G {r} (db_tasks s) (db_tasks s)"
    by (rule remapped_same) simp
  consider "parse_task_status (tk_status r) = Done"
    | "parse_task_status (tk_status r) = Ready" "set (tk_parent_ids r) \<inter> set reopened \<noteq> {}"
    | "parse_task_status (tk_status r) \<noteq> Done"
      "\<not> (parse_task_status (tk_status r) = Ready \<and> set (tk_parent_ids r) \<inter> set reopened \<noteq> {})"
    by blast
  then show ?thesis
  proof cases
    case 1
    then show ?thesis using put [of Running] brd by (auto simp: reopen_one_def task_cols reopened_row_def)
  next
    case 2
    then show ?thesis using put [of Todo] brd by (auto simp: reopen_one_def task_cols reopened_row_def any)
  next
    case 3
    then show ?thesis using stay brd by (auto simp: reopen_one_def task_cols reopened_row_def any wps)
  qed
qed

lemma reopened_other: "tk_board_id r \<noteq> board_id \<Longrightarrow> reopened_row board_id finished r r"
  by (simp add: reopened_row_def)

lemma wp_reopen_loop:
  assumes "wf_db s"
    and ks: "ks = map task_from_row (filter (\<lambda>r. tk_board_id r = board_id) (db_tasks s))"
  shows "wpE (forE (reopen_one (map tk_short_id (filter (\<lambda>k. tk_status k = Done) ks))) ks)
    (\<lambda>_ s'. list_all2 (reopened_row board_id (done_ids board_id (db_tasks s))) (db_tasks s) (db_tasks s') \<and>
       rest s' = rest s)
    (\<lambda>_ _. False) s"
proof -
  note [simp del] = task_from_row.simps
  define rs where "rs = filter (\<lambda>r. tk_board_id r = board_id) (db_tasks s)"
  let ?re = "map tk_short_id (filter (\<lambda>k. tk_status k = Done) ks)"
  have re: "set ?re = done_ids board_id (db_tasks s)"
    using ks by (force simp: done_ids_def task_cols)
  let ?G = "reopened_row board_id (set ?re)"
  have loop: "wpE (forE (reopen_one ?re) (map task_from_row rs))
    (\<lambda>_ s'. remapped ?G (set rs) (db_tasks s) (db_tasks s') \<and> rest s' = rest s)
    (\<lambda>e s'. False \<and> rest s' = rest s \<and> (\<exists>A \<subseteq> set rs. remapped ?G A (db_tasks s) (db_tasks s'))) s"
  proof (rule wp_row_loop)
    fix r s1
    assume r: "r \<in> set rs" and cur: "r \<in> set (db_tasks s1)" and ids: "distinct (map tk_id (db_tasks s1))"
      and same: "rest s1 = rest s"
    have ref: "tk_assignee r \<in> mb_email ` set (db_members s1)" and brd: "tk_board_id r = board_id"
      using r assms rest_members [OF same] by (auto simp: rs_def wf_defs)
    show "wpE (reopen_one ?re (task_from_row r))
       (\<lambda>_ s'. remapped ?G {r} (db_tasks s1) (db_tasks s') \<and> rest s' = rest s)
       (\<lambda>e s'. False \<and> rest s' = rest s \<and> (\<exists>A \<subseteq> {r}. remapped ?G A (db_tasks s1) (db_tasks s'))) s1"
      using wp_reopen_one [OF cur ids ref brd, of ?re] same by simp
  qed (use assms in \<open>auto simp: wf_defs rs_def distinct_map dest: reopened_row_id\<close>)
  have all: "list_all2 ?G (db_tasks s) rows" if "remapped ?G (set rs) (db_tasks s) rows" for rows
    using that unfolding remapped_def
    by (rule list.rel_mono_strong) (auto simp: rs_def reopened_other split: if_splits)
  have "map task_from_row rs = ks" using ks by (simp add: rs_def)
  from loop [unfolded this] show ?thesis
    unfolding re [symmetric] by (rule wpE_mono) (use all in auto)
qed

lemma row_step_reopened:
  "reopened_row board_id finished r r' \<Longrightarrow> row_step ''reopen'' sender r r'"
  by (auto simp: reopened_row_def row_step_def task_step_def same_identity_def flow_def split: if_splits)

lemma tracks_all2: "list_all2 (row_step v sender) rows rows' \<Longrightarrow> tracks v sender rows rows'"
  unfolding tracks_def by (rule exI [of _ rows'], rule exI [of _ "[]"]) simp

lemma follows_reopen:
  assumes "wf_db s"
  shows "follows ''reopen'' sender s (handle_reopen cmd sender)"
proof -
  have loop: "wpE (forE (reopen_one (map tk_short_id (filter (\<lambda>k. tk_status k = Done) ks))) ks)
      Q R s1"
    if "ks = map task_from_row (filter (\<lambda>r. tk_board_id r = board_id) (db_tasks s))" "db_tasks s1 = db_tasks s"
      "wf_db s1" "\<And>s'. tracks ''reopen'' sender (db_tasks s) (db_tasks s') \<Longrightarrow> Q () s'" for ks board_id Q R s1
  proof -
    have ks: "ks = map task_from_row (filter (\<lambda>r. tk_board_id r = board_id) (db_tasks s1))"
      using that(1,2) by simp
    show ?thesis
      using wp_reopen_loop [OF that(3) ks]
    proof (rule wpE_mono)
      fix u :: unit and s' assume "list_all2 (reopened_row board_id (done_ids board_id (db_tasks s1))) (db_tasks s1)
        (db_tasks s') \<and> rest s' = rest s1"
      then have "list_all2 (row_step ''reopen'' sender) (db_tasks s) (db_tasks s')"
        using that(2) by (auto elim!: list_all2_mono intro: row_step_reopened)
      then show "Q u s'" by (simp add: that(4) tracks_all2)
    qed simp
  qed
  have wf: "wf_db (s\<lparr>db_perms := perms_checked r (db_perms s)\<rparr>)" for r
    using assms preservesE [OF wf_check_role_permission assms check_role_permission_run] by blast
  show ?thesis
    by (auto simp: follows_def handle_reopen_def wps Let_def update_board_def wf intro!: loop
        split: option.split)
qed

section \<open>Create and the verbs that touch no task\<close>

lemma tracks_created:
  "tracks ''create'' sender rows rows' \<Longrightarrow> freshly_created sender k \<Longrightarrow>
   tracks ''create'' sender rows (rows' @ [k])"
  unfolding tracks_def
  by (elim exE conjE, rule_tac x = olds in exI, rule_tac x = "news @ [k]" in exI) simp

lemma wp_create_task [wps]:
  "wpE (create_task k) Q R s =
     (if tk_id k \<notin> tk_id ` set (db_tasks s) \<and> tk_board_id k \<in> bd_id ` set (db_boards s) \<and>
         tk_assignee k \<in> mb_email ` set (db_members s)
      then Q () (s\<lparr>db_tasks := db_tasks s @ [\<lparr>tk_id = tk_id k, tk_short_id = tk_short_id k,
            tk_board_id = tk_board_id k, tk_title = tk_title k, tk_body = tk_body k,
            tk_status = show_task_status (tk_status k), tk_assignee = tk_assignee k,
            tk_reviewer = tk_reviewer k, tk_parent_ids = tk_parent_ids k, tk_tags = tk_tags k,
            tk_summary = tk_summary k, tk_metadata = tk_metadata k, tk_created_by = tk_created_by k,
            tk_created_at = tk_created_at k, tk_updated_at = tk_updated_at k,
            tk_completed_at = None, tk_cancelled_at = None, tk_deadline = None\<rparr>]\<rparr>)
      else R (Err (Database ConstraintViolation)) s)"
  by (simp add: create_task_def wps)

lemma follows_create:
  "follows ''create'' sender s (handle_create E n cmd sender)"
proof -
  let ?inv = "\<lambda>s'. tracks ''create'' sender (db_tasks s) (db_tasks s') \<and> db_members s' = db_members s"
  have body: "wpE (create_one E n b sender j) (\<lambda>_. ?inv) (\<lambda>_ s'. tracks ''create'' sender (db_tasks s) (db_tasks s')) s1"
    if "?inv s1" for b j s1
    using that
    by (auto simp: create_one_def wps Let_def freshly_created_def show_task_status.simps
        intro!: wpE_notify notifies tracks_created del: imageE)
  have loop: "wpE (forE (create_one E n b sender) js) Q (\<lambda>_ s'. tracks ''create'' sender (db_tasks s) (db_tasks s')) s1"
    if "?inv s1" "\<And>s'. ?inv s' \<Longrightarrow> Q () s'" for b js s1 Q
    using that by (intro wpE_forE [where I = ?inv] body) auto
  show ?thesis
    by (auto simp: follows_def handle_create_def wps Let_def intro!: loop split: option.split)
qed

text \<open>
  The remaining verbs write no task row. They are handled by the frame rules of \<open>preserves\<close>, with
  the task table as the thing preserved.
\<close>

lemma tasks_kept [keeps]:
  "preserves (\<lambda>s. P (db_tasks s)) now" "preserves (\<lambda>s. P (db_tasks s)) random_hex16"
  "preserves (\<lambda>s. P (db_tasks s)) (check_role_permission role verb)"
  "preserves (\<lambda>s. P (db_tasks s)) seed_default_role_permissions"
  "preserves (\<lambda>s. P (db_tasks s)) (insert_event e)"
  "preserves (\<lambda>s. P (db_tasks s)) (update_board b)"
  "preserves (\<lambda>s. P (db_tasks s)) (add_member E m)"
  by (auto simp: preserves_wpE wps update_board_def add_member_def stored_credential_def
      generate_board_token_salt_def upsert_member_def Let_def split: option.split)

lemma tasks_kept_override [keeps]: "preserves (\<lambda>s. P (db_tasks s)) (insert_role_permissions ps)"
  unfolding insert_role_permissions_def by (intro keeps preserves_modifyE) simp_all

lemma tasks_kept_notify [keeps]: "outbox_only m \<Longrightarrow> preserves (\<lambda>s. P (db_tasks s)) m"
  by (rule preserves_notify) simp_all

lemma tasks_kept_refresh_members [keeps]:
  "preserves (\<lambda>s. P (db_tasks s)) (refresh_members E n ts existing js acc)"
proof (induction js arbitrary: acc)
  case (Cons j js)
  have "preserves (\<lambda>s. P (db_tasks s)) (refresh_member E n ts existing j acc)"
    unfolding refresh_member_def generate_board_token_def Let_def by (intro keeps)
  then show ?case using Cons by (simp add: keeps)
qed (simp add: keeps)

lemma tasks_kept_handlers:
  "preserves (\<lambda>s. P (db_tasks s)) (handle_refresh E n cmd sender)"
  "preserves (\<lambda>s. P (db_tasks s)) (handle_arbitrate n cmd sender)"
  "preserves (\<lambda>s. P (db_tasks s)) (handle_output n cmd sender)"
  "preserves (\<lambda>s. P (db_tasks s)) (handle_show cmd sender)"
  "preserves (\<lambda>s. P (db_tasks s)) (handle_list cmd sender)"
  "preserves (\<lambda>s. P (db_tasks s)) (handle_roles cmd sender)"
  "preserves (\<lambda>s. P (db_tasks s)) (handle_board_status cmd sender)"
  "preserves (\<lambda>s. P (db_tasks s)) (handle_members cmd sender)"
  "preserves (\<lambda>s. P (db_tasks s)) (handle_gateway_info cmd)"
  unfolding handle_refresh_def refresh_whitelist_def board_whitelists_stmt_def
    override_permissions_def check_overrides_def refresh_notify_def handle_arbitrate_def
    arbitrate_task_def handle_output_def handle_show_def handle_list_def handle_roles_def
    handle_board_status_def handle_members_def handle_gateway_info_def require_role_def log_event_def
    require_member_def require_assignee_def require_reviewer_def extract_task_id_def aw_get_task_def
    aw_list_tasks_def aw_list_members_def list_roles_def board_status_json_def Let_def
  by (intro keeps notifies)+

lemma follows_untouched:
  "(\<And>P. preserves (\<lambda>s. P (db_tasks s)) m) \<Longrightarrow> follows v sender s m"
  unfolding follows_def wpE_snd by (rule preservesD [where P = "\<lambda>s'. tracks v sender _ (db_tasks s')"]) simp_all

section \<open>Every command follows the workflow\<close>

lemma follows_dispatch:
  assumes "wf_db s"
  shows "follows (cm_verb cmd) sender s (dispatch E n cmd sender)"
  unfolding dispatch_def Let_def
  using follows_edits [OF assms] follows_finish [OF assms] follows_heartbeat [OF assms]
    follows_reopen [OF assms] follows_create follows_untouched [OF tasks_kept_handlers(1)]
    follows_untouched [OF tasks_kept_handlers(2)] follows_untouched [OF tasks_kept_handlers(3)]
    follows_untouched [OF tasks_kept_handlers(4)] follows_untouched [OF tasks_kept_handlers(5)]
    follows_untouched [OF tasks_kept_handlers(6)] follows_untouched [OF tasks_kept_handlers(7)]
    follows_untouched [OF tasks_kept_handlers(8)] follows_untouched [OF tasks_kept_handlers(9)]
  by (auto simp: follows_def wps)

lemma execute_command_tracks:
  assumes "wf_db s"
  shows "tracks (cm_verb cmd) sender (db_tasks s) (db_tasks (snd (execute_command E n cmd sender s)))"
proof -
  have "follows (cm_verb cmd) sender s (execute_command E n cmd sender)"
    using follows_dispatch [OF assms, of "cmd\<lparr>cm_task_id := Some _\<rparr>"] follows_dispatch [OF assms, of cmd]
    by (auto simp: execute_command_def resolve_command_def follows_def wps split: option.split sum.split)
  then show ?thesis by (simp add: follows_def wpE_snd)
qed

end
