(* ===== verification/Board_Registry.thy ===== *)
theory Board_Registry
  imports Board_Db "HOL-Library.AList"
begin

text \<open>
  The board files on disk and the cache of board addresses: \<open>list_boards\<close> of \<open>src/src/board/db.rs\<close>,
  \<open>src/src/board/registry.rs\<close> and \<open>src/src/board/addr.rs\<close>. A volume is the directory \<open>a2a_board\<close>: a
  list of file names with their databases, \<open>None\<close> for a file SQLite cannot open. The cache is an
  association list with one entry per lower-case address.
\<close>

section \<open>The directory of board files\<close>

datatype volume = NoDir | UnreadableDir | Files "(string \<times> bst option) list"

record board_ref =
  br_id :: string
  br_board_email :: string
  br_status :: board_status
  br_system_id :: "string option"

definition board_ref_of :: "board_row \<Rightarrow> board_ref" where
  "board_ref_of r = \<lparr>br_id = bd_id r, br_board_email = bd_board_email r,
     br_status = parse_board_status (bd_status r), br_system_id = bd_system_id r\<rparr>"

definition file_ref :: "string \<times> bst option \<Rightarrow> board_ref option" where
  "file_ref f = (case f of (name, content) \<Rightarrow>
     (case strip_suffix ''.db'' name of
        None \<Rightarrow> None
      | Some _ \<Rightarrow> (case content of
          None \<Rightarrow> None
        | Some db \<Rightarrow> (case db_boards db of [] \<Rightarrow> None | r # _ \<Rightarrow> Some (board_ref_of r)))))"

definition list_boards :: "volume \<Rightarrow> app_error + board_ref list" where
  "list_boards vol = (case vol of
     NoDir \<Rightarrow> Inr []
   | UnreadableDir \<Rightarrow> Inl (Internal ''list a2a_board dir'')
   | Files fs \<Rightarrow> Inr (filter_map file_ref fs))"

text \<open>The files \<open>id.db\<close>, \<open>id.db-wal\<close> and \<open>id.db-shm\<close> are removed where they exist.\<close>

definition delete_board_file :: "string \<Rightarrow> volume \<Rightarrow> volume" where
  "delete_board_file board_id vol = (case vol of
     Files fs \<Rightarrow> Files (filter (\<lambda>(name, _).
       name \<notin> set (map (\<lambda>suffix. board_id @ ''.db'' @ suffix) [[], ''-wal'', ''-shm''])) fs)
   | other \<Rightarrow> other)"

section \<open>The registry\<close>

record board_entry =
  be_board_id :: string
  be_system_id :: "string option"

type_synonym board_registry = "(string \<times> board_entry) list"

definition registry_new :: board_registry where
  "registry_new = []"

definition nonempty :: "string option \<Rightarrow> string option" where
  "nonempty z = (case z of None \<Rightarrow> None | Some x \<Rightarrow> if x = [] then None else Some x)"

definition registry_insert ::
    "string \<Rightarrow> string \<Rightarrow> string option \<Rightarrow> board_registry \<Rightarrow> board_registry" where
  "registry_insert board_email board_id system_id reg =
     AList.update (to_lowercase board_email)
       \<lparr>be_board_id = board_id, be_system_id = nonempty system_id\<rparr> reg"

definition registry_load :: "volume \<Rightarrow> board_registry \<Rightarrow> nat \<times> board_registry" where
  "registry_load vol reg = (case list_boards vol of
     Inl _ \<Rightarrow> (0, reg)
   | Inr refs \<Rightarrow> (length refs, fold (\<lambda>r m. AList.update (to_lowercase (br_board_email r))
        \<lparr>be_board_id = br_id r, be_system_id = nonempty (br_system_id r)\<rparr> m) refs reg))"

definition registry_lookup :: "string \<Rightarrow> board_registry \<Rightarrow> board_entry option" where
  "registry_lookup board_email reg = map_of reg (to_lowercase board_email)"

definition registry_remove :: "string \<Rightarrow> board_registry \<Rightarrow> board_registry" where
  "registry_remove board_email reg = AList.delete (to_lowercase board_email) reg"

definition registry_len :: "board_registry \<Rightarrow> nat" where
  "registry_len reg = length reg"

definition registry_is_empty :: "board_registry \<Rightarrow> bool" where
  "registry_is_empty reg = (length reg = 0)"

section \<open>Board addresses\<close>

definition STRANGER_COMMANDS :: "string list" where
  "STRANGER_COMMANDS = [''[WHOAMI]'']"

definition is_board_address :: "string \<Rightarrow> bool" where
  "is_board_address addr = contains_str (to_lowercase addr) ''.a2a@''"

definition is_stranger_command :: "string \<Rightarrow> bool" where
  "is_stranger_command subject =
     list_ex (\<lambda>cmd. starts_with (to_uppercase subject) cmd) STRANGER_COMMANDS"

datatype board_addr_error = AddrInvalid | AddrNotFound | AddrNoSystem

fun show_board_addr_error :: "board_addr_error \<Rightarrow> string" where
  "show_board_addr_error AddrInvalid = ''invalid board address''"
| "show_board_addr_error AddrNotFound = ''board does not exist on this gateway''"
| "show_board_addr_error AddrNoSystem = ''board owning system not resolvable''"

record board_recipient =
  rc_short_id :: string
  rc_board_id :: string
  rc_domain :: string
  rc_system_id :: string

text \<open>The orchestrator recorded in the board's own file, for boards older than the system column.\<close>

definition file_db :: "string \<Rightarrow> volume \<Rightarrow> bst option" where
  "file_db board_id vol = (case vol of
     Files fs \<Rightarrow> (case map_of fs (board_id @ ''.db'') of Some content \<Rightarrow> content | None \<Rightarrow> None)
   | _ \<Rightarrow> None)"

definition orchestrator_email :: "string \<Rightarrow> volume \<Rightarrow> string option" where
  "orchestrator_email board_id vol = Option.bind (file_db board_id vol) (\<lambda>db.
     map_option mb_email (find (\<lambda>m. mb_board_id m = board_id \<and> mb_role m = ''orchestrator'') (db_members db)))"

text \<open>\<open>lookup_domain_addr\<close> is the address table of the main database: the system an address belongs to.\<close>

definition resolve_board_recipient ::
    "ext \<Rightarrow> board_registry \<Rightarrow> (string \<Rightarrow> string option) \<Rightarrow> volume \<Rightarrow> string \<Rightarrow> board_addr_error + board_recipient"
where
  "resolve_board_recipient E reg lookup_domain_addr vol board_email =
     (case parse_board_email E board_email of
        None \<Rightarrow> Inl AddrInvalid
      | Some (short_id, board_id, domain) \<Rightarrow>
        (case registry_lookup board_email reg of
           None \<Rightarrow> Inl AddrNotFound
         | Some entry \<Rightarrow>
           (let system_id =
              (if (case be_system_id entry of None \<Rightarrow> True | Some x \<Rightarrow> x = [])
               then (case orchestrator_email board_id vol of
                       Some orch \<Rightarrow> lookup_domain_addr orch | None \<Rightarrow> be_system_id entry)
               else be_system_id entry)
            in (case system_id of
                  Some x \<Rightarrow> if x = [] then Inl AddrNoSystem
                    else Inr \<lparr>rc_short_id = short_id, rc_board_id = board_id, rc_domain = domain,
                              rc_system_id = x\<rparr>
                | None \<Rightarrow> Inl AddrNoSystem))))"

section \<open>The contract of the registry\<close>

text \<open>
  What the mail entry points rely on: a cache keyed by addresses up to ASCII case. Its laws are those
  of a map on the folded key; a client can do without the representation.
\<close>

locale address_cache =
  fixes lookup :: "string \<Rightarrow> 'c \<Rightarrow> 'e option" and put :: "string \<Rightarrow> 'e \<Rightarrow> 'c \<Rightarrow> 'c"
    and drop_addr :: "string \<Rightarrow> 'c \<Rightarrow> 'c" and empty :: 'c
  assumes lookup_empty: "lookup a empty = None"
    and lookup_put: "lookup a (put b e c) = (if eq_ignore_ascii_case a b then Some e else lookup a c)"
    and lookup_drop: "lookup a (drop_addr b c) = (if eq_ignore_ascii_case a b then None else lookup a c)"
    and lookup_fold: "eq_ignore_ascii_case a b \<Longrightarrow> lookup a c = lookup b c"
begin

lemma put_other: "\<not> eq_ignore_ascii_case a b \<Longrightarrow> lookup a (put b e c) = lookup a c"
  by (simp add: lookup_put)

text \<open>After a batch of insertions an address is known exactly when it was known or is in the batch.\<close>

lemma known_after_puts:
  "lookup a (fold (\<lambda>(b, e). put b e) bes c) \<noteq> None \<longleftrightarrow>
     lookup a c \<noteq> None \<or> (\<exists>b e. (b, e) \<in> set bes \<and> eq_ignore_ascii_case a b)"
  by (induction bes arbitrary: c) (auto simp: lookup_put split: if_splits)

text \<open>The last insertion of an address is the one that counts.\<close>

lemma last_put_wins:
  assumes "\<And>b' e'. (b', e') \<in> set bes \<Longrightarrow> \<not> eq_ignore_ascii_case a b'" and "eq_ignore_ascii_case a b"
  shows "lookup a (fold (\<lambda>(b, e). put b e) (as @ (b, e) # bes) c) = Some e"
proof -
  have "lookup a (fold (\<lambda>(b, e). put b e) bes d) = lookup a d" for d
    using assms(1)
  proof (induction bes arbitrary: d)
    case (Cons x bes)
    obtain b' e' where x: "x = (b', e')" by (cases x)
    have "\<not> eq_ignore_ascii_case a b'" using Cons.prems [of b' e'] by (simp add: x)
    moreover have "lookup a (fold (\<lambda>(b, e). put b e) bes (put b' e' d)) = lookup a (put b' e' d)"
      by (rule Cons.IH) (use Cons.prems in auto)
    ultimately show ?case by (simp add: x put_other)
  qed simp
  then show ?thesis using assms(2) by (simp add: lookup_put)
qed

end

definition registry_put :: "string \<Rightarrow> board_entry \<Rightarrow> board_registry \<Rightarrow> board_registry" where
  "registry_put board_email e reg = AList.update (to_lowercase board_email) e reg"

interpretation reg: address_cache registry_lookup registry_put registry_remove registry_new
  by unfold_locales
     (auto simp: registry_lookup_def registry_put_def registry_remove_def registry_new_def
       eq_ignore_ascii_case_def update_conv' delete_conv')

lemma registry_insert_put:
  "registry_insert a b sys = registry_put a \<lparr>be_board_id = b, be_system_id = nonempty sys\<rparr>"
  by (simp add: registry_insert_def registry_put_def fun_eq_iff)

definition entry_of_ref :: "board_ref \<Rightarrow> string \<times> board_entry" where
  "entry_of_ref r = (br_board_email r, \<lparr>be_board_id = br_id r, be_system_id = nonempty (br_system_id r)\<rparr>)"

lemma registry_load_puts:
  "list_boards vol = Inr refs \<Longrightarrow>
   registry_load vol reg = (length refs, fold (\<lambda>(b, e). registry_put b e) (map entry_of_ref refs) reg)"
  by (simp add: registry_load_def registry_put_def [abs_def] entry_of_ref_def fold_map comp_def)

text \<open>Keys are lower case and occur once, so \<open>registry_len\<close> counts addresses.\<close>

definition registry_wf :: "board_registry \<Rightarrow> bool" where
  "registry_wf reg \<longleftrightarrow> distinct (map fst reg) \<and> (\<forall>k \<in> set (map fst reg). to_lowercase k = k)"

lemma registry_wf_put: "registry_wf reg \<Longrightarrow> registry_wf (registry_put a e reg)"
  by (auto simp: registry_wf_def registry_put_def distinct_update dom_update)

lemma registry_wf_remove: "registry_wf reg \<Longrightarrow> registry_wf (registry_remove a reg)"
  by (auto simp: registry_wf_def registry_remove_def delete_keys intro: distinct_removeAll)

lemma registry_wf_load: "registry_wf reg \<Longrightarrow> registry_wf (snd (registry_load vol reg))"
proof (cases "list_boards vol")
  case (Inr refs)
  have "registry_wf reg \<Longrightarrow> registry_wf (fold (\<lambda>(b, e). registry_put b e) es reg)" for es
    by (induction es arbitrary: reg) (auto simp: registry_wf_put)
  then show "registry_wf reg \<Longrightarrow> ?thesis" by (simp add: registry_load_puts [OF Inr])
qed (simp add: registry_load_def)

end
