(* ===== verification/Board_Sweeper.thy ===== *)
theory Board_Sweeper
  imports Board_Tracks Board_Registry
begin

text \<open>
  The periodic scans of the board files (\<open>src/src/board/sweeper.rs\<close>). A scan runs once over every
  file of the volume, with one reading of the clock; instants are nanoseconds, elapsed time is
  truncated to whole seconds as \<open>num_seconds\<close> does, thresholds are 64-bit values cast to signed.
  The three timers of \<open>board_sweeper_flow\<close> are 64-bit counters of seconds.
\<close>

section \<open>Scans\<close>

definition num_seconds :: "int \<Rightarrow> int" where
  "num_seconds d = (if 0 \<le> d then d div 1000000000 else - ((- d) div 1000000000))"

definition list_active_boards :: "volume \<Rightarrow> app_error + string list" where
  "list_active_boards vol = (case vol of
     NoDir \<Rightarrow> Inr []
   | UnreadableDir \<Rightarrow> Inl (Internal ''read_dir'')
   | Files fs \<Rightarrow> Inr (filter_map (\<lambda>(name, _). case strip_suffix ''.db'' name of
        Some stripped \<Rightarrow> if stripped \<noteq> [] then Some stripped else None | None \<Rightarrow> None) fs))"

text \<open>A task silent for longer than the threshold.\<close>

definition is_stale :: "ext \<Rightarrow> int \<Rightarrow> 64 word \<Rightarrow> 's task_rec \<Rightarrow> bool" where
  "is_stale E now_ns threshold k = (case parse_rfc3339 E (tk_updated_at k) of
     None \<Rightarrow> False
   | Some parsed \<Rightarrow> (let elapsed = num_seconds (now_ns - parsed)
                     in elapsed > sint threshold \<and> elapsed \<ge> 0))"

definition block_if_stale :: "ext \<Rightarrow> int \<Rightarrow> 64 word \<Rightarrow> task \<Rightarrow> unit bm" where
  "block_if_stale E now_ns threshold task =
     (if is_stale E now_ns threshold task
      then okE (update_task (task\<lparr>tk_status := Blocked\<rparr>)) else returnE ())"

definition heartbeat_scan_board :: "ext \<Rightarrow> int \<Rightarrow> 64 word \<Rightarrow> string \<Rightarrow> unit bm" where
  "heartbeat_scan_board E now_ns threshold board_id =
     bindE (list_tasks board_id (Some ''running'') None) (\<lambda>tasks.
       forE (block_if_stale E now_ns threshold) tasks)"

text \<open>The stale-review scan only logs: its result is the list of short ids it warns about.\<close>

definition stale_reviews_board :: "ext \<Rightarrow> int \<Rightarrow> 64 word \<Rightarrow> string \<Rightarrow> string list bm" where
  "stale_reviews_board E now_ns threshold board_id =
     bindE (list_tasks board_id (Some ''reviewing'') None) (\<lambda>tasks.
       returnE (map tk_short_id (filter (is_stale E now_ns threshold) tasks)))"

definition archive_scan_board :: "ext \<Rightarrow> int \<Rightarrow> 64 word \<Rightarrow> string \<Rightarrow> unit bm" where
  "archive_scan_board E now_ns threshold board_id = bindE (tryE (get_board board_id)) (\<lambda>found.
     case found of
       Inl _ \<Rightarrow> returnE ()
     | Inr b \<Rightarrow>
         if bd_status b = BCompleted
         then (case Option.bind (bd_completed_at b) (parse_rfc3339 E) of
                 None \<Rightarrow> returnE ()
               | Some parsed \<Rightarrow>
                   if num_seconds (now_ns - parsed) > sint threshold
                   then okE (archive_board board_id) else returnE ())
         else returnE ())"

text \<open>
  One scan over all boards of the volume: every listed id is opened (its file name is the id with the
  suffix \<open>.db\<close>) and scanned, a file that cannot be opened is skipped.
\<close>

definition scan_file :: "(string \<Rightarrow> 'a bm) \<Rightarrow> string \<Rightarrow> (string \<times> bst option) list \<Rightarrow> (string \<times> bst option) list" where
  "scan_file scan board_id fs = map (\<lambda>(name, content).
     if name = board_id @ ''.db'' then (name, map_option (\<lambda>db. snd (scan board_id db)) content)
     else (name, content)) fs"

definition scan_volume :: "(string \<Rightarrow> 'a bm) \<Rightarrow> volume \<Rightarrow> volume" where
  "scan_volume scan vol = (case list_active_boards vol of
     Inl _ \<Rightarrow> vol
   | Inr ids \<Rightarrow> (case vol of Files fs \<Rightarrow> Files (fold (scan_file scan) ids fs) | other \<Rightarrow> other))"

definition scan_stale_heartbeats :: "ext \<Rightarrow> int \<Rightarrow> 64 word \<Rightarrow> volume \<Rightarrow> volume" where
  "scan_stale_heartbeats E now_ns threshold = scan_volume (heartbeat_scan_board E now_ns threshold)"

definition scan_stale_tasks :: "ext \<Rightarrow> int \<Rightarrow> 64 word \<Rightarrow> volume \<Rightarrow> volume" where
  "scan_stale_tasks E now_ns threshold = scan_volume (stale_reviews_board E now_ns threshold)"

definition scan_completed_boards :: "ext \<Rightarrow> int \<Rightarrow> 64 word \<Rightarrow> volume \<Rightarrow> volume" where
  "scan_completed_boards E now_ns threshold = scan_volume (archive_scan_board E now_ns threshold)"

section \<open>Timers\<close>

record board_config =
  heartbeat_stale_seconds :: "64 word"
  task_timeout_seconds :: "64 word"
  sweeper_interval_seconds :: "64 word"
  archive_retention_days :: "64 word option"

record timers =
  last_heartbeat :: "64 word"
  last_stale_task :: "64 word"
  last_archive :: "64 word"

datatype scan_job = HeartbeatScan "64 word" | StaleTaskScan "64 word" | ArchiveScan "64 word"

text \<open>Release builds wrap on overflow, so the subtraction of a later timestamp is a large number.\<close>

definition due :: "64 word \<Rightarrow> 64 word \<Rightarrow> 64 word \<Rightarrow> bool" where
  "due now_s last_s interval \<longleftrightarrow> interval \<le> now_s - last_s"

definition retention_seconds :: "64 word \<Rightarrow> board_config \<Rightarrow> 64 word" where
  "retention_seconds fallback cfg =
     (case archive_retention_days cfg of None \<Rightarrow> fallback | Some days \<Rightarrow> max days 1 * 86400)"

definition board_sweeper_flow :: "board_config \<Rightarrow> 64 word \<Rightarrow> timers \<Rightarrow> scan_job list \<times> timers" where
  "board_sweeper_flow cfg now_s t0 =
     (let (j1, t1) = (if due now_s (last_heartbeat t0) (sweeper_interval_seconds cfg)
            then ([HeartbeatScan (heartbeat_stale_seconds cfg)], t0\<lparr>last_heartbeat := now_s\<rparr>)
            else ([], t0));
          (j2, t2) = (if due now_s (last_stale_task t1) (task_timeout_seconds cfg div 2)
            then ([StaleTaskScan (task_timeout_seconds cfg)], t1\<lparr>last_stale_task := now_s\<rparr>)
            else ([], t1));
          (j3, t3) = (if due now_s (last_archive t2) (retention_seconds 86400 cfg)
            then ([ArchiveScan (retention_seconds (task_timeout_seconds cfg) cfg)],
                  t2\<lparr>last_archive := now_s\<rparr>)
            else ([], t2))
      in (j1 @ j2 @ j3, t3))"

section \<open>What a scan does to a board\<close>

definition block_row :: "ext \<Rightarrow> int \<Rightarrow> 64 word \<Rightarrow> string \<Rightarrow> task_row \<Rightarrow> task_row" where
  "block_row E now_ns threshold board_id r =
     (if tk_board_id r = board_id \<and> tk_status r = ''running'' \<and> is_stale E now_ns threshold r
      then r\<lparr>tk_status := ''blocked''\<rparr> else r)"

lemma is_stale_row: "is_stale E now_ns threshold (task_from_row r) = is_stale E now_ns threshold r"
  by (simp add: is_stale_def)

lemma wp_block_if_stale:
  assumes cur: "r \<in> set (db_tasks s)" and ids: "distinct (map tk_id (db_tasks s))"
    and ref: "tk_assignee r \<in> mb_email ` set (db_members s)"
    and row: "tk_board_id r = board_id" "tk_status r = ''running''"
  shows "wpE (block_if_stale E now_ns threshold (task_from_row r))
     (\<lambda>_ s'. remapped (\<lambda>r r'. r' = block_row E now_ns threshold board_id r) {r} (db_tasks s) (db_tasks s') \<and>
        rest s' = rest s)
     (\<lambda>_ _. False) s"
proof (cases "is_stale E now_ns threshold r")
  case True
  note [simp del] = task_from_row.simps
  from True row have "set_task_cols ((task_from_row r)\<lparr>tk_status := Blocked\<rparr>) r
      = block_row E now_ns threshold board_id r"
    by (simp add: set_cols_status block_row_def show_task_status.simps)
  then show ?thesis
    using True ref remapped_write [OF ids cur, of "\<lambda>r r'. r' = block_row E now_ns threshold board_id r"]
    by (simp add: block_if_stale_def is_stale_row wps task_cols)
next
  case False
  then show ?thesis
    using remapped_same [of "{r}" "\<lambda>r r'. r' = block_row E now_ns threshold board_id r"]
    by (simp add: block_if_stale_def is_stale_row wps block_row_def del: task_from_row.simps)
qed

lemma wp_heartbeat_scan:
  assumes "wf_db s"
  shows "wpE (heartbeat_scan_board E now_ns threshold board_id)
     (\<lambda>_ s'. db_tasks s' = map (block_row E now_ns threshold board_id) (db_tasks s) \<and> rest s' = rest s)
     (\<lambda>_ _. False) s"
proof -
  note [simp del] = task_from_row.simps
  let ?g = "block_row E now_ns threshold board_id"
  define rs where "rs = filter (\<lambda>r. tk_board_id r = board_id \<and> tk_status r = ''running'') (db_tasks s)"
  have "wpE (forE (block_if_stale E now_ns threshold) (map task_from_row rs))
    (\<lambda>_ s'. remapped (\<lambda>r r'. r' = ?g r) (set rs) (db_tasks s) (db_tasks s') \<and> rest s' = rest s)
    (\<lambda>e s'. False \<and> rest s' = rest s \<and>
       (\<exists>A \<subseteq> set rs. remapped (\<lambda>r r'. r' = ?g r) A (db_tasks s) (db_tasks s'))) s"
  proof (rule wp_row_loop)
    fix r s1
    assume r: "r \<in> set rs" and cur: "r \<in> set (db_tasks s1)" and ids: "distinct (map tk_id (db_tasks s1))"
      and same: "rest s1 = rest s"
    have "tk_assignee r \<in> mb_email ` set (db_members s1)"
      using r assms rest_members [OF same] by (auto simp: rs_def wf_defs)
    then show "wpE (block_if_stale E now_ns threshold (task_from_row r))
       (\<lambda>_ s'. remapped (\<lambda>r r'. r' = ?g r) {r} (db_tasks s1) (db_tasks s') \<and> rest s' = rest s)
       (\<lambda>e s'. False \<and> rest s' = rest s \<and>
          (\<exists>A \<subseteq> {r}. remapped (\<lambda>r r'. r' = ?g r) A (db_tasks s1) (db_tasks s'))) s1"
      using wp_block_if_stale [OF cur ids, of board_id] r same by (simp add: rs_def)
  qed (use assms in \<open>auto simp: wf_defs rs_def block_row_def distinct_map\<close>)
  moreover have "rows = map ?g (db_tasks s)" if "remapped (\<lambda>r r'. r' = ?g r) (set rs) (db_tasks s) rows" for rows
    using that by (auto simp: remapped_fun rs_def block_row_def)
  ultimately show ?thesis
    unfolding heartbeat_scan_board_def
    by (simp add: wps rs_def [symmetric]) (erule wpE_mono; simp)
qed

lemma wf_scans [keeps]:
  "preserves wf_db (heartbeat_scan_board E now_ns threshold board_id)"
  "preserves P (stale_reviews_board E now_ns threshold board_id)"
  "preserves wf_db (archive_scan_board E now_ns threshold board_id)"
  unfolding heartbeat_scan_board_def block_if_stale_def stale_reviews_board_def archive_scan_board_def
  by (intro keeps)+

text \<open>A scan that keeps a property of boards keeps it of all boards of the volume.\<close>

fun volume_all :: "(bst \<Rightarrow> bool) \<Rightarrow> volume \<Rightarrow> bool" where
  "volume_all P (Files fs) = list_all (\<lambda>(name, content). case content of None \<Rightarrow> True | Some db \<Rightarrow> P db) fs"
| "volume_all P _ = True"

lemma scan_file_all:
  "preserves P (scan b) \<Longrightarrow> volume_all P (Files fs) \<Longrightarrow> volume_all P (Files (scan_file scan b fs))"
  by (induction fs) (auto simp: scan_file_def preserves_def split: option.splits if_splits)

lemma scan_volume_all:
  assumes "\<And>b. preserves P (scan b)" and "volume_all P vol"
  shows "volume_all P (scan_volume scan vol)"
proof -
  have "volume_all P (Files fs) \<Longrightarrow> volume_all P (Files (fold (scan_file scan) ids fs))" for ids fs
    using scan_file_all [OF assms(1)] by (induction ids arbitrary: fs) simp_all
  then show ?thesis
    using assms(2) by (auto simp: scan_volume_def split: sum.split volume.split simp del: volume_all.simps)
qed

end
