(* ===== verification/Board_Interceptor.thy ===== *)
theory Board_Interceptor
  imports Board_Tracks Board_Registry
begin

text \<open>
  The mail entry of the board (\<open>src/src/board/interceptor.rs\<close>): an inbound mail, as the JSON payload
  of its webhook, creates a board (\<open>[A2A] new\<close>), runs a command, records an owner's confirmation or
  gets the session identity of its sender injected. The state is the gateway's: one database per
  board id, the address registry, the rows of \<open>board_whitelists\<close> in the main database.

  \<open>icfg\<close> is the interceptor's environment: whether a board file can be opened, the state of a file
  SQLite has just created, the address table of the main database, the admission gate of the build,
  the random bytes of \<open>sanitize_short_id\<close>.
\<close>

section \<open>State and environment\<close>

record gst =
  g_dbs :: "(string \<times> bst) list"
  g_registry :: board_registry
  g_groups :: "(string \<times> string) list"

type_synonym 'a gm = "(gst, app_error, 'a) eff"

record icfg =
  ic_ext :: ext
  ic_gateway_url :: string
  ic_reply_policy :: reply_policy
  ic_open_ok :: "string \<Rightarrow> bool"
  ic_fresh :: "string \<Rightarrow> bst"
  ic_lookup_domain_addr :: "string \<Rightarrow> string option"
  ic_admit_board :: "string \<Rightarrow> bool"
  ic_rand :: "nat \<Rightarrow> nat"

datatype decision = Handled | PassThrough

text \<open>\<open>open_board_db\<close>: a missing file is created; \<open>False\<close> when SQLite refuses the file.\<close>

definition open_board_db :: "icfg \<Rightarrow> string \<Rightarrow> bool gm" where
  "open_board_db C board_id = (\<lambda>g.
     if \<not> ic_open_ok C board_id then (Inr False, g)
     else (Inr True, if map_of (g_dbs g) board_id = None
                     then g\<lparr>g_dbs := AList.update board_id (ic_fresh C board_id) (g_dbs g)\<rparr> else g))"

text \<open>A computation on the open connection; the connection of a board that is not open has no rows.\<close>

definition on_board :: "string \<Rightarrow> 'a bm \<Rightarrow> 'a gm" where
  "on_board board_id m = (\<lambda>g. case map_of (g_dbs g) board_id of
     None \<Rightarrow> (Inl (Err (Internal ''board not open'')), g)
   | Some db \<Rightarrow> (case m db of (r, db') \<Rightarrow>
       (r, g\<lparr>g_dbs := AList.update board_id db' (g_dbs g)\<rparr>)))"

definition pstr :: "json \<Rightarrow> string \<Rightarrow> string" where
  "pstr payload k = unwrap_or [] (get_str (Some payload) k)"

definition parr :: "json \<Rightarrow> string \<Rightarrow> json list" where
  "parr payload k = unwrap_or [] (get_arr (Some payload) k)"

text \<open>\<open>payload["k"] = v\<close>.\<close>

definition set_key :: "json \<Rightarrow> string \<Rightarrow> json \<Rightarrow> json gm" where
  "set_key payload k v = (case jset payload k v of None \<Rightarrow> panicE | Some p \<Rightarrow> returnE p)"

definition to_addr_of :: "json \<Rightarrow> string" where
  "to_addr_of payload =
     (let to_arr = parr payload ''to'';
          board = Option.bind (find (\<lambda>v. case as_str v of None \<Rightarrow> False | Some a \<Rightarrow> is_board_address a) to_arr) as_str
      in unwrap_or [] (case board of Some a \<Rightarrow> Some a
           | None \<Rightarrow> (case to_arr of [] \<Rightarrow> None | v # _ \<Rightarrow> as_str v)))"

section \<open>Board creation\<close>

definition has_role :: "string \<Rightarrow> json \<Rightarrow> bool" where
  "has_role role m \<longleftrightarrow> get_str (Some m) ''role'' = Some role"

definition verifier_addressed :: "json list option \<Rightarrow> json list option \<Rightarrow> json list option \<Rightarrow> bool" where
  "verifier_addressed members to cc =
     (let verifier_emails = (case members of None \<Rightarrow> []
            | Some arr \<Rightarrow> map to_lowercase (filter_map (\<lambda>m. get_str (Some m) ''email'')
                            (filter (has_role ''verifier'') arr)));
          addressed = map to_lowercase (filter_map as_str (unwrap_or [] to))
                    @ map to_lowercase (filter_map as_str (unwrap_or [] cc))
      in if verifier_emails = [] then False
         else list_ex (\<lambda>ve. ve \<in> set addressed) verifier_emails)"

record new_request =
  nr_short_id :: string
  nr_description :: string
  nr_params :: "json option"
  nr_members :: "json list"
  nr_orch_email :: string

text \<open>The checks before the board file is opened; \<open>None\<close> is a refusal.\<close>

definition new_request_of :: "icfg \<Rightarrow> string \<Rightarrow> json \<Rightarrow> string \<Rightarrow> new_request option" where
  "new_request_of C subject payload to_addr =
     (let rest0 = trim (unwrap_or [] (strip_prefix ''[A2A] new '' subject));
          (short_part, desc) = (case split_once (CHR '':'') rest0 of Some ab \<Rightarrow> ab | None \<Rightarrow> (rest0, []));
          short_id = sanitize_short_id (ic_rand C) (trim short_part);
          params = json_parse (ic_ext C) (pstr payload ''body'');
          members = get_arr params ''members'' in
      if short_id = [] then None
      else (case members of
        None \<Rightarrow> None
      | Some arr \<Rightarrow>
          if \<not> list_ex (has_role ''orchestrator'') arr then None
          else if \<not> list_ex (has_role ''verifier'') arr then None
          else let orch_email = unwrap_or [] (Option.bind (find (has_role ''orchestrator'') arr)
                                  (\<lambda>m. get_str (Some m) ''email'')) in
            if orch_email \<noteq> to_addr then None
            else if \<not> verifier_addressed members (get_arr (Some payload) ''to'') (get_arr (Some payload) ''cc'')
            then None
            else Some \<lparr>nr_short_id = short_id, nr_description = trim desc, nr_params = params,
                       nr_members = arr, nr_orch_email = orch_email\<rparr>))"

definition orch_domain :: "new_request \<Rightarrow> string" where
  "orch_domain q = unwrap_or [] (nth_opt (split_char (CHR ''@'') (nr_orch_email q)) 1)"

definition orch_system :: "icfg \<Rightarrow> new_request \<Rightarrow> string" where
  "orch_system C q = unwrap_or [] (ic_lookup_domain_addr C (nr_orch_email q))"

definition new_board_email :: "icfg \<Rightarrow> new_request \<Rightarrow> string" where
  "new_board_email C q =
     (if starts_with (orch_system C q) ''shared-''
      then let sys_name = last (split_char (CHR ''.'') (hd (split_char (CHR ''@'') (nr_orch_email q))))
           in nr_short_id q @ ''.'' @ sys_name @ ''.a2a@'' @ orch_domain q
      else nr_short_id q @ ''.a2a@'' @ orch_domain q)"

definition sender_is_owner :: "json list \<Rightarrow> string \<Rightarrow> bool" where
  "sender_is_owner members sender =
     list_ex (\<lambda>m. has_role ''owner'' m \<and> get_str (Some m) ''email'' = Some sender) members"

definition new_board :: "icfg \<Rightarrow> new_request \<Rightarrow> string \<Rightarrow> string \<Rightarrow> board" where
  "new_board C q board_email created_at =
     \<lparr>bd_id = derive_board_id (ic_ext C) board_email, bd_short_id = nr_short_id q,
      bd_board_email = board_email,
      bd_goal = (if nr_description q = [] then None else Some (nr_description q)),
      bd_status = BActive, bd_output_task_id = None, bd_plan_version = None, bd_plan_text = None,
      bd_plan_confirmed_at = None, bd_criteria_version = None, bd_criteria_text = None,
      bd_criteria_confirmed_at = None, bd_created_at = created_at, bd_completed_at = None,
      bd_system_id = (if orch_system C q = [] then None else Some (orch_system C q))\<rparr>"

text \<open>
  The member loop: tokens of new members are collected for the invites, every address for the group
  whitelist. \<open>None\<close> is the early return on an unknown role; what earlier iterations wrote stays.
\<close>

fun register_members ::
    "icfg \<Rightarrow> string \<Rightarrow> json list \<Rightarrow> (string \<times> string) list \<Rightarrow> string list \<Rightarrow>
     ((string \<times> string) list \<times> string list) option gm" where
  "register_members C board_id [] invites emails = returnE (Some (invites, emails))"
| "register_members C board_id (m # ms) invites emails =
     (let email = unwrap_or [] (get_str (Some m) ''email'');
          role = unwrap_or ''worker'' (get_str (Some m) ''role'');
          disp = unwrap_or email (get_str (Some m) ''display_name'') in
      if role \<notin> set KNOWN_ROLES then returnE None
      else if email = [] then register_members C board_id ms invites emails
      else bindE (on_board board_id (get_member board_id email)) (\<lambda>found.
        case found of
          Some _ \<Rightarrow> register_members C board_id ms invites (emails @ [email])
        | None \<Rightarrow>
            bindE (on_board board_id generate_board_token) (\<lambda>tok.
            bindE (on_board board_id now) (\<lambda>ts.
            thenE (okE (on_board board_id (add_member (ic_ext C)
                \<lparr>mb_email = email, mb_role = role, mb_display_name = disp, mb_board_id = board_id,
                 mb_board_token = Some tok, mb_board_token_salt = None, mb_joined_at = Some ts,
                 mb_domains = None, mb_capability_snapshot = None\<rparr>)))
              (register_members C board_id ms (invites @ [(email, tok)]) (emails @ [email]))))))"

text \<open>\<open>replace_board_members\<close> of the main database.\<close>

definition replace_board_members :: "string \<Rightarrow> string list \<Rightarrow> unit gm" where
  "replace_board_members board_email members = modifyE (\<lambda>g. g\<lparr>g_groups :=
     fold (\<lambda>m. insert_or_ignore (board_email, m)) members
       (filter (\<lambda>(b, _). b \<noteq> board_email) (g_groups g))\<rparr>)"

definition zh_project :: string where
  "zh_project = utf8 [0xE9, 0xA1, 0xB9, 0xE7, 0x9B, 0xAE]"

definition zh_team_members :: string where
  "zh_team_members = utf8 [0xE5, 0x9B, 0xA2, 0xE9, 0x98, 0x9F, 0xE6, 0x88, 0x90, 0xE5, 0x91, 0x98]"

definition member_line :: "json \<Rightarrow> string option" where
  "member_line m =
     (let email = unwrap_or [] (get_str (Some m) ''email'');
          role = unwrap_or [] (get_str (Some m) ''role'');
          disp = unwrap_or email (get_str (Some m) ''display_name'')
      in if email = [] then None
         else Some (''  '' @ disp @ '' ('' @ email @ '') '' @ em_dash @ '' '' @ role))"

definition has_han :: "string \<Rightarrow> bool" where
  "has_han text = list_ex (\<lambda>c. 19968 \<le> c \<and> c \<le> 40959) (utf8_scalars (map code text))"

text \<open>The mail all members get when the board has just been created.\<close>

definition init_notify :: "icfg \<Rightarrow> new_request \<Rightarrow> string \<Rightarrow> unit bm" where
  "init_notify C q board_email =
     (let cn = has_han (nr_description q);
          proj_l = (if cn then zh_project else ''Project'');
          members_l = (if cn then zh_team_members else ''Team Members'');
          body = proj_l @ '': '' @ nr_short_id q @ '' ('' @ nr_description q @ '')'' @ nl @ ''Board Email: ''
            @ board_email @ nl @ ''Gateway: '' @ ic_gateway_url C @ nl @ nl @ members_l @ '':'' @ nl
            @ join nl (filter_map member_line (nr_members q));
          subject = ''[A2A] notice: Board '' @ nr_short_id q @ '' created '' @ em_dash @ '' '' @ nr_description q;
          csv = join '','' (filter_map (\<lambda>m. get_str (Some m) ''email'') (nr_members q));
          header = [(x_board_members, board_email @ '';'' @ csv)]
      in forE (\<lambda>m. let email = unwrap_or [] (get_str (Some m) ''email'') in
           if email = [] then returnE ()
           else modifyE (\<lambda>s. s\<lparr>w_outbox := w_outbox s @
             [\<lparr>nt_to = email, nt_subject = subject, nt_body = body, nt_headers = Some header,
               nt_internal = False, nt_attachments = None\<rparr>]\<rparr>)) (nr_members q))"

definition board_notifier ::
    "icfg \<Rightarrow> string \<Rightarrow> string \<Rightarrow> string \<Rightarrow> string \<Rightarrow> string \<Rightarrow> string option \<Rightarrow> notifier" where
  "board_notifier C system short_id board_email board_id domain attachments =
     \<lparr>nf_factory = True, nf_system_id = system, nf_board_short_id = short_id,
      nf_board_email = board_email, nf_board_id = board_id, nf_gateway_domain = domain,
      nf_gateway_url = ic_gateway_url C, nf_attachments_json = attachments,
      nf_reply_policy = ic_reply_policy C\<rparr>"

text \<open>The row and the registry entry; \<open>None\<close> when the admission gate refuses.\<close>

definition ensure_board :: "icfg \<Rightarrow> new_request \<Rightarrow> string \<Rightarrow> string \<Rightarrow> bool option gm" where
  "ensure_board C q board_email board_id =
     bindE (tryE (on_board board_id (get_board board_id))) (\<lambda>found.
       case found of
         Inr _ \<Rightarrow> returnE (Some False)
       | Inl _ \<Rightarrow>
           if \<not> ic_admit_board C (orch_system C q) then returnE None
           else bindE (on_board board_id now) (\<lambda>ts.
             let board = new_board C q board_email ts in
             thenE (okE (on_board board_id (create_board board)))
             (thenE (modifyE (\<lambda>g. g\<lparr>g_registry :=
                 registry_insert board_email board_id (bd_system_id board) (g_registry g)\<rparr>))
               (returnE (Some True)))))"

definition new_overrides :: "new_request \<Rightarrow> unit bm" where
  "new_overrides q = (case get_arr (nr_params q) ''role_permissions'' of
     None \<Rightarrow> returnE ()
   | Some permissions \<Rightarrow> okE (insert_role_permissions (filter_map perm_entry permissions)))"

definition send_invites :: "icfg \<Rightarrow> new_request \<Rightarrow> string \<Rightarrow> string \<Rightarrow> (string \<times> string) list \<Rightarrow> unit bm" where
  "send_invites C q board_email board_id invites =
     (let n = board_notifier C (orch_system C q) (nr_short_id q) board_email board_id (orch_domain q) None;
          csv = join '','' (map fst invites)
      in forE (\<lambda>(email, tok). notify_invite n email tok board_email (nr_short_id q) csv) invites)"

definition new_board_flow :: "icfg \<Rightarrow> new_request \<Rightarrow> json \<Rightarrow> string \<Rightarrow> json gm" where
  "new_board_flow C q payload sender =
     (let board_email = new_board_email C q;
          board_id = derive_board_id (ic_ext C) board_email in
      bindE (open_board_db C board_id) (\<lambda>opened.
      if \<not> opened then returnE payload
      else if \<not> sender_is_owner (nr_members q) sender then returnE payload
      else bindE (ensure_board C q board_email board_id) (\<lambda>ensured.
        case ensured of
          None \<Rightarrow> returnE payload
        | Some board_created \<Rightarrow>
            bindE (register_members C board_id (nr_members q) [] []) (\<lambda>registered.
              case registered of
                None \<Rightarrow> returnE payload
              | Some (invites, emails) \<Rightarrow>
                  thenE (replace_board_members board_email emails)
                  (thenE (on_board board_id (new_overrides q))
                  (thenE (okE (on_board board_id seed_default_role_permissions))
                  (thenE (if board_created then on_board board_id (init_notify C q board_email) else returnE ())
                  (thenE (on_board board_id (send_invites C q board_email board_id invites))
                  (bindE (case get_str (Some payload) ''from'' of None \<Rightarrow> returnE None
                          | Some from \<Rightarrow> on_board board_id (get_member board_id from)) (\<lambda>m.
                    let member_role = (case m of Some x \<Rightarrow> mb_role x | None \<Rightarrow> ''owner'') in
                    bindE (set_key payload ''board_id'' (JStr board_id)) (\<lambda>p1.
                      set_key p1 ''board_role'' (JStr member_role))))))))))))"

section \<open>Commands\<close>

definition carry_verbs :: "string list" where
  "carry_verbs = [''complete'', ''output'', ''comment'', ''create'', ''arbitrate'']"

text \<open>
  The parameters of a command: the JSON value of the body, or an object holding the text when the
  body is no JSON; the board id and the attachments are added where the sender left them out.
\<close>

definition command_params :: "icfg \<Rightarrow> string \<Rightarrow> json \<Rightarrow> json gm" where
  "command_params C board_id payload =
     (let body = pstr payload ''body'';
          p0 = unwrap_or (JObj [(''body'', JStr body)]) (json_parse (ic_ext C) body) in
      bindE (if jget p0 ''board_id'' = None then set_key p0 ''board_id'' (JStr board_id) else returnE p0) (\<lambda>p1.
      case jget payload ''attachments'' of
        None \<Rightarrow> returnE p1
      | Some attachments \<Rightarrow>
          if jget p1 ''_attachments'' = None then set_key p1 ''_attachments'' attachments else returnE p1))"

definition parse_command_subject :: "string \<Rightarrow> string \<times> string option" where
  "parse_command_subject rest0 =
     (unwrap_or [] (nth_opt (split_whitespace rest0) 0), nth_opt (split_whitespace rest0) 1)"

definition result_line :: "command_response \<Rightarrow> string" where
  "result_line r = ''status='' @ rs_status r @ (case rs_task r of None \<Rightarrow> []
     | Some k \<Rightarrow> '' task='' @ tk_short_id k @ '' summary='' @ tk_summary k)"

definition run_command :: "icfg \<Rightarrow> notifier \<Rightarrow> string \<Rightarrow> a2a_command \<Rightarrow> string \<Rightarrow> unit bm" where
  "run_command C n board_id cmd sender =
     bindE (tryE (execute_command (ic_ext C) n cmd sender)) (\<lambda>result.
     bindE (get_member board_id sender) (\<lambda>m.
       case result of
         Inr response \<Rightarrow> notify_command_result (ic_ext C) n sender (cm_verb cmd) True
                           (result_line response) (rs_data response) (m \<noteq> None)
       | Inl e \<Rightarrow> notify_command_result (ic_ext C) n sender (cm_verb cmd) False
                   (display (db_message (ic_ext C)) e) None (m \<noteq> None)))"

definition command_flow :: "icfg \<Rightarrow> json \<Rightarrow> string \<Rightarrow> string \<Rightarrow> string \<Rightarrow> string \<Rightarrow> decision gm" where
  "command_flow C payload sender to_addr board_id rest0 =
     (let (verb, task_id) = parse_command_subject rest0;
          attachments_json = (if verb \<in> set carry_verbs
            then map_option (json_text (ic_ext C)) (jget payload ''attachments'') else None) in
      bindE (tryE (on_board board_id (get_board board_id))) (\<lambda>found.
        case found of
          Inl _ \<Rightarrow> returnE PassThrough
        | Inr b \<Rightarrow>
            if \<not> eq_ignore_ascii_case (bd_board_email b) to_addr then returnE PassThrough
            else if bd_status b = BArchived then returnE PassThrough
            else if bd_status b = BFrozen then returnE PassThrough
            else let board_domain = unwrap_or [] (nth_opt (split_char (CHR ''@'') (bd_board_email b)) 1);
                     n = board_notifier C board_domain (bd_short_id b) (bd_board_email b) (bd_id b)
                           board_domain attachments_json in
              bindE (command_params C board_id payload) (\<lambda>params.
              thenE (on_board board_id (run_command C n board_id
                       \<lparr>cm_verb = verb, cm_task_id = task_id, cm_params = Some params\<rparr> sender))
                (returnE Handled))))"

section \<open>Confirmations and sessions\<close>

datatype confirm_type = CPlan | CCriteria | COutput

definition confirm_word :: "string \<Rightarrow> bool" where
  "confirm_word w \<longleftrightarrow> w = ''plan'' \<or> w = ''criteria'' \<or> w = ''output''"

fun position :: "('a \<Rightarrow> bool) \<Rightarrow> 'a list \<Rightarrow> nat option" where
  "position p [] = None"
| "position p (x # xs) = (if p x then Some 0 else map_option Suc (position p xs))"

definition parse_confirm :: "string \<Rightarrow> (confirm_type \<times> string option \<times> string option) option" where
  "parse_confirm subject =
     (case strip_prefix ''confirm'' (trim subject) of
        None \<Rightarrow> None
      | Some rest0 \<Rightarrow>
          (let tokens = split_whitespace (trim rest0) in
           if tokens = [] then None
           else (case position confirm_word tokens of
             None \<Rightarrow> None
           | Some i \<Rightarrow>
               Some (if tokens ! i = ''plan'' then CPlan
                     else if tokens ! i = ''criteria'' then CCriteria else COutput,
                     nth_opt tokens (i + 1),
                     if i = 1 then Some (tokens ! 0) else None))))"

text \<open>The three \<open>UPDATE boards\<close> statements of an owner's confirmation.\<close>

definition apply_confirm :: "confirm_type \<Rightarrow> string option \<Rightarrow> string \<Rightarrow> string \<Rightarrow> unit bm" where
  "apply_confirm kind after body board_id =
     (case kind of
        COutput \<Rightarrow> bindE now (\<lambda>ts. modifyE (\<lambda>s. s\<lparr>db_boards :=
          update_where (\<lambda>r. bd_id r = board_id)
            (\<lambda>r. r\<lparr>bd_status := ''completed'', bd_completed_at := Some ts\<rparr>) (db_boards s)\<rparr>))
      | _ \<Rightarrow> (case after of
          None \<Rightarrow> returnE ()
        | Some ver_raw \<Rightarrow>
            (let ver = dropWhile (\<lambda>c. c = CHR ''v'') ver_raw in
             if ver = [] then returnE ()
             else bindE now (\<lambda>ts. modifyE (\<lambda>s. s\<lparr>db_boards :=
               update_where (\<lambda>r. bd_id r = board_id)
                 (\<lambda>r. if kind = CPlan
                      then r\<lparr>bd_plan_version := Some ver, bd_plan_text := Some body,
                             bd_plan_confirmed_at := Some ts\<rparr>
                      else r\<lparr>bd_criteria_version := Some ver, bd_criteria_text := Some body,
                             bd_criteria_confirmed_at := Some ts\<rparr>) (db_boards s)\<rparr>)))))"

definition first_board :: "icfg \<Rightarrow> json list \<Rightarrow> string option" where
  "first_board C addrs = (case filter_map (\<lambda>v. Option.bind (as_str v) (\<lambda>a.
     map_option (\<lambda>(_, bid, _). bid) (parse_board_email (ic_ext C) a))) addrs of
       [] \<Rightarrow> None | bid # _ \<Rightarrow> Some bid)"

definition confirm_board :: "string \<Rightarrow> string \<Rightarrow> string \<Rightarrow> string \<Rightarrow> unit bm" where
  "confirm_board subject_lower body bid sender =
     (case parse_confirm subject_lower of
        None \<Rightarrow> returnE ()
      | Some (kind, after, _) \<Rightarrow> bindE (get_member bid sender) (\<lambda>m.
          if (case m of Some x \<Rightarrow> mb_role x = ''owner'' | None \<Rightarrow> False)
          then apply_confirm kind after body bid else returnE ()))"

text \<open>
  A board address among the recipients: the confirmation, then the sender's identity. The file is
  opened once for each, and a file that does not open is passed over.
\<close>

definition confirm_flow :: "icfg \<Rightarrow> json \<Rightarrow> string \<Rightarrow> string \<Rightarrow> string \<Rightarrow> json gm" where
  "confirm_flow C payload subject sender bid =
     thenE (if parse_confirm (to_lowercase subject) = None then returnE ()
            else bindE (open_board_db C bid) (\<lambda>opened.
              if opened then on_board bid (confirm_board (to_lowercase subject) (pstr payload ''body'') bid sender)
              else returnE ()))
     (bindE (open_board_db C bid) (\<lambda>opened.
        if \<not> opened then returnE payload
        else bindE (on_board bid (get_member bid sender)) (\<lambda>m.
          case m of
            None \<Rightarrow> returnE payload
          | Some fm \<Rightarrow> bindE (set_key payload ''board_id'' (JStr bid)) (\<lambda>p1.
              bindE (set_key p1 ''board_role'' (JStr (mb_role fm))) (\<lambda>p2.
                set_key p2 ''from_role'' (JStr (mb_role fm)))))))"

definition session_flow :: "icfg \<Rightarrow> json \<Rightarrow> string \<Rightarrow> string \<Rightarrow> string \<Rightarrow> json gm" where
  "session_flow C payload sender to_addr bid =
     bindE (open_board_db C bid) (\<lambda>opened.
       if \<not> opened then returnE payload
       else bindE (on_board bid (get_member bid sender)) (\<lambda>fm.
         bindE (on_board bid (get_member bid to_addr)) (\<lambda>tm.
           case (fm, tm) of
             (Some f, Some m) \<Rightarrow> bindE (set_key payload ''board_id'' (JStr bid)) (\<lambda>p1.
               bindE (set_key p1 ''board_role'' (JStr (mb_role m))) (\<lambda>p2.
                 set_key p2 ''from_role'' (JStr (mb_role f))))
           | _ \<Rightarrow> returnE payload)))"

section \<open>The interceptor\<close>

definition pass :: "json gm \<Rightarrow> (decision \<times> json) gm" where
  "pass m = bindE m (\<lambda>p. returnE (PassThrough, p))"

definition intercept :: "icfg \<Rightarrow> json \<Rightarrow> (decision \<times> json) gm" where
  "intercept C payload =
     (let subject = trim (pstr payload ''subject'');
          sender = pstr payload ''from'';
          to_addr = to_addr_of payload in
      if starts_with subject ''[A2A] new '' \<and> \<not> is_board_address to_addr
      then (case new_request_of C subject payload to_addr of
              None \<Rightarrow> returnE (PassThrough, payload)
            | Some q \<Rightarrow> pass (new_board_flow C q payload sender))
      else (case parse_board_email (ic_ext C) to_addr of
        None \<Rightarrow> returnE (PassThrough, payload)
      | Some (_, board_id, _) \<Rightarrow> bindE (open_board_db C board_id) (\<lambda>opened.
          if \<not> opened then returnE (PassThrough, payload)
          else (case strip_prefix ''[A2A] '' subject of
            Some rest0 \<Rightarrow> bindE (command_flow C payload sender to_addr board_id rest0) (\<lambda>d.
              returnE (d, payload))
          | None \<Rightarrow>
              (case first_board C (parr payload ''to'') of
                 Some bid \<Rightarrow> pass (confirm_flow C payload subject sender bid)
               | None \<Rightarrow>
                   (case first_board C (parr payload ''cc'') of
                      Some bid \<Rightarrow> pass (session_flow C payload sender to_addr bid)
                    | None \<Rightarrow> returnE (PassThrough, payload)))))))"

section \<open>What a mail keeps\<close>

definition all_boards :: "(bst \<Rightarrow> bool) \<Rightarrow> gst \<Rightarrow> bool" where
  "all_boards P g \<longleftrightarrow> (\<forall>(b, db) \<in> set (g_dbs g). P db)"

lemma in_alist_update: "x \<in> set (AList.update k v al) \<Longrightarrow> x = (k, v) \<or> x \<in> set al"
  by (induction al) (auto split: if_splits)

lemma all_boards_update: "all_boards P g \<Longrightarrow> P db \<Longrightarrow> all_boards P (g\<lparr>g_dbs := AList.update b db (g_dbs g)\<rparr>)"
  by (auto simp: all_boards_def dest: in_alist_update)

lemma preserves_on_board [keeps]:
  assumes "preserves P m"
  shows "preserves (all_boards P) (on_board b m)"
proof (rule preservesI)
  fix g assume g: "all_boards P g"
  show "all_boards P (snd (on_board b m g))"
  proof (cases "map_of (g_dbs g) b")
    case (Some db)
    with g have "P db" by (auto simp: all_boards_def dest: map_of_SomeD)
    then have "P (snd (m db))" using assms by (simp add: preserves_def)
    then show ?thesis using Some g by (auto simp: on_board_def all_boards_update split: prod.split)
  qed (use g in \<open>simp add: on_board_def\<close>)
qed

lemma preserves_set_key [keeps]: "preserves P (set_key p k v)"
  unfolding set_key_def by (intro keeps)

lemma preserves_groups [keeps]: "preserves (all_boards P) (replace_board_members be ms)"
  unfolding replace_board_members_def by (intro preserves_modifyE) (simp add: all_boards_def)

lemma preserves_open:
  "(\<And>b. P (ic_fresh C b)) \<Longrightarrow> preserves (all_boards P) (open_board_db C b)"
  by (auto simp: preserves_def open_board_db_def all_boards_update)

lemma outbox_only_init_notify [notifies]: "outbox_only (init_notify C q be)"
  unfolding init_notify_def Let_def
  by (intro notifies) (auto simp: outbox_only_def runs outbox_same)

lemma outbox_only_invites [notifies]: "outbox_only (send_invites C q be b invites)"
  unfolding send_invites_def Let_def
  by (intro notifies) (simp add: notifies split: prod.split)

lemma wf_new_overrides [keeps]: "preserves wf_db (new_overrides q)"
  unfolding new_overrides_def by (intro keeps)

lemma wf_boards_update:
  assumes "\<And>r. bd_id (f r) = bd_id r" "\<And>r. bd_short_id (f r) = bd_short_id r"
    and "\<And>r. bd_status r \<in> range show_board_status \<Longrightarrow> bd_status (f r) \<in> range show_board_status"
  shows "preserves wf_db (modifyE (\<lambda>s. s\<lparr>db_boards := update_where p f (db_boards s)\<rparr>))"
  using assms by (intro preserves_modifyE) (auto simp: wf_defs dest!: in_update_where)

lemma wf_apply_confirm [keeps]: "preserves wf_db (apply_confirm kind after body b)"
proof -
  have "''completed'' \<in> range show_board_status" by (metis rangeI show_board_status.simps(3))
  then have out: "preserves wf_db (apply_confirm COutput after body b)"
    unfolding apply_confirm_def by simp (intro keeps wf_boards_update; simp)
  have "kind \<noteq> COutput \<Longrightarrow> preserves wf_db (apply_confirm kind after body b)"
    unfolding apply_confirm_def Let_def
    by (cases kind; simp) (intro keeps wf_boards_update; simp)+
  with out show ?thesis by blast
qed

lemma wf_run_command [keeps]: "preserves wf_db (run_command C n b cmd sender)"
  unfolding run_command_def by (intro keeps wf_execute_command notifies)

lemma wf_register_members [keeps]:
  "preserves (all_boards wf_db) (register_members C b ms invites emails)"
  by (induction C b ms invites emails rule: register_members.induct)
     (auto simp: Let_def intro!: keeps)

lemma wf_intercept:
  assumes "\<And>b. wf_db (ic_fresh C b)"
  shows "preserves (all_boards wf_db) (intercept C payload)"
proof -
  note opens = preserves_open [where P = wf_db, OF assms]
  have registry: "preserves (all_boards wf_db) (modifyE (\<lambda>g. g\<lparr>g_registry := h g\<rparr>))" for h
    by (intro preserves_modifyE) (simp add: all_boards_def)
  have "preserves (all_boards wf_db) (new_board_flow C q payload sender)" for q sender
    unfolding new_board_flow_def ensure_board_def Let_def
    by (intro keeps opens registry notifies)
  moreover have "preserves (all_boards wf_db) (command_flow C payload sender to_addr b r)" for sender to_addr b r
    unfolding command_flow_def command_params_def Let_def by (intro keeps)
  moreover have "preserves (all_boards wf_db) (confirm_flow C payload subject sender b)" for subject sender b
    unfolding confirm_flow_def confirm_board_def by (intro keeps opens)
  moreover have "preserves (all_boards wf_db) (session_flow C payload sender to_addr b)" for sender to_addr b
    unfolding session_flow_def by (intro keeps opens)
  ultimately show ?thesis
    unfolding intercept_def pass_def Let_def by (intro keeps opens)
qed

subsection \<open>Isolation of boards\<close>

text \<open>The boards a mail may reach: the one created, the one commanded, the first ones in To and Cc.\<close>

definition addressed :: "icfg \<Rightarrow> json \<Rightarrow> string set" where
  "addressed C payload =
     {derive_board_id (ic_ext C) (new_board_email C q) |q.
        new_request_of C (trim (pstr payload ''subject'')) payload (to_addr_of payload) = Some q} \<union>
     {b. \<exists>x y. parse_board_email (ic_ext C) (to_addr_of payload) = Some (x, b, y)} \<union>
     {b. first_board C (parr payload ''to'') = Some b} \<union> {b. first_board C (parr payload ''cc'') = Some b}"

definition other_board :: "string \<Rightarrow> bst option \<Rightarrow> gst \<Rightarrow> bool" where
  "other_board b z g \<longleftrightarrow> map_of (g_dbs g) b = z"

lemma other_on_board [keeps]: "b' \<noteq> b \<Longrightarrow> preserves (other_board b' z) (on_board b m)"
  by (auto simp: preserves_def on_board_def other_board_def update_conv' split: option.split prod.split)

lemma other_open [keeps]: "b' \<noteq> b \<Longrightarrow> preserves (other_board b' z) (open_board_db C b)"
  by (auto simp: preserves_def open_board_db_def other_board_def update_conv')

lemma other_modify [keeps]:
  "preserves (other_board b z) (replace_board_members be ms)"
  "preserves (other_board b z) (modifyE (\<lambda>g. g\<lparr>g_registry := h g\<rparr>))"
  unfolding replace_board_members_def
  by (auto intro!: preserves_modifyE simp: other_board_def)

lemma other_register [keeps]:
  "b' \<noteq> b \<Longrightarrow> preserves (other_board b' z) (register_members C b ms invites emails)"
  by (induction C b ms invites emails rule: register_members.induct)
     (auto simp: Let_def intro!: keeps)

lemma other_flows:
  assumes "b' \<noteq> b"
  shows "derive_board_id (ic_ext C) (new_board_email C q) = b \<Longrightarrow>
      preserves (other_board b' z) (new_board_flow C q payload sender)"
    and "preserves (other_board b' z) (command_flow C payload sender to_addr b r)"
    and "preserves (other_board b' z) (confirm_flow C payload subject sender b)"
    and "preserves (other_board b' z) (session_flow C payload sender to_addr b)"
  unfolding new_board_flow_def ensure_board_def command_flow_def command_params_def confirm_flow_def
    session_flow_def Let_def
  using assms by (auto intro!: keeps split: option.split)

lemma intercept_isolated:
  assumes "b \<notin> addressed C payload"
  shows "preserves (other_board b z) (intercept C payload)"
proof -
  note out = assms [unfolded addressed_def]
  show ?thesis
    unfolding intercept_def pass_def Let_def
    using out
    by (auto intro!: keeps other_flows(1) [OF _ refl] other_flows(2-4) split: option.split)
qed

subsection \<open>Registered addresses\<close>

text \<open>An address the registry knows leads to the board whose id is derived from that address.\<close>

definition registry_derived :: "ext \<Rightarrow> gst \<Rightarrow> bool" where
  "registry_derived E g \<longleftrightarrow> (\<forall>k e. map_of (g_registry g) k = Some e \<longrightarrow> be_board_id e = derive_board_id E k)"

lemma registry_derived_on_board [keeps]:
  "preserves (registry_derived E) (on_board b m)" "preserves (registry_derived E) (open_board_db C b)"
  "preserves (registry_derived E) (replace_board_members be ms)"
  by (auto simp: preserves_def on_board_def open_board_db_def replace_board_members_def runs
      registry_derived_def split: option.split prod.split)

lemma registry_derived_register [keeps]:
  "preserves (registry_derived E) (register_members C b ms invites emails)"
  by (induction C b ms invites emails rule: register_members.induct) (auto simp: Let_def intro!: keeps)

lemma registry_derived_insert:
  "preserves (registry_derived E) (modifyE (\<lambda>g. g\<lparr>g_registry :=
     registry_insert be (derive_board_id E be) sys (g_registry g)\<rparr>))"
  by (intro preserves_modifyE)
     (auto simp: registry_derived_def registry_insert_def update_conv' derive_board_id_def)

lemma registry_derived_intercept:
  "preserves (registry_derived (ic_ext C)) (intercept C payload)"
  unfolding intercept_def pass_def new_board_flow_def ensure_board_def command_flow_def command_params_def
    confirm_flow_def session_flow_def Let_def
  by (intro keeps registry_derived_insert)

lemma registered_lookup:
  "registry_derived E g \<Longrightarrow> registry_lookup a (g_registry g) = Some e \<Longrightarrow> be_board_id e = derive_board_id E a"
  by (simp add: registry_derived_def registry_lookup_def derive_board_id_def)

subsection \<open>Gates\<close>

lemma to_addr_in_to:
  assumes "to_addr_of payload \<noteq> []"
  shows "JStr (to_addr_of payload) \<in> set (parr payload ''to'')"
proof -
  have str: "as_str v = Some a \<longleftrightarrow> v = JStr a" for v a by (cases v) auto
  show ?thesis
    using assms
    by (auto simp: to_addr_of_def Let_def unwrap_or_def str find_Some_iff split: option.splits list.splits
        Option.bind_splits) (metis nth_mem)
qed

lemma first_board_found:
  assumes "JStr a \<in> set addrs" and "parse_board_email (ic_ext C) a = Some (x, b, y)"
  shows "first_board C addrs \<noteq> None"
proof -
  let ?f = "\<lambda>v. Option.bind (as_str v) (\<lambda>a. map_option (\<lambda>(_, bid, _). bid) (parse_board_email (ic_ext C) a))"
  have "?f (JStr a) = Some b" using assms(2) by simp
  then have "b \<in> set (filter_map ?f addrs)" 
    using assms(1) unfolding set_filter_map by blast
  then show ?thesis by (auto simp: first_board_def split: list.split)
qed

lemma parse_board_email_nonempty: "parse_board_email E a = Some z \<Longrightarrow> a \<noteq> []"
  by (auto simp: parse_board_email_def)

lemma parse_confirm_bracket: "parse_confirm (CHR ''['' # rest0) = None"
proof -
  have "\<not> is_whitespace (CHR ''['')" by (simp add: is_whitespace_def code_def)
  then have head: "trim (CHR ''['' # rest0) = CHR ''['' # rev (dropWhile is_whitespace (rev rest0)) \<or>
      trim (CHR ''['' # rest0) = [CHR ''['']"
    by (simp add: trim_def dropWhile_append)
  then have "strip_prefix ''confirm'' (trim (CHR ''['' # rest0)) = None"
    by (auto simp: strip_prefix_def)
  then show ?thesis by (simp add: parse_confirm_def)
qed

text \<open>A frozen or archived board runs no command.\<close>

lemma closed_board_command:
  assumes "map_of (g_dbs g) board_id = Some db" and "find (\<lambda>r. bd_id r = board_id) (db_boards db) = Some r"
    and "parse_board_status (bd_status r) \<in> {BArchived, BFrozen}" and "distinct (map fst (g_dbs g))"
  shows "command_flow C payload sender to_addr board_id rest0 g = (Inr PassThrough, g)"
proof -
  have same: "AList.update board_id db (g_dbs g) = g_dbs g"
    using assms(1,4) by (simp add: update_triv)
  have "on_board board_id (get_board board_id) g = (Inr (board_of_row r), g)"
    using assms(1,2) same by (simp add: on_board_def get_board_def runs query_row_def)
  then show ?thesis
    using assms(3) by (auto simp: command_flow_def runs parse_command_subject_def Let_def)
qed

text \<open>A sender who is not declared owner leaves nothing but, at most, an empty board file.\<close>

lemma not_owner_refused:
  assumes "\<not> sender_is_owner (nr_members q) sender"
  shows "new_board_flow C q payload sender g =
    (Inr payload, snd (open_board_db C (derive_board_id (ic_ext C) (new_board_email C q)) g))"
  using assms by (auto simp: new_board_flow_def Let_def runs open_board_db_def)

end
