(* ===== verification/Board_Samples.thy ===== *)
theory Board_Samples
  imports Board_Interceptor
begin

text \<open>
  A small board for the witnesses of the board properties: four members (one per role), a running task
  with a reviewer, a task that waits for it, and concrete functions for what the code takes from other
  crates. The digest pads its input, the clock reader reads a decimal number of seconds.
\<close>

definition digits_value :: "string \<Rightarrow> nat" where
  "digits_value t = fold (\<lambda>c n. 10 * n + (code c - 48)) t 0"

definition demo_ext :: ext where
  "demo_ext = \<lparr>sha256_hex = (\<lambda>x. x @ replicate 20 (CHR ''0'')),
     parse_rfc3339 = (\<lambda>t. if t = [] then None else Some (1000000000 * int (digits_value t))),
     json_text = (\<lambda>j. ''{}''), json_pretty = (\<lambda>j. ''{}''), json_parse = (\<lambda>t. None),
     db_message = (\<lambda>e. ''database error'')\<rparr>"

definition demo_member :: "string \<Rightarrow> string \<Rightarrow> member" where
  "demo_member e role = \<lparr>mb_email = e, mb_role = role, mb_display_name = e, mb_board_id = ''board-0001'',
     mb_board_token = None, mb_board_token_salt = None, mb_joined_at = None, mb_domains = None,
     mb_capability_snapshot = None\<rparr>"

definition demo_task :: "string \<Rightarrow> task_status \<Rightarrow> string option \<Rightarrow> string list \<Rightarrow> task_row" where
  "demo_task short st reviewer parents = \<lparr>tk_id = ''t_'' @ short @ ''_board-00'', tk_short_id = short,
     tk_board_id = ''board-0001'', tk_title = ''title'', tk_body = [], tk_status = show_task_status st,
     tk_assignee = ''w@x'', tk_reviewer = reviewer, tk_parent_ids = parents, tk_tags = [],
     tk_summary = [], tk_metadata = None, tk_created_by = ''o@x'', tk_created_at = ''0'',
     tk_updated_at = ''100'', tk_completed_at = None, tk_cancelled_at = None, tk_deadline = None\<rparr>"

definition demo_board :: "board_status \<Rightarrow> board_row" where
  "demo_board st = \<lparr>bd_id = ''board-0001'', bd_short_id = ''demos'', bd_board_email = ''demos.a2a@x'',
     bd_goal = None, bd_status = show_board_status st, bd_output_task_id = None, bd_plan_version = None,
     bd_plan_text = None, bd_plan_confirmed_at = None, bd_criteria_version = None,
     bd_criteria_text = None, bd_criteria_confirmed_at = None, bd_created_at = ''0'',
     bd_completed_at = None, bd_system_id = None\<rparr>"

definition demo_with :: "board_status \<Rightarrow> task_row list \<Rightarrow> bst" where
  "demo_with st rows = \<lparr>db_boards = [demo_board st],
     db_members = [demo_member ''w@x'' ''worker'', demo_member ''v@x'' ''verifier'',
       demo_member ''o@x'' ''orchestrator'', demo_member ''h@x'' ''owner''],
     db_tasks = rows, db_perms = [], db_events = [], db_task_seq = [(''board-0001'', 2)],
     w_now = (\<lambda>i. ''500''), w_ticks = 0, w_random = (\<lambda>i. ''abcd''), w_draws = 0, w_outbox = []\<rparr>"

definition demo :: bst where
  "demo = demo_with BActive [demo_task ''T1'' Reviewing (Some ''v@x'') [], demo_task ''T2'' Todo None [''T1'']]"

definition empty_db :: bst where
  "empty_db = \<lparr>db_boards = [], db_members = [], db_tasks = [], db_perms = [], db_events = [],
     db_task_seq = [], w_now = (\<lambda>i. ''500''), w_ticks = 0, w_random = (\<lambda>i. ''abcd''), w_draws = 0,
     w_outbox = []\<rparr>"

definition demo_notifier :: notifier where
  "demo_notifier = \<lparr>nf_factory = False, nf_system_id = ''sys'', nf_board_short_id = ''demos'',
     nf_board_email = ''demos.a2a@x'', nf_board_id = ''board-0001'', nf_gateway_domain = ''x'',
     nf_gateway_url = ''https://x'', nf_attachments_json = None, nf_reply_policy = All\<rparr>"

definition demo_cmd :: "string \<Rightarrow> string option \<Rightarrow> a2a_command" where
  "demo_cmd verb task = \<lparr>cm_verb = verb, cm_task_id = task,
     cm_params = Some (JObj [(''board_id'', JStr ''board-0001'')])\<rparr>"

definition demo_icfg :: icfg where
  "demo_icfg = \<lparr>ic_ext = demo_ext, ic_gateway_url = ''https://x'', ic_reply_policy = All,
     ic_open_ok = (\<lambda>b. True), ic_fresh = (\<lambda>b. empty_db), ic_lookup_domain_addr = (\<lambda>a. None),
     ic_admit_board = (\<lambda>b. True), ic_rand = (\<lambda>i. 0)\<rparr>"

definition demo_gst :: "board_status \<Rightarrow> gst" where
  "demo_gst st = \<lparr>g_dbs = [(''board-0001'', demo_with st [])], g_registry = [], g_groups = []\<rparr>"

definition demo_mail :: "string \<Rightarrow> string \<Rightarrow> string \<Rightarrow> json" where
  "demo_mail subject sender to = JObj [(''subject'', JStr subject), (''from'', JStr sender),
     (''to'', JArr [JStr to]), (''body'', JStr [])]"

lemmas demo_defs = demo_def demo_with_def demo_task_def demo_board_def demo_member_def

lemma demo_with_wf:
  assumes "distinct (map tk_id rows)"
    and "\<forall>r \<in> set rows. tk_board_id r = ''board-0001'' \<and> tk_assignee r = ''w@x'' \<and>
       tk_status r \<in> range show_task_status"
  shows "wf_db (demo_with st rows)"
  using assms by (auto simp: wf_defs demo_with_def demo_board_def demo_member_def)

lemma demo_wf [simp]: "wf_db demo"
  unfolding demo_def by (rule demo_with_wf) (auto simp: demo_task_def simp del: show_task_status.simps)

lemma demo_ids [simp]: "ids_ok demo"
proof -
  have "''T1'' = ''T'' @ show_nat 1" "''T2'' = ''T'' @ show_nat 2" by code_simp+
  then show ?thesis
    by (fastforce simp: ids_ok_def numbered_def task_key_def demo_defs)
qed

text \<open>Without a mail factory a notification is only logged.\<close>

lemma mute:
  assumes "\<not> nf_factory n"
  shows "notify_assigned n k = returnE ()" "notify_approved n k = returnE ()"
    "notify_review_needed n k = returnE ()"
  using assms
  by (simp_all add: notify_assigned_def notify_approved_def notify_review_needed_def create_email_def Let_def
      split: option.split)

lemma demo_mute [simp]: "\<not> nf_factory demo_notifier"
  by (simp add: demo_notifier_def)

lemma empty_wf [simp]: "wf_db empty_db" "ids_ok empty_db"
  by (simp_all add: wf_defs ids_ok_def empty_db_def)

end
