(* ===== verification/Board_Panics.thy ===== *)
theory Board_Panics
  imports Board_Tracks
begin

text \<open>
  The verbs never panic: the only slices the handlers and the notifier take are the first eight bytes
  of a board id, and every board id has them.
\<close>

lemma calm_statements [calms]:
  "calm now" "calm random_hex16" "calm (constraint ok)" "calm (get_member b e)" "calm (list_members b)"
  "calm (get_task ref)" "calm (resolve_task_id ref)" "calm (check_role_permission role verb)"
  "calm seed_default_role_permissions" "calm (update_task k)" "calm (touch_task i)" "calm (insert_event e2)"
  "calm (list_tasks b st a)" "calm (verify_pipeline_integrity b)" "calm (next_short_id b)" "calm (get_board b)"
  "calm (update_board bd)" "calm (create_task k)" "calm (insert_role_permissions ps)" "calm (add_member E m)"
  unfolding get_task_def resolve_task_id_def check_role_permission_def seed_default_role_permissions_def
    update_task_def touch_task_def insert_event_def list_tasks_def verify_pipeline_integrity_def get_board_def
    update_board_def create_task_def insert_role_permissions_def add_member_def stored_credential_def
    generate_board_token_salt_def upsert_member_def get_member_def list_members_def constraint_def
  by (intro calms | simp add: calm_def now_def random_hex16_def next_short_id_def Let_def split: prod.split option.split)+

text \<open>Every notification goes through \<open>create_email\<close>, which needs eight bytes of the board id.\<close>

lemma calm_notify [calms]:
  assumes "cuttable n"
  shows "calm (notify_assigned n k)" "calm (notify_review_needed n k)"
    "calm (notify_approved n k)" "calm (notify_rejected n k r)"
    "calm (notify_blocked n k who)" "calm (notify_unblocked n k who)"
    "calm (notify_cancelled n k)" "calm (notify_output n k)"
    "calm (notify_comment n k who t)" "calm (notify_all n board_id msg)"
    "calm (notify_invite n em tok be sid csv)" "calm (notify_arbitrate n ko who adm d)"
proof -
  have mail [calms]: "calm (create_email n to subject body headers)" for to subject body headers
    using assms by (simp add: create_email_def cuttable_def Let_def calms)
  show "calm (notify_assigned n k)" "calm (notify_review_needed n k)"
    "calm (notify_approved n k)" "calm (notify_rejected n k r)"
    "calm (notify_blocked n k who)" "calm (notify_unblocked n k who)"
    "calm (notify_cancelled n k)" "calm (notify_output n k)"
    "calm (notify_comment n k who t)" "calm (notify_all n board_id msg)"
    "calm (notify_invite n em tok be sid csv)" "calm (notify_arbitrate n ko who adm d)"
    unfolding notify_assigned_def notify_review_needed_def notify_approved_def notify_rejected_def
      notify_blocked_def notify_unblocked_def notify_cancelled_def notify_output_def notify_comment_def
      notify_all_def notify_invite_def notify_arbitrate_def create_email_to_all_def Let_def
    by (intro calms)+
qed

lemma calm_helpers [calms]:
  "calm (require_role b sender verb)" "calm (require_assignee k sender)" "calm (require_member b sender)"
  "calm (require_reviewer k sender)" "calm (extract_task_id cmd)" "calm (log_event i what actor payload ts)"
  "calm (heartbeat ref actor)" "calm (board_status_json b)" "calm (aw_list_tasks b st a)"
  "calm (aw_get_task i)" "calm (aw_list_members b e)" "calm list_roles"
  unfolding require_role_def require_assignee_def require_member_def require_reviewer_def
    extract_task_id_def log_event_def heartbeat_def board_status_json_def aw_list_tasks_def aw_get_task_def
    aw_list_members_def list_roles_def Let_def
  by (intro calms)+

lemma calm_promote [calms]: "cuttable n \<Longrightarrow> calm (promote_children n k)"
  unfolding promote_children_def Let_def by (intro calms)

lemma calm_handlers [calms]:
  assumes "cuttable n"
  shows "calm (handle_complete n cmd sender)" "calm (handle_review n cmd sender)"
  "calm (handle_approve n cmd sender)" "calm (handle_reject n cmd sender)"
  "calm (handle_block n cmd sender)" "calm (handle_unblock n cmd sender)"
  "calm (handle_heartbeat cmd sender)" "calm (handle_comment n cmd sender)"
  "calm (handle_continue n cmd sender)" "calm (handle_cancel n cmd sender)"
  "calm (handle_reassign n cmd sender)" "calm (handle_edit cmd sender)"
  "calm (handle_deadline E cmd sender)" "calm (handle_output n cmd sender)"
  "calm (handle_show cmd sender)" "calm (handle_list cmd sender)"
  "calm (handle_roles cmd sender)" "calm (handle_board_status cmd sender)"
  "calm (handle_members cmd sender)" "calm (handle_gateway_info cmd)"
  "calm (handle_reopen cmd sender)" "calm (handle_arbitrate n cmd sender)"
  unfolding handle_complete_def do_complete_def handle_review_def handle_approve_def handle_reject_def
    handle_block_def handle_unblock_def handle_heartbeat_def handle_comment_def handle_continue_def
    handle_cancel_def handle_reassign_def handle_edit_def handle_deadline_def handle_output_def
    handle_show_def handle_list_def handle_roles_def handle_board_status_def
    handle_members_def handle_gateway_info_def handle_reopen_def reopen_one_def handle_arbitrate_def
    arbitrate_task_def Let_def
  by (insert assms, (intro calms; assumption)+)

lemma calm_refresh [calms]:
  assumes "cuttable n"
  shows "calm (handle_refresh E n cmd sender)"
proof -
  have [calms]: "calm (refresh_members E n ts existing js acc)" for ts existing js acc
    by (induction js arbitrary: acc)
       (auto intro!: calms simp: refresh_member_def generate_board_token_def Let_def)
  show ?thesis
    unfolding handle_refresh_def refresh_whitelist_def board_whitelists_stmt_def override_permissions_def
      check_overrides_def refresh_notify_def Let_def
    by (insert assms, intro calms; assumption)
qed

section \<open>Every command ends with a response or an error\<close>

definition ids_cuttable :: "bst \<Rightarrow> bool" where
  "ids_cuttable s \<longleftrightarrow> (\<forall>b \<in> set (db_boards s). is_char_boundary (bd_id b) 8)"

text \<open>No handler adds a board or renames one.\<close>

interpretation cuts: statement_invariant ids_cuttable
proof
  show "preserves ids_cuttable (create_one E n board_id sender j)" for E n board_id sender j
  proof -
    have "preserves ids_cuttable (notify_assigned n k)" for k
      by (rule preserves_notify) (intro notifies, simp add: ids_cuttable_def)
    moreover have "preserves ids_cuttable now" "preserves ids_cuttable (next_short_id b)" for b
      by (simp_all add: preserves_wpE wps ids_cuttable_def)
    moreover have "preserves ids_cuttable (create_task k)" for k
      by (simp add: preserves_wpE wps ids_cuttable_def)
    ultimately show ?thesis
      unfolding create_one_def get_member_def Let_def by (intro keeps)
  qed
  show "preserves ids_cuttable (insert_role_permissions ps)" for ps
    unfolding insert_role_permissions_def by (intro keeps preserves_modifyE) (simp_all add: ids_cuttable_def)
  show "preserves ids_cuttable (add_member E m)" for E m
    by (auto simp: add_member_def stored_credential_def generate_board_token_salt_def upsert_member_def
        preserves_wpE wps ids_cuttable_def split: option.split)
  show "preserves ids_cuttable (update_board b)" for b
    unfolding update_board_def
    by (intro preserves_modifyE) (auto simp: ids_cuttable_def dest!: in_update_where, metis)
qed (simp_all add: preserves_wpE wps ids_cuttable_def)

lemma create_calm:
  assumes "wf_db s" and "ids_cuttable s" and "cuttable n"
  shows "fst (handle_create E n cmd sender s) \<noteq> Inl Panic"
proof (cases "param cmd ''board_id''")
  case None
  then show ?thesis by (simp add: handle_create_def runs)
next
  case (Some b)
  show ?thesis
  proof (cases "is_char_boundary b 8")
    case True
    then have "calm (create_one E n b sender j)" for j
      unfolding create_one_def make_task_id_def Let_def using assms(3)
      by (simp only: if_True) (intro calms; assumption)
    then have "calm (handle_create E n cmd sender)"
      unfolding handle_create_def Some by (simp only: option.case) (intro calms; assumption)
    then show ?thesis by (simp add: calm_def)
  next
    case False
    then have "b \<notin> mb_board_id ` set (db_members s)"
      using assms(1,2) by (auto simp: wf_defs ids_cuttable_def)
    then have "find (\<lambda>m. mb_board_id m = b \<and> mb_email m = sender) (db_members s) = None"
      by (auto simp: find_None_iff)
    then show ?thesis
      by (simp add: handle_create_def Some runs require_role_def get_member_def)
  qed
qed

lemma command_calm:
  assumes "wf_db s" and "ids_cuttable s" and "cuttable n"
  shows "fst (execute_command E n cmd sender s) \<noteq> Inl Panic"
proof -
  have dispatched: "fst (dispatch E n c sender s) \<noteq> Inl Panic" for c
  proof (cases "cm_verb c = ''create''")
    case True
    then show ?thesis using create_calm [OF assms] by (simp add: dispatch_def)
  next
    case False
    have "calm (dispatch E n c sender)"
      unfolding dispatch_def Let_def using False assms(3)
      by (simp only: if_False if_cancel) (intro calms; assumption)
    then show ?thesis by (simp add: calm_def)
  qed
  have "calm (resolve_command cmd)" unfolding resolve_command_def by (intro calms)
  moreover have "snd (resolve_command cmd s) = s"
    by (rule preservesD [where P = "\<lambda>s'. s' = s"])
       (auto simp: resolve_command_def preserves_wpE wps split: option.split sum.split)
  ultimately have "fst (resolve_command cmd s) \<noteq> Inl Panic" "snd (resolve_command cmd s) = s"
    by (simp_all add: calm_def)
  then show ?thesis
    using dispatched by (auto simp: execute_command_def runs split: prod.split sum.split)
qed

end
