(* ===== verification/Board_Properties.thy ===== *)
theory Board_Properties
  imports Board_Samples Board_Panics
begin

text \<open>
  The properties of the boards: invariants over every sequence of commands, the workflow and its gates,
  who may do what, and the isolation of boards from each other.
\<close>

section \<open>Sequences of commands\<close>

definition board_step :: "ext \<Rightarrow> notifier \<Rightarrow> a2a_command \<times> string \<Rightarrow> bst \<Rightarrow> bst" where
  "board_step E n ev s = snd (execute_command E n (fst ev) (snd ev) s)"

definition board_inv :: "bst \<Rightarrow> bool" where
  "board_inv s \<longleftrightarrow> wf_db s \<and> ids_ok s \<and> ids_cuttable s"

interpretation board_run: event_machine "board_step E n" board_inv for E n
  by unfold_locales
     (simp add: board_inv_def board_step_def preservesD [OF wf_execute_command]
       preservesD [OF ids.command_kept] preservesD [OF cuts.command_kept])

lemma demo_inv [simp]: "board_inv demo"
proof -
  have "is_char_boundary ''board-0001'' 8" by code_simp
  then have "ids_cuttable demo" by (simp add: ids_cuttable_def demo_def demo_with_def demo_board_def)
  then show ?thesis by (simp add: board_inv_def)
qed


text \<open>
  C1. Whatever commands members and strangers send, in whatever order and with whatever outcome, the
  board database stays well formed: keys are unique, every reference resolves, every stored status is
  a printed one; task short ids stay unique and are numbered within the counter of their board.
\<close>

theorem command_runs_keep_board:
  assumes "wf_db s" and "ids_ok s" and "ids_cuttable s"
  shows "wf_db (fold (board_step E n) evs s) \<and> ids_ok (fold (board_step E n) evs s)"
  using board_run.run_inv [of s E n evs] assms by (simp add: board_inv_def)

theorem command_runs_keep_board_witness:
  "wf_db (fold (board_step demo_ext demo_notifier)
      [(demo_cmd ''approve'' (Some ''T1''), ''v@x''), (demo_cmd ''complete'' (Some ''T2''), ''w@x'')] demo) \<and>
   ids_ok (fold (board_step demo_ext demo_notifier)
      [(demo_cmd ''approve'' (Some ''T1''), ''v@x''), (demo_cmd ''complete'' (Some ''T2''), ''w@x'')] demo)"
  using demo_inv by (intro command_runs_keep_board) (simp_all add: board_inv_def)

text \<open>
  C2. One command moves every task along the workflow of its verb: a row keeps its identity, only the
  columns of the verb change, the status follows an edge of the verb, and rows are added only by
  \<open>create\<close>.
\<close>

theorem command_follows_workflow:
  assumes "wf_db s"
  shows "tracks (cm_verb cmd) sender (db_tasks s) (db_tasks (snd (execute_command E n cmd sender s)))"
  by (rule execute_command_tracks [OF assms])

theorem command_follows_workflow_witness:
  "tracks ''approve'' ''v@x'' (db_tasks demo)
     (db_tasks (snd (execute_command demo_ext demo_notifier (demo_cmd ''approve'' (Some ''T1'')) ''v@x'' demo)))"
  using command_follows_workflow [OF demo_wf, of "demo_cmd ''approve'' (Some ''T1'')"]
  by (simp add: demo_cmd_def)

lemma row_of_id:
  assumes "wf_db s" and "tracks v sender (db_tasks s) (db_tasks s')" and "wf_db s'"
    and "r \<in> set (db_tasks s)" and "r' \<in> set (db_tasks s')" and "tk_id r' = tk_id r"
  shows "row_step v sender r r'"
proof -
  obtain olds news where rows: "db_tasks s' = olds @ news" and steps: "list_all2 (row_step v sender) (db_tasks s) olds"
    using assms(2) by (auto simp: tracks_def)
  obtain i where i: "i < length (db_tasks s)" "db_tasks s ! i = r" using assms(4) by (auto simp: in_set_conv_nth)
  have old: "row_step v sender r (olds ! i)" "i < length olds"
    using steps i by (auto simp: list_all2_conv_all_nth)
  then have "tk_id (olds ! i) = tk_id r"
    by (simp add: row_step_def task_step_def same_identity_def)
  moreover have "olds ! i \<in> set (db_tasks s')" using old(2) by (simp add: rows)
  ultimately have "r' = olds ! i"
    using assms(3,5,6) by (auto simp: wf_defs distinct_map inj_on_def)
  then show ?thesis using old(1) by simp
qed

text \<open>
  C3. Review is a gate: a task that has a reviewer becomes done only by an \<open>approve\<close> or \<open>verify\<close> that
  the reviewer sends while the task is under review.
\<close>

theorem review_gate:
  assumes "wf_db s" and "r \<in> set (db_tasks s)" and "tk_reviewer r = Some rv"
    and "s' = snd (execute_command E n cmd sender s)"
    and "r' \<in> set (db_tasks s')" and "tk_id r' = tk_id r"
    and "parse_task_status (tk_status r) \<noteq> Done" and "parse_task_status (tk_status r') = Done"
  shows "sender = rv \<and> cm_verb cmd \<in> {''approve'', ''verify''} \<and> parse_task_status (tk_status r) = Reviewing"
proof -
  have "row_step (cm_verb cmd) sender r r'"
    using row_of_id [OF assms(1) _ _ assms(2,5,6)] execute_command_tracks [OF assms(1)]
      preservesD [OF wf_execute_command assms(1)] by (simp add: assms(4))
  then show ?thesis
    using assms(3,7,8) by (auto simp: row_step_def task_step_def may_finish_def)
qed

theorem review_gate_witness:
  "\<exists>r' \<in> set (db_tasks (snd (execute_command demo_ext demo_notifier (demo_cmd ''verify'' (Some ''T1'')) ''v@x'' demo))).
     tk_short_id r' = ''T1'' \<and> parse_task_status (tk_status r') = Done \<and>
     ''v@x'' = ''v@x'' \<and> ''verify'' \<in> {''approve'', ''verify''}"
proof -
  define s' where "s' = snd (execute_command demo_ext demo_notifier (demo_cmd ''verify'' (Some ''T1'')) ''v@x'' demo)"
  have t1: "demo_task ''T1'' Reviewing (Some ''v@x'') [] \<in> set (db_tasks demo)" by (simp add: demo_def demo_with_def)
  have "\<exists>r' \<in> set (db_tasks s'). tk_id r' = ''t_T1_board-00'' \<and> tk_short_id r' = ''T1'' \<and>
      parse_task_status (tk_status r') = Done"
    unfolding s'_def wpE_snd [where P = "\<lambda>s'. \<exists>r' \<in> set (db_tasks s'). Q r'" for Q, symmetric]
    by (simp add: execute_command_def resolve_command_def dispatch_def handle_approve_def demo_cmd_def
        TASK_SCOPED_def promote_children_def mute wps Let_def find_task_row_def query_row_def demo_defs
        update_where_def set_task_cols_def parse_task_status_def show_task_status.simps)
  then obtain r' where r': "r' \<in> set (db_tasks s')" "tk_id r' = ''t_T1_board-00''" "tk_short_id r' = ''T1''"
      "parse_task_status (tk_status r') = Done" by blast
  have "''v@x'' = ''v@x'' \<and> cm_verb (demo_cmd ''verify'' (Some ''T1'')) \<in> {''approve'', ''verify''} \<and>
      parse_task_status (tk_status (demo_task ''T1'' Reviewing (Some ''v@x'') [])) = Reviewing"
    by (rule review_gate [OF demo_wf t1 _ s'_def r'(1)])
       (use r' in \<open>simp_all add: demo_task_def parse_task_status_def show_task_status.simps\<close>)
  then show ?thesis using r' unfolding s'_def [symmetric] by (auto simp: demo_cmd_def)
qed

text \<open>
  C4. An outsider, who is neither a member of the board nor the reviewer of a task, changes nothing: a
  verb that needs authority is refused with an error and the tables stay as they were, and any other
  verb leaves the whole state alone.
\<close>

theorem outsider_changes_nothing:
  assumes "wf_db s" and "sender \<notin> mb_email ` set (db_members s)"
    and "\<And>k. k \<in> set (db_tasks s) \<Longrightarrow> tk_reviewer k \<noteq> Some sender"
  shows "board_data (snd (execute_command E n cmd sender s)) = board_data s \<and>
    (cm_verb cmd \<in> set guarded_verbs \<longrightarrow> (\<exists>e. fst (execute_command E n cmd sender s) = Inl (Err e)))"
proof -
  have out: "outsider sender s" using assms by (auto simp: outsider_def)
  show ?thesis
  proof (cases "cm_verb cmd \<in> set guarded_verbs")
    case True
    then have "refused s (execute_command E n cmd sender)"
      using outsider_execute [OF assms(1) out, of cmd E n] by simp
    then show ?thesis
      by (auto simp: refused_def wpE_def split: prod.splits sum.splits) (metis abort.exhaust)+
  next
    case False
    then show ?thesis using outsider_execute [OF assms(1) out, of cmd E n] by simp
  qed
qed

lemma demo_stranger:
  "''x@y'' \<notin> mb_email ` set (db_members demo)" "k \<in> set (db_tasks demo) \<Longrightarrow> tk_reviewer k \<noteq> Some ''x@y''"
  by (auto simp: demo_defs)

theorem outsider_changes_nothing_witness:
  "board_data (snd (execute_command demo_ext demo_notifier (demo_cmd ''complete'' (Some ''T1'')) ''x@y'' demo))
     = board_data demo \<and>
   (\<exists>e. fst (execute_command demo_ext demo_notifier (demo_cmd ''complete'' (Some ''T1'')) ''x@y'' demo) = Inl (Err e))"
  using outsider_changes_nothing [OF demo_wf demo_stranger, of demo_ext demo_notifier "demo_cmd ''complete'' (Some ''T1'')"]
  by (simp add: demo_cmd_def guarded_verbs_def TASK_SCOPED_def)



end
