(* ===== verification/Board_Access.thy ===== *)
theory Board_Access
  imports Board_Properties
begin

text \<open>
  Who reaches a board and how: panics, isolation of boards, closed boards, the creation of boards,
  addresses, member tokens and role permissions.
\<close>

section \<open>Commands by mail\<close>



text \<open>
  C14. Boards are isolated: a mail changes the database of no board other than the one it creates, the
  one it commands, and the first board among its recipients.
\<close>

theorem mail_isolated:
  assumes "b \<notin> addressed C payload"
  shows "map_of (g_dbs (snd (intercept C payload g))) b = map_of (g_dbs g) b"
  using preservesD [OF intercept_isolated [OF assms, of "map_of (g_dbs g) b"], of g]
  by (simp add: other_board_def)

lemma demo_mail_fields [simp]:
  "pstr (demo_mail subject sender to) ''subject'' = subject" "pstr (demo_mail subject sender to) ''from'' = sender"
  "parr (demo_mail subject sender to) ''to'' = [JStr to]" "parr (demo_mail subject sender to) ''cc'' = []"
  "to_addr_of (demo_mail subject sender to) = to" "pstr (demo_mail subject sender to) ''body'' = []"
  "jget (demo_mail subject sender to) ''attachments'' = None"
  by (simp_all add: demo_mail_def pstr_def parr_def to_addr_of_def get_str_def get_arr_def unwrap_or_def)

lemma demo_parse: "parse_board_email demo_ext ''demos.a2a@x'' = Some (''demos'', ''demos.a2a@x000000000'', ''x'')"
  by code_simp

theorem mail_isolated_witness:
  "map_of (g_dbs (snd (intercept demo_icfg (demo_mail ''[A2A] list'' ''h@x'' ''demos.a2a@x'') (demo_gst BActive)))) ''board-0001''
     = map_of (g_dbs (demo_gst BActive)) ''board-0001''"
proof (rule mail_isolated)
  have "new_request_of demo_icfg subject (demo_mail ''[A2A] list'' ''h@x'' ''demos.a2a@x'') to = None" for subject to
    by (auto simp: new_request_of_def demo_icfg_def demo_ext_def get_arr_def Let_def split: prod.split)
  then show "''board-0001'' \<notin> addressed demo_icfg (demo_mail ''[A2A] list'' ''h@x'' ''demos.a2a@x'')"
    by (simp add: addressed_def first_board_def) (simp add: demo_icfg_def demo_parse)
qed

definition mails_inv :: "icfg \<Rightarrow> gst \<Rightarrow> bool" where
  "mails_inv C g \<longleftrightarrow> (\<forall>b. wf_db (ic_fresh C b)) \<and> all_boards wf_db g \<and> registry_derived (ic_ext C) g"

interpretation intercept_run: event_machine "\<lambda>payload g. snd (intercept C payload g)" "mails_inv C" for C
  by unfold_locales
     (auto simp: mails_inv_def preservesD [OF wf_intercept] preservesD [OF registry_derived_intercept])

text \<open>
  C15. Whatever mails arrive, every board database stays well formed and the registry stays derived:
  an address it knows leads to the board whose id is the digest of that address.
\<close>

theorem interception_keeps_boards:
  assumes "\<And>b. wf_db (ic_fresh C b)" and "all_boards wf_db g" and "registry_derived (ic_ext C) g"
    and "g' = fold (\<lambda>payload g. snd (intercept C payload g)) payloads g"
  shows "all_boards wf_db g' \<and>
    (\<forall>a e. registry_lookup a (g_registry g') = Some e \<longrightarrow> be_board_id e = derive_board_id (ic_ext C) a)"
  using intercept_run.run_inv [of C g payloads] assms by (auto simp: mails_inv_def registered_lookup)

theorem interception_keeps_boards_witness:
  "all_boards wf_db (fold (\<lambda>payload g. snd (intercept demo_icfg payload g))
      [demo_mail ''[A2A] list'' ''h@x'' ''demos.a2a@x'', demo_mail ''hello'' ''h@x'' ''demos.a2a@x''] (demo_gst BActive))"
proof (rule interception_keeps_boards [THEN conjunct1])
  show "wf_db (ic_fresh demo_icfg b)" for b by (simp add: demo_icfg_def)
  show "all_boards wf_db (demo_gst BActive)"
    by (simp add: all_boards_def demo_gst_def) (rule demo_with_wf; simp)
  show "registry_derived (ic_ext demo_icfg) (demo_gst BActive)"
    by (simp add: registry_derived_def demo_gst_def)
qed (rule refl)

text \<open>
  C16. An archived or frozen board accepts no command: the mail passes through and no board, registry
  entry or group changes.
\<close>

theorem closed_board_runs_nothing:
  assumes "trim (pstr payload ''subject'') = ''[A2A] '' @ rest0" and "is_board_address (to_addr_of payload)"
    and "parse_board_email (ic_ext C) (to_addr_of payload) = Some (x, b, y)"
    and "map_of (g_dbs g) b = Some db" and "distinct (map fst (g_dbs g))"
    and "find (\<lambda>r. bd_id r = b) (db_boards db) = Some r"
    and "parse_board_status (bd_status r) \<in> {BArchived, BFrozen}"
  shows "intercept C payload g = (Inr (PassThrough, payload), g)"
proof -
  have "open_board_db C b g = (Inr (ic_open_ok C b), g)"
    using assms(4) by (simp add: open_board_db_def)
  moreover have "strip_prefix ''[A2A] '' (''[A2A] '' @ rest0) = Some rest0" by (rule strip_prefix_append)
  ultimately show ?thesis
    using assms(1-3) closed_board_command [OF assms(4,6,7,5), of C payload]
    by (simp only: intercept_def Let_def) (simp add: runs)
qed

theorem closed_board_runs_nothing_witness:
  "intercept demo_icfg (demo_mail ''[A2A] list'' ''h@x'' ''demos.a2a@x'')
     \<lparr>g_dbs = [(''demos.a2a@x000000000'', (demo_with BFrozen [])\<lparr>db_boards := [(demo_board BFrozen)\<lparr>bd_id := ''demos.a2a@x000000000''\<rparr>]\<rparr>)],
       g_registry = [], g_groups = []\<rparr>
   = (Inr (PassThrough, demo_mail ''[A2A] list'' ''h@x'' ''demos.a2a@x''),
      \<lparr>g_dbs = [(''demos.a2a@x000000000'', (demo_with BFrozen [])\<lparr>db_boards := [(demo_board BFrozen)\<lparr>bd_id := ''demos.a2a@x000000000''\<rparr>]\<rparr>)],
       g_registry = [], g_groups = []\<rparr>)"
proof (rule closed_board_runs_nothing)
  show "trim (pstr (demo_mail ''[A2A] list'' ''h@x'' ''demos.a2a@x'') ''subject'') = ''[A2A] '' @ ''list''"
    by simp code_simp
  show "is_board_address (to_addr_of (demo_mail ''[A2A] list'' ''h@x'' ''demos.a2a@x''))"
    by simp code_simp
  show "parse_board_email (ic_ext demo_icfg) (to_addr_of (demo_mail ''[A2A] list'' ''h@x'' ''demos.a2a@x''))
      = Some (''demos'', ''demos.a2a@x000000000'', ''x'')"
    by (simp add: demo_parse demo_icfg_def)
  show "find (\<lambda>r. bd_id r = ''demos.a2a@x000000000'') (db_boards ((demo_with BFrozen [])\<lparr>db_boards :=
      [(demo_board BFrozen)\<lparr>bd_id := ''demos.a2a@x000000000''\<rparr>]\<rparr>))
      = Some ((demo_board BFrozen)\<lparr>bd_id := ''demos.a2a@x000000000''\<rparr>)"
    by (simp add: demo_with_def)
qed (simp_all add: demo_board_def parse_board_status_def)

text \<open>
  An approval in the documented form is not recognised: a subject that starts with \<open>[Confirm]\<close>
  is no confirmation to \<open>parse_confirm\<close>, so no plan, criteria or output is ever approved by it.
\<close>

lemma documented_confirm_ignored:
  "parse_confirm (to_lowercase (''[Confirm]'' @ rest0)) = None"
proof -
  have "to_lowercase (''[Confirm]'' @ rest0) = CHR ''['' # to_lowercase (''Confirm]'' @ rest0)"
    by (simp add: to_lowercase_def ascii_lower_char_def code_def)
  then show ?thesis by (simp only: parse_confirm_bracket)
qed

section \<open>Creation of boards\<close>

text \<open>
  C18. Only a declared owner creates a board: for any other sender no row, member, token, registry
  entry or group is written; at most an empty board file appears.
\<close>

theorem creation_needs_owner:
  assumes "\<not> sender_is_owner (nr_members q) sender"
  shows "fst (new_board_flow C q payload sender g) = Inr payload \<and>
    g_registry (snd (new_board_flow C q payload sender g)) = g_registry g \<and>
    g_groups (snd (new_board_flow C q payload sender g)) = g_groups g \<and>
    (\<forall>b db. map_of (g_dbs (snd (new_board_flow C q payload sender g))) b = Some db \<longrightarrow>
       map_of (g_dbs g) b = Some db \<or> (map_of (g_dbs g) b = None \<and> db = ic_fresh C b))"
  unfolding not_owner_refused [OF assms]
  by (auto simp: open_board_db_def update_conv' split: if_splits)

definition demo_request :: new_request where
  "demo_request = \<lparr>nr_short_id = ''demos'', nr_description = [], nr_params = None,
     nr_members = [JObj [(''role'', JStr ''owner''), (''email'', JStr ''h@x'')]], nr_orch_email = ''o@x''\<rparr>"

theorem creation_needs_owner_witness:
  "g_groups (snd (new_board_flow demo_icfg demo_request JNull ''w@x'' (demo_gst BActive))) = []"
  using creation_needs_owner [of demo_request "''w@x''" demo_icfg JNull "demo_gst BActive"]
  by (simp add: demo_request_def sender_is_owner_def has_role_def get_str_def demo_gst_def)

lemma no_at_in_words: "w \<in> set (split_char c t) \<Longrightarrow> set w \<subseteq> set t - {c}"
proof (induction t arbitrary: w)
  case (Cons x t)
  obtain a ws where words: "split_char c t = a # ws" by (cases "split_char c t") simp_all
  have tail: "v \<in> set (a # ws) \<Longrightarrow> set v \<subseteq> set t - {c}" for v using Cons.IH [of v] words by simp
  show ?case using Cons.prems tail [of w] tail [of a] by (auto simp: words split: if_splits)
qed auto

text \<open>
  C19. The address given to a new board is one of its own: it parses back to the short id of the
  request, the id under which the board is stored, and the orchestrator's domain, in the plain layout
  and in the layout of shared domains.
\<close>

theorem new_board_address_parses:
  assumes "new_request_of C subject payload to_addr = Some q"
  shows "parse_board_email (ic_ext C) (new_board_email C q) =
    Some (nr_short_id q, derive_board_id (ic_ext C) (new_board_email C q), orch_domain q)"
proof -
  obtain raw where "nr_short_id q = sanitize_short_id (ic_rand C) raw"
    using assms by (auto simp: new_request_of_def Let_def split: prod.splits option.splits if_splits)
  then have short: "set (nr_short_id q) \<subseteq> {c. short_id_char c}"
    using sanitize_short_id_shape(1) by simp
  let ?name = "last (split_char (CHR ''.'') (hd (split_char (CHR ''@'') (nr_orch_email q))))"
  have "hd (split_char (CHR ''@'') (nr_orch_email q)) \<in> set (split_char (CHR ''@'') (nr_orch_email q))"
    by simp
  then have "CHR ''@'' \<notin> set (hd (split_char (CHR ''@'') (nr_orch_email q)))"
    using no_at_in_words by fastforce
  moreover have "?name \<in> set (split_char (CHR ''.'') (hd (split_char (CHR ''@'') (nr_orch_email q))))" by simp
  ultimately have "CHR ''@'' \<notin> set ?name" using no_at_in_words by fastforce
  then show ?thesis
    using parse_board_email_shared [OF short, of ?name "ic_ext C" "orch_domain q"]
      parse_board_email_plain [OF short, of "ic_ext C" "orch_domain q"]
    by (simp add: new_board_email_def Let_def)
qed

definition parse_icfg :: icfg where
  "parse_icfg = demo_icfg\<lparr>ic_ext := demo_ext\<lparr>json_parse := (\<lambda>t. Some (JObj [(''members'', JArr
     [JObj [(''role'', JStr ''orchestrator''), (''email'', JStr ''o@x'')],
      JObj [(''role'', JStr ''verifier''), (''email'', JStr ''v@x'')]])]))\<rparr>\<rparr>"

definition parse_mail :: json where
  "parse_mail = JObj [(''to'', JArr [JStr ''o@x'', JStr ''v@x''])]"

theorem new_board_address_parses_witness:
  "\<exists>q. new_request_of parse_icfg ''[A2A] new sprint: goal'' parse_mail ''o@x'' = Some q \<and> nr_short_id q = ''sprint'' \<and>
     parse_board_email (ic_ext parse_icfg) (new_board_email parse_icfg q) =
       Some (nr_short_id q, derive_board_id (ic_ext parse_icfg) (new_board_email parse_icfg q), orch_domain q)"
proof -
  have "map_option nr_short_id (new_request_of parse_icfg ''[A2A] new sprint: goal'' parse_mail ''o@x'') = Some ''sprint''"
    by code_simp
  then have "\<exists>q. new_request_of parse_icfg ''[A2A] new sprint: goal'' parse_mail ''o@x'' = Some q \<and> nr_short_id q = ''sprint''"
    by blast
  then show ?thesis using new_board_address_parses by blast
qed

end
