(* ===== verification/Board_Members.thy ===== *)
theory Board_Members
  imports Board_Access
begin

text \<open>
  Members and their authority: tokens, role permissions; and the verbs that close and reopen the work
  of a board.
\<close>

section \<open>Tokens\<close>

lemma byte_of_inject: "byte_of c = byte_of d \<longleftrightarrow> c = d"
proof
  assume "byte_of c = byte_of d"
  then have "unat (byte_of c) = unat (byte_of d)" by simp
  moreover have "unat (byte_of x) = of_char x" for x
  proof -
    have "of_char x < (256::nat)" by simp
    then show ?thesis by (simp add: byte_of_def code_def unat_of_nat)
  qed
  ultimately show "c = d" by simp
qed simp

lemma xor_zero: "(a :: 8 word) XOR b = 0 \<longleftrightarrow> a = b"
  by (metis xor.assoc xor.left_neutral xor.right_neutral xor_self_eq)

lemma ct_fold:
  "length a = length b \<Longrightarrow>
   fold (\<lambda>(x, y) diff. diff OR (byte_of x XOR byte_of y)) (zip a b) d = 0 \<longleftrightarrow> d = 0 \<and> a = b"
proof (induction a b arbitrary: d rule: list_induct2)
  case (Cons x a y b)
  have "d OR (byte_of x XOR byte_of y) = 0 \<longleftrightarrow> d = 0 \<and> x = y"
    by (simp add: or_eq_0_iff xor_zero byte_of_inject)
  then show ?case using Cons.IH by auto
qed simp

text \<open>
  The constant-time comparison of tokens decides equality of byte strings: accumulating the
  exclusive or of the bytes neither accepts a different string nor rejects an equal one.
\<close>

lemma ct_eq_is_equality: "ct_eq a b \<longleftrightarrow> a = b"
  using ct_fold [of a b 0] by (auto simp: ct_eq_def)

lemma ct_eq_refl [simp]: "ct_eq a a"
  using ct_fold [of a a 0] by (simp add: ct_eq_def)

lemma ct_eq_imp: "ct_eq a b \<Longrightarrow> a = b"
  using ct_fold [of a b 0] by (auto simp: ct_eq_def split: if_splits)

lemma find_append_new:
  "\<not> list_ex p xs \<Longrightarrow> p x \<Longrightarrow> find p (xs @ [x]) = Some x"
  by (induction xs) auto

text \<open>
  C21. A token that was issued to a new member is accepted and identifies that member; another token is
  accepted only if its salted digest is the same. Only the digest is stored, and a verification
  against a digest changes nothing.
\<close>

theorem issued_token_verifies:
  assumes "mb_board_token m = Some raw" and "mb_board_token_salt m = None"
    and "mb_email m \<notin> mb_email ` set (db_members s)" and "mb_board_id m \<in> bd_id ` set (db_boards s)"
    and "mb_email m \<noteq> []" and "add_member E m s = (r, s')"
  shows "r = Inr () \<and> (\<forall>tok. tok \<noteq> [] \<longrightarrow> (\<exists>stored salt.
      (\<exists>row \<in> set (db_members s'). mb_email row = mb_email m \<and> mb_board_token row = Some stored) \<and>
      stored = board_token_hash E raw salt \<and>
      verify_member_token E (mb_board_id m) tok (mb_email m) s' =
        (Inr (if board_token_hash E tok salt = stored then Some (mb_email m) else None), s')))"
proof -
  define salt where "salt = w_random s (w_draws s)"
  define row where "row = m\<lparr>mb_board_token := Some (board_token_hash E raw salt), mb_board_token_salt := Some salt,
    mb_capability_snapshot := None\<rparr>"
  have run: "r = Inr ()" "s' = s\<lparr>w_draws := Suc (w_draws s), db_members := db_members s @ [row]\<rparr>"
    using assms(6)
    by (auto simp: add_member_def stored_credential_def generate_board_token_salt_def random_hex16_def
        upsert_member_def constraint_def runs assms(1-4) salt_def row_def)
  have row: "mb_email row = mb_email m" "mb_board_id row = mb_board_id m"
    "mb_board_token row = Some (board_token_hash E raw salt)" "mb_board_token_salt row = Some salt"
    by (simp_all add: row_def)
  have find: "find (\<lambda>x. mb_board_id x = mb_board_id m \<and> mb_email x = mb_email m) (db_members s @ [row]) = Some row"
    using assms(3) by (intro find_append_new) (auto simp: list_ex_iff row, metis imageI)
  have "verify_member_token E (mb_board_id m) tok (mb_email m) s' =
      (Inr (if board_token_hash E tok salt = board_token_hash E raw salt then Some (mb_email m) else None), s')"
    if "tok \<noteq> []" for tok
    using that assms(5) find row
    by (auto simp: verify_member_token_def verify_member_token_cfg_def get_member_def runs run(2) dest: ct_eq_imp)
  moreover have "row \<in> set (db_members s')" by (simp add: run(2))
  ultimately show ?thesis using row run(1) by blast
qed

definition demo_new_member :: member where
  "demo_new_member = (demo_member ''n@x'' ''worker'')\<lparr>mb_board_token := Some ''bdt_1''\<rparr>"

theorem issued_token_verifies_witness:
  "\<exists>s'. add_member demo_ext demo_new_member demo = (Inr (), s') \<and>
     fst (verify_member_token demo_ext ''board-0001'' ''bdt_1'' ''n@x'' s') = Inr (Some ''n@x'')"
proof -
  obtain r s' where run: "add_member demo_ext demo_new_member demo = (r, s')" by (cases "add_member demo_ext demo_new_member demo")
  have cols: "mb_email demo_new_member = ''n@x''" "mb_board_id demo_new_member = ''board-0001''"
    "mb_board_token demo_new_member = Some ''bdt_1''" "mb_board_token_salt demo_new_member = None"
    by (simp_all add: demo_new_member_def demo_member_def)
  have fresh: "''n@x'' \<notin> mb_email ` set (db_members demo)" "''board-0001'' \<in> bd_id ` set (db_boards demo)"
    by (simp_all add: demo_defs)
  have "r = Inr () \<and> (\<forall>tok. tok \<noteq> [] \<longrightarrow> (\<exists>stored salt.
      (\<exists>row \<in> set (db_members s'). mb_email row = mb_email demo_new_member \<and> mb_board_token row = Some stored) \<and>
      stored = board_token_hash demo_ext ''bdt_1'' salt \<and>
      verify_member_token demo_ext (mb_board_id demo_new_member) tok (mb_email demo_new_member) s' =
        (Inr (if board_token_hash demo_ext tok salt = stored then Some (mb_email demo_new_member) else None), s')))"
    by (rule issued_token_verifies [OF _ _ _ _ _ run]) (simp_all add: cols fresh)
  note facts = this
  from facts [THEN conjunct2, rule_format, of "''bdt_1''"] obtain stored salt where
    "stored = board_token_hash demo_ext ''bdt_1'' salt" and
    "verify_member_token demo_ext ''board-0001'' ''bdt_1'' ''n@x'' s' =
        (Inr (if board_token_hash demo_ext ''bdt_1'' salt = stored then Some ''n@x'' else None), s')"
    unfolding cols by auto
  then have "fst (verify_member_token demo_ext ''board-0001'' ''bdt_1'' ''n@x'' s') = Inr (Some ''n@x'')" by simp
  then show ?thesis using run facts [THEN conjunct1] by blast
qed

lemma find_update_same:
  "find p rows = Some m \<Longrightarrow> (\<And>x. p x \<Longrightarrow> p (f x)) \<Longrightarrow> find p (update_where p f rows) = Some (f m)"
  by (induction rows) (auto simp: update_where_def split: if_splits)

text \<open>
  A legacy row that stores a plain token is migrated on its first use: the token is accepted once
  in plain, the row then holds a salted digest, and the token stays valid after the migration window
  is closed. With the window closed a plain row is refused and stays as it is.
\<close>

lemma plain_token_migrates:
  assumes "find (\<lambda>x. mb_board_id x = b \<and> mb_email x = e) (db_members s) = Some m"
    and "mb_board_token m = Some tok" and "mb_board_token_salt m = None" and "tok \<noteq> []" and "e \<noteq> []"
    and "s' = snd (verify_member_token_cfg E b tok e True s)"
  shows "fst (verify_member_token_cfg E b tok e True s) = Inr (Some e) \<and>
    fst (verify_member_token_cfg E b tok e False s') = Inr (Some e) \<and>
    verify_member_token_cfg E b tok e False s = (Inr None, s) \<and>
    (\<exists>salt. map_option mb_board_token (find (\<lambda>x. mb_board_id x = b \<and> mb_email x = e) (db_members s'))
       = Some (Some (board_token_hash E tok salt)))"
proof -
  define salt where "salt = w_random s (w_draws s)"
  let ?p = "\<lambda>x. mb_board_id x = b \<and> mb_email x = e"
  let ?f = "\<lambda>x. x\<lparr>mb_board_token := Some (board_token_hash E tok salt), mb_board_token_salt := Some salt\<rparr>"
  have me: "mb_email m = e" using assms(1) by (auto simp: find_Some_iff)
  have run: "verify_member_token_cfg E b tok e True s =
      (Inr (Some e), s\<lparr>w_draws := Suc (w_draws s), db_members := update_where ?p ?f (db_members s)\<rparr>)"
    using assms(1-5) me
    by (simp add: verify_member_token_cfg_def get_member_def runs generate_board_token_salt_def random_hex16_def
        Let_def salt_def)
  have found: "find ?p (update_where ?p ?f (db_members s)) = Some (?f m)"
    by (rule find_update_same [OF assms(1)]) simp
  have "fst (verify_member_token_cfg E b tok e False s') = Inr (Some e)"
    unfolding assms(6) run using assms(4,5) me
    by (simp add: verify_member_token_cfg_def get_member_def runs found)
  moreover have "verify_member_token_cfg E b tok e False s = (Inr None, s)"
    using assms(1-5) by (simp add: verify_member_token_cfg_def get_member_def runs)
  ultimately show ?thesis using found by (auto simp: assms(6) run)
qed

definition legacy_db :: bst where
  "legacy_db = demo\<lparr>db_members := [(demo_member ''n@x'' ''worker'')\<lparr>mb_board_token := Some ''bdt_1''\<rparr>]\<rparr>"

theorem plain_token_migrates_witness:
  "fst (verify_member_token_cfg demo_ext ''board-0001'' ''bdt_1'' ''n@x'' False
     (snd (verify_member_token_cfg demo_ext ''board-0001'' ''bdt_1'' ''n@x'' True legacy_db))) = Inr (Some ''n@x'')"
proof -
  let ?m = "(demo_member ''n@x'' ''worker'')\<lparr>mb_board_token := Some ''bdt_1''\<rparr>"
  have "find (\<lambda>x. mb_board_id x = ''board-0001'' \<and> mb_email x = ''n@x'') (db_members legacy_db) = Some ?m"
    by (simp add: legacy_db_def demo_member_def)
  from plain_token_migrates [OF this _ _ _ _ refl, of "''bdt_1''" demo_ext] show ?thesis
    by (simp add: demo_member_def)
qed

section \<open>Roles\<close>

text \<open>
  What a role may do: a role with rows has exactly the verbs of its rows; a known role without
  rows gets the default verbs, seeded once; a role that is neither known nor configured may do nothing.
\<close>

lemma role_permission_decided:
  "fst (check_role_permission role verb s) = Inr
     (if role \<in> fst ` set (db_perms s) then (role, verb) \<in> set (db_perms s)
      else role \<in> set KNOWN_ROLES \<and> (\<exists>vs. (role, vs) \<in> set default_permissions \<and> verb \<in> set vs))"
  by (auto simp: check_role_permission_run perms_checked_def set_seeded default_rows_def image_iff)

text \<open>
  A stored status is read back as it was written, except for triage and archived, which come back
  as todo.
\<close>

lemma task_status_round_trip:
  "parse_task_status (show_task_status st) = (if st \<in> {Triage, Archived} then Todo else st)"
  by (cases st) (simp_all add: parse_task_status_def show_task_status.simps)

section \<open>Output and reopening\<close>

lemma find_SomeD: "find p xs = Some x \<Longrightarrow> x \<in> set xs \<and> p x"
  by (auto simp: find_Some_iff)

text \<open>
  C25. A board is handed to its owner only when the work is done: if \<open>output\<close> succeeds, the task is done,
  every task of the board is done, cancelled, in triage or archived, the sender's role permits it, and
  the board awaits its owner with that task as its output; no task changes.
\<close>

theorem output_guarded:
  assumes "wf_db s" and "handle_output n cmd sender s = (Inr resp, s')"
  shows "\<exists>ref r. cm_task_id cmd = Some ref \<and> find_task_row ref (db_tasks s) = Inr r \<and>
    parse_task_status (tk_status r) = Done \<and>
    (\<forall>k \<in> set (db_tasks s). tk_board_id k = tk_board_id r \<longrightarrow>
       tk_status k \<in> {''done'', ''cancelled'', ''triage'', ''archived''}) \<and>
    (\<exists>m \<in> set (db_members s). mb_email m = sender \<and> mb_board_id m = tk_board_id r \<and>
       (mb_role m, ''output'') \<in> set (db_perms s')) \<and>
    (\<forall>b \<in> set (db_boards s'). bd_id b = tk_board_id r \<longrightarrow>
       bd_status b = ''awaiting_owner'' \<and> bd_output_task_id b = Some (tk_id r)) \<and>
    db_tasks s' = db_tasks s"
proof -
  note [simp del] = task_from_row.simps
  let ?post = "\<lambda>_ s'. \<exists>ref r. cm_task_id cmd = Some ref \<and> find_task_row ref (db_tasks s) = Inr r \<and>
    parse_task_status (tk_status r) = Done \<and>
    (\<forall>k \<in> set (db_tasks s). tk_board_id k = tk_board_id r \<longrightarrow>
       tk_status k \<in> {''done'', ''cancelled'', ''triage'', ''archived''}) \<and>
    (\<exists>m \<in> set (db_members s). mb_email m = sender \<and> mb_board_id m = tk_board_id r \<and>
       (mb_role m, ''output'') \<in> set (db_perms s')) \<and>
    (\<forall>b \<in> set (db_boards s'). bd_id b = tk_board_id r \<longrightarrow>
       bd_status b = ''awaiting_owner'' \<and> bd_output_task_id b = Some (tk_id r)) \<and>
    db_tasks s' = db_tasks s"
  have "wpE (handle_output n cmd sender) ?post (\<lambda>_ _. True) s"
    unfolding handle_output_def
    by (auto simp: wps task_cols pipeline_settled_def filter_empty_conv update_board_def Let_def
        intro!: wpE_notify notifies dest!: in_update_where find_SomeD split: option.split sum.split if_splits)
  then show ?thesis using assms(2) by (auto dest: wpE_result)
qed

lemma forE_idle: "forE (\<lambda>x. returnE ()) xs = returnE ()"
  by (induction xs) (simp_all add: thenE_def bindE_def returnE_def fun_eq_iff)

lemma mute_output: "\<not> nf_factory n \<Longrightarrow> wpE (notify_output n k) Q R s = Q () s"
  by (simp add: notify_output_def create_email_def Let_def wps forE_idle cong: if_cong)

definition done_db :: bst where
  "done_db = demo_with BActive [demo_task ''T1'' Done None []]"

lemma done_db_wf [simp]: "wf_db done_db"
  unfolding done_db_def by (rule demo_with_wf) (auto simp: demo_task_def simp del: show_task_status.simps)

theorem output_guarded_witness:
  "\<exists>resp s'. handle_output demo_notifier (demo_cmd ''output'' (Some ''T1'')) ''o@x'' done_db = (Inr resp, s') \<and>
     (\<forall>b \<in> set (db_boards s'). bd_id b = ''board-0001'' \<longrightarrow> bd_status b = ''awaiting_owner'')"
proof -
  have row: "find_task_row ''T1'' (db_tasks done_db) = Inr (demo_task ''T1'' Done None [])"
    by (simp add: done_db_def demo_with_def find_task_row_def query_row_def demo_task_def)
  have "(''orchestrator'', ''output'') \<in> set (perms_checked ''orchestrator'' [])" by code_simp
  then have "wpE (handle_output demo_notifier (demo_cmd ''output'' (Some ''T1'')) ''o@x'') (\<lambda>_ _. True) (\<lambda>_ _. False) done_db"
    by (simp add: handle_output_def demo_cmd_def wps row mute_output update_board_def Let_def cong: if_cong)
       (simp add: done_db_def demo_defs parse_task_status_def pipeline_settled_def show_task_status.simps Let_def
         wps update_board_def mute_output cong: if_cong)
  then obtain resp s' where run: "handle_output demo_notifier (demo_cmd ''output'' (Some ''T1'')) ''o@x'' done_db = (Inr resp, s')"
    by (auto simp: wpE_def split: prod.splits sum.splits)
  from output_guarded [OF done_db_wf run] show ?thesis
    using run row by (auto simp: demo_cmd_def demo_task_def)
qed

text \<open>
  C26. Reopening undoes exactly the finished work: it needs a board that awaits its owner; every done task
  of the board runs again, every ready task below a done one waits again, all other tasks stay, and the
  board is active without plan or criteria version.
\<close>

theorem reopen_exact:
  assumes "wf_db s" and "handle_reopen cmd sender s = (Inr resp, s')"
  shows "\<exists>b row. param cmd ''board_id'' = Some b \<and> find (\<lambda>r. bd_id r = b) (db_boards s) = Some row \<and>
    bd_status row = ''awaiting_owner'' \<and>
    list_all2 (\<lambda>r r'. if tk_board_id r = b \<and> parse_task_status (tk_status r) = Done
        then \<exists>ts. r' = r\<lparr>tk_status := ''running'', tk_updated_at := ts\<rparr>
      else if tk_board_id r = b \<and> parse_task_status (tk_status r) = Ready \<and>
              set (tk_parent_ids r) \<inter> done_ids b (db_tasks s) \<noteq> {}
        then \<exists>ts. r' = r\<lparr>tk_status := ''todo'', tk_updated_at := ts\<rparr>
      else r' = r) (db_tasks s) (db_tasks s') \<and>
    (\<forall>x \<in> set (db_boards s'). bd_id x = b \<longrightarrow>
       bd_status x = ''active'' \<and> bd_plan_version x = None \<and> bd_criteria_version x = None)"
proof -
  have rows: "reopened_row b F = (\<lambda>r r'. if tk_board_id r = b \<and> parse_task_status (tk_status r) = Done
        then \<exists>ts. r' = r\<lparr>tk_status := ''running'', tk_updated_at := ts\<rparr>
      else if tk_board_id r = b \<and> parse_task_status (tk_status r) = Ready \<and> set (tk_parent_ids r) \<inter> F \<noteq> {}
        then \<exists>ts. r' = r\<lparr>tk_status := ''todo'', tk_updated_at := ts\<rparr>
      else r' = r)" for b F
    by (auto simp: reopened_row_def fun_eq_iff show_task_status.simps)
  have awaiting: "parse_board_status x = BAwaitingOwner \<Longrightarrow> x = ''awaiting_owner''" for x
    by (auto simp: parse_board_status_def split: if_splits)
  define post where "post = (\<lambda>s' :: bst. \<exists>b row. param cmd ''board_id'' = Some b \<and> find (\<lambda>r. bd_id r = b) (db_boards s) = Some row \<and>
    bd_status row = ''awaiting_owner'' \<and>
    list_all2 (reopened_row b (done_ids b (db_tasks s))) (db_tasks s) (db_tasks s') \<and>
    (\<forall>x \<in> set (db_boards s'). bd_id x = b \<longrightarrow>
       bd_status x = ''active'' \<and> bd_plan_version x = None \<and> bd_criteria_version x = None))"
  have loop: "wpE (forE (reopen_one (map tk_short_id (filter (\<lambda>k. tk_status k = Done) ks))) ks)
      (\<lambda>_. wpE (thenE (update_board u) (returnE resp0)) (\<lambda>_. post) (\<lambda>_ _. True)) (\<lambda>_ _. True) s1"
    if "param cmd ''board_id'' = Some b" "find (\<lambda>r. bd_id r = b) (db_boards s) = Some row" "bd_status row = ''awaiting_owner''"
      "bd_id u = b" "db_tasks s1 = db_tasks s" "wf_db s1" "db_boards s1 = db_boards s"
      "ks = map task_from_row (filter (\<lambda>r. tk_board_id r = b) (db_tasks s1))"
      "bd_status u = BActive" "bd_plan_version u = None" "bd_criteria_version u = None" for ks u b row s1 resp0
    by (rule wpE_mono [OF wp_reopen_loop [OF that(6,8)]])
       (use that in \<open>auto simp: post_def update_board_def wps rest_def dest!: in_update_where\<close>)
  have checked: "wf_db (s\<lparr>db_perms := perms_checked role (db_perms s)\<rparr>)" for role
    using assms(1) preservesD [OF wf.check_kept assms(1), of role] by (simp add: check_role_permission_run)
  have "wpE (handle_reopen cmd sender) (\<lambda>_. post) (\<lambda>_ _. True) s"
    unfolding handle_reopen_def
    by (auto simp: wps Let_def dest: awaiting find_SomeD intro!: loop checked split: option.split)
  then have "post s'" using assms(2) by (auto dest: wpE_result)
  then show ?thesis unfolding post_def rows .
qed

definition waiting_db :: bst where
  "waiting_db = demo_with BAwaitingOwner [demo_task ''T1'' Done None [], demo_task ''T2'' Ready None [''T1'']]"

lemma waiting_db_wf [simp]: "wf_db waiting_db"
  unfolding waiting_db_def by (rule demo_with_wf) (auto simp: demo_task_def simp del: show_task_status.simps)

theorem reopen_exact_witness:
  "\<exists>resp s'. handle_reopen (demo_cmd ''reopen'' None) ''h@x'' waiting_db = (Inr resp, s') \<and>
     map tk_status (db_tasks s') = [''running'', ''todo'']"
proof -
  have perm: "(''owner'', ''reopen'') \<in> set (perms_checked ''owner'' [])" by code_simp
  have b: "param (demo_cmd ''reopen'' None) ''board_id'' = Some ''board-0001''"
    by (simp add: param_def demo_cmd_def get_str_def)
  define s1 where "s1 = waiting_db\<lparr>db_perms := perms_checked ''owner'' []\<rparr>"
  have "wf_db s1"
    using preservesD [OF wf.check_kept waiting_db_wf, of "''owner''" "''reopen''"]
    by (simp add: s1_def check_role_permission_run waiting_db_def demo_with_def)
  then have "wpE (forE (reopen_one (map tk_short_id (filter (\<lambda>k. tk_status k = Done) ks))) ks) (\<lambda>_ _. True) (\<lambda>_ _. False) s1"
    if "ks = map task_from_row (filter (\<lambda>r. tk_board_id r = ''board-0001'') (db_tasks s1))" for ks
    by (rule wpE_mono [OF wp_reopen_loop [OF _ that]]) simp_all
  then have loop: "wpE (forE (reopen_one (map tk_short_id (filter (\<lambda>k. tk_status k = Done) ks))) ks) (\<lambda>_. wpE (thenE (update_board u)
      (returnE r)) (\<lambda>_ _. True) (\<lambda>_ _. False)) (\<lambda>_ _. False) s1"
    if "ks = map task_from_row (filter (\<lambda>r. tk_board_id r = ''board-0001'') (db_tasks s1))" for ks u r
    using that by (auto simp: update_board_def wps elim!: wpE_mono)
  have "wpE (handle_reopen (demo_cmd ''reopen'' None) ''h@x'') (\<lambda>_ _. True) (\<lambda>_ _. False) waiting_db"
  proof -
    note [simp del] = task_from_row.simps
    have "find (\<lambda>m. mb_board_id m = ''board-0001'' \<and> mb_email m = ''h@x'') (db_members waiting_db) = Some (demo_member ''h@x'' ''owner'')"
      "find (\<lambda>r. bd_id r = ''board-0001'') (db_boards waiting_db) = Some (demo_board BAwaitingOwner)"
      "mb_role (demo_member ''h@x'' ''owner'') = ''owner''" "db_perms waiting_db = []"
      "parse_board_status (bd_status (demo_board BAwaitingOwner)) = BAwaitingOwner"
      by (simp_all add: waiting_db_def demo_with_def demo_member_def demo_board_def parse_board_status_def)
    then show ?thesis
      using loop [OF refl] perm unfolding handle_reopen_def b s1_def by (simp add: wps Let_def)
  qed
  then obtain resp s' where run: "handle_reopen (demo_cmd ''reopen'' None) ''h@x'' waiting_db = (Inr resp, s')"
    by (auto simp: wpE_def split: prod.splits sum.splits)
  have rows: "db_tasks waiting_db = [demo_task ''T1'' Done None [], demo_task ''T2'' Ready None [''T1'']]"
    by (simp add: waiting_db_def demo_with_def)
  have cols: "tk_board_id (demo_task i st rv ps) = ''board-0001''" "tk_parent_ids (demo_task i st rv ps) = ps"
    "tk_status (demo_task i st rv ps) = show_task_status st" "tk_short_id (demo_task i st rv ps) = i" for i st rv ps
    by (simp_all add: demo_task_def)
  have "done_ids ''board-0001'' (db_tasks waiting_db) = {''T1''}"
    unfolding done_ids_def rows
    by (auto simp: cols simp del: show_task_status.simps intro!: exI [of _ "demo_task ''T1'' Done None []"])
  with reopen_exact [OF waiting_db_wf run] b obtain r1 r2 t1 t2 where "db_tasks s' = [r1, r2]"
      "r1 = (demo_task ''T1'' Done None [])\<lparr>tk_status := ''running'', tk_updated_at := t1\<rparr>"
      "r2 = (demo_task ''T2'' Ready None [''T1''])\<lparr>tk_status := ''todo'', tk_updated_at := t2\<rparr>"
    by (auto simp: rows cols list_all2_Cons1 parse_task_status_def show_task_status.simps)
  then show ?thesis using run by auto
qed

end
