(* ===== verification/Board_Upkeep.thy ===== *)
theory Board_Upkeep
  imports Board_Sweeper Board_Members
begin

text \<open>The upkeep of boards: what a scan does, when the scans run, and what the address registry knows.\<close>

section \<open>Scans\<close>

text \<open>
  The heartbeat scan blocks exactly the running tasks of the board whose last sign of life is
  readable and older than the threshold; every other row and table is unchanged, and the scan does not
  fail.
\<close>

lemma heartbeat_scan_exact:
  assumes "wf_db s"
  shows "\<exists>s'. heartbeat_scan_board E now_ns threshold b s = (Inr (), s') \<and>
    db_tasks s' = map (\<lambda>r. if tk_board_id r = b \<and> tk_status r = ''running'' \<and>
         (\<exists>p. parse_rfc3339 E (tk_updated_at r) = Some p \<and> num_seconds (now_ns - p) > sint threshold \<and>
              num_seconds (now_ns - p) \<ge> 0)
       then r\<lparr>tk_status := ''blocked''\<rparr> else r) (db_tasks s) \<and>
    db_boards s' = db_boards s \<and> db_members s' = db_members s"
proof -
  have "block_row E now_ns threshold b = (\<lambda>r. if tk_board_id r = b \<and> tk_status r = ''running'' \<and>
         (\<exists>p. parse_rfc3339 E (tk_updated_at r) = Some p \<and> num_seconds (now_ns - p) > sint threshold \<and>
              num_seconds (now_ns - p) \<ge> 0)
       then r\<lparr>tk_status := ''blocked''\<rparr> else r)"
    by (auto simp: block_row_def is_stale_def Let_def fun_eq_iff split: option.splits)
  then show ?thesis
    using wp_heartbeat_scan [OF assms, of E now_ns threshold b]
    by (auto simp: wpE_def rest_def split: prod.splits sum.splits)
qed

definition stale_db :: bst where
  "stale_db = demo_with BActive [demo_task ''T1'' Running None [], demo_task ''T2'' Ready None []]"

lemma stale_db_wf [simp]: "wf_db stale_db"
  unfolding stale_db_def by (rule demo_with_wf) (auto simp: demo_task_def simp del: show_task_status.simps)

theorem heartbeat_scan_exact_witness:
  "\<exists>s'. heartbeat_scan_board demo_ext 1000000000000 600 ''board-0001'' stale_db = (Inr (), s') \<and>
     map tk_status (db_tasks s') = [''blocked'', ''ready'']"
proof -
  have "parse_rfc3339 demo_ext ''100'' = Some 100000000000" by code_simp
  moreover have "num_seconds (1000000000000 - 100000000000) > sint (600 :: 64 word)" by (simp add: num_seconds_def)
  ultimately show ?thesis
    using heartbeat_scan_exact [OF stale_db_wf, of demo_ext 1000000000000 600 "''board-0001''"]
    by (auto simp: stale_db_def demo_with_def demo_task_def show_task_status.simps num_seconds_def)
qed

lemma flow_heartbeat:
  "(\<exists>x. HeartbeatScan x \<in> set (fst (board_sweeper_flow cfg t ts))) \<longleftrightarrow>
     sweeper_interval_seconds cfg \<le> t - last_heartbeat ts"
  "last_heartbeat (snd (board_sweeper_flow cfg t ts)) =
     (if sweeper_interval_seconds cfg \<le> t - last_heartbeat ts then t else last_heartbeat ts)"
  by (auto simp: board_sweeper_flow_def due_def Let_def split: prod.splits if_splits)

text \<open>
  The heartbeat scan runs once per interval: after a pass that scanned, the next pass scans again
  exactly when the interval has elapsed on the 64-bit clock (a clock that went back counts as elapsed,
  because the difference wraps around).
\<close>

lemma heartbeat_once_per_interval:
  assumes "board_sweeper_flow cfg t1 ts = (jobs, ts')" and "HeartbeatScan x \<in> set jobs"
  shows "(\<exists>y. HeartbeatScan y \<in> set (fst (board_sweeper_flow cfg t2 ts'))) \<longleftrightarrow>
    sweeper_interval_seconds cfg \<le> t2 - t1"
proof -
  have "sweeper_interval_seconds cfg \<le> t1 - last_heartbeat ts"
    using assms flow_heartbeat(1) [of cfg t1 ts] by auto
  then have "last_heartbeat ts' = t1" using assms(1) flow_heartbeat(2) [of cfg t1 ts] by simp
  then show ?thesis by (simp add: flow_heartbeat(1))
qed

definition demo_cfg :: board_config where
  "demo_cfg = \<lparr>heartbeat_stale_seconds = 600, task_timeout_seconds = 7200, sweeper_interval_seconds = 60,
     archive_retention_days = None\<rparr>"

theorem heartbeat_once_per_interval_witness:
  "(\<exists>y. HeartbeatScan y \<in> set (fst (board_sweeper_flow demo_cfg 130
      (snd (board_sweeper_flow demo_cfg 100 \<lparr>last_heartbeat = 0, last_stale_task = 0, last_archive = 0\<rparr>))))) \<longleftrightarrow>
    sweeper_interval_seconds demo_cfg \<le> 130 - (100 :: 64 word)"
proof -
  let ?ts = "\<lparr>last_heartbeat = 0, last_stale_task = 0, last_archive = 0\<rparr>"
  have "\<exists>y. HeartbeatScan y \<in> set (fst (board_sweeper_flow demo_cfg 100 ?ts))"
    by (simp add: flow_heartbeat demo_cfg_def)
  then obtain y where "HeartbeatScan y \<in> set (fst (board_sweeper_flow demo_cfg 100 ?ts))" ..
  then show ?thesis
    by (intro heartbeat_once_per_interval [of _ _ _ "fst (board_sweeper_flow demo_cfg 100 ?ts)"]) simp_all
qed

section \<open>The registry\<close>



text \<open>
  A board recipient is accepted only for a registered board address of a system that is known:
  the result names the short id, the id derived from the address and a non-empty system; every other
  address gets the error of its first missing condition.
\<close>

lemma recipient_resolution:
  "resolve_board_recipient E registry lookup_domain_addr vol a =
     (case parse_board_email E a of
        None \<Rightarrow> Inl AddrInvalid
      | Some (short, _, dmn) \<Rightarrow>
          if registry_lookup a registry = None then Inl AddrNotFound
          else (case nonempty (case nonempty (be_system_id (the (registry_lookup a registry))) of
                   Some sys \<Rightarrow> Some sys
                 | None \<Rightarrow> Option.bind (orchestrator_email (derive_board_id E a) vol) lookup_domain_addr) of
              None \<Rightarrow> Inl AddrNoSystem
            | Some sys \<Rightarrow> Inr \<lparr>rc_short_id = short, rc_board_id = derive_board_id E a, rc_domain = dmn,
                                rc_system_id = sys\<rparr>))"
  by (auto simp: resolve_board_recipient_def nonempty_def Let_def parse_board_email_def
      split: option.split prod.split Option.bind_splits if_splits)

end
