(* ===== verification/Email_Store.thy ===== *)
theory Email_Store
  imports Board_Db "HOL-Library.Option_ord"
begin

text \<open>
  The mail tables of the main database (\<open>src/src/core/email/storage.rs\<close>) with the accessors of
  \<open>src/src/core/email/records.rs\<close> and the attachment part of \<open>src/src/core/email/factory.rs\<close>.

  Time columns hold instants in milliseconds: the stored texts are RFC 3339 in UTC with three
  fractional digits, whose order as texts, the one SQLite compares, is the order of the instants. The
  \<open>endpoints\<close> column is the JSON value SQLite's JSON functions see. Files are the paths on disk. The
  trigger channel is the list of mail ids sent to the scheduler.
\<close>

section \<open>Rows\<close>

record email =
  em_id :: string
  em_status :: string
  em_system_id :: string
  em_direction :: string
  em_sender :: string
  em_recipients :: string
  em_endpoints :: "json option"
  em_subject :: string
  em_body :: string
  em_headers :: "string option"
  em_attachments :: "string option"
  em_send_count :: int
  em_last_sent_at :: int
  em_next_retry_at :: "int option"
  em_max_attempts :: int
  em_created_at :: int
  em_sender_signature :: "string option"

record attachment_meta =
  am_id :: string
  am_filename :: string
  am_content_type :: "string option"
  am_sender_email :: string
  am_mail_id :: "string list option"
  am_created_at :: int

record attachment_permission =
  ap_id :: nat
  ap_attachment_id :: string
  ap_user_email :: string
  ap_created_at :: int

record est =
  st_emails :: "email list"
  st_metas :: "attachment_meta list"
  st_perms :: "attachment_permission list"
  st_perm_seq :: nat
  st_files :: "string list"
  st_clock :: "nat \<Rightarrow> int"
  st_reads :: nat
  st_uuid :: "nat \<Rightarrow> string"
  st_uuids :: nat
  st_triggers :: "string list"

type_synonym 'a em = "(est, app_error, 'a) eff"

definition now_ms :: "int em" where
  "now_ms = (\<lambda>s. (Inr (st_clock s (st_reads s)), s\<lparr>st_reads := Suc (st_reads s)\<rparr>))"

definition new_uuid :: "string em" where
  "new_uuid = (\<lambda>s. (Inr (st_uuid s (st_uuids s)), s\<lparr>st_uuids := Suc (st_uuids s)\<rparr>))"

section \<open>Recipients\<close>

record recipients =
  rp_to :: "string list"
  rp_cc :: "string list"
  rp_rcpt :: "string list"

definition recipients_all :: "recipients \<Rightarrow> string list" where
  "recipients_all r = rp_to r @ rp_cc r"

definition recipients_delivery :: "recipients \<Rightarrow> string list" where
  "recipients_delivery r = (if rp_rcpt r = [] then rp_to r @ rp_cc r else rp_rcpt r)"

text \<open>A JSON array of strings, as serde reads a \<open>Vec<String>\<close>.\<close>

fun all_strings :: "json list \<Rightarrow> string list option" where
  "all_strings [] = Some []"
| "all_strings (JStr s # js) = map_option (Cons s) (all_strings js)"
| "all_strings (_ # js) = None"

definition json_strings :: "json \<Rightarrow> string list option" where
  "json_strings j = (case j of JArr js \<Rightarrow> all_strings js | _ \<Rightarrow> None)"

text \<open>\<open>to\<close> is required, \<open>cc\<close> and \<open>rcpt\<close> default to empty; anything else is one plain address.\<close>

definition recipients_of_json :: "json \<Rightarrow> recipients option" where
  "recipients_of_json j =
     (let optional = (\<lambda>k. case jget j k of None \<Rightarrow> Some [] | Some v \<Rightarrow> json_strings v) in
      case (Option.bind (jget j ''to'') json_strings, optional ''cc'', optional ''rcpt'') of
        (Some t, Some c, Some r) \<Rightarrow> Some \<lparr>rp_to = t, rp_cc = c, rp_rcpt = r\<rparr>
      | _ \<Rightarrow> None)"

definition recipients_from_json :: "ext \<Rightarrow> string \<Rightarrow> recipients" where
  "recipients_from_json E s = (case Option.bind (json_parse E s) recipients_of_json of
     Some r \<Rightarrow> r | None \<Rightarrow> \<lparr>rp_to = [s], rp_cc = [], rp_rcpt = []\<rparr>)"

definition recipients_value :: "recipients \<Rightarrow> json" where
  "recipients_value r = JObj ([(''to'', JArr (map JStr (rp_to r)))]
     @ (if rp_cc r = [] then [] else [(''cc'', JArr (map JStr (rp_cc r)))])
     @ (if rp_rcpt r = [] then [] else [(''rcpt'', JArr (map JStr (rp_rcpt r)))]))"

definition recipients_to_json :: "ext \<Rightarrow> recipients \<Rightarrow> string" where
  "recipients_to_json E r = json_text E (recipients_value r)"

section \<open>Accessors of a mail\<close>

definition headers_parsed :: "ext \<Rightarrow> email \<Rightarrow> (string \<times> json) list" where
  "headers_parsed E m = (case Option.bind (em_headers m) (json_parse E) of
     Some (JObj kvs) \<Rightarrow> kvs | _ \<Rightarrow> [])"

definition delivery_type_from_headers :: "ext \<Rightarrow> email \<Rightarrow> string option" where
  "delivery_type_from_headers E m = Option.bind (map_of (headers_parsed E m) ''delivery_type'') as_str"

definition message_id_from_headers :: "ext \<Rightarrow> email \<Rightarrow> string option" where
  "message_id_from_headers E m = Option.bind (map_of (headers_parsed E m) ''message_id'') as_str"

definition attachments_parsed :: "ext \<Rightarrow> email \<Rightarrow> json list" where
  "attachments_parsed E m = (case Option.bind (em_attachments m) (json_parse E) of
     Some (JArr js) \<Rightarrow> js | _ \<Rightarrow> [])"

definition attachment_ids :: "ext \<Rightarrow> email \<Rightarrow> string list" where
  "attachment_ids E m = (case em_attachments m of
     None \<Rightarrow> []
   | Some s \<Rightarrow> (case Option.bind (json_parse E s) json_strings of
       Some ids \<Rightarrow> ids
     | None \<Rightarrow> filter_map (\<lambda>v. get_str (Some v) ''attachment_id'') (attachments_parsed E m)))"

definition endpoints_parsed :: "email \<Rightarrow> (string \<times> json) list option" where
  "endpoints_parsed m = (case em_endpoints m of Some (JObj kvs) \<Rightarrow> Some kvs | _ \<Rightarrow> None)"

definition after_last_at :: "string \<Rightarrow> string" where
  "after_last_at s = last (split_char (CHR ''@'') s)"

definition sender_domain :: "email \<Rightarrow> string option" where
  "sender_domain m = (let d = after_last_at (em_sender m) in if d = [] then None else Some d)"

text \<open>
  \<open>Path::file_name\<close>: the last component, empty and \<open>.\<close> components dropped, none when it is \<open>..\<close>.
  \<open>Path::extension\<close>: what follows the last dot of it, unless that dot is its first character.
\<close>

definition file_name :: "string \<Rightarrow> string option" where
  "file_name p = (let comps = filter (\<lambda>c. c \<noteq> [] \<and> c \<noteq> ''.'') (split_char (CHR ''/'') p)
     in if comps = [] \<or> last comps = ''..'' then None else Some (last comps))"

definition extension_for :: "string \<Rightarrow> string" where
  "extension_for filename = (case file_name filename of
     None \<Rightarrow> ''bin''
   | Some name \<Rightarrow> (let parts = split_char (CHR ''.'') name
       in if length parts \<le> 1 \<or> (length parts = 2 \<and> hd parts = []) then ''bin'' else last parts))"

section \<open>Statements on mails\<close>

definition ordered_by :: "(email \<Rightarrow> 'k::linorder) \<Rightarrow> (email \<Rightarrow> bool) \<Rightarrow> nat \<Rightarrow> email list \<Rightarrow> email list" where
  "ordered_by key p limit rows = take limit (sort_key key (filter p rows))"

definition update_email :: "string \<Rightarrow> (email \<Rightarrow> email) \<Rightarrow> unit em" where
  "update_email i f = modifyE (\<lambda>s. s\<lparr>st_emails := update_where (\<lambda>m. em_id m = i) f (st_emails s)\<rparr>)"

definition insert_email ::
    "string \<Rightarrow> string \<Rightarrow> string \<Rightarrow> string \<Rightarrow> string \<Rightarrow> string \<Rightarrow> string \<Rightarrow> json option \<Rightarrow> string option \<Rightarrow>
     string option \<Rightarrow> int \<Rightarrow> email em" where
  "insert_email i system_id direction sender rcpts subject body endpoints attachments headers max_attempts =
     bindE now_ms (\<lambda>ts. bindE (getsE st_emails) (\<lambda>rows.
       let m = \<lparr>em_id = i, em_status = ''readying'', em_system_id = system_id, em_direction = direction,
                em_sender = sender, em_recipients = rcpts, em_endpoints = endpoints,
                em_subject = subject, em_body = body, em_headers = headers,
                em_attachments = attachments, em_send_count = 0, em_last_sent_at = ts,
                em_next_retry_at = None, em_max_attempts = max_attempts, em_created_at = ts,
                em_sender_signature = None\<rparr> in
       thenE (requireE (i \<notin> em_id ` set rows \<and> direction \<in> {''inbound'', ''outbound''})
                (Database ConstraintViolation))
       (thenE (modifyE (\<lambda>s. s\<lparr>st_emails := st_emails s @ [m]\<rparr>)) (returnE m))))"

definition get_email :: "string \<Rightarrow> email option em" where
  "get_email i = getsE (\<lambda>s. find (\<lambda>m. em_id m = i) (st_emails s))"

definition claim_ready :: "string \<Rightarrow> email option em" where
  "claim_ready i = bindE now_ms (\<lambda>ts. bindE (getsE st_emails) (\<lambda>rows.
     if \<not> list_ex (\<lambda>m. em_id m = i \<and> em_status m \<in> {''readying'', ''ready''}) rows then returnE None
     else thenE (modifyE (\<lambda>s. s\<lparr>st_emails := update_where
              (\<lambda>m. em_id m = i \<and> em_status m \<in> {''readying'', ''ready''})
              (\<lambda>m. m\<lparr>em_status := ''sending'', em_last_sent_at := ts\<rparr>) (st_emails s)\<rparr>))
            (get_email i)))"

definition count_pending_emails :: "nat em" where
  "count_pending_emails =
     getsE (\<lambda>s. length (filter (\<lambda>m. em_status m \<in> {''ready'', ''readying''}) (st_emails s)))"

definition find_emails_by_sender_direction :: "string \<Rightarrow> string \<Rightarrow> nat \<Rightarrow> email list em" where
  "find_emails_by_sender_direction sender direction limit = getsE (\<lambda>s.
     ordered_by (\<lambda>m. - em_created_at m) (\<lambda>m. em_sender m = sender \<and> em_direction m = direction) limit (st_emails s))"

definition count_emails_by_system :: "string \<Rightarrow> nat em" where
  "count_emails_by_system system_id =
     getsE (\<lambda>s. length (filter (\<lambda>m. em_system_id m = system_id) (st_emails s)))"

definition get_stuck_readying_emails :: "int \<Rightarrow> nat \<Rightarrow> email list em" where
  "get_stuck_readying_emails cutoff limit = getsE (\<lambda>s.
     ordered_by em_created_at (\<lambda>m. em_status m = ''readying'' \<and> em_created_at m < cutoff) limit (st_emails s))"

definition flip_readying_to_ready :: "string \<Rightarrow> bool em" where
  "flip_readying_to_ready i = bindE (getsE st_emails) (\<lambda>rows.
     thenE (modifyE (\<lambda>s. s\<lparr>st_emails := update_where
              (\<lambda>m. em_id m = i \<and> em_status m = ''readying'') (\<lambda>m. m\<lparr>em_status := ''ready''\<rparr>) (st_emails s)\<rparr>))
       (returnE (list_ex (\<lambda>m. em_id m = i \<and> em_status m = ''readying'') rows)))"

text \<open>A retry time counts as reached anywhere within the current second.\<close>

definition retry_due :: "int \<Rightarrow> email \<Rightarrow> bool" where
  "retry_due now_t m \<longleftrightarrow> em_status m = ''ready'' \<and> em_send_count m < em_max_attempts m \<and>
     (case em_next_retry_at m of None \<Rightarrow> True | Some t \<Rightarrow> t \<le> (now_t div 1000) * 1000 + 999)"

definition get_pending_retry_emails :: "nat \<Rightarrow> email list em" where
  "get_pending_retry_emails limit = bindE now_ms (\<lambda>now_t.
     getsE (\<lambda>s. ordered_by em_next_retry_at (retry_due now_t) limit (st_emails s)))"

definition get_overlimit_emails :: "nat \<Rightarrow> email list em" where
  "get_overlimit_emails limit = getsE (\<lambda>s. ordered_by em_last_sent_at
     (\<lambda>m. em_status m = ''ready'' \<and> em_send_count m \<ge> em_max_attempts m) limit (st_emails s))"

definition update_email_ready_retry :: "string \<Rightarrow> int \<Rightarrow> int \<Rightarrow> email option em" where
  "update_email_ready_retry i send_count next_retry_at = bindE (get_email i) (\<lambda>current.
     case current of None \<Rightarrow> returnE None
     | Some m \<Rightarrow> bindE now_ms (\<lambda>ts.
         let f = (\<lambda>m. m\<lparr>em_status := ''ready'', em_send_count := send_count,
                    em_next_retry_at := Some next_retry_at, em_last_sent_at := ts\<rparr>) in
         thenE (update_email i f) (returnE (Some (f m)))))"

definition update_email_send_count :: "string \<Rightarrow> int \<Rightarrow> unit em" where
  "update_email_send_count i send_count = update_email i (\<lambda>m. m\<lparr>em_send_count := send_count\<rparr>)"

definition mark_status :: "string \<Rightarrow> string \<Rightarrow> email option em" where
  "mark_status status i = bindE (get_email i) (\<lambda>current.
     case current of None \<Rightarrow> returnE None
     | Some m \<Rightarrow> bindE now_ms (\<lambda>ts.
         let f = (\<lambda>m. m\<lparr>em_status := status, em_last_sent_at := ts\<rparr>) in
         thenE (update_email i f) (returnE (Some (f m)))))"

definition update_email_completed :: "string \<Rightarrow> email option em" where
  "update_email_completed i = mark_status ''completed'' i"

definition update_email_delivered :: "string \<Rightarrow> email option em" where
  "update_email_delivered i = mark_status ''delivered'' i"

definition get_delivered_expired_before :: "int \<Rightarrow> nat \<Rightarrow> email list em" where
  "get_delivered_expired_before cutoff limit = getsE (\<lambda>s. ordered_by em_last_sent_at
     (\<lambda>m. em_status m = ''delivered'' \<and> em_last_sent_at m < cutoff) limit (st_emails s))"

definition delete_email :: "string \<Rightarrow> unit em" where
  "delete_email i = modifyE (\<lambda>s. s\<lparr>st_emails := filter (\<lambda>m. em_id m \<noteq> i) (st_emails s)\<rparr>)"

definition list_emails :: "nat \<Rightarrow> email list em" where
  "list_emails limit = getsE (\<lambda>s. ordered_by (\<lambda>m. - em_created_at m) (\<lambda>_. True) limit (st_emails s))"

text \<open>
  \<open>json_set(COALESCE(endpoints, '{}'), '$."d".status', v)\<close>: a missing entry is created, an entry
  that is no object is left alone.
\<close>

definition set_endpoint_status :: "string \<Rightarrow> string \<Rightarrow> json option \<Rightarrow> json option" where
  "set_endpoint_status domain new_status endpoints =
     (let j = unwrap_or (JObj []) endpoints in
      case j of
        JObj kvs \<Rightarrow> Some (case map_of kvs domain of
            None \<Rightarrow> JObj (obj_insert domain (JObj [(''status'', JStr new_status)]) kvs)
          | Some (JObj e) \<Rightarrow> JObj (obj_insert domain (JObj (obj_insert ''status'' (JStr new_status) e)) kvs)
          | Some _ \<Rightarrow> j)
      | _ \<Rightarrow> Some j)"

definition update_email_endpoint_status :: "string \<Rightarrow> string \<Rightarrow> string \<Rightarrow> bool em" where
  "update_email_endpoint_status i domain new_status = bindE (getsE st_emails) (\<lambda>rows.
     thenE (update_email i (\<lambda>m. m\<lparr>em_endpoints := set_endpoint_status domain new_status (em_endpoints m)\<rparr>))
       (returnE (length (filter (\<lambda>m. em_id m = i) rows) = 1)))"

text \<open>In SQL a missing status compares as unknown, so it does not count as a failure.\<close>

definition endpoint_failed :: "json \<Rightarrow> bool" where
  "endpoint_failed v = (case jget v ''status'' of None \<Rightarrow> False | Some JNull \<Rightarrow> False
     | Some s \<Rightarrow> s \<noteq> JStr ''success'')"

definition endpoints_completed :: "json option \<Rightarrow> bool" where
  "endpoints_completed endpoints = (case endpoints of
     None \<Rightarrow> False
   | Some (JObj kvs) \<Rightarrow> kvs \<noteq> [] \<and> list_all (\<lambda>(_, v). \<not> endpoint_failed v) kvs
   | Some (JArr vs) \<Rightarrow> list_all (\<lambda>v. \<not> endpoint_failed v) vs
   | Some v \<Rightarrow> \<not> endpoint_failed v)"

definition check_all_endpoints_completed :: "string \<Rightarrow> bool em" where
  "check_all_endpoints_completed i = getsE (\<lambda>s. case find (\<lambda>m. em_id m = i) (st_emails s) of
     None \<Rightarrow> False | Some m \<Rightarrow> endpoints_completed (em_endpoints m))"

definition update_email_body_and_signature :: "string \<Rightarrow> string \<Rightarrow> string \<Rightarrow> unit em" where
  "update_email_body_and_signature i body signature =
     update_email i (\<lambda>m. m\<lparr>em_body := body, em_sender_signature := Some signature\<rparr>)"

definition update_email_attachments :: "string \<Rightarrow> string \<Rightarrow> unit em" where
  "update_email_attachments i attachments = update_email i (\<lambda>m. m\<lparr>em_attachments := Some attachments\<rparr>)"

section \<open>Statements on attachments\<close>

definition insert_attachment_permission :: "string \<Rightarrow> string \<Rightarrow> attachment_permission em" where
  "insert_attachment_permission attachment_id user_email = bindE now_ms (\<lambda>ts. bindE (getsE (\<lambda>s. s)) (\<lambda>s.
     let p = \<lparr>ap_id = Suc (st_perm_seq s), ap_attachment_id = attachment_id, ap_user_email = user_email,
              ap_created_at = ts\<rparr> in
     thenE (requireE (\<not> list_ex (\<lambda>q. ap_attachment_id q = attachment_id \<and> ap_user_email q = user_email) (st_perms s))
              (Database ConstraintViolation))
     (thenE (modifyE (\<lambda>s. s\<lparr>st_perms := st_perms s @ [p], st_perm_seq := Suc (st_perm_seq s)\<rparr>))
       (returnE p))))"

definition list_attachment_permissions :: "string \<Rightarrow> attachment_permission list em" where
  "list_attachment_permissions attachment_id =
     getsE (\<lambda>s. filter (\<lambda>p. ap_attachment_id p = attachment_id) (st_perms s))"

definition delete_attachment_permission_by_user :: "string \<Rightarrow> string \<Rightarrow> unit em" where
  "delete_attachment_permission_by_user attachment_id user_email = modifyE (\<lambda>s. s\<lparr>st_perms :=
     filter (\<lambda>p. \<not> (ap_attachment_id p = attachment_id \<and> ap_user_email p = user_email)) (st_perms s)\<rparr>)"

definition delete_attachment_permissions_by_attachment_id :: "string \<Rightarrow> unit em" where
  "delete_attachment_permissions_by_attachment_id attachment_id = modifyE (\<lambda>s. s\<lparr>st_perms :=
     filter (\<lambda>p. ap_attachment_id p \<noteq> attachment_id) (st_perms s)\<rparr>)"

definition count_attachment_permissions :: "string \<Rightarrow> nat em" where
  "count_attachment_permissions attachment_id =
     getsE (\<lambda>s. length (filter (\<lambda>p. ap_attachment_id p = attachment_id) (st_perms s)))"

definition insert_attachment_meta ::
    "string \<Rightarrow> string \<Rightarrow> string option \<Rightarrow> string \<Rightarrow> string list option \<Rightarrow> attachment_meta em" where
  "insert_attachment_meta i filename content_type sender_email mail_id =
     bindE now_ms (\<lambda>ts. bindE (getsE st_metas) (\<lambda>rows.
       let a = \<lparr>am_id = i, am_filename = filename, am_content_type = content_type,
                am_sender_email = sender_email, am_mail_id = mail_id, am_created_at = ts\<rparr> in
       thenE (requireE (i \<notin> am_id ` set rows) (Database ConstraintViolation))
       (thenE (modifyE (\<lambda>s. s\<lparr>st_metas := st_metas s @ [a]\<rparr>)) (returnE a))))"

definition get_attachment_meta :: "string \<Rightarrow> attachment_meta option em" where
  "get_attachment_meta i = getsE (\<lambda>s. find (\<lambda>a. am_id a = i) (st_metas s))"

definition get_attachment_meta_batch :: "string list \<Rightarrow> attachment_meta list em" where
  "get_attachment_meta_batch ids = (if ids = [] then returnE []
     else getsE (\<lambda>s. filter (\<lambda>a. am_id a \<in> set ids) (st_metas s)))"

definition get_attachments_by_mail_id :: "string \<Rightarrow> attachment_meta list em" where
  "get_attachments_by_mail_id mail_id =
     getsE (\<lambda>s. filter (\<lambda>a. mail_id \<in> set (unwrap_or [] (am_mail_id a))) (st_metas s))"

definition get_attachments_expired_before :: "int \<Rightarrow> nat \<Rightarrow> attachment_meta list em" where
  "get_attachments_expired_before before limit = getsE (\<lambda>s.
     take limit (sort_key am_created_at (filter (\<lambda>a. am_created_at a < before) (st_metas s))))"

definition delete_attachment_meta_v2 :: "string \<Rightarrow> unit em" where
  "delete_attachment_meta_v2 i = modifyE (\<lambda>s. s\<lparr>st_metas := filter (\<lambda>a. am_id a \<noteq> i) (st_metas s)\<rparr>)"

definition count_attachment_mail_ids :: "string \<Rightarrow> nat em" where
  "count_attachment_mail_ids i = getsE (\<lambda>s. case find (\<lambda>a. am_id a = i) (st_metas s) of
     None \<Rightarrow> 0 | Some a \<Rightarrow> length (unwrap_or [] (am_mail_id a)))"

definition add_mail_id_to_attachment_meta :: "string \<Rightarrow> string \<Rightarrow> unit em" where
  "add_mail_id_to_attachment_meta i mail_id = bindE (get_attachment_meta i) (\<lambda>cur.
     let ids = (case cur of None \<Rightarrow> [] | Some a \<Rightarrow> unwrap_or [] (am_mail_id a)) in
     if mail_id \<in> set ids then returnE ()
     else modifyE (\<lambda>s. s\<lparr>st_metas := update_where (\<lambda>a. am_id a = i)
            (\<lambda>a. a\<lparr>am_mail_id := Some (ids @ [mail_id])\<rparr>) (st_metas s)\<rparr>))"

definition remove_mail_id_from_attachment_meta :: "string \<Rightarrow> string \<Rightarrow> unit em" where
  "remove_mail_id_from_attachment_meta i mail_id = bindE (get_attachment_meta i) (\<lambda>cur.
     case Option.bind cur am_mail_id of
       None \<Rightarrow> returnE ()
     | Some ids0 \<Rightarrow> let ids = filter (\<lambda>x. x \<noteq> mail_id) ids0 in
         modifyE (\<lambda>s. s\<lparr>st_metas := update_where (\<lambda>a. am_id a = i)
            (\<lambda>a. a\<lparr>am_mail_id := (if ids = [] then None else Some ids)\<rparr>) (st_metas s)\<rparr>))"

section \<open>Attachment files\<close>

record storage_config =
  attachment_max_size :: nat
  attachment_max_attachments :: nat
  attachment_allowed_types :: "string list"
  attachment_lifetime_hours :: int

definition wildcard_type_match :: "string \<Rightarrow> string \<Rightarrow> bool" where
  "wildcard_type_match pat content_type =
     (if ends_with pat ''/*'' then starts_with content_type (take (length pat - 1) pat)
      else pat = content_type)"

definition is_content_type_allowed :: "storage_config \<Rightarrow> string \<Rightarrow> bool" where
  "is_content_type_allowed cfg content_type \<longleftrightarrow>
     attachment_allowed_types cfg = [] \<or>
     list_ex (\<lambda>t. wildcard_type_match t content_type) (attachment_allowed_types cfg)"

definition is_size_allowed :: "storage_config \<Rightarrow> nat \<Rightarrow> bool" where
  "is_size_allowed cfg bytes \<longleftrightarrow> bytes \<le> attachment_max_size cfg"

definition validate_attachments ::
    "storage_config \<Rightarrow> (string \<times> string \<times> string \<times> string option) list \<Rightarrow> nat option \<Rightarrow> nat option \<Rightarrow> app_error + unit"
where
  "validate_attachments cfg atts per_system_max_count per_system_max_size =
     (let max_count = unwrap_or (attachment_max_attachments cfg) per_system_max_count;
          max_size = unwrap_or (attachment_max_size cfg) per_system_max_size in
      if max_count < length atts
      then Inl (Validation (''Too many attachments ('' @ show_nat (length atts) @ '') '' @ utf8 [226, 128, 148]
             @ '' max allowed: '' @ show_nat max_count))
      else case find (\<lambda>(_, _, content, _). max_size < length content) atts of
        Some (filename, _) \<Rightarrow> Inl (AttachmentTooLarge (''Attachment '' @ [CHR 39] @ filename @ [CHR 39]
             @ '' exceeds max size of '' @ show_nat max_size @ '' bytes''))
      | None \<Rightarrow>
          if attachment_allowed_types cfg = [] then Inr ()
          else case find (\<lambda>(_, content_type, _, _). \<not> list_ex (\<lambda>t. wildcard_type_match t content_type)
                                                    (attachment_allowed_types cfg)) atts of
            Some (filename, content_type, _) \<Rightarrow> Inl (Validation (''Attachment '' @ [CHR 39] @ filename @ [CHR 39]
                 @ '' has disallowed MIME type: '' @ content_type))
          | None \<Rightarrow> Inr ())"

definition attachment_hash_dir :: "ext \<Rightarrow> string \<Rightarrow> string" where
  "attachment_hash_dir E sender_email = take 16 (sha256_hex E sender_email)"

definition file_path :: "ext \<Rightarrow> string \<Rightarrow> string \<Rightarrow> string \<Rightarrow> string" where
  "file_path E sender_email attachment_id suffix =
     attachment_hash_dir E sender_email @ ''/'' @ attachment_id @ ''.'' @ suffix"

definition mime_path :: "ext \<Rightarrow> string \<Rightarrow> string \<Rightarrow> string" where
  "mime_path E sender_email attachment_id = attachment_hash_dir E sender_email @ ''/mime/'' @ attachment_id"

definition write_file :: "string \<Rightarrow> unit em" where
  "write_file path = modifyE (\<lambda>s. s\<lparr>st_files := insert_or_ignore path (st_files s)\<rparr>)"

definition remove_file :: "string \<Rightarrow> unit em" where
  "remove_file path = modifyE (\<lambda>s. s\<lparr>st_files := filter (\<lambda>p. p \<noteq> path) (st_files s)\<rparr>)"

definition save_attachment ::
    "ext \<Rightarrow> storage_config \<Rightarrow> string \<Rightarrow> string \<Rightarrow> string \<Rightarrow> string \<Rightarrow> string \<Rightarrow> string \<Rightarrow> string \<Rightarrow> attachment_meta em"
where
  "save_attachment E cfg sender_email attachment_id filename content_type content mail_id recipient_email =
     (if \<not> is_size_allowed cfg (length content)
      then throwE (AttachmentTooLarge (''attachment '' @ filename @ '' exceeds max size ''
             @ show_nat (attachment_max_size cfg) @ '' bytes (actual: '' @ show_nat (length content) @ '')''))
      else if \<not> is_content_type_allowed cfg content_type
      then throwE (AttachmentContentType (''attachment content type '' @ content_type @ '' is not allowed''))
      else thenE (write_file (file_path E sender_email attachment_id (extension_for filename)))
        (bindE (insert_attachment_meta attachment_id filename (Some content_type) sender_email (Some [mail_id]))
          (\<lambda>meta. thenE (insert_attachment_permission attachment_id recipient_email) (returnE meta))))"

definition check_permission :: "string \<Rightarrow> string \<Rightarrow> bool em" where
  "check_permission attachment_id user_email = bindE (list_attachment_permissions attachment_id) (\<lambda>perms.
     returnE (list_ex (\<lambda>p. ap_user_email p = user_email) perms))"

definition consume_download :: "string \<Rightarrow> string \<Rightarrow> unit em" where
  "consume_download attachment_id user_email = bindE (check_permission attachment_id user_email) (\<lambda>has.
     if \<not> has
     then throwE (Forbidden (''user '' @ user_email @ '' does not have permission to download attachment ''
            @ attachment_id))
     else delete_attachment_permission_by_user attachment_id user_email)"

definition attachment_display_list :: "string list \<Rightarrow> string list em" where
  "attachment_display_list ids = (if ids = [] then returnE []
     else bindE (get_attachment_meta_batch ids) (\<lambda>metas. returnE (map (\<lambda>i.
       case find (\<lambda>a. am_id a = i) metas of
         Some a \<Rightarrow> am_filename a @ '' ('' @ unwrap_or ''unknown'' (am_content_type a) @ '')''
       | None \<Rightarrow> i @ '' (deleted)'') ids)))"

section \<open>Facts of the store\<close>

lemma wp_store [wps]:
  "wpE now_ms Q R s = Q (st_clock s (st_reads s)) (s\<lparr>st_reads := Suc (st_reads s)\<rparr>)"
  "wpE new_uuid Q1 R s = Q1 (st_uuid s (st_uuids s)) (s\<lparr>st_uuids := Suc (st_uuids s)\<rparr>)"
  "wpE (update_email i f) Q2 R s =
     Q2 () (s\<lparr>st_emails := update_where (\<lambda>m. em_id m = i) f (st_emails s)\<rparr>)"
  "wpE (get_email i) Q3 R s = Q3 (find (\<lambda>m. em_id m = i) (st_emails s)) s"
  "wpE (delete_email i) Q2 R s = Q2 () (s\<lparr>st_emails := filter (\<lambda>m. em_id m \<noteq> i) (st_emails s)\<rparr>)"
  by (simp_all add: wpE_def now_ms_def new_uuid_def update_email_def get_email_def delete_email_def runs)

text \<open>The mail of an id; ids are unique because they are the primary key.\<close>

definition mail :: "string \<Rightarrow> est \<Rightarrow> email option" where
  "mail i s = find (\<lambda>m. em_id m = i) (st_emails s)"

definition mail_statuses :: "string set" where
  "mail_statuses = {''readying'', ''ready'', ''sending'', ''delivered'', ''completed''}"

definition wf_mails :: "est \<Rightarrow> bool" where
  "wf_mails s \<longleftrightarrow> distinct (map em_id (st_emails s)) \<and>
     (\<forall>m \<in> set (st_emails s). em_status m \<in> mail_statuses \<and> em_direction m \<in> {''inbound'', ''outbound''})"

lemma mail_update:
  "(\<And>m. em_id (f m) = em_id m) \<Longrightarrow>
   find (\<lambda>m. em_id m = j) (update_where (\<lambda>m. em_id m = i) f rows) =
     map_option (if j = i then f else (\<lambda>m. m)) (find (\<lambda>m. em_id m = j) rows)"
  by (induction rows) (auto simp: update_where_def)

lemma mail_filter:
  "find (\<lambda>m. em_id m = j) (filter (\<lambda>m. em_id m \<noteq> i) rows) =
     (if j = i then None else find (\<lambda>m. em_id m = j) rows)"
  by (induction rows) auto

lemma mail_append:
  "find (\<lambda>m. em_id m = j) (rows @ [x]) =
     (case find (\<lambda>m. em_id m = j) rows of Some y \<Rightarrow> Some y | None \<Rightarrow> if em_id x = j then Some x else None)"
  by (induction rows) auto

lemma mail_id: "find (\<lambda>m. em_id m = j) rows = Some m \<Longrightarrow> em_id m = j \<and> m \<in> set rows"
  by (auto simp: find_Some_iff)

subsection \<open>Claims\<close>

lemma claim_ready_run:
  assumes "wf_mails s"
  shows "claim_ready i s =
    (case mail i s of
       Some m \<Rightarrow> (if em_status m \<in> {''readying'', ''ready''}
          then let m' = m\<lparr>em_status := ''sending'', em_last_sent_at := st_clock s (st_reads s)\<rparr> in
            (Inr (Some m'), s\<lparr>st_reads := Suc (st_reads s),
               st_emails := update_where (\<lambda>x. em_id x = i) (\<lambda>_. m') (st_emails s)\<rparr>)
          else (Inr None, s\<lparr>st_reads := Suc (st_reads s)\<rparr>))
     | None \<Rightarrow> (Inr None, s\<lparr>st_reads := Suc (st_reads s)\<rparr>))"
proof (cases "mail i s")
  case None
  then have "\<not> list_ex (\<lambda>x. em_id x = i \<and> em_status x \<in> {''readying'', ''ready''}) (st_emails s)"
    by (auto simp: mail_def find_None_iff list_ex_iff)
  then show ?thesis by (simp add: None claim_ready_def now_ms_def runs)
next
  case (Some m)
  then have m: "em_id m = i" "m \<in> set (st_emails s)" by (auto simp: mail_def dest: mail_id)
  have uniq: "x = m" if "x \<in> set (st_emails s)" "em_id x = i" for x
    using assms m that by (auto simp: wf_mails_def distinct_map inj_on_def)
  let ?st = "{''readying'', ''ready''}"
  have ex: "list_ex (\<lambda>x. em_id x = i \<and> em_status x \<in> ?st) (st_emails s) \<longleftrightarrow> em_status m \<in> ?st"
    unfolding list_ex_iff using m uniq by blast
  let ?f = "\<lambda>x. x\<lparr>em_status := ''sending'', em_last_sent_at := st_clock s (st_reads s)\<rparr>"
  have upd: "update_where (\<lambda>x. em_id x = i \<and> em_status x \<in> ?st) ?f (st_emails s) =
      update_where (\<lambda>x. em_id x = i) (\<lambda>_. ?f m) (st_emails s)" if "em_status m \<in> ?st"
    unfolding update_where_def by (rule map_cong [OF refl]) (metis uniq that)
  have "find (\<lambda>x. em_id x = i) (update_where (\<lambda>x. em_id x = i) (\<lambda>_. ?f m) (st_emails s)) = Some (?f m)"
  proof -
    have "update_where (\<lambda>x. em_id x = i) (\<lambda>_. ?f m) (st_emails s) = update_where (\<lambda>x. em_id x = i) ?f (st_emails s)"
      unfolding update_where_def by (rule map_cong [OF refl]) (metis uniq)
    then show ?thesis using Some by (simp add: mail_update mail_def)
  qed
  then show ?thesis
    using Some ex upd by (simp add: claim_ready_def now_ms_def get_email_def runs Let_def)
qed

subsection \<open>Endpoints\<close>

lemma set_status_reads_back:
  assumes "set_endpoint_status d st (Some (JObj kvs)) = Some j" and "\<And>v. map_of kvs d = Some v \<Longrightarrow> \<exists>e. v = JObj e"
  shows "Option.bind (jget j d) (\<lambda>v. jget v ''status'') = Some (JStr st)"
  using assms
  by (cases "map_of kvs d")
     (auto simp: set_endpoint_status_def unwrap_or_def Let_def map_of_obj_insert split: json.splits)

subsection \<open>Recipients\<close>

lemma all_strings_map [simp]: "all_strings (map JStr xs) = Some xs"
  by (induction xs) auto

lemma recipients_value_parsed: "recipients_of_json (recipients_value r) = Some r"
  by (cases r) (simp add: recipients_of_json_def recipients_value_def json_strings_def Let_def)

end
