(* ===== verification/Scheduler.thy ===== *)
theory Scheduler
  imports Email_Store Board_Sweeper Complex_Main
begin

text \<open>
  The delivery scheduler (\<open>src/src/core/scheduler/\<close>): backoff, the delivery attempt and the removal of a
  finished mail, the notices for exhausted mails, the flows and one batch of them.

  What the flows take from elsewhere is in \<open>sched\<close>: the SMTP relay and the webhook delivery
  (computations on the store: they update endpoint states and may insert acknowledgements), the
  webhook address of a sender, whether the trigger channel has room, and the random factor of the
  backoff, a rational in [0,1) (the code multiplies in double precision; rounding is not modelled).
  Metrics and log lines have no effect on the store and are left out.
\<close>

section \<open>Backoff and delivery type\<close>

definition U64_MAX :: nat where
  "U64_MAX = 2 ^ 64 - 1"

definition saturating_mul :: "nat \<Rightarrow> nat \<Rightarrow> nat" where
  "saturating_mul a b = min (a * b) U64_MAX"

definition saturating_pow :: "nat \<Rightarrow> nat \<Rightarrow> nat" where
  "saturating_pow a e = min (a ^ e) U64_MAX"

definition base_backoff :: "nat \<Rightarrow> nat \<Rightarrow> nat \<Rightarrow> nat \<Rightarrow> nat" where
  "base_backoff attempt initial_backoff multiplier max_backoff =
     min (saturating_mul initial_backoff (saturating_pow multiplier ((attempt - 1) mod 2 ^ 32))) max_backoff"

definition calculate_backoff :: "rat \<Rightarrow> nat \<Rightarrow> nat \<Rightarrow> nat \<Rightarrow> nat \<Rightarrow> nat" where
  "calculate_backoff r attempt initial_backoff multiplier max_backoff =
     nat (floor (of_nat (base_backoff attempt initial_backoff multiplier max_backoff) * (1 / 2 + r)))"

definition detect_delivery_type :: "ext \<Rightarrow> email \<Rightarrow> string" where
  "detect_delivery_type E m =
     (if em_direction m = ''inbound'' then ''webhook''
      else if delivery_type_from_headers E m = Some ''smtp'' then ''smtp''
      else if delivery_type_from_headers E m = Some ''webhook'' then ''webhook''
      else if em_body m \<noteq> [] then ''smtp'' else ''webhook'')"

section \<open>Environment\<close>

datatype send_outcome = Sent | SendError string | SendTimeout

type_synonym attachment_data = "(string \<times> string \<times> string) list"

record sched =
  sc_ext :: ext
  sc_storage :: storage_config
  sc_board :: board_config
  sc_smtp_server :: "string option"
  sc_hostname :: "string option"
  sc_auto_reply_body :: "string option"
  sc_auto_reply_subject_prefix :: string
  sc_max_attempts :: int
  sc_initial_backoff :: nat
  sc_multiplier :: nat
  sc_max_backoff :: nat
  sc_readying_stuck_secs :: int
  sc_delivery_window_secs :: int
  sc_delivery_timeout_secs :: nat
  sc_relay :: "(email \<Rightarrow> attachment_data option \<Rightarrow> send_outcome em) option"
  sc_webhook :: "email \<Rightarrow> bool em"
  sc_resolve_webhook_url :: "string \<Rightarrow> string option"
  sc_trigger_room :: "string \<Rightarrow> bool"
  sc_jitter :: "nat \<Rightarrow> rat"

definition system_sender :: "sched \<Rightarrow> string" where
  "system_sender C = ''noreply@'' @ (case sc_hostname C of
     Some h \<Rightarrow> if trim h = [] then ''aimail-relay'' else h | None \<Rightarrow> ''aimail-relay'')"

section \<open>Delivery\<close>

text \<open>The attachments of an outbound mail that are on disk; one entry without its fields spoils all.\<close>

fun attachment_items :: "json list \<Rightarrow> (string \<times> string \<times> string) list option" where
  "attachment_items [] = Some []"
| "attachment_items (v # vs) =
     (case (get_str (Some v) ''attachment_id'', get_str (Some v) ''filename'', get_str (Some v) ''content_type'') of
        (Some i, Some f, Some c) \<Rightarrow> map_option (Cons (i, f, c)) (attachment_items vs)
      | _ \<Rightarrow> None)"

definition load_attachment_data :: "ext \<Rightarrow> email \<Rightarrow> est \<Rightarrow> attachment_data option" where
  "load_attachment_data E m s =
     (if em_attachments m = None then None
      else case attachment_items (attachments_parsed E m) of
        None \<Rightarrow> None
      | Some items \<Rightarrow>
          (let found = filter_map (\<lambda>(i, f, c).
                 let path = file_path E (em_sender m) i (extension_for f) in
                 if path \<in> set (st_files s) then Some (f, c, path) else None) items
           in if found = [] then None else Some found))"

definition deliver_smtp :: "sched \<Rightarrow> email \<Rightarrow> string option em" where
  "deliver_smtp C m = (case sc_relay C of
     None \<Rightarrow> returnE (Some ''SmtpRelay not configured'')
   | Some relay \<Rightarrow> bindE (getsE (load_attachment_data (sc_ext C) m)) (\<lambda>data.
       bindE (relay m data) (\<lambda>outcome. returnE (case outcome of
         Sent \<Rightarrow> None
       | SendError e \<Rightarrow> Some (''smtp error: '' @ e)
       | SendTimeout \<Rightarrow> Some (''smtp timeout after '' @ show_nat (sc_delivery_timeout_secs C) @ ''s'')))))"

definition deliver_webhook :: "sched \<Rightarrow> email \<Rightarrow> string option em" where
  "deliver_webhook C m = bindE (sc_webhook C m) (\<lambda>all_succeeded.
     returnE (if all_succeeded then None else Some ''multi-endpoint webhook delivery incomplete''))"

definition attempt_delivery :: "sched \<Rightarrow> email \<Rightarrow> string option em" where
  "attempt_delivery C m =
     (if detect_delivery_type (sc_ext C) m = ''webhook'' then deliver_webhook C m else deliver_smtp C m)"

definition cascade_delete_attachment ::
    "ext \<Rightarrow> string \<Rightarrow> string \<Rightarrow> string \<Rightarrow> nat \<Rightarrow> nat \<Rightarrow> string \<Rightarrow> unit em" where
  "cascade_delete_attachment E attachment_id suffix sender_email perm_count mail_count mail_id =
     (if perm_count = 0 \<and> mail_count \<le> 1
      then thenE (remove_file (file_path E sender_email attachment_id suffix))
        (thenE (remove_file (mime_path E sender_email attachment_id))
        (thenE (okE (delete_attachment_permissions_by_attachment_id attachment_id))
          (okE (delete_attachment_meta_v2 attachment_id))))
      else okE (remove_mail_id_from_attachment_meta attachment_id mail_id))"

definition meta_extension :: "string \<Rightarrow> string em" where
  "meta_extension attachment_id = bindE (get_attachment_meta attachment_id) (\<lambda>a.
     returnE (case a of Some m \<Rightarrow> extension_for (am_filename m) | None \<Rightarrow> ''bin''))"

text \<open>The loop body shared by the clean-up of a finished mail and the discard of a partial one.\<close>

definition release_attachment :: "ext \<Rightarrow> email \<Rightarrow> string \<Rightarrow> unit em" where
  "release_attachment E m attachment_id = bindE (meta_extension attachment_id) (\<lambda>suffix.
     bindE (count_attachment_permissions attachment_id) (\<lambda>perm_count.
     bindE (count_attachment_mail_ids attachment_id) (\<lambda>mail_count.
       cascade_delete_attachment E attachment_id suffix (em_sender m) perm_count mail_count (em_id m))))"

definition cleanup_completed_email :: "ext \<Rightarrow> email \<Rightarrow> unit em" where
  "cleanup_completed_email E m =
     thenE (forE (release_attachment E m) (attachment_ids E m)) (okE (delete_email (em_id m)))"

section \<open>Exhaustion\<close>

definition trigger_first_delivery :: "sched \<Rightarrow> string \<Rightarrow> unit em" where
  "trigger_first_delivery C i =
     (if sc_trigger_room C i then modifyE (\<lambda>s. s\<lparr>st_triggers := st_triggers s @ [i]\<rparr>) else returnE ())"

definition to_sender_only :: "ext \<Rightarrow> email \<Rightarrow> string" where
  "to_sender_only E m = recipients_to_json E \<lparr>rp_to = [em_sender m], rp_cc = [], rp_rcpt = [em_sender m]\<rparr>"

definition auto_reply_headers :: "ext \<Rightarrow> email \<Rightarrow> string" where
  "auto_reply_headers E m = json_text E (JObj ((case message_id_from_headers E m of
       Some mid \<Rightarrow> [(''In-Reply-To'', JStr mid), (''References'', JStr mid)] | None \<Rightarrow> [])
     @ [(''X-AIMail-AutoReply'', JStr ''1'')]))"

definition suppress_auto_reply :: "email \<Rightarrow> bool" where
  "suppress_auto_reply m \<longleftrightarrow>
     starts_with (em_id m) ''ar-'' \<or> starts_with (em_id m) ''wn-'' \<or> starts_with (em_id m) ''bn-'' \<or>
     starts_with (em_id m) ''sr-'' \<or> contains_str (em_subject m) ''[Overlimit]'' \<or>
     contains_str (em_subject m) ''[AimailGW]'' \<or> starts_with (em_subject m) ''__aimail_pong__:'' \<or>
     starts_with (em_id m) ''exp-''"

definition insert_exhaustion_auto_reply :: "sched \<Rightarrow> email \<Rightarrow> unit em" where
  "insert_exhaustion_auto_reply C m =
     (if suppress_auto_reply m then returnE ()
      else bindE new_uuid (\<lambda>u.
        let i = ''ar-'' @ u;
            body = unwrap_or (''Your request could not be processed after multiple attempts. ''
                     @ ''Please try again later.'') (sc_auto_reply_body C);
            subject = sc_auto_reply_subject_prefix C @ em_subject m in
        bindE (tryE (insert_email i (em_system_id m) ''outbound'' (system_sender C)
                 (to_sender_only (sc_ext C) m) subject body None None
                 (Some (auto_reply_headers (sc_ext C) m)) (sc_max_attempts C))) (\<lambda>r.
          case r of Inl _ \<Rightarrow> returnE () | Inr _ \<Rightarrow> trigger_first_delivery C i)))"

definition suppress_notification :: "email \<Rightarrow> bool" where
  "suppress_notification m \<longleftrightarrow> contains_str (em_subject m) ''[Overlimit]'' \<or>
     contains_str (em_subject m) ''[AimailGW]'' \<or> starts_with (em_id m) ''wn-''"

definition show_int :: "int \<Rightarrow> string" where
  "show_int i = (if i < 0 then ''-'' @ show_nat (nat (- i)) else show_nat (nat i))"

definition newline :: string where
  "newline = [CHR 10]"

definition notification_body :: "sched \<Rightarrow> email \<Rightarrow> string \<Rightarrow> string" where
  "notification_body C m attachment_display =
     unwrap_or (''This is an automated message from the aimail system. ''
         @ ''The delivery could not be completed after all retry attempts.'') (sc_auto_reply_body C)
     @ newline @ newline @ ''---'' @ newline @ newline
     @ ''**Event**: delivery_exhausted'' @ newline @ ''**Email ID**: '' @ em_id m @ newline
     @ ''**Original Subject**: '' @ em_subject m @ newline
     @ ''**Original Recipients**: '' @ em_recipients m @ newline
     @ ''**Attempts**: '' @ show_int (em_send_count m) @ ''/'' @ show_int (em_max_attempts m) @ newline
     @ attachment_display @ ''---'' @ newline @ newline @ ''**Original Message**:'' @ newline @ newline
     @ em_body m"

definition attachment_display :: "ext \<Rightarrow> email \<Rightarrow> string em" where
  "attachment_display E m =
     (let ids = unwrap_or [] (Option.bind (Option.bind (em_attachments m) (json_parse E)) json_strings) in
      if ids = [] then returnE []
      else bindE (attachment_display_list ids) (\<lambda>names. returnE (if names = [] then []
        else newline @ ''**Attachments**: '' @ join '', '' names @ newline)))"

definition insert_exhaustion_notification :: "sched \<Rightarrow> email \<Rightarrow> unit em" where
  "insert_exhaustion_notification C m =
     (if suppress_notification m then returnE ()
      else case sc_resolve_webhook_url C (em_sender m) of
        None \<Rightarrow> returnE ()
      | Some url \<Rightarrow> bindE new_uuid (\<lambda>u. bindE (attachment_display (sc_ext C) m) (\<lambda>disp.
          let i = ''wn-'' @ u;
              endpoints = JObj [(to_lowercase (em_sender m),
                            JObj [(''url'', JStr url), (''status'', JStr ''pending'')])];
              subject = sc_auto_reply_subject_prefix C @ ''[Overlimit] '' @ em_subject m in
          bindE (tryE (insert_email i (em_system_id m) ''inbound'' (system_sender C)
                   (to_sender_only (sc_ext C) m) subject (notification_body C m disp) (Some endpoints)
                   None (Some (auto_reply_headers (sc_ext C) m)) (sc_max_attempts C))) (\<lambda>r.
            case r of Inl _ \<Rightarrow> returnE () | Inr _ \<Rightarrow> trigger_first_delivery C i))))"

section \<open>Flows\<close>

definition finalize_after_delivery :: "sched \<Rightarrow> email \<Rightarrow> unit em" where
  "finalize_after_delivery C m =
     (let direct = (case sc_smtp_server C of Some x \<Rightarrow> x = [] | None \<Rightarrow> True) in
      if direct \<and> detect_delivery_type (sc_ext C) m \<noteq> ''webhook''
      then okE (update_email_delivered (em_id m))
      else bindE (tryE (update_email_completed (em_id m))) (\<lambda>r.
        case r of Inl _ \<Rightarrow> returnE () | Inr _ \<Rightarrow> cleanup_completed_email (sc_ext C) m))"

definition exhaust_email :: "sched \<Rightarrow> email \<Rightarrow> int option \<Rightarrow> unit em" where
  "exhaust_email C m final_send_count =
     thenE (case final_send_count of None \<Rightarrow> returnE ()
            | Some n \<Rightarrow> okE (update_email_send_count (em_id m) n))
     (thenE (if em_direction m = ''inbound'' then insert_exhaustion_auto_reply C m
             else if em_direction m = ''outbound'' then insert_exhaustion_notification C m
             else returnE ())
     (bindE (tryE (update_email_completed (em_id m))) (\<lambda>r.
        case r of Inr (Some _) \<Rightarrow> cleanup_completed_email (sc_ext C) m | _ \<Rightarrow> returnE ())))"

definition handle_overlimit :: "sched \<Rightarrow> email \<Rightarrow> unit em" where
  "handle_overlimit C m = exhaust_email C m None"

definition next_retry_time :: "sched \<Rightarrow> int \<Rightarrow> int em" where
  "next_retry_time C send_count = bindE (getsE st_reads) (\<lambda>d. bindE now_ms (\<lambda>t.
     returnE (t + 1000 * int (calculate_backoff (sc_jitter C d) (nat send_count) (sc_initial_backoff C)
                                (sc_multiplier C) (sc_max_backoff C)))))"

definition periodic_inspection :: "sched \<Rightarrow> email \<Rightarrow> unit em" where
  "periodic_inspection C m =
     (let new_send_count = em_send_count m + 1;
          will_exhaust = new_send_count \<ge> em_max_attempts m in
      bindE (attempt_delivery C m) (\<lambda>last_error.
        if last_error = None then finalize_after_delivery C m
        else if will_exhaust then exhaust_email C m (Some new_send_count)
        else bindE (next_retry_time C new_send_count) (\<lambda>next_retry.
          bindE (tryE (update_email_ready_retry (em_id m) new_send_count next_retry)) (\<lambda>r.
            case r of
              Inr _ \<Rightarrow> returnE ()
            | Inl _ \<Rightarrow> bindE now_ms (\<lambda>t. okE (update_email_ready_retry (em_id m) (em_send_count m) (t + 60000)))))))"

definition immediate_forward :: "sched \<Rightarrow> email \<Rightarrow> unit em" where
  "immediate_forward C m =
     bindE (attempt_delivery C m) (\<lambda>last_error.
       if last_error = None then finalize_after_delivery C m
       else if 1 \<ge> em_max_attempts m then exhaust_email C m (Some 1)
       else bindE (next_retry_time C 1) (\<lambda>next_retry.
         okE (update_email_ready_retry (em_id m) 1 next_retry)))"

text \<open>One expired attachment; the mails it names are remembered for the cascade.\<close>

definition expire_attachment :: "ext \<Rightarrow> attachment_meta \<Rightarrow> unit em" where
  "expire_attachment E a = bindE (count_attachment_mail_ids (am_id a)) (\<lambda>mail_count.
     bindE (count_attachment_permissions (am_id a)) (\<lambda>perm_count.
       if perm_count = 0 \<and> mail_count \<le> 1
       then cascade_delete_attachment E (am_id a) (extension_for (am_filename a)) (am_sender_email a)
              perm_count mail_count (am_id a)
       else forE (\<lambda>mid. okE (remove_mail_id_from_attachment_meta (am_id a) mid)) (unwrap_or [] (am_mail_id a))))"

definition cascade_mail :: "ext \<Rightarrow> string \<Rightarrow> unit em" where
  "cascade_mail E mail_id = bindE (get_attachments_by_mail_id mail_id) (\<lambda>remaining.
     if remaining = []
     then bindE (get_email mail_id) (\<lambda>m. case m of
            Some r \<Rightarrow> cleanup_completed_email E r | None \<Rightarrow> returnE ())
     else returnE ())"

definition process_expired_attachments :: "sched \<Rightarrow> nat \<Rightarrow> unit em" where
  "process_expired_attachments C batch_size = bindE now_ms (\<lambda>t.
     bindE (get_attachments_expired_before (t - attachment_lifetime_hours (sc_storage C) * 3600000) batch_size)
       (\<lambda>expired. thenE (forE (expire_attachment (sc_ext C)) expired)
          (forE (cascade_mail (sc_ext C)) (rev (remdups (rev (concat (map (\<lambda>a. unwrap_or [] (am_mail_id a)) expired))))))))"

section \<open>One batch\<close>

definition discard_partial_email :: "ext \<Rightarrow> email \<Rightarrow> string list \<Rightarrow> unit em" where
  "discard_partial_email E m ids = thenE (forE (release_attachment E m) ids) (okE (delete_email (em_id m)))"

definition sweep_one :: "ext \<Rightarrow> email \<Rightarrow> unit em" where
  "sweep_one E m =
     (let json_complete = (case em_attachments m of Some x \<Rightarrow> x \<noteq> [] | None \<Rightarrow> False) in
      bindE (if json_complete then returnE (attachment_ids E m)
             else bindE (get_attachments_by_mail_id (em_id m)) (\<lambda>as. returnE (map am_id as))) (\<lambda>meta_ids.
        if \<not> json_complete \<and> meta_ids \<noteq> [] then discard_partial_email E m meta_ids
        else okE (flip_readying_to_ready (em_id m))))"

definition sweep_stuck_readying :: "sched \<Rightarrow> nat \<Rightarrow> unit em" where
  "sweep_stuck_readying C batch_size = bindE now_ms (\<lambda>t.
     bindE (get_stuck_readying_emails (t - sc_readying_stuck_secs C * 1000) batch_size) (\<lambda>records.
       forE (sweep_one (sc_ext C)) records))"

definition finalize_expired :: "sched \<Rightarrow> nat \<Rightarrow> unit em" where
  "finalize_expired C batch_size = bindE now_ms (\<lambda>t.
     bindE (get_delivered_expired_before (t - sc_delivery_window_secs C * 1000) batch_size) (\<lambda>records.
       forE (\<lambda>m. bindE (tryE (update_email_completed (em_id m))) (\<lambda>r.
         case r of Inl _ \<Rightarrow> returnE () | Inr _ \<Rightarrow> cleanup_completed_email (sc_ext C) m)) records))"

definition process_batch :: "sched \<Rightarrow> nat \<Rightarrow> unit em" where
  "process_batch C batch_size =
     thenE (sweep_stuck_readying C batch_size)
     (thenE (bindE (get_overlimit_emails batch_size) (forE (handle_overlimit C)))
     (thenE (bindE (get_pending_retry_emails batch_size) (forE (periodic_inspection C)))
     (thenE (process_expired_attachments C batch_size) (finalize_expired C batch_size))))"

text \<open>The trigger arm of the scheduler's loop: claim, then deliver.\<close>

definition on_trigger :: "sched \<Rightarrow> string \<Rightarrow> unit em" where
  "on_trigger C mail_uuid = bindE (tryE (claim_ready mail_uuid)) (\<lambda>r.
     case r of Inr (Some record) \<Rightarrow> immediate_forward C record | _ \<Rightarrow> returnE ())"

end
