(* ===== verification/Mail_Lifecycle.thy ===== *)
theory Mail_Lifecycle
  imports Scheduler
begin

text \<open>
  What the scheduler does to a mail: which flow may touch it, that every attempt makes progress, that
  an exhausted mail is removed and its notices cannot cascade, and that a claimed mail is outside the
  reach of every batch.
\<close>

section \<open>Backoff\<close>

lemma base_backoff_le: "base_backoff a ini mul mx \<le> mx"
  by (simp add: base_backoff_def)

lemma calculate_backoff_bounds:
  assumes "0 \<le> r" and "r < 1"
  shows "base_backoff a ini mul mx \<le> 2 * calculate_backoff r a ini mul mx + 1"
    and "2 * calculate_backoff r a ini mul mx \<le> 3 * base_backoff a ini mul mx"
proof -
  define b where "b = base_backoff a ini mul mx"
  define x where "x = (of_nat b :: rat) * (1 / 2 + r)"
  have lo: "(of_nat b :: rat) / 2 \<le> x" using assms(1) by (simp add: x_def algebra_simps)
  have hi: "2 * x \<le> 3 * (of_nat b :: rat)"
    using mult_left_mono [of r 1 "of_nat b"] assms(2) by (simp add: x_def algebra_simps)
  have "0 \<le> x" using lo by (meson divide_nonneg_nonneg of_nat_0_le_iff order_trans zero_le_numeral)
  then have c: "int (calculate_backoff r a ini mul mx) = floor x"
    by (simp add: calculate_backoff_def b_def x_def)
  have "(of_nat b :: rat) < 2 * of_int (floor x) + 2" using lo floor_correct [of x] by linarith
  then have "of_int (int b) < (of_int (2 * floor x + 2) :: rat)" by simp
  then have "int b < 2 * floor x + 2" by (simp only: of_int_less_iff)
  then show "base_backoff a ini mul mx \<le> 2 * calculate_backoff r a ini mul mx + 1"
    using c by (simp add: b_def)
  have "2 * of_int (floor x) \<le> (3 * of_nat b :: rat)" using hi floor_correct [of x] by linarith
  then have "of_int (2 * floor x) \<le> (of_int (3 * int b) :: rat)" by simp
  then have "2 * floor x \<le> 3 * int b" by (simp only: of_int_le_iff)
  then show "2 * calculate_backoff r a ini mul mx \<le> 3 * base_backoff a ini mul mx"
    using c by (simp add: b_def)
qed

lemma base_backoff_mono:
  assumes "1 \<le> mul" and "1 \<le> a" and "a \<le> a'" and "a' \<le> 2 ^ 32"
  shows "base_backoff a ini mul mx \<le> base_backoff a' ini mul mx"
proof -
  have "mul ^ (a - 1) \<le> mul ^ (a' - 1)" using assms by (simp add: power_increasing)
  moreover have "(a - 1) mod 2 ^ 32 = a - 1" "(a' - 1) mod 2 ^ 32 = a' - 1" using assms by simp_all
  ultimately show ?thesis
    by (auto simp: base_backoff_def saturating_mul_def saturating_pow_def min_le_iff_disj intro!: min.mono mult_le_mono)
qed

section \<open>Frame\<close>

text \<open>A mail without the columns that a delivery attempt rewrites.\<close>

definition core :: "email \<Rightarrow> email" where
  "core m = m\<lparr>em_endpoints := None, em_body := [], em_sender_signature := None\<rparr>"

definition holds_mail :: "string \<Rightarrow> email \<Rightarrow> est \<Rightarrow> bool" where
  "holds_mail i c s \<longleftrightarrow> map_option core (mail i s) = Some c"

lemma emails_kept [keeps]:
  "preserves (\<lambda>s. P (st_emails s)) now_ms" "preserves (\<lambda>s. P (st_emails s)) new_uuid"
  "preserves (\<lambda>s. P (st_emails s)) (remove_file p)"
  "preserves (\<lambda>s. P (st_emails s)) (delete_attachment_permissions_by_attachment_id a)"
  "preserves (\<lambda>s. P (st_emails s)) (delete_attachment_meta_v2 a)"
  "preserves (\<lambda>s. P (st_emails s)) (remove_mail_id_from_attachment_meta a i)"
  by (auto simp: preserves_wpE wps remove_file_def delete_attachment_permissions_by_attachment_id_def
      delete_attachment_meta_v2_def remove_mail_id_from_attachment_meta_def get_attachment_meta_def Let_def
      split: option.split)

lemma reads_kept [keeps]:
  "preserves P (get_attachment_meta a)" "preserves P (count_attachment_permissions a)"
  "preserves P (count_attachment_mail_ids a)" "preserves P (get_attachments_by_mail_id i)"
  "preserves P (get_email i)" "preserves P (get_overlimit_emails n)"
  "preserves P (get_stuck_readying_emails t n)" "preserves P (get_delivered_expired_before t n)"
  "preserves P (get_attachments_expired_before t n)" "preserves P (attachment_display E m)"
  by (simp_all add: get_attachment_meta_def count_attachment_permissions_def count_attachment_mail_ids_def
      get_attachments_by_mail_id_def get_email_def get_overlimit_emails_def get_stuck_readying_emails_def
      get_delivered_expired_before_def get_attachments_expired_before_def keeps attachment_display_def
      attachment_display_list_def get_attachment_meta_batch_def Let_def)

lemma emails_kept_release [keeps]:
  "preserves (\<lambda>s. P (st_emails s)) (release_attachment E m a)"
  "preserves (\<lambda>s. P (st_emails s)) (expire_attachment E att)"
  unfolding release_attachment_def meta_extension_def cascade_delete_attachment_def expire_attachment_def
  by (intro keeps)+

section \<open>Removal\<close>

text \<open>The steps of a removal do not fail: every database error in them is logged and dropped.\<close>

lemma wp_release:
  "wpE (release_attachment E m a) (\<lambda>_ s'. st_emails s' = st_emails s) (\<lambda>_ _. False) s"
  by (simp add: release_attachment_def meta_extension_def cascade_delete_attachment_def remove_file_def
      delete_attachment_permissions_by_attachment_id_def delete_attachment_meta_v2_def Let_def wps
      remove_mail_id_from_attachment_meta_def get_attachment_meta_def count_attachment_permissions_def
      count_attachment_mail_ids_def split: option.split)

lemma wp_release_all:
  "(\<And>s'. st_emails s' = st_emails s \<Longrightarrow> Q () s') \<Longrightarrow> wpE (forE (release_attachment E m) ids) Q (\<lambda>_ _. False) s"
  by (rule wpE_forE [where I = "\<lambda>s'. st_emails s' = st_emails s"])
     (auto intro: wpE_mono [OF wp_release])

lemma wp_cleanup:
  "(\<And>s'. st_emails s' = filter (\<lambda>x. em_id x \<noteq> em_id m) (st_emails s) \<Longrightarrow> Q () s') \<Longrightarrow>
   wpE (cleanup_completed_email E m) Q (\<lambda>_ _. False) s"
  by (simp add: cleanup_completed_email_def wps wp_release_all)

lemma wp_discard:
  "(\<And>s'. st_emails s' = filter (\<lambda>x. em_id x \<noteq> em_id m) (st_emails s) \<Longrightarrow> Q () s') \<Longrightarrow>
   wpE (discard_partial_email E m ids) Q (\<lambda>_ _. False) s"
  by (simp add: discard_partial_email_def wps wp_release_all)

lemma wp_mark [wps]:
  "wpE (mark_status st i) Q R s = (case find (\<lambda>m. em_id m = i) (st_emails s) of
     None \<Rightarrow> Q None s
   | Some m \<Rightarrow> (let f = (\<lambda>m. m\<lparr>em_status := st, em_last_sent_at := st_clock s (st_reads s)\<rparr>) in
       Q (Some (f m)) (s\<lparr>st_reads := Suc (st_reads s),
         st_emails := update_where (\<lambda>m. em_id m = i) f (st_emails s)\<rparr>)))"
  by (simp add: mark_status_def wps Let_def split: option.split)

text \<open>Rows of other mails after a removal step: the same, apart from what is appended.\<close>

definition rows_without :: "string \<Rightarrow> email list \<Rightarrow> email list" where
  "rows_without i rows = filter (\<lambda>m. em_id m \<noteq> i) rows"

lemma rows_without_simps [simp]:
  "(\<And>m. em_id m = i \<Longrightarrow> em_id (f m) = i) \<Longrightarrow>
     rows_without i (update_where (\<lambda>m. em_id m = i) f rows) = rows_without i rows"
  "rows_without i (rows_without i rows) = rows_without i rows"
  "rows_without i (filter (\<lambda>m. em_id m \<noteq> i) rows) = rows_without i rows"
  "rows_without i (xs @ ys) = rows_without i xs @ rows_without i ys"
  by (induction rows) (auto simp: rows_without_def update_where_def)

lemma wp_insert_email [wps]:
  "wpE (insert_email i sys dir sdr rc sub bd eps ats hdr mx) Q R s =
     (let ts = st_clock s (st_reads s); s1 = s\<lparr>st_reads := Suc (st_reads s)\<rparr>;
          m = \<lparr>em_id = i, em_status = ''readying'', em_system_id = sys, em_direction = dir,
                em_sender = sdr, em_recipients = rc, em_endpoints = eps, em_subject = sub, em_body = bd,
                em_headers = hdr, em_attachments = ats, em_send_count = 0, em_last_sent_at = ts,
                em_next_retry_at = None, em_max_attempts = mx, em_created_at = ts,
                em_sender_signature = None\<rparr> in
      if i \<notin> em_id ` set (st_emails s) \<and> dir \<in> {''inbound'', ''outbound''}
      then Q m (s1\<lparr>st_emails := st_emails s @ [m]\<rparr>) else R (Err (Database ConstraintViolation)) s1)"
  by (simp add: insert_email_def wps Let_def)

section \<open>Exhaustion\<close>

text \<open>
  How many generations of notices a mail can still cause: a reply to an exhausted inbound mail is an
  outbound mail of kind \<open>ar-\<close>, which can cause one more notice, of kind \<open>wn-\<close>, which causes none.
\<close>

definition notice_rank :: "email \<Rightarrow> nat" where
  "notice_rank m = (if suppress_notification m then 0 else if starts_with (em_id m) ''ar-'' then 1 else 2)"

definition spawns :: "email \<Rightarrow> email list \<Rightarrow> bool" where
  "spawns m news \<longleftrightarrow> length news \<le> 1 \<and>
     (\<forall>x \<in> set news. notice_rank x < notice_rank m \<and> em_status x = ''readying'' \<and> em_send_count x = 0)"

lemma contains_overlimit: "contains_str (p @ ''[Overlimit] '' @ q) ''[Overlimit]''"
  unfolding contains_str_iff by (rule exI [of _ p], rule exI [of _ "'' '' @ q"]) simp

lemma wp_auto_reply:
  assumes "em_direction m = ''inbound''"
    and "\<And>s' news. st_emails s' = st_emails s @ news \<Longrightarrow> spawns m news \<Longrightarrow> Q () s'"
  shows "wpE (insert_exhaustion_auto_reply C m) Q (\<lambda>_ _. False) s"
proof (cases "suppress_auto_reply m")
  case True
  then show ?thesis using assms(2) [of s "[]"] by (simp add: insert_exhaustion_auto_reply_def wps spawns_def)
next
  case False
  then have rank: "notice_rank m = 2"
    by (auto simp: notice_rank_def suppress_notification_def suppress_auto_reply_def)
  have lower: "notice_rank x < 2" if "em_id x = ''ar-'' @ u" for x u
    using that by (simp add: notice_rank_def)
  show ?thesis
    using False
    by (auto simp: insert_exhaustion_auto_reply_def wps Let_def trigger_first_delivery_def
        intro!: assms(2) simp: spawns_def rank lower)
qed

lemma wp_notification:
  assumes "\<And>s' news. st_emails s' = st_emails s @ news \<Longrightarrow> spawns m news \<Longrightarrow> Q () s'"
  shows "wpE (insert_exhaustion_notification C m) Q (\<lambda>_ _. False) s"
proof (cases "suppress_notification m")
  case True
  then show ?thesis using assms [of s "[]"] by (simp add: insert_exhaustion_notification_def wps spawns_def)
next
  case False
  then have rank: "0 < notice_rank m" by (simp add: notice_rank_def)
  have lower: "notice_rank x = 0" if "em_id x = ''wn-'' @ u" for x u
    using that by (simp add: notice_rank_def suppress_notification_def)
  show ?thesis
    using False
    by (auto simp: insert_exhaustion_notification_def wps Let_def trigger_first_delivery_def
        attachment_display_def attachment_display_list_def get_attachment_meta_batch_def
        intro!: assms simp: spawns_def rank lower split: option.split)
qed

lemma wp_thenI: "wpE m (\<lambda>_. wpE k Q R) R s \<Longrightarrow> wpE (thenE m k) Q R s"
  by (simp add: wps)

text \<open>
  An exhausted mail is removed, whatever happens to its notice; the other rows stay and at most one
  notice of lower rank is added.
\<close>

lemma wp_exhaust:
  assumes "em_direction m \<in> {''inbound'', ''outbound''}"
    and "\<And>s' news. st_emails s' = rows_without (em_id m) (st_emails s @ news) \<Longrightarrow> spawns m news \<Longrightarrow> Q () s'"
  shows "wpE (exhaust_email C m final) Q (\<lambda>_ _. False) s"
proof -
  define rows1 where "rows1 = (case final of None \<Rightarrow> st_emails s
    | Some n \<Rightarrow> update_where (\<lambda>x. em_id x = em_id m) (\<lambda>x. x\<lparr>em_send_count := n\<rparr>) (st_emails s))"
  have rows1: "rows_without (em_id m) rows1 = rows_without (em_id m) (st_emails s)"
    by (simp add: rows1_def split: option.split)
  have last: "wpE (bindE (tryE (update_email_completed (em_id m))) (\<lambda>r.
        case r of Inr (Some _) \<Rightarrow> cleanup_completed_email (sc_ext C) m | _ \<Rightarrow> returnE ())) Q (\<lambda>_ _. False) s2"
    if s2: "st_emails s2 = rows1 @ news" and sp: "spawns m news" for s2 news
  proof (cases "find (\<lambda>x. em_id x = em_id m) (st_emails s2)")
    case None
    then have "rows_without (em_id m) (st_emails s2) = st_emails s2"
      by (auto simp: rows_without_def find_None_iff filter_id_conv)
    then have "Q () s2" using s2 rows1 by (intro assms(2) [OF _ sp]) simp
    then show ?thesis using None by (simp add: update_email_completed_def wps)
  next
    case (Some x)
    then show ?thesis
      using s2 rows1
      by (auto simp: update_email_completed_def wps Let_def intro!: wp_cleanup assms(2) [OF _ sp])
         (simp add: rows_without_def [symmetric])
  qed
  have body: "wpE (if em_direction m = ''inbound'' then insert_exhaustion_auto_reply C m
             else if em_direction m = ''outbound'' then insert_exhaustion_notification C m
             else returnE ()) Q' (\<lambda>_ _. False) s1"
    if "\<And>s' news. st_emails s' = st_emails s1 @ news \<Longrightarrow> spawns m news \<Longrightarrow> Q' () s'" for Q' s1
    using assms(1) that by (auto intro!: wp_auto_reply wp_notification)
  have "wpE (thenE (if em_direction m = ''inbound'' then insert_exhaustion_auto_reply C m
             else if em_direction m = ''outbound'' then insert_exhaustion_notification C m
             else returnE ()) (bindE (tryE (update_email_completed (em_id m))) (\<lambda>r.
        case r of Inr (Some _) \<Rightarrow> cleanup_completed_email (sc_ext C) m | _ \<Rightarrow> returnE ()))) Q (\<lambda>_ _. False) s1"
    if "st_emails s1 = rows1" for s1
    unfolding wpE_combinators(8) using that by (intro body last) auto
  moreover have "wpE (case final of None \<Rightarrow> returnE ()
      | Some n \<Rightarrow> okE (update_email_send_count (em_id m) n)) (\<lambda>_ s1. st_emails s1 = rows1) (\<lambda>_ _. False) s"
    by (simp add: wps rows1_def update_email_send_count_def split: option.split)
  ultimately show ?thesis
    unfolding exhaust_email_def by (intro wp_thenI) (elim wpE_mono; simp)
qed

section \<open>Every attempt makes progress\<close>

text \<open>
  What a delivery attempt may do to the store: it rewrites endpoint states, body and signature and may
  append mails; it keeps the mail table well formed and does not fail as a computation.
\<close>

definition quiet :: "'a em \<Rightarrow> bool" where
  "quiet a \<longleftrightarrow> (\<forall>s. (\<exists>x. fst (a s) = Inr x) \<and>
     (\<exists>news. map core (st_emails (snd (a s))) = map core (st_emails s) @ news) \<and>
     st_metas (snd (a s)) = st_metas s \<and> (wf_mails s \<longrightarrow> wf_mails (snd (a s))))"

definition quiet_delivery :: "sched \<Rightarrow> bool" where
  "quiet_delivery C \<longleftrightarrow> (\<forall>m. quiet (sc_webhook C m)) \<and>
     (case sc_relay C of None \<Rightarrow> True | Some relay \<Rightarrow> \<forall>m data. quiet (relay m data))"

lemma quiet_bind_return:
  assumes "quiet a"
  shows "quiet (bindE a (\<lambda>x. returnE (f x)))"
  unfolding quiet_def
proof
  fix s
  from assms obtain x where x: "fst (a s) = Inr x" by (auto simp: quiet_def)
  then have "bindE a (\<lambda>x. returnE (f x)) s = (Inr (f x), snd (a s))"
    by (cases "a s") (simp add: runs)
  then show "(\<exists>y. fst (bindE a (\<lambda>x. returnE (f x)) s) = Inr y) \<and>
      (\<exists>news. map core (st_emails (snd (bindE a (\<lambda>x. returnE (f x)) s))) = map core (st_emails s) @ news) \<and>
      st_metas (snd (bindE a (\<lambda>x. returnE (f x)) s)) = st_metas s \<and>
      (wf_mails s \<longrightarrow> wf_mails (snd (bindE a (\<lambda>x. returnE (f x)) s)))"
    using assms by (simp add: quiet_def)
qed

lemma quiet_attempt: "quiet_delivery C \<Longrightarrow> quiet (attempt_delivery C m)"
proof -
  assume q: "quiet_delivery C"
  have gets: "quiet (bindE (getsE g) f)" if "\<And>x. quiet (f x)" for g and f :: "'x \<Rightarrow> 'y em"
    using that by (simp add: quiet_def runs)
  show ?thesis
    using q unfolding attempt_delivery_def deliver_webhook_def deliver_smtp_def quiet_delivery_def
    by (auto intro!: quiet_bind_return gets split: option.split) (simp add: quiet_def runs)
qed

lemma core_find:
  "map_option core (find (\<lambda>m. em_id m = i) rows) = find (\<lambda>m. em_id m = i) (map core rows)"
  by (induction rows) (auto simp: core_def)

lemma find_append_Some: "find p xs = Some x \<Longrightarrow> find p (xs @ ys) = Some x"
  by (induction xs) auto

lemma quiet_holds:
  assumes "quiet a" and "holds_mail i c s"
  shows "holds_mail i c (snd (a s))"
  using assms unfolding quiet_def holds_mail_def mail_def core_find by (metis find_append_Some)

lemma wp_quiet:
  assumes "quiet a" and "\<And>x s'. holds_mail i c s' \<Longrightarrow> st_metas s' = st_metas s \<Longrightarrow> Q x s'" and "holds_mail i c s"
  shows "wpE a Q R s"
  using assms quiet_holds [OF assms(1,3)] by (auto simp: wpE_def quiet_def split: prod.split sum.split)
     (metis fst_conv snd_conv sum.distinct(1))+

text \<open>The fate of a mail after an attempt that was its \<open>n\<close>-th.\<close>

definition settled :: "string \<Rightarrow> int \<Rightarrow> int \<Rightarrow> est \<Rightarrow> bool" where
  "settled i n mx s \<longleftrightarrow> (case mail i s of
     None \<Rightarrow> True
   | Some m \<Rightarrow> em_status m = ''delivered'' \<or>
       em_status m = ''ready'' \<and> em_send_count m = n \<and> n < mx \<and> em_max_attempts m = mx)"

lemma settled_removed: "mail i s = None \<Longrightarrow> settled i n mx s"
  by (simp add: settled_def)

lemma mail_removed: "st_emails s' = rows_without i rows \<Longrightarrow> mail i s' = None"
  by (auto simp: mail_def rows_without_def find_None_iff)

lemma wp_finalize:
  assumes "mail (em_id m) s \<noteq> None"
  shows "wpE (finalize_after_delivery C m) (\<lambda>_. settled (em_id m) n mx) (\<lambda>_ _. False) s"
proof -
  obtain x where x: "find (\<lambda>y. em_id y = em_id m) (st_emails s) = Some x"
    using assms by (auto simp: mail_def)
  have clean: "wpE (cleanup_completed_email E m) (\<lambda>_. settled (em_id m) n mx) (\<lambda>_ _. False) s1" for E s1
    by (rule wp_cleanup) (auto intro!: settled_removed mail_removed simp: rows_without_def)
  show ?thesis
    using x
    by (auto simp: finalize_after_delivery_def update_email_delivered_def update_email_completed_def wps
        Let_def clean settled_def mail_def mail_update)
qed

lemma wp_retry [wps]:
  "wpE (update_email_ready_retry i n t) Q R s = (case find (\<lambda>m. em_id m = i) (st_emails s) of
     None \<Rightarrow> Q None s
   | Some m \<Rightarrow> (let f = (\<lambda>m. m\<lparr>em_status := ''ready'', em_send_count := n, em_next_retry_at := Some t,
                            em_last_sent_at := st_clock s (st_reads s)\<rparr>) in
       Q (Some (f m)) (s\<lparr>st_reads := Suc (st_reads s),
         st_emails := update_where (\<lambda>m. em_id m = i) f (st_emails s)\<rparr>)))"
  by (simp add: update_email_ready_retry_def wps Let_def split: option.split)

lemma wp_next_retry [wps]:
  "wpE (next_retry_time C n) Q R s = Q (st_clock s (st_reads s) + 1000 * int (calculate_backoff
     (sc_jitter C (st_reads s)) (nat n) (sc_initial_backoff C) (sc_multiplier C) (sc_max_backoff C)))
     (s\<lparr>st_reads := Suc (st_reads s)\<rparr>)"
  by (simp add: next_retry_time_def wps)

lemma holds_found:
  assumes "holds_mail i (core m) s"
  obtains x where "find (\<lambda>y. em_id y = i) (st_emails s) = Some x" "core x = core m"
  using assms by (auto simp: holds_mail_def mail_def)

lemma core_eqD: "core x = core m \<Longrightarrow> em_max_attempts x = em_max_attempts m \<and> em_status x = em_status m \<and>
    em_send_count x = em_send_count m \<and> em_direction x = em_direction m \<and> em_id x = em_id m"
  by (cases x; cases m) (simp add: core_def)

lemma settled_retry:
  assumes "holds_mail (em_id m) (core m) s" and "n < em_max_attempts m"
  shows "wpE (update_email_ready_retry (em_id m) n t) (\<lambda>_. settled (em_id m) n (em_max_attempts m)) (\<lambda>_ _. False) s"
  using assms
  by (auto elim!: holds_found dest!: core_eqD simp: wps Let_def settled_def mail_def mail_update)

lemma holds_clock: "holds_mail i c (s\<lparr>st_reads := n\<rparr>) = holds_mail i c s"
  by (simp add: holds_mail_def mail_def)

lemma wp_exhaust_settled:
  "em_direction m \<in> {''inbound'', ''outbound''} \<Longrightarrow>
   wpE (exhaust_email C m final) (\<lambda>_. settled (em_id m) n mx) (\<lambda>_ _. False) s"
  by (erule wp_exhaust, rule settled_removed, rule mail_removed)

lemma wp_periodic:
  assumes "quiet_delivery C" and "mail (em_id m) s = Some m"
    and "em_direction m \<in> {''inbound'', ''outbound''}" and "em_send_count m < em_max_attempts m"
  shows "wpE (periodic_inspection C m) (\<lambda>_. settled (em_id m) (em_send_count m + 1) (em_max_attempts m))
    (\<lambda>_ _. False) s"
proof -
  let ?post = "\<lambda>_. settled (em_id m) (em_send_count m + 1) (em_max_attempts m)"
  have start: "holds_mail (em_id m) (core m) s" using assms(2) by (simp add: holds_mail_def)
  have after: "wpE (if last_error = None then finalize_after_delivery C m
        else if em_send_count m + 1 \<ge> em_max_attempts m then exhaust_email C m (Some (em_send_count m + 1))
        else bindE (next_retry_time C (em_send_count m + 1)) (\<lambda>next_retry.
          bindE (tryE (update_email_ready_retry (em_id m) (em_send_count m + 1) next_retry)) (\<lambda>r.
            case r of
              Inr _ \<Rightarrow> returnE ()
            | Inl _ \<Rightarrow> bindE now_ms (\<lambda>t. okE (update_email_ready_retry (em_id m) (em_send_count m) (t + 60000))))))
      ?post (\<lambda>_ _. False) s1"
    if s1: "holds_mail (em_id m) (core m) s1" for last_error s1
  proof -
    have fin: "wpE (finalize_after_delivery C m) ?post (\<lambda>_ _. False) s1"
      by (rule wp_finalize) (use s1 in \<open>auto elim!: holds_found simp: mail_def\<close>)
    have exh: "wpE (exhaust_email C m (Some (em_send_count m + 1))) ?post (\<lambda>_ _. False) s1"
      by (rule wp_exhaust_settled [OF assms(3)])
    have retry: "wpE (update_email_ready_retry (em_id m) (em_send_count m + 1) t) ?post (\<lambda>_ _. False)
        (s1\<lparr>st_reads := k\<rparr>)" if "em_send_count m + 1 < em_max_attempts m" for t k
      using s1 that by (intro settled_retry) (simp_all add: holds_clock)
    have again: "wpE (bindE (next_retry_time C (em_send_count m + 1)) (\<lambda>next_retry.
          bindE (tryE (update_email_ready_retry (em_id m) (em_send_count m + 1) next_retry)) (\<lambda>r.
            case r of
              Inr _ \<Rightarrow> returnE ()
            | Inl _ \<Rightarrow> bindE now_ms (\<lambda>t. okE (update_email_ready_retry (em_id m) (em_send_count m) (t + 60000))))))
        ?post (\<lambda>_ _. False) s1" if "em_send_count m + 1 < em_max_attempts m"
      unfolding wpE_combinators(7) wpE_tryE wp_next_retry
      by (rule wpE_mono [OF retry [OF that]]) (simp_all add: wpE_combinators(1))
    show ?thesis using fin exh again by (simp only: not_le split: if_split) blast
  qed
  show ?thesis
    unfolding periodic_inspection_def Let_def wpE_combinators(7)
    by (rule wp_quiet [OF quiet_attempt [OF assms(1)] _ start]) (rule after)
qed

section \<open>What a batch leaves alone\<close>

text \<open>A mail in a given state to which no stored attachment refers.\<close>

definition parked :: "string \<Rightarrow> email \<Rightarrow> est \<Rightarrow> bool" where
  "parked i c s \<longleftrightarrow> holds_mail i c s \<and> (\<forall>a \<in> set (st_metas s). i \<notin> set (unwrap_or [] (am_mail_id a)))"

lemma parked_update:
  assumes "j \<noteq> i" and "\<And>m. em_id (f m) = em_id m"
  shows "preserves (parked i c) (update_email j f)"
  using assms by (auto simp: preserves_wpE wps parked_def holds_mail_def mail_def mail_update option.map_comp)

lemma parked_delete [keeps]: "j \<noteq> i \<Longrightarrow> preserves (parked i c) (delete_email j)"
  by (auto simp: preserves_wpE wps parked_def holds_mail_def mail_def mail_filter)

lemma parked_marks [keeps]:
  assumes "j \<noteq> i"
  shows "preserves (parked i c) (update_email_completed j)" "preserves (parked i c) (update_email_delivered j)"
    "preserves (parked i c) (update_email_send_count j n)" "preserves (parked i c) (flip_readying_to_ready j)"
    "preserves (parked i c) (update_email_ready_retry j n t)"
proof -
  have ticks: "parked i c (s\<lparr>st_reads := k\<rparr>) = parked i c s" for s k
    by (simp add: parked_def holds_clock)
  have upd: "parked i c s \<Longrightarrow> parked i c (s\<lparr>st_reads := k, st_emails := update_where (\<lambda>m. em_id m = j) f (st_emails s)\<rparr>)"
    if "\<And>m. em_id (f m) = em_id m" for s f k
    using assms that by (auto simp: parked_def holds_mail_def mail_def mail_update option.map_comp)
  show "preserves (parked i c) (update_email_completed j)" "preserves (parked i c) (update_email_delivered j)"
    "preserves (parked i c) (update_email_ready_retry j n t)"
    by (auto simp: preserves_wpE update_email_completed_def update_email_delivered_def wps Let_def upd
        split: option.split)
  show "preserves (parked i c) (update_email_send_count j n)"
    unfolding update_email_send_count_def using assms by (rule parked_update) simp
  have "find (\<lambda>m. em_id m = i) (update_where (\<lambda>m. em_id m = j \<and> em_status m = ''readying'')
      (\<lambda>m. m\<lparr>em_status := ''ready''\<rparr>) rows) = find (\<lambda>m. em_id m = i) rows" for rows :: "email list"
    using assms by (induction rows) (auto simp: update_where_def)
  then show "preserves (parked i c) (flip_readying_to_ready j)"
    by (auto simp: preserves_wpE flip_readying_to_ready_def wps parked_def holds_mail_def mail_def)
qed

lemma parked_insert [keeps]:
  "preserves (parked i c) (insert_email j sys dir sdr rc sub bd eps ats hdr mx)"
  by (auto simp: preserves_wpE wps Let_def parked_def holds_mail_def mail_def mail_append split: option.split)

lemma parked_clock [keeps]:
  "preserves (parked i c) now_ms" "preserves (parked i c) new_uuid" "preserves (parked i c) (remove_file p)"
  "preserves (parked i c) (delete_attachment_permissions_by_attachment_id a)"
  "preserves (parked i c) (delete_attachment_meta_v2 a)" "preserves (parked i c) (next_retry_time C n)"
  "preserves (parked i c) (trigger_first_delivery C x)"
  by (auto simp: preserves_wpE wps parked_def holds_mail_def mail_def remove_file_def trigger_first_delivery_def
      delete_attachment_permissions_by_attachment_id_def delete_attachment_meta_v2_def)

lemma parked_relinked:
  assumes "parked i c s" and "find (\<lambda>x. am_id x = a) (st_metas s) = Some y" and "am_mail_id y = Some ids"
    and "set (unwrap_or [] z) \<subseteq> set ids"
  shows "parked i c (s\<lparr>st_metas := update_where (\<lambda>x. am_id x = a) (\<lambda>x. x\<lparr>am_mail_id := z\<rparr>) (st_metas s)\<rparr>)"
proof -
  have "y \<in> set (st_metas s)" using assms(2) by (auto simp: find_Some_iff)
  then have "i \<notin> set ids" using assms(1,3) by (force simp: parked_def unwrap_or_def)
  then show ?thesis
    using assms(1,4) by (auto simp: parked_def holds_mail_def mail_def dest!: in_update_where split: if_splits)
qed

lemma parked_unlink [keeps]: "preserves (parked i c) (remove_mail_id_from_attachment_meta a j)"
  by (auto simp: preserves_wpE wps remove_mail_id_from_attachment_meta_def get_attachment_meta_def Let_def
      unwrap_or_def intro!: parked_relinked split: option.splits Option.bind_splits)

lemma parked_attempt [keeps]: "quiet_delivery C \<Longrightarrow> preserves (parked i c) (attempt_delivery C m)"
  using quiet_attempt [of C m] quiet_holds by (fastforce simp: preserves_def parked_def quiet_def)

lemma parked_release [keeps]:
  "preserves (parked i c) (release_attachment E m a)" "preserves (parked i c) (expire_attachment E att)"
  unfolding release_attachment_def meta_extension_def cascade_delete_attachment_def expire_attachment_def
  by (intro keeps)+

lemma parked_cleanup [keeps]:
  "em_id m \<noteq> i \<Longrightarrow> preserves (parked i c) (cleanup_completed_email E m)"
  "em_id m \<noteq> i \<Longrightarrow> preserves (parked i c) (discard_partial_email E m ids)"
  unfolding cleanup_completed_email_def discard_partial_email_def by (intro keeps; assumption)+

lemma parked_exhaust [keeps]: "em_id m \<noteq> i \<Longrightarrow> preserves (parked i c) (exhaust_email C m final)"
  unfolding exhaust_email_def insert_exhaustion_auto_reply_def insert_exhaustion_notification_def Let_def
  by (intro keeps; assumption)

lemma parked_flows [keeps]:
  assumes "em_id m \<noteq> i"
  shows "preserves (parked i c) (finalize_after_delivery C m)" "preserves (parked i c) (handle_overlimit C m)"
    "preserves (parked i c) (sweep_one E m)"
    "quiet_delivery C \<Longrightarrow> preserves (parked i c) (periodic_inspection C m)"
  unfolding finalize_after_delivery_def handle_overlimit_def sweep_one_def periodic_inspection_def Let_def
  by (insert assms, (intro keeps; assumption)+)

lemma preserves_select:
  "(\<And>s. P s \<Longrightarrow> preserves P (f (g s))) \<Longrightarrow> preserves P (bindE (getsE g) f)"
  by (simp add: preserves_def runs)

lemma preserves_forE_set:
  "(\<And>x. x \<in> set xs \<Longrightarrow> preserves P (f x)) \<Longrightarrow> preserves P (forE f xs)"
  by (induction xs) (simp_all add: keeps)

lemma in_ordered_by: "m \<in> set (ordered_by key p n rows) \<Longrightarrow> m \<in> set rows \<and> p m"
  by (auto simp: ordered_by_def dest!: in_set_takeD)

text \<open>A flow that runs over the mails of one status does not meet a parked mail of another.\<close>

lemma parked_not_selected:
  assumes "wf_mails s" and "parked i c s" and "m \<in> set (st_emails s)" and "em_status m \<noteq> em_status c"
  shows "em_id m \<noteq> i"
proof
  assume "em_id m = i"
  obtain x where x: "find (\<lambda>y. em_id y = i) (st_emails s) = Some x" "core x = c"
    using assms(2) by (auto simp: parked_def holds_mail_def mail_def)
  then have "x = m"
    using assms(1,3) mail_id [OF x(1)] \<open>em_id m = i\<close> by (auto simp: wf_mails_def distinct_map inj_on_def)
  then show False using x(2) assms(4) by (auto simp: core_def)
qed

lemma wf_update:
  assumes "wf_mails s" "\<And>m. em_id (f m) = em_id m" "\<And>m. em_direction (f m) = em_direction m"
    and "\<And>m. em_status m \<in> mail_statuses \<Longrightarrow> em_status (f m) \<in> mail_statuses"
  shows "wf_mails (s\<lparr>st_emails := update_where p f (st_emails s)\<rparr>)"
  using assms by (auto simp: wf_mails_def dest!: in_update_where split: if_splits)

lemma wf_ticks: "wf_mails (s\<lparr>st_reads := k\<rparr>) = wf_mails s"
  by (simp add: wf_mails_def)

lemma wf_mark:
  "st \<in> mail_statuses \<Longrightarrow> wf_mails s \<Longrightarrow> wf_mails (s\<lparr>st_reads := k, st_emails :=
     update_where p (\<lambda>m. m\<lparr>em_status := st, em_last_sent_at := t\<rparr>) (st_emails s)\<rparr>)"
  using wf_update [of "s\<lparr>st_reads := k\<rparr>" "\<lambda>m. m\<lparr>em_status := st, em_last_sent_at := t\<rparr>" p]
  by (simp add: wf_ticks)

lemma wf_marks [keeps]:
  "preserves wf_mails (update_email_completed j)" "preserves wf_mails (update_email_delivered j)"
  by (auto simp: preserves_wpE update_email_completed_def update_email_delivered_def wps Let_def mail_statuses_def
      intro!: wf_mark split: option.split)

lemma wf_retry [keeps]: "preserves wf_mails (update_email_ready_retry j n t)"
proof -
  have "wf_mails (s\<lparr>st_reads := k, st_emails := update_where p (\<lambda>m. m\<lparr>em_status := ''ready'',
      em_send_count := n, em_next_retry_at := Some t, em_last_sent_at := u\<rparr>) (st_emails s)\<rparr>)"
    if "wf_mails s" for s k p u
    using wf_update [of "s\<lparr>st_reads := k\<rparr>" "\<lambda>m. m\<lparr>em_status := ''ready'', em_send_count := n,
      em_next_retry_at := Some t, em_last_sent_at := u\<rparr>" p] that
    by (simp add: wf_ticks mail_statuses_def)
  then show ?thesis by (auto simp: preserves_wpE wps Let_def split: option.split)
qed

lemma wf_mail_ops [keeps]:
  "preserves wf_mails (update_email_send_count j n)" "preserves wf_mails (flip_readying_to_ready j)"
  "preserves wf_mails (delete_email j)" "preserves wf_mails (insert_email j sys dir sdr rc sub bd eps ats hdr mx)"
  "preserves wf_mails now_ms" "preserves wf_mails new_uuid"
  by (auto simp: preserves_wpE update_email_send_count_def flip_readying_to_ready_def wps Let_def wf_ticks
      intro!: wf_update) (auto simp: wf_mails_def mail_statuses_def distinct_map_filter)

lemma wf_other_tables [keeps]:
  "preserves wf_mails (remove_file p)" "preserves wf_mails (delete_attachment_permissions_by_attachment_id a)"
  "preserves wf_mails (delete_attachment_meta_v2 a)" "preserves wf_mails (remove_mail_id_from_attachment_meta a i)"
  "preserves wf_mails (trigger_first_delivery C x)" "preserves wf_mails (next_retry_time C n)"
  by (auto simp: preserves_wpE wps wf_mails_def remove_file_def trigger_first_delivery_def Let_def
      delete_attachment_permissions_by_attachment_id_def delete_attachment_meta_v2_def
      remove_mail_id_from_attachment_meta_def get_attachment_meta_def split: option.split)

lemma wf_attempt [keeps]: "quiet_delivery C \<Longrightarrow> preserves wf_mails (attempt_delivery C m)"
  using quiet_attempt [of C m] by (simp add: preserves_def quiet_def)

lemma wf_mail_flows [keeps]:
  "preserves wf_mails (release_attachment E m a)" "preserves wf_mails (expire_attachment E att)"
  "preserves wf_mails (cleanup_completed_email E m)" "preserves wf_mails (exhaust_email C m final)"
  "preserves wf_mails (handle_overlimit C m)" "preserves wf_mails (sweep_one E m)"
  "preserves wf_mails (cascade_mail E i)" "preserves wf_mails (finalize_after_delivery C m)"
  unfolding release_attachment_def meta_extension_def cascade_delete_attachment_def expire_attachment_def
    cleanup_completed_email_def exhaust_email_def insert_exhaustion_auto_reply_def
    insert_exhaustion_notification_def handle_overlimit_def sweep_one_def discard_partial_email_def
    cascade_mail_def finalize_after_delivery_def Let_def
  by (intro keeps)+

lemma wf_deliveries [keeps]:
  "quiet_delivery C \<Longrightarrow> preserves wf_mails (periodic_inspection C m)"
  "quiet_delivery C \<Longrightarrow> preserves wf_mails (immediate_forward C m)"
  unfolding periodic_inspection_def immediate_forward_def Let_def by (intro keeps; assumption)+

lemma wf_batch: "quiet_delivery C \<Longrightarrow> preserves wf_mails (process_batch C n)"
  unfolding process_batch_def sweep_stuck_readying_def get_pending_retry_emails_def
    process_expired_attachments_def finalize_expired_def
  by (intro keeps; assumption)

lemma wf_trigger:
  assumes "quiet_delivery C"
  shows "preserves wf_mails (on_trigger C i)"
proof -
  have "preserves wf_mails (claim_ready i)"
  proof (rule preservesI)
    fix s assume s: "wf_mails s"
    show "wf_mails (snd (claim_ready i s))"
      unfolding claim_ready_run [OF s]
      using s wf_update [of "s\<lparr>st_reads := k\<rparr>" for k]
      by (auto simp: Let_def wf_ticks mail_def split: option.split)
         (auto simp: wf_mails_def mail_statuses_def dest!: in_update_where mail_id split: if_splits)
  qed
  then show ?thesis
    unfolding on_trigger_def using assms by (auto intro!: keeps split: sum.split option.split)
qed

text \<open>
  A mail that is \<open>sending\<close> and has no stored attachment is met by none of the five flows: whatever the
  batch does to other mails, the row stays as it is.
\<close>

definition stranded :: "string \<Rightarrow> email \<Rightarrow> est \<Rightarrow> bool" where
  "stranded i c s \<longleftrightarrow> wf_mails s \<and> parked i c s \<and> em_status c = ''sending''"

lemma stranded_both: "preserves wf_mails a \<Longrightarrow> preserves (parked i c) a \<Longrightarrow> preserves (stranded i c) a"
  by (simp add: preserves_def stranded_def)

lemma stranded_over:
  assumes "\<And>m. p m \<Longrightarrow> em_status m \<noteq> ''sending''" and "\<And>m. em_id m \<noteq> i \<Longrightarrow> preserves (stranded i c) (f m)"
  shows "preserves (stranded i c) (bindE (getsE (\<lambda>s. ordered_by key p n (st_emails s))) (forE f))"
proof (rule preserves_select, rule preserves_forE_set)
  fix s m assume "stranded i c s" and "m \<in> set (ordered_by key p n (st_emails s))"
  then show "preserves (stranded i c) (f m)"
    using assms by (metis in_ordered_by parked_not_selected stranded_def)
qed

lemma stranded_cascade:
  assumes "mid \<noteq> i"
  shows "preserves (stranded i c) (cascade_mail E mid)"
proof -
  have "preserves (stranded i c) (case find (\<lambda>m. em_id m = mid) (st_emails s) of
      Some r \<Rightarrow> cleanup_completed_email E r | None \<Rightarrow> returnE ())" for s
    using assms by (auto intro!: stranded_both keeps split: option.split dest: mail_id)
  then show ?thesis
    unfolding cascade_mail_def get_email_def get_attachments_by_mail_id_def
    by (intro preserves_select preserves_if preserves_pure)
qed

lemma stranded_expire: "preserves (stranded i c) (process_expired_attachments C n)"
proof -
  have "preserves (stranded i c) (forE (expire_attachment E) as)" for E as
    by (intro stranded_both keeps)
  moreover have "preserves (stranded i c) now_ms" by (intro stranded_both keeps)
  ultimately show ?thesis
    unfolding process_expired_attachments_def get_attachments_expired_before_def
    by (auto intro!: preserves_bindE [of _ now_ms] preserves_select preserves_thenE preserves_forE_set [of _ _ "cascade_mail _"]
        stranded_cascade simp: stranded_def parked_def dest!: in_set_takeD)
qed

lemma stranded_batch:
  assumes "quiet_delivery C"
  shows "preserves (stranded i c) (process_batch C n)"
proof -
  have nows: "preserves (stranded i c) now_ms" by (intro stranded_both keeps)
  have sweep: "preserves (stranded i c) (sweep_stuck_readying C n)"
    unfolding sweep_stuck_readying_def get_stuck_readying_emails_def
    by (intro preserves_bindE nows stranded_over) (auto intro!: stranded_both keeps)
  have overlimit: "preserves (stranded i c) (bindE (get_overlimit_emails n) (forE (handle_overlimit C)))"
    unfolding get_overlimit_emails_def by (intro stranded_over) (auto intro!: stranded_both keeps)
  have "bindE (get_pending_retry_emails n) (forE (periodic_inspection C)) =
      bindE now_ms (\<lambda>t. bindE (getsE (\<lambda>s. ordered_by em_next_retry_at (retry_due t) n (st_emails s)))
        (forE (periodic_inspection C)))"
    by (simp add: get_pending_retry_emails_def bindE_def getsE_def fun_eq_iff split: prod.split sum.split)
  then have retry: "preserves (stranded i c) (bindE (get_pending_retry_emails n) (forE (periodic_inspection C)))"
    using assms
    by (simp only:) (intro preserves_bindE [OF nows] stranded_over, auto intro!: stranded_both keeps simp: retry_due_def)
  have final: "preserves (stranded i c) (finalize_expired C n)"
    unfolding finalize_expired_def get_delivered_expired_before_def
    by (intro preserves_bindE nows stranded_over) (auto intro!: stranded_both keeps)
  show ?thesis
    unfolding process_batch_def by (intro preserves_thenE sweep overlimit retry stranded_expire final)
qed

end
