(* ===== verification/Mail_Samples.thy ===== *)
theory Mail_Samples
  imports Email_Store Board_Samples
begin

text \<open>Concrete mails and mail tables for the witnesses.\<close>

definition demo_email :: "string \<Rightarrow> string \<Rightarrow> int \<Rightarrow> email" where
  "demo_email i st n = \<lparr>em_id = i, em_status = st, em_system_id = ''sys'', em_direction = ''inbound'',
     em_sender = ''a@x'', em_recipients = ''b@y'', em_endpoints = None, em_subject = ''hello'', em_body = ''text'',
     em_headers = None, em_attachments = None, em_send_count = n, em_last_sent_at = 0,
     em_next_retry_at = None, em_max_attempts = 3, em_created_at = 0, em_sender_signature = None\<rparr>"

definition demo_store :: "email list \<Rightarrow> est" where
  "demo_store rows = \<lparr>st_emails = rows, st_metas = [], st_perms = [], st_perm_seq = 0, st_files = [],
     st_clock = (\<lambda>i. 1000), st_reads = 0, st_uuid = (\<lambda>i. ''u''), st_uuids = 0, st_triggers = []\<rparr>"

end
