(* ===== verification/Mail_Properties.thy ===== *)
theory Mail_Properties
  imports Mail_Lifecycle Board_Samples Mail_Samples
begin

text \<open>
  The properties of mail delivery: every mail reaches an end after a bounded number of attempts, an
  exhausted mail is removed and its notices die out, a claim is exclusive, and what the scheduler's
  batches keep.
\<close>

section \<open>A small mail store\<close>

text \<open>Webhooks that always fail, no relay, an empty jitter.\<close>

definition demo_sched :: sched where
  "demo_sched = \<lparr>sc_ext = demo_ext,
     sc_storage = \<lparr>attachment_max_size = 1000, attachment_max_attachments = 5, attachment_allowed_types = [],
       attachment_lifetime_hours = 24\<rparr>,
     sc_board = \<lparr>heartbeat_stale_seconds = 600, task_timeout_seconds = 7200, sweeper_interval_seconds = 60,
       archive_retention_days = None\<rparr>,
     sc_smtp_server = None, sc_hostname = None, sc_auto_reply_body = None, sc_auto_reply_subject_prefix = ''Re: '',
     sc_max_attempts = 3, sc_initial_backoff = 60, sc_multiplier = 2, sc_max_backoff = 3600,
     sc_readying_stuck_secs = 300, sc_delivery_window_secs = 3600, sc_delivery_timeout_secs = 30,
     sc_relay = None, sc_webhook = (\<lambda>m. returnE False), sc_resolve_webhook_url = (\<lambda>a. None),
     sc_trigger_room = (\<lambda>i. True), sc_jitter = (\<lambda>i. 0)\<rparr>"


lemma demo_store_wf:
  "distinct (map em_id rows) \<Longrightarrow> \<forall>m \<in> set rows. em_status m \<in> mail_statuses \<and> em_direction m \<in> {''inbound'', ''outbound''}
   \<Longrightarrow> wf_mails (demo_store rows)"
  by (simp add: wf_mails_def demo_store_def)

lemma demo_email_cols [simp]:
  "em_id (demo_email i st n) = i" "em_status (demo_email i st n) = st" "em_send_count (demo_email i st n) = n"
  "em_max_attempts (demo_email i st n) = 3" "em_direction (demo_email i st n) = ''inbound''"
  by (simp_all add: demo_email_def)

lemma demo_mail_found [simp]: "mail i (demo_store [demo_email i st n]) = Some (demo_email i st n)"
  by (simp add: mail_def demo_store_def)

lemma demo_email_wf [simp]:
  "st \<in> mail_statuses \<Longrightarrow> wf_mails (demo_store [demo_email i st n])"
  by (rule demo_store_wf) simp_all

section \<open>Retries\<close>

lemma wpE_returns:
  assumes "wpE m (\<lambda>_. P) (\<lambda>_ _. False) s"
  shows "\<exists>x s'. m s = (Inr x, s') \<and> P s'"
  using assms by (auto simp: wpE_def split: prod.splits sum.splits)

lemma stored_direction: "wf_mails s \<Longrightarrow> mail i s = Some m \<Longrightarrow> em_direction m \<in> {''inbound'', ''outbound''} \<and> em_id m = i"
  by (auto simp: wf_mails_def mail_def dest: mail_id)







text \<open>
  C8. An exhausted mail is removed and every other mail stays; at most one notice is added, and notices
  cannot cascade: a mail has a rank of at most two and the notice it causes has a smaller one. The
  removal ends without an error.
\<close>

theorem exhaustion_removes:
  assumes "wf_mails s" and "mail i s = Some m"
  shows "\<exists>s' news. exhaust_email C m final s = (Inr (), s') \<and>
    st_emails s' = filter (\<lambda>x. em_id x \<noteq> i) (st_emails s @ news) \<and> length news \<le> 1 \<and>
    (\<forall>x \<in> set news. notice_rank x < notice_rank m \<and> em_status x = ''readying'') \<and> notice_rank m \<le> 2"
proof -
  have d: "em_direction m \<in> {''inbound'', ''outbound''}" "em_id m = i" using stored_direction [OF assms] by auto
  have "wpE (exhaust_email C m final) (\<lambda>_ s'. \<exists>news. st_emails s' = rows_without i (st_emails s @ news) \<and> spawns m news)
      (\<lambda>_ _. False) s"
    by (rule wp_exhaust [OF d(1)]) (use d(2) in auto)
  moreover have "notice_rank m \<le> 2" by (simp add: notice_rank_def)
  ultimately show ?thesis
    using wpE_returns [of "exhaust_email C m final"] by (fastforce simp: rows_without_def spawns_def)
qed

theorem exhaustion_removes_witness:
  "\<exists>s' news. exhaust_email demo_sched (demo_email ''m1'' ''ready'' 3) None (demo_store [demo_email ''m1'' ''ready'' 3]) = (Inr (), s') \<and>
    st_emails s' = filter (\<lambda>x. em_id x \<noteq> ''m1'') (st_emails (demo_store [demo_email ''m1'' ''ready'' 3]) @ news) \<and> length news \<le> 1 \<and>
    (\<forall>x \<in> set news. notice_rank x < notice_rank (demo_email ''m1'' ''ready'' 3) \<and> em_status x = ''readying'') \<and>
    notice_rank (demo_email ''m1'' ''ready'' 3) \<le> 2"
  by (rule exhaustion_removes) (simp_all add: mail_statuses_def)

section \<open>Claims\<close>

text \<open>
  C9. A claim is exclusive: of two triggers for the same mail the first that finds it readying or ready
  takes it and the other gets nothing, so a mail is handed to one delivery only.
\<close>

theorem claim_exclusive:
  assumes "wf_mails s" and "claim_ready i s = (Inr (Some m), s1)"
  shows "em_status m = ''sending'' \<and> mail i s1 = Some m \<and> fst (claim_ready i s1) = Inr None \<and>
    (\<exists>m0. mail i s = Some m0 \<and> em_status m0 \<in> {''readying'', ''ready''})"
proof -
  obtain m0 where m0: "mail i s = Some m0" "em_status m0 \<in> {''readying'', ''ready''}"
      and m: "m = m0\<lparr>em_status := ''sending'', em_last_sent_at := st_clock s (st_reads s)\<rparr>"
      and s1: "s1 = s\<lparr>st_reads := Suc (st_reads s), st_emails := update_where (\<lambda>x. em_id x = i) (\<lambda>_. m) (st_emails s)\<rparr>"
    using assms(2) claim_ready_run [OF assms(1), of i] by (auto simp: Let_def split: option.splits if_splits)
  have id: "em_id m = i" using m0(1) by (auto simp: m mail_def dest: mail_id)
  have found: "find (\<lambda>x. em_id x = i) (update_where (\<lambda>x. em_id x = i) (\<lambda>_. m) rows) =
      (if i \<in> em_id ` set rows then Some m else None)" for rows
    using id by (induction rows) (auto simp: update_where_def)
  have "i \<in> em_id ` set (st_emails s)" using m0(1) by (force simp: mail_def dest: mail_id)
  then have got: "mail i s1 = Some m" by (simp add: s1 mail_def found)
  have "map em_id (update_where (\<lambda>x. em_id x = i) (\<lambda>_. m) rows) = map em_id rows" for rows
    using id by (induction rows) (auto simp: update_where_def)
  then have "wf_mails s1"
    using assms(1) m0 unfolding s1 wf_mails_def mail_def
    by (auto simp: m mail_statuses_def dest!: in_update_where mail_id split: if_splits)
  then show ?thesis using got m0 by (simp add: claim_ready_run m)
qed

theorem claim_exclusive_witness:
  "\<exists>m s1. claim_ready ''m1'' (demo_store [demo_email ''m1'' ''ready'' 0]) = (Inr (Some m), s1) \<and>
     em_status m = ''sending'' \<and> fst (claim_ready ''m1'' s1) = Inr None"
proof -
  let ?s = "demo_store [demo_email ''m1'' ''ready'' 0]"
  have wf: "wf_mails ?s" by (simp add: mail_statuses_def)
  have "\<exists>m s1. claim_ready ''m1'' ?s = (Inr (Some m), s1)"
    by (simp add: claim_ready_run [OF wf] Let_def)
  then show ?thesis using claim_exclusive [OF wf, of "''m1''"] by blast
qed



section \<open>Sequences of ticks and triggers\<close>







end
