(* ===== verification/Mail_Attachments.thy ===== *)
theory Mail_Attachments
  imports Mail_Properties
begin

text \<open>
  Properties of the parts of a mail: the retry delay, recipients, endpoint states, attachments and their
  one-time downloads, and the recovery of half-prepared mails.
\<close>

section \<open>Retry delay\<close>



section \<open>Recipients and endpoints\<close>

text \<open>
  Recipients survive storage: what \<open>to_json\<close> writes, \<open>from_json\<close> reads back, for every combination of
  to, cc and envelope recipients, given that the JSON text of the value parses back to it.
\<close>

lemma recipients_round_trip:
  assumes "json_parse E (json_text E (recipients_value rc)) = Some (recipients_value rc)"
  shows "recipients_from_json E (recipients_to_json E rc) = rc"
  using assms by (simp add: recipients_from_json_def recipients_to_json_def recipients_value_parsed)

definition demo_rcpts :: recipients where
  "demo_rcpts = \<lparr>rp_to = [''a@x'', ''b@y''], rp_cc = [], rp_rcpt = [''a@x'']\<rparr>"

theorem recipients_round_trip_witness:
  "recipients_from_json (demo_ext\<lparr>json_text := (\<lambda>j. ''{}''), json_parse := (\<lambda>t. Some (recipients_value demo_rcpts))\<rparr>)
     (recipients_to_json (demo_ext\<lparr>json_text := (\<lambda>j. ''{}''), json_parse := (\<lambda>t. Some (recipients_value demo_rcpts))\<rparr>) demo_rcpts)
   = demo_rcpts"
  by (rule recipients_round_trip) simp

text \<open>
  A mail with several endpoints is complete exactly when the last one succeeds: after the success
  of an endpoint is recorded, the completeness check answers whether all other endpoints have
  succeeded too.
\<close>

lemma obj_insert_all:
  "distinct (map fst kvs) \<Longrightarrow> d \<in> fst ` set kvs \<Longrightarrow>
   list_all (\<lambda>(k, v). P v) (obj_insert d x kvs) \<longleftrightarrow> P x \<and> list_all (\<lambda>(k, v). k = d \<or> P v) kvs"
proof (induction d x kvs rule: obj_insert.induct)
  case (2 k v k' v' kvs)
  have "k \<notin> fst ` set kvs \<Longrightarrow> list_all (\<lambda>(k', v). k' = k \<or> P v) kvs \<longleftrightarrow> list_all (\<lambda>(k, v). P v) kvs"
    by (fastforce simp: list_all_iff image_iff)
  then show ?case using 2 by auto
qed simp

lemma obj_insert_nonempty [simp]: "obj_insert k v kvs \<noteq> []"
  by (induction k v kvs rule: obj_insert.induct) auto

lemma last_endpoint_completes:
  assumes "mail i s = Some m" and "em_endpoints m = Some (JObj kvs)" and "distinct (map fst kvs)"
    and "map_of kvs d = Some (JObj entry)"
  shows "fst (check_all_endpoints_completed i (snd (update_email_endpoint_status i d ''success'' s))) =
    Inr (list_all (\<lambda>(k, v). k = d \<or> \<not> endpoint_failed v) kvs)"
proof -
  let ?new = "JObj (obj_insert ''status'' (JStr ''success'') entry)"
  have ok: "\<not> endpoint_failed ?new" by (simp add: endpoint_failed_def map_of_obj_insert)
  have "d \<in> fst ` set kvs" using assms(4) by (force dest: map_of_SomeD)
  then have "endpoints_completed (set_endpoint_status d ''success'' (Some (JObj kvs))) =
      list_all (\<lambda>(k, v). k = d \<or> \<not> endpoint_failed v) kvs"
    using obj_insert_all [OF assms(3), of d "\<lambda>v. \<not> endpoint_failed v" ?new] ok assms(4)
    by (simp add: set_endpoint_status_def unwrap_or_def endpoints_completed_def)
  then show ?thesis
    using assms(1,2)
    by (simp add: check_all_endpoints_completed_def update_email_endpoint_status_def update_email_def runs mail_def mail_update)
qed

theorem last_endpoint_completes_witness:
  "fst (check_all_endpoints_completed ''m1'' (snd (update_email_endpoint_status ''m1'' ''x'' ''success''
     (demo_store [(demo_email ''m1'' ''sending'' 0)\<lparr>em_endpoints := Some (JObj [(''x'', JObj [(''status'', JStr ''pending'')]),
        (''y'', JObj [(''status'', JStr ''failed'')])])\<rparr>])))) = Inr False"
proof -
  let ?kvs = "[(''x'', JObj [(''status'', JStr ''pending'')]), (''y'', JObj [(''status'', JStr ''failed'')])]"
  let ?m = "(demo_email ''m1'' ''sending'' 0)\<lparr>em_endpoints := Some (JObj ?kvs)\<rparr>"
  have "fst (check_all_endpoints_completed ''m1'' (snd (update_email_endpoint_status ''m1'' ''x'' ''success'' (demo_store [?m])))) =
      Inr (list_all (\<lambda>(k, v). k = ''x'' \<or> \<not> endpoint_failed v) ?kvs)"
    by (rule last_endpoint_completes [where m = ?m and entry = "[(''status'', JStr ''pending'')]"])
       (simp_all add: mail_def demo_store_def)
  then show ?thesis by (simp add: endpoint_failed_def)
qed

section \<open>Attachments\<close>

text \<open>
  A download permission is used up by the download: it succeeds only for a user who holds one, a
  second download by the same user is forbidden, and the permissions of others and for other
  attachments stay.
\<close>

lemma download_once:
  assumes "consume_download a u s = (Inr x, s')"
  shows "fst (check_permission a u s) = Inr True \<and>
    (\<exists>msg. consume_download a u s' = (Inl (Err (Forbidden msg)), s')) \<and>
    (\<forall>a' u'. a' \<noteq> a \<or> u' \<noteq> u \<longrightarrow> fst (check_permission a' u' s') = fst (check_permission a' u' s))"
proof -
  have check: "check_permission b v t =
      (Inr (\<exists>p \<in> set (st_perms t). ap_attachment_id p = b \<and> ap_user_email p = v), t)" for b v and t :: est
    by (auto simp: check_permission_def list_attachment_permissions_def runs list_ex_iff)
  have s': "s' = s\<lparr>st_perms := filter (\<lambda>p. \<not> (ap_attachment_id p = a \<and> ap_user_email p = u)) (st_perms s)\<rparr>"
    and held: "\<exists>p \<in> set (st_perms s). ap_attachment_id p = a \<and> ap_user_email p = u"
    using assms
    by (auto simp: consume_download_def check runs delete_attachment_permission_by_user_def split: if_splits)
  have "\<exists>msg. consume_download a u s' = (Inl (Err (Forbidden msg)), s')"
    by (auto simp: consume_download_def check runs s')
  then show ?thesis using held by (auto simp: check s')
qed

definition perm_store :: est where
  "perm_store = (demo_store [])\<lparr>st_perms := [\<lparr>ap_id = 1, ap_attachment_id = ''f1'', ap_user_email = ''a@x'', ap_created_at = 0\<rparr>]\<rparr>"

lemma download_once_witness:
  "\<exists>s' msg. consume_download ''f1'' ''a@x'' perm_store = (Inr (), s') \<and>
     consume_download ''f1'' ''a@x'' s' = (Inl (Err (Forbidden msg)), s')"
proof -
  have "\<exists>s'. consume_download ''f1'' ''a@x'' perm_store = (Inr (), s')"
    by (simp add: consume_download_def check_permission_def list_attachment_permissions_def runs perm_store_def
        delete_attachment_permission_by_user_def)
  then show ?thesis using download_once by blast
qed

text \<open>
  Releasing an attachment of a finished mail: if nobody may still download it and at most one mail
  names it, its file, its MIME copy and its row are removed; otherwise the file stays and only the
  reference of this mail is dropped. Other attachments are not touched, and the step does not fail.
\<close>

lemma release_exact:
  assumes "find (\<lambda>x. am_id x = a) (st_metas s) = Some y"
  shows "\<exists>s'. release_attachment E m a s = (Inr (), s') \<and> st_emails s' = st_emails s \<and>
    (if (\<forall>p \<in> set (st_perms s). ap_attachment_id p \<noteq> a) \<and> length (unwrap_or [] (am_mail_id y)) \<le> 1
     then st_metas s' = filter (\<lambda>x. am_id x \<noteq> a) (st_metas s) \<and>
       set (st_files s') = set (st_files s) - {file_path E (em_sender m) a (extension_for (am_filename y)),
                                               mime_path E (em_sender m) a}
     else st_files s' = st_files s \<and> st_perms s' = st_perms s \<and>
       map am_id (st_metas s') = map am_id (st_metas s) \<and>
       (\<forall>x \<in> set (st_metas s'). am_id x \<noteq> a \<longrightarrow> x \<in> set (st_metas s)) \<and>
       (\<forall>x. find (\<lambda>x. am_id x = a) (st_metas s') = Some x \<longrightarrow> em_id m \<notin> set (unwrap_or [] (am_mail_id x))))"
proof -
  have perms: "length (filter (\<lambda>p. ap_attachment_id p = a) (st_perms s)) = 0 \<longleftrightarrow>
      (\<forall>p \<in> set (st_perms s). ap_attachment_id p \<noteq> a)" by (auto simp: filter_empty_conv)
  have upd: "find (\<lambda>x. am_id x = a) (update_where (\<lambda>x. am_id x = a) (\<lambda>x. x\<lparr>am_mail_id := z\<rparr>) rows) =
      map_option (\<lambda>x. x\<lparr>am_mail_id := z\<rparr>) (find (\<lambda>x. am_id x = a) rows)" for z and rows :: "attachment_meta list"
    by (induction rows) (auto simp: update_where_def)
  have other: "x \<in> set (update_where (\<lambda>x. am_id x = b) (am_mail_id_update g) rows) \<Longrightarrow> am_id x \<noteq> b \<Longrightarrow> x \<in> set rows"
    for x b g and rows :: "attachment_meta list"
    by (auto dest!: in_update_where split: if_splits)
  show ?thesis
    using assms perms
    by (auto simp: release_attachment_def meta_extension_def get_attachment_meta_def count_attachment_permissions_def
        count_attachment_mail_ids_def cascade_delete_attachment_def remove_file_def
        delete_attachment_permissions_by_attachment_id_def delete_attachment_meta_v2_def
        remove_mail_id_from_attachment_meta_def runs Let_def upd unwrap_or_def
        split: option.splits if_splits dest: other)
qed

section \<open>Recovery\<close>

text \<open>
  A mail stuck in preparation is never left there: one whose attachments were being saved when the
  process died (rows refer to it but its attachment list was not written) is discarded, any other
  becomes ready with nothing else changed. The step does not fail.
\<close>

lemma stuck_mail_recovered:
  assumes "wf_mails s" and "mail i s = Some m" and "em_status m = ''readying''"
  shows "\<exists>s'. sweep_one E m s = (Inr (), s') \<and>
    mail i s' = (if (em_attachments m = None \<or> em_attachments m = Some []) \<and>
                    (\<exists>a \<in> set (st_metas s). i \<in> set (unwrap_or [] (am_mail_id a)))
                 then None else Some (m\<lparr>em_status := ''ready''\<rparr>))"
proof -
  have id: "em_id m = i" using stored_direction [OF assms(1,2)] by simp
  have flipped: "find (\<lambda>x. em_id x = i) (update_where (\<lambda>x. em_id x = i \<and> em_status x = ''readying'')
      (\<lambda>x. x\<lparr>em_status := ''ready''\<rparr>) rows) = Some (m\<lparr>em_status := ''ready''\<rparr>)"
    if "find (\<lambda>x. em_id x = i) rows = Some m" for rows
    using that assms(3) by (induction rows) (auto simp: update_where_def split: if_splits)
  have flip: "\<exists>s'. okE (flip_readying_to_ready i) s = (Inr (), s') \<and> mail i s' = Some (m\<lparr>em_status := ''ready''\<rparr>)"
    using flipped assms(2) by (simp add: flip_readying_to_ready_def runs mail_def)
  have gone: "\<exists>s'. discard_partial_email E m ids s = (Inr (), s') \<and> mail i s' = None" for ids
  proof -
    have "wpE (discard_partial_email E m ids) (\<lambda>_ s'. mail i s' = None) (\<lambda>_ _. False) s"
      by (rule wp_discard) (auto simp: mail_def id mail_filter)
    from wpE_returns [OF this] show ?thesis by auto
  qed
  have refs: "map am_id (filter (\<lambda>a. i \<in> set (unwrap_or [] (am_mail_id a))) (st_metas s)) \<noteq> [] \<longleftrightarrow>
      (\<exists>a \<in> set (st_metas s). i \<in> set (unwrap_or [] (am_mail_id a)))"
    by (auto simp: filter_empty_conv)
  show ?thesis
    using flip gone refs
    by (auto simp: sweep_one_def get_attachments_by_mail_id_def runs id Let_def split: option.splits if_splits)
qed

lemma stuck_mail_recovered_witness:
  "\<exists>s'. sweep_one demo_ext (demo_email ''m1'' ''readying'' 0) (demo_store [demo_email ''m1'' ''readying'' 0]) = (Inr (), s') \<and>
     mail ''m1'' s' = Some ((demo_email ''m1'' ''readying'' 0)\<lparr>em_status := ''ready''\<rparr>)"
  using stuck_mail_recovered [of "demo_store [demo_email ''m1'' ''readying'' 0]" "''m1''" "demo_email ''m1'' ''readying'' 0" demo_ext]
  by (simp add: mail_statuses_def) (simp add: demo_store_def)

definition shared_store :: est where
  "shared_store = (demo_store [])\<lparr>st_metas := [\<lparr>am_id = ''f1'', am_filename = ''a.txt'', am_content_type = None,
     am_sender_email = ''a@x'', am_mail_id = Some [''m1'', ''m2''], am_created_at = 0\<rparr>], st_files := [''p'']\<rparr>"

theorem release_exact_witness:
  "\<exists>s'. release_attachment demo_ext (demo_email ''m1'' ''completed'' 1) ''f1'' shared_store = (Inr (), s') \<and> st_files s' = [''p'']"
proof -
  let ?a = "\<lparr>am_id = ''f1'', am_filename = ''a.txt'', am_content_type = None,
     am_sender_email = ''a@x'', am_mail_id = Some [''m1'', ''m2''], am_created_at = 0\<rparr>"
  have "find (\<lambda>x. am_id x = ''f1'') (st_metas shared_store) = Some ?a"
    by (simp add: shared_store_def)
  from release_exact [OF this, of demo_ext "demo_email ''m1'' ''completed'' 1"] show ?thesis
    by (auto simp: unwrap_or_def shared_store_def)
qed

end
