(* ===== verification/Key_Seal.thy ===== *)
theory Key_Seal
  imports Board_Models
begin

text \<open>
  Sealing of stored credential material (\<open>src/src/core/api/seal.rs\<close>). The primitives of the crates
  \<open>hmac\<close>, \<open>aes-gcm\<close> and \<open>base64\<close> are fields of \<open>crypto\<close>; what the code relies on is
  \<open>sound_crypto\<close>: decryption inverts encryption, decoding inverts encoding, an HMAC has 32 bytes. The
  process-wide key is an argument, \<open>None\<close> where it was not loaded.
\<close>

record crypto =
  cr_hmac :: "string \<Rightarrow> string \<Rightarrow> string"
  cr_encrypt :: "string \<Rightarrow> string \<Rightarrow> string \<Rightarrow> string option"
  cr_decrypt :: "string \<Rightarrow> string \<Rightarrow> string \<Rightarrow> string option"
  cr_b64 :: "string \<Rightarrow> string"
  cr_unb64 :: "string \<Rightarrow> string option"
  cr_is_utf8 :: "string \<Rightarrow> bool"

definition SEAL_CONTEXT :: string where "SEAL_CONTEXT = ''aimail-gateway:key-seal:v1''"

definition SEAL_PREFIX :: string where "SEAL_PREFIX = ''v1:''"

definition NONCE_LEN :: nat where "NONCE_LEN = 12"

definition derive_seal_key :: "crypto \<Rightarrow> string \<Rightarrow> string" where
  "derive_seal_key K admin_key = cr_hmac K admin_key SEAL_CONTEXT"

definition is_sealed :: "string \<Rightarrow> bool" where
  "is_sealed stored = starts_with stored SEAL_PREFIX"

definition derive_nonce :: "crypto \<Rightarrow> string \<Rightarrow> string \<Rightarrow> string" where
  "derive_nonce K seal_key plaintext = take NONCE_LEN (cr_hmac K seal_key plaintext)"

definition seal :: "crypto \<Rightarrow> string \<Rightarrow> string \<Rightarrow> string + string" where
  "seal K seal_key plaintext =
     (let nonce = derive_nonce K seal_key plaintext in
      case cr_encrypt K seal_key nonce plaintext of
        None \<Rightarrow> Inl ''seal encrypt''
      | Some ct \<Rightarrow> Inr (SEAL_PREFIX @ cr_b64 K (nonce @ ct)))"

definition open_seal :: "crypto \<Rightarrow> string \<Rightarrow> string \<Rightarrow> string + string" where
  "open_seal K seal_key stored = (case strip_prefix SEAL_PREFIX stored of
     None \<Rightarrow> Inl ''not a sealed value''
   | Some body \<Rightarrow> (case cr_unb64 K body of
       None \<Rightarrow> Inl ''seal base64''
     | Some blob \<Rightarrow>
         if length blob \<le> NONCE_LEN then Inl ''sealed value too short''
         else (case cr_decrypt K seal_key (take NONCE_LEN blob) (drop NONCE_LEN blob) of
                 None \<Rightarrow> Inl ''seal open failed (wrong admin key or tampered ciphertext)''
               | Some pt \<Rightarrow> if cr_is_utf8 K pt then Inr pt else Inl ''seal plaintext utf8'')))"

definition signing_material :: "crypto \<Rightarrow> string option \<Rightarrow> string \<Rightarrow> string + string" where
  "signing_material K seal_key stored =
     (if \<not> is_sealed stored then Inr stored
      else (case seal_key of
              None \<Rightarrow> Inl ''credential is sealed but no platform admin key is available to open it''
            | Some key \<Rightarrow> open_seal K key stored))"

text \<open>\<open>init\<close>: a blank admin key loads nothing, the first loaded key wins.\<close>

definition seal_init :: "crypto \<Rightarrow> string \<Rightarrow> string option \<Rightarrow> string option" where
  "seal_init K admin_key loaded =
     (if trim admin_key = [] then loaded
      else (case loaded of None \<Rightarrow> Some (derive_seal_key K (trim admin_key)) | Some k \<Rightarrow> Some k))"

definition seal_if_loaded :: "crypto \<Rightarrow> string option \<Rightarrow> string \<Rightarrow> string option" where
  "seal_if_loaded K loaded plaintext =
     (case loaded of None \<Rightarrow> None
      | Some k \<Rightarrow> (case seal K k plaintext of Inl _ \<Rightarrow> None | Inr v \<Rightarrow> Some v))"

definition store_hash :: "crypto \<Rightarrow> string option \<Rightarrow> string \<Rightarrow> string" where
  "store_hash K loaded raw_hash = unwrap_or raw_hash (seal_if_loaded K loaded raw_hash)"

definition ensure_loaded :: "bool \<Rightarrow> string option \<Rightarrow> string + unit" where
  "ensure_loaded sealed_rows_exist loaded =
     (if sealed_rows_exist \<and> loaded = None
      then Inl ''database contains sealed credential material but the platform admin key is unavailable''
      else Inr ())"

section \<open>What the primitives promise\<close>

definition sound_crypto :: "crypto \<Rightarrow> bool" where
  "sound_crypto K \<longleftrightarrow>
     (\<forall>k n p c. cr_encrypt K k n p = Some c \<longrightarrow> cr_decrypt K k n c = Some p \<and> c \<noteq> []) \<and>
     (\<forall>b. cr_unb64 K (cr_b64 K b) = Some b) \<and>
     (\<forall>k m. length (cr_hmac K k m) = 32)"

lemma nonce_length: "sound_crypto K \<Longrightarrow> length (derive_nonce K k p) = NONCE_LEN"
  by (simp add: derive_nonce_def sound_crypto_def NONCE_LEN_def)

lemma open_sealed:
  assumes "sound_crypto K" and "seal K k p = Inr v" and "cr_is_utf8 K p"
  shows "open_seal K k v = Inr p"
proof -
  obtain c where c: "cr_encrypt K k (derive_nonce K k p) p = Some c"
    and v: "v = SEAL_PREFIX @ cr_b64 K (derive_nonce K k p @ c)"
    using assms(2) by (auto simp: seal_def Let_def split: option.splits)
  then show ?thesis
    using assms(1,3) nonce_length [OF assms(1), of k p]
    by (auto simp: open_seal_def sound_crypto_def)
qed

text \<open>
  What is stored for a hash gives the hash back, whether it was sealed or, without a key, kept as it is:
  a SHA-256 hash in hexadecimal has no seal prefix.
\<close>

lemma stored_material:
  assumes "sound_crypto K" and "cr_is_utf8 K h" and "\<not> is_sealed h"
  shows "signing_material K loaded (store_hash K loaded h) = Inr h"
proof (cases "seal_if_loaded K loaded h")
  case None
  then show ?thesis using assms(3) by (simp add: store_hash_def signing_material_def unwrap_or_def)
next
  case (Some v)
  then obtain k where k: "loaded = Some k" and v: "seal K k h = Inr v"
    by (auto simp: seal_if_loaded_def split: option.splits sum.splits)
  have "is_sealed v" using v by (auto simp: seal_def is_sealed_def Let_def split: option.splits)
  then show ?thesis using Some k open_sealed [OF assms(1) v assms(2)]
    by (simp add: store_hash_def signing_material_def unwrap_or_def)
qed

text \<open>Without a loaded key a sealed row gives no material.\<close>

lemma sealed_needs_key: "is_sealed v \<Longrightarrow> \<exists>e. signing_material K None v = Inl e"
  by (simp add: signing_material_def)

end
