(* ===== verification/Main_Db.thy ===== *)
theory Main_Db
  imports Board_Registry Key_Seal
begin

text \<open>
  The main database (\<open>src/src/core/storage.rs\<close>) without its mail tables: registered domains and
  addresses, their metadata, whitelists and board groups, API keys, activation codes, agent state and
  pending deliveries. A table is the list of its rows, one definition per function. \<open>call\<close> runs a
  statement and leaves what earlier statements did; \<open>call_tx\<close> and a \<open>BEGIN\<close> batch roll back on an error.
  The domain cache in front of the domain table is part of the state.

  Columns the code writes itself hold instants in milliseconds. Expiry columns hold the text they were
  given, because SQLite compares them as texts; \<open>sql_env\<close> holds the two printers of instants and the
  matcher of the \<open>regex\<close> crate. Answers of \<open>last_insert_rowid\<close> after a statement that inserted nothing
  are what an earlier statement of the pooled connection left, a sequence of its own. Columns no function
  writes (three activation columns of \<open>api_keys\<close>, five of \<open>activation_codes\<close>) are left out.
\<close>

section \<open>Rows and state\<close>

record system_domain =
  sd_id :: string
  sd_system_id :: string
  sd_domain :: string
  sd_webhook_url :: "string option"
  sd_webhook_secret :: "string option"
  sd_is_active :: bool
  sd_created_at :: int
  sd_updated_at :: int

record addr_meta =
  dm_email_address :: string
  dm_system_id :: string
  dm_manager_address :: string
  dm_agent_signature :: string
  dm_agent_persona :: string
  dm_is_active :: bool
  dm_created_at :: int
  dm_updated_at :: int

record whitelist =
  wl_id :: int
  wl_system_id :: string
  wl_domain_addr :: string
  wl_direction :: string
  wl_value :: string
  wl_description :: "string option"
  wl_is_active :: bool
  wl_created_at :: int
  wl_category :: string
  wl_api_key_id :: "int option"

record api_key =
  ak_id :: int
  ak_system_id :: string
  ak_email_address :: string
  ak_key_hash :: string
  ak_key_prefix :: string
  ak_scopes :: "string list"
  ak_is_active :: bool
  ak_created_at :: int
  ak_expires_at :: "string option"
  ak_last_used_at :: "int option"
  ak_category :: string

record activation_code =
  ac_code_hash :: string
  ac_code_prefix :: string
  ac_code_type :: string
  ac_system_id :: string
  ac_domain :: string
  ac_email_address :: string
  ac_claimed :: bool
  ac_claimed_by :: "string option"
  ac_expires_at :: "string option"
  ac_is_frozen :: bool

record state_row =
  as_agent_addr :: string
  as_state_key :: string
  as_state_value :: string
  as_created_at :: int
  as_updated_at :: int

record pending_delivery =
  pd_id :: int
  pd_system_id :: string
  pd_domain_addr :: string
  pd_email :: string
  pd_headers :: string
  pd_payload :: string
  pd_status :: string
  pd_created_at :: int

record sql_env =
  sq_seconds :: "int \<Rightarrow> string"
  sq_rfc3339 :: "int \<Rightarrow> string"
  sq_text_int :: "string \<Rightarrow> int option"
  re_escape :: "string \<Rightarrow> string"
  re_valid :: "string \<Rightarrow> bool"
  re_match :: "string \<Rightarrow> string \<Rightarrow> bool"

record mdb =
  md_domains :: "system_domain list"
  md_metas :: "addr_meta list"
  md_whitelists :: "whitelist list"
  md_wl_seq :: int
  md_groups :: "(string \<times> string) list"
  md_keys :: "api_key list"
  md_key_seq :: int
  md_codes :: "activation_code list"
  md_code_seq :: int
  md_state :: "state_row list"
  md_pending :: "pending_delivery list"
  md_pending_seq :: int
  md_boards :: volume
  md_domain_cache :: "(string \<times> int \<times> system_domain) list"
  md_wl_cache :: "(string \<times> string \<times> int) list"
  md_clock :: "nat \<Rightarrow> int"
  md_reads :: nat
  md_rowid :: "nat \<Rightarrow> int"
  md_rowids :: nat

type_synonym 'a mm = "(mdb, app_error, 'a) eff"

definition md_now :: "int mm" where
  "md_now = (\<lambda>s. (Inr (md_clock s (md_reads s)), s\<lparr>md_reads := Suc (md_reads s)\<rparr>))"

definition stale_rowid :: "int mm" where
  "stale_rowid = (\<lambda>s. (Inr (md_rowid s (md_rowids s)), s\<lparr>md_rowids := Suc (md_rowids s)\<rparr>))"

text \<open>\<open>call_tx\<close>: an error restores the tables.\<close>

definition txE :: "'a mm \<Rightarrow> 'a mm" where
  "txE m = (\<lambda>s. case m s of (Inl e, _) \<Rightarrow> (Inl e, s) | (Inr x, s') \<Rightarrow> (Inr x, s'))"

definition violation :: "bool \<Rightarrow> unit mm" where
  "violation ok = requireE ok (Database ConstraintViolation)"

section \<open>SQL text functions\<close>

fun str_less :: "string \<Rightarrow> string \<Rightarrow> bool" where
  "str_less [] ys = (ys \<noteq> [])"
| "str_less (x # xs) [] = False"
| "str_less (x # xs) (y # ys) = (code x < code y \<or> (x = y \<and> str_less xs ys))"

text \<open>\<open>LIKE\<close>: \<open>%\<close> is any text, \<open>_\<close> any character, letters match in either case.\<close>

fun sql_like :: "string \<Rightarrow> string \<Rightarrow> bool" where
  "sql_like [] t = (t = [])"
| "sql_like (p # ps) [] = (p = CHR ''%'' \<and> sql_like ps [])"
| "sql_like (p # ps) (c # t) =
     (if p = CHR ''%'' then sql_like ps (c # t) \<or> sql_like (p # ps) t
      else (p = CHR ''_'' \<or> ascii_lower_char p = ascii_lower_char c) \<and> sql_like ps t)"

function sql_replace :: "string \<Rightarrow> string \<Rightarrow> string \<Rightarrow> string" where
  "sql_replace [] p r = []"
| "sql_replace (c # s) p r =
     (if p \<noteq> [] \<and> starts_with (c # s) p then r @ sql_replace (drop (length p) (c # s)) p r
      else c # sql_replace s p r)"
  by pat_completeness auto
termination
proof (relation "measure (\<lambda>(s, p, r). length s)", goal_cases)
  case (2 c s p r)
  then have "0 < length p" by simp
  then show ?case by simp
qed auto

text \<open>
  A row that SQLite dated with \<open>strftime\<close> (\<open>YYYY-MM-DDThh:mm:ssZ\<close>) against \<open>datetime\<close> (\<open>YYYY-MM-DD hh:mm:ss\<close>), in
  seconds: texts of the same day differ first at the \<open>T\<close>, which is above the space.
\<close>

definition dated_before :: "int \<Rightarrow> int \<Rightarrow> bool" where
  "dated_before created cutoff \<longleftrightarrow> created div 86400 < cutoff div 86400"

section \<open>Agent state\<close>

definition agent_state_get :: "string \<Rightarrow> string \<Rightarrow> (string \<times> string) option mm" where
  "agent_state_get agent_addr state_key = getsE (\<lambda>s.
     map_option (\<lambda>r. (as_state_key r, as_state_value r))
       (find (\<lambda>r. as_agent_addr r = agent_addr \<and> as_state_key r = state_key) (md_state s)))"

definition agent_state_put :: "string \<Rightarrow> string \<Rightarrow> string \<Rightarrow> unit mm" where
  "agent_state_put agent_addr state_key state_value = bindE md_now (\<lambda>ts. modifyE (\<lambda>s. s\<lparr>md_state :=
     (let same = (\<lambda>r. as_agent_addr r = agent_addr \<and> as_state_key r = state_key) in
      if list_ex same (md_state s)
      then update_where same (\<lambda>r. r\<lparr>as_state_value := state_value, as_updated_at := ts\<rparr>) (md_state s)
      else md_state s @ [\<lparr>as_agent_addr = agent_addr, as_state_key = state_key,
             as_state_value = state_value, as_created_at = ts, as_updated_at = ts\<rparr>])\<rparr>))"

definition agent_state_delete :: "string \<Rightarrow> string \<Rightarrow> unit mm" where
  "agent_state_delete agent_addr state_key = modifyE (\<lambda>s. s\<lparr>md_state :=
     filter (\<lambda>r. \<not> (as_agent_addr r = agent_addr \<and> as_state_key r = state_key)) (md_state s)\<rparr>)"

section \<open>Domains and addresses\<close>

definition insert_system_domain ::
    "string \<Rightarrow> string \<Rightarrow> string \<Rightarrow> string option \<Rightarrow> string option \<Rightarrow> system_domain mm" where
  "insert_system_domain i system_id domain webhook_url webhook_secret =
     bindE md_now (\<lambda>ts. bindE (getsE md_domains) (\<lambda>rows.
       let r = \<lparr>sd_id = i, sd_system_id = system_id, sd_domain = domain, sd_webhook_url = webhook_url,
                sd_webhook_secret = webhook_secret, sd_is_active = True, sd_created_at = ts, sd_updated_at = ts\<rparr> in
       thenE (violation (i \<notin> sd_id ` set rows \<and> domain \<notin> sd_domain ` set rows))
       (thenE (modifyE (\<lambda>s. s\<lparr>md_domains := md_domains s @ [r],
                 md_domain_cache := AList.delete domain (md_domain_cache s)\<rparr>))
         (returnE r))))"

definition get_system_domain :: "string \<Rightarrow> system_domain option mm" where
  "get_system_domain i = getsE (\<lambda>s. find (\<lambda>r. sd_id r = i) (md_domains s))"

definition get_system_domain_by_domain :: "string \<Rightarrow> system_domain option mm" where
  "get_system_domain_by_domain domain = getsE (\<lambda>s. find (\<lambda>r. sd_domain r = domain) (md_domains s))"

definition get_active_system_domain_by_domain :: "string \<Rightarrow> system_domain option mm" where
  "get_active_system_domain_by_domain domain =
     getsE (\<lambda>s. find (\<lambda>r. sd_domain r = domain \<and> sd_is_active r) (md_domains s))"

definition list_system_domains :: "string \<Rightarrow> system_domain list mm" where
  "list_system_domains system_id = getsE (\<lambda>s. filter (\<lambda>r. sd_system_id r = system_id) (md_domains s))"

definition evict_id :: "string \<Rightarrow> (string \<times> int \<times> system_domain) list \<Rightarrow> (string \<times> int \<times> system_domain) list" where
  "evict_id i = filter (\<lambda>(_, _, r). sd_id r \<noteq> i)"

definition update_system_domain ::
    "string \<Rightarrow> string option \<Rightarrow> string option \<Rightarrow> bool option \<Rightarrow> system_domain option mm" where
  "update_system_domain i webhook_url webhook_secret is_active = bindE md_now (\<lambda>ts. bindE (getsE md_domains) (\<lambda>rows.
     if \<not> list_ex (\<lambda>r. sd_id r = i) rows then returnE None
     else thenE (modifyE (\<lambda>s. s\<lparr>md_domains := update_where (\<lambda>r. sd_id r = i)
                (\<lambda>r. r\<lparr>sd_webhook_url := webhook_url, sd_webhook_secret := webhook_secret,
                      sd_is_active := unwrap_or (sd_is_active r) is_active, sd_updated_at := ts\<rparr>) (md_domains s)\<rparr>))
          (bindE (get_system_domain i) (\<lambda>updated.
             thenE (modifyE (\<lambda>s. s\<lparr>md_domain_cache := evict_id i (md_domain_cache s)\<rparr>))
               (returnE updated)))))"

definition delete_system_domain :: "string \<Rightarrow> unit mm" where
  "delete_system_domain i = modifyE (\<lambda>s. s\<lparr>md_domains := filter (\<lambda>r. sd_id r \<noteq> i) (md_domains s),
     md_domain_cache := evict_id i (md_domain_cache s)\<rparr>)"

text \<open>
  The lookup through the cache: entries live 30 seconds, only hits are cached, and a cache of more than a
  thousand entries is purged of those older than a minute.
\<close>

definition cache_domain :: "string \<Rightarrow> system_domain option \<Rightarrow> unit mm" where
  "cache_domain domain result = (case result of
     None \<Rightarrow> returnE ()
   | Some r \<Rightarrow> bindE md_now (\<lambda>t. modifyE (\<lambda>s. s\<lparr>md_domain_cache := AList.update domain (t, r)
       (if 1000 < length (md_domain_cache s) then filter (\<lambda>(_, ts, _). t - ts < 60000) (md_domain_cache s)
        else md_domain_cache s)\<rparr>)))"

definition get_system_domain_by_name :: "string \<Rightarrow> system_domain option mm" where
  "get_system_domain_by_name domain = bindE md_now (\<lambda>t. bindE (getsE md_domain_cache) (\<lambda>cache.
     let fetch = bindE (get_system_domain_by_domain domain) (\<lambda>result.
       thenE (cache_domain domain result) (returnE result)) in
     case map_of cache domain of
       Some (ts, r) \<Rightarrow> if t - ts < 30000 then returnE (Some r) else fetch
     | None \<Rightarrow> fetch))"

section \<open>Metadata of addresses\<close>

definition upsert_domain_addr_meta ::
    "string \<Rightarrow> string \<Rightarrow> string option \<Rightarrow> string option \<Rightarrow> string option \<Rightarrow> addr_meta mm" where
  "upsert_domain_addr_meta email system_id manager_address agent_signature agent_persona =
     bindE md_now (\<lambda>ts.
       let r = \<lparr>dm_email_address = to_lowercase email, dm_system_id = system_id,
                dm_manager_address = to_lowercase (trim (unwrap_or [] manager_address)),
                dm_agent_signature = unwrap_or [] agent_signature, dm_agent_persona = unwrap_or [] agent_persona,
                dm_is_active = True, dm_created_at = ts, dm_updated_at = ts\<rparr> in
       thenE (modifyE (\<lambda>s. s\<lparr>md_metas :=
           (if dm_email_address r \<in> dm_email_address ` set (md_metas s)
            then update_where (\<lambda>x. dm_email_address x = dm_email_address r)
              (\<lambda>x. x\<lparr>dm_system_id := dm_system_id r, dm_manager_address := dm_manager_address r,
                    dm_agent_signature := dm_agent_signature r, dm_agent_persona := dm_agent_persona r,
                    dm_updated_at := ts\<rparr>) (md_metas s)
            else md_metas s @ [r])\<rparr>))
         (returnE r))"

definition get_domain_addr_meta :: "string \<Rightarrow> addr_meta option mm" where
  "get_domain_addr_meta email = getsE (\<lambda>s. find (\<lambda>r. dm_email_address r = to_lowercase email) (md_metas s))"

definition list_domain_addr_meta_by_system :: "string \<Rightarrow> addr_meta list mm" where
  "list_domain_addr_meta_by_system system_id = getsE (\<lambda>s. filter (\<lambda>r. dm_system_id r = system_id) (md_metas s))"

definition delete_domain_addr_meta :: "string \<Rightarrow> unit mm" where
  "delete_domain_addr_meta email = modifyE (\<lambda>s. s\<lparr>md_metas :=
     filter (\<lambda>r. dm_email_address r \<noteq> to_lowercase email) (md_metas s)\<rparr>)"

text \<open>The one-time migration of legacy rows in \<open>run_migrations\<close>.\<close>

definition lowercase_managers :: "unit mm" where
  "lowercase_managers = modifyE (\<lambda>s. s\<lparr>md_metas :=
     update_where (\<lambda>r. dm_manager_address r \<noteq> to_lowercase (dm_manager_address r))
       (\<lambda>r. r\<lparr>dm_manager_address := to_lowercase (dm_manager_address r)\<rparr>) (md_metas s)\<rparr>)"

section \<open>Whitelists\<close>

definition wl_key :: "whitelist \<Rightarrow> string \<times> string \<times> string" where
  "wl_key w = (wl_system_id w, wl_domain_addr w, wl_value w)"

definition DIRECTIONS :: "string list" where "DIRECTIONS = [''from'', ''to'', ''all'']"

text \<open>
  A second entry for the same value overwrites the direction of the first. The record that is returned is
  the new one, with the row id the connection reports.
\<close>

definition insert_whitelist ::
    "string \<Rightarrow> string \<Rightarrow> string \<Rightarrow> string \<Rightarrow> string \<Rightarrow> int option \<Rightarrow> string option \<Rightarrow> whitelist mm" where
  "insert_whitelist system_id domain_addr direction value category api_key_id description =
     bindE md_now (\<lambda>ts. thenE (violation (direction \<in> set DIRECTIONS)) (bindE (getsE (\<lambda>s. s)) (\<lambda>s.
       let w = (\<lambda>i. \<lparr>wl_id = i, wl_system_id = system_id, wl_domain_addr = domain_addr, wl_direction = direction,
                wl_value = value, wl_description = description, wl_is_active = True, wl_created_at = ts,
                wl_category = category, wl_api_key_id = api_key_id\<rparr>);
           same = (\<lambda>r. wl_key r = (system_id, domain_addr, value)) in
       if list_ex same (md_whitelists s)
       then thenE (modifyE (\<lambda>s. s\<lparr>md_wl_seq := md_wl_seq s + 1, md_whitelists := update_where same
                  (\<lambda>r. r\<lparr>wl_direction := direction, wl_is_active := True,
                        wl_description := (if description = None then wl_description r else description)\<rparr>)
                  (md_whitelists s)\<rparr>))
              (bindE stale_rowid (\<lambda>i. returnE (w i)))
       else thenE (modifyE (\<lambda>s. s\<lparr>md_wl_seq := md_wl_seq s + 1,
                  md_whitelists := md_whitelists s @ [w (md_wl_seq s + 1)]\<rparr>))
              (returnE (w (md_wl_seq s + 1))))))"

definition get_whitelist :: "string \<Rightarrow> string \<Rightarrow> string \<Rightarrow> whitelist option mm" where
  "get_whitelist system_id domain_addr value =
     getsE (\<lambda>s. find (\<lambda>r. wl_key r = (system_id, domain_addr, value)) (md_whitelists s))"

definition get_whitelist_by_id :: "int \<Rightarrow> whitelist option mm" where
  "get_whitelist_by_id i = getsE (\<lambda>s. find (\<lambda>r. wl_id r = i) (md_whitelists s))"

definition list_whitelists :: "string \<Rightarrow> whitelist list mm" where
  "list_whitelists system_id = getsE (\<lambda>s. filter (\<lambda>r. wl_system_id r = system_id) (md_whitelists s))"

definition update_whitelist :: "int \<Rightarrow> bool option \<Rightarrow> string option \<Rightarrow> whitelist option mm" where
  "update_whitelist i is_active direction = bindE (get_whitelist_by_id i) (\<lambda>current.
     case current of None \<Rightarrow> returnE None
     | Some r \<Rightarrow>
         (let r' = r\<lparr>wl_is_active := unwrap_or (wl_is_active r) is_active,
                    wl_direction := unwrap_or (wl_direction r) direction\<rparr> in
          thenE (violation (wl_direction r' \<in> set DIRECTIONS))
          (thenE (modifyE (\<lambda>s. s\<lparr>md_whitelists := update_where (\<lambda>x. wl_id x = i)
                   (\<lambda>x. x\<lparr>wl_is_active := wl_is_active r',
                         wl_direction := unwrap_or (wl_direction x) direction\<rparr>) (md_whitelists s)\<rparr>))
             (returnE (Some r')))))"

definition delete_whitelist :: "int \<Rightarrow> unit mm" where
  "delete_whitelist i = modifyE (\<lambda>s. s\<lparr>md_whitelists := filter (\<lambda>r. wl_id r \<noteq> i) (md_whitelists s)\<rparr>)"

definition delete_whitelist_by_domain_and_value :: "string \<Rightarrow> string \<Rightarrow> unit mm" where
  "delete_whitelist_by_domain_and_value domain_addr value = modifyE (\<lambda>s. s\<lparr>md_whitelists :=
     filter (\<lambda>r. \<not> (wl_domain_addr r = domain_addr \<and> wl_value r = value)) (md_whitelists s)\<rparr>)"

definition count_whitelist_entries_by_api_key :: "string \<Rightarrow> int \<Rightarrow> nat mm" where
  "count_whitelist_entries_by_api_key system_id api_key_id = getsE (\<lambda>s. length (filter
     (\<lambda>r. wl_system_id r = system_id \<and> wl_api_key_id r = Some api_key_id \<and> wl_category r = ''agent'')
     (md_whitelists s)))"

text \<open>
  One to three directions; indexing an empty list panics inside the blocking task, which the pool turns
  into an error.
\<close>

definition count_whitelist_entries :: "string \<Rightarrow> string \<Rightarrow> string list \<Rightarrow> nat mm" where
  "count_whitelist_entries system_id domain dirs =
     (if dirs = [] then throwE (Internal ''Blocking task failed'')
      else getsE (\<lambda>s. length (filter (\<lambda>r. wl_system_id r = system_id \<and> wl_domain_addr r = domain \<and>
             wl_direction r \<in> set (take 3 dirs) \<and> wl_is_active r) (md_whitelists s))))"

definition is_board_member :: "string \<Rightarrow> string \<Rightarrow> bool mm" where
  "is_board_member board_email member_addr = getsE (\<lambda>s. (board_email, member_addr) \<in> set (md_groups s))"

text \<open>The patterns \<open>is_whitelisted\<close> selects.\<close>

definition active_patterns :: "string \<Rightarrow> string \<Rightarrow> string \<Rightarrow> mdb \<Rightarrow> string list" where
  "active_patterns system_id domain_addr direction s =
     map wl_value (filter (\<lambda>r. wl_system_id r = system_id \<and> wl_domain_addr r = domain_addr \<and>
        (wl_direction r = direction \<or> wl_direction r = ''all'') \<and> wl_is_active r) (md_whitelists s))"

section \<open>API keys\<close>

definition not_expired :: "sql_env \<Rightarrow> int \<Rightarrow> string option \<Rightarrow> bool" where
  "not_expired Q t expires_at = (case expires_at of None \<Rightarrow> True | Some e \<Rightarrow> str_less (sq_seconds Q t) e)"

definition get_api_key :: "int \<Rightarrow> api_key option mm" where
  "get_api_key i = getsE (\<lambda>s. find (\<lambda>r. ak_id r = i) (md_keys s))"

definition set_keys :: "(api_key \<Rightarrow> bool) \<Rightarrow> (api_key \<Rightarrow> api_key) \<Rightarrow> unit mm" where
  "set_keys p f = modifyE (\<lambda>s. s\<lparr>md_keys := update_where p f (md_keys s)\<rparr>)"

text \<open>Sealing rows in place; sealed rows are skipped, any failure rolls back.\<close>

definition reseal_one :: "crypto \<Rightarrow> string \<Rightarrow> int \<times> string \<Rightarrow> unit mm" where
  "reseal_one K key row = (case row of (i, stored) \<Rightarrow>
     (if is_sealed stored then returnE ()
      else (case seal K key stored of
              Inl e \<Rightarrow> throwE (Internal (''seal failed: '' @ e))
            | Inr sealed \<Rightarrow> bindE (getsE md_keys) (\<lambda>rows.
                thenE (violation (list_all (\<lambda>r. ak_id r = i \<or> ak_key_hash r \<noteq> sealed) rows))
                  (set_keys (\<lambda>r. ak_id r = i) (\<lambda>r. r\<lparr>ak_key_hash := sealed\<rparr>))))))"

definition reseal_api_keys :: "crypto \<Rightarrow> string option \<Rightarrow> (nat \<times> nat) mm" where
  "reseal_api_keys K loaded = (case loaded of
     None \<Rightarrow> throwE (Internal ''seal key not loaded: refusing to reseal credentials'')
   | Some key \<Rightarrow> txE (bindE (getsE (\<lambda>s. map (\<lambda>r. (ak_id r, ak_key_hash r)) (md_keys s))) (\<lambda>rows.
       thenE (forE (reseal_one K key) rows)
         (returnE (length (filter (\<lambda>(_, h). \<not> is_sealed h) rows),
                   length (filter (\<lambda>(_, h). is_sealed h) rows))))))"

definition count_sealed_api_keys :: "nat mm" where
  "count_sealed_api_keys = getsE (\<lambda>s. length (filter (\<lambda>r. sql_like ''v1:%'' (ak_key_hash r)) (md_keys s)))"

definition insert_api_key ::
    "string \<Rightarrow> string \<Rightarrow> string \<Rightarrow> string \<Rightarrow> string list \<Rightarrow> string option \<Rightarrow> string \<Rightarrow> api_key mm" where
  "insert_api_key system_id email_address key_hash key_prefix scopes expires_at category =
     bindE md_now (\<lambda>ts. bindE (getsE (\<lambda>s. s)) (\<lambda>s.
       let r = \<lparr>ak_id = md_key_seq s + 1, ak_system_id = system_id, ak_email_address = email_address,
                ak_key_hash = key_hash, ak_key_prefix = key_prefix, ak_scopes = scopes, ak_is_active = True,
                ak_created_at = ts, ak_expires_at = expires_at, ak_last_used_at = None, ak_category = category\<rparr> in
       thenE (violation (list_all (\<lambda>x. ak_key_hash x \<noteq> key_hash \<and>
                \<not> (ak_system_id x = system_id \<and> ak_email_address x = email_address)) (md_keys s)))
       (thenE (modifyE (\<lambda>s. s\<lparr>md_keys := md_keys s @ [r], md_key_seq := md_key_seq s + 1\<rparr>))
         (returnE r))))"

definition list_api_keys :: "api_key list mm" where
  "list_api_keys = getsE md_keys"

definition update_api_key :: "int \<Rightarrow> string list option \<Rightarrow> bool option \<Rightarrow> api_key option mm" where
  "update_api_key i scopes is_active = bindE (get_api_key i) (\<lambda>current.
     case current of None \<Rightarrow> returnE None
     | Some r \<Rightarrow> (let r' = r\<lparr>ak_scopes := unwrap_or (ak_scopes r) scopes,
                           ak_is_active := unwrap_or (ak_is_active r) is_active\<rparr> in
         thenE (set_keys (\<lambda>x. ak_id x = i)
                  (\<lambda>x. x\<lparr>ak_scopes := ak_scopes r', ak_is_active := ak_is_active r'\<rparr>))
           (returnE (Some r'))))"

definition delete_api_key :: "int \<Rightarrow> unit mm" where
  "delete_api_key i = modifyE (\<lambda>s. s\<lparr>md_keys := filter (\<lambda>r. ak_id r \<noteq> i) (md_keys s)\<rparr>)"

definition update_api_key_category_and_scopes :: "int \<Rightarrow> string \<Rightarrow> string list \<Rightarrow> unit mm" where
  "update_api_key_category_and_scopes i category scopes =
     set_keys (\<lambda>r. ak_id r = i) (\<lambda>r. r\<lparr>ak_category := category, ak_scopes := scopes\<rparr>)"

definition rotate_api_key :: "int \<Rightarrow> string \<Rightarrow> string \<Rightarrow> api_key option mm" where
  "rotate_api_key i key_hash key_prefix = bindE (get_api_key i) (\<lambda>current.
     case current of None \<Rightarrow> returnE None
     | Some r \<Rightarrow> bindE (getsE md_keys) (\<lambda>rows.
         thenE (violation (list_all (\<lambda>x. ak_id x = i \<or> ak_key_hash x \<noteq> key_hash) rows))
         (thenE (set_keys (\<lambda>x. ak_id x = i) (\<lambda>x. x\<lparr>ak_key_hash := key_hash, ak_key_prefix := key_prefix\<rparr>))
           (returnE (Some (r\<lparr>ak_key_hash := key_hash, ak_key_prefix := key_prefix\<rparr>))))))"

definition list_api_keys_by_system :: "string \<Rightarrow> string \<Rightarrow> api_key list mm" where
  "list_api_keys_by_system system_id category =
     getsE (\<lambda>s. filter (\<lambda>r. ak_system_id r = system_id \<and> ak_category r = category) (md_keys s))"

definition get_api_key_by_email :: "string \<Rightarrow> api_key option mm" where
  "get_api_key_by_email email = getsE (\<lambda>s. find (\<lambda>r. ak_email_address r = email \<and> ak_is_active r) (md_keys s))"

definition touch_api_key_last_used :: "int \<Rightarrow> unit mm" where
  "touch_api_key_last_used i = bindE md_now (\<lambda>ts. set_keys (\<lambda>r. ak_id r = i) (\<lambda>r. r\<lparr>ak_last_used_at := Some ts\<rparr>))"

definition flush_api_keys_last_used :: "int list \<Rightarrow> nat mm" where
  "flush_api_keys_last_used ids = (if ids = [] then returnE 0
     else bindE md_now (\<lambda>ts. thenE (set_keys (\<lambda>r. ak_id r \<in> set ids) (\<lambda>r. r\<lparr>ak_last_used_at := Some ts\<rparr>))
       (returnE (length ids))))"

definition list_api_keys_by_identity :: "sql_env \<Rightarrow> string \<Rightarrow> api_key list mm" where
  "list_api_keys_by_identity Q identity = (if identity = [] then returnE []
     else bindE md_now (\<lambda>t. getsE (\<lambda>s.
       let live = filter (\<lambda>r. ak_is_active r \<and> not_expired Q t (ak_expires_at r)) (md_keys s) in
       filter (\<lambda>r. ak_email_address r = identity) live @ filter (\<lambda>r. ak_system_id r = identity) live)))"

definition verify_api_key :: "sql_env \<Rightarrow> crypto \<Rightarrow> string option \<Rightarrow> string \<Rightarrow> api_key option mm" where
  "verify_api_key Q K loaded key_hash = bindE md_now (\<lambda>t.
     bindE (getsE (\<lambda>s. find (\<lambda>r. ak_key_hash r \<in> {unwrap_or key_hash (seal_if_loaded K loaded key_hash), key_hash} \<and>
              ak_is_active r \<and> not_expired Q t (ak_expires_at r)) (md_keys s))) (\<lambda>row.
       case row of None \<Rightarrow> returnE None
       | Some r \<Rightarrow> thenE (set_keys (\<lambda>x. ak_id x = ak_id r) (\<lambda>x. x\<lparr>ak_last_used_at := Some t\<rparr>))
                    (returnE (Some r))))"

section \<open>Activation codes\<close>

definition insert_activation_code ::
    "string \<Rightarrow> string \<Rightarrow> string \<Rightarrow> string \<Rightarrow> string \<Rightarrow> string \<Rightarrow> string option \<Rightarrow> int mm" where
  "insert_activation_code code_hash code_prefix code_type system_id domain email_address expires_at =
     bindE (getsE (\<lambda>s. s)) (\<lambda>s.
       thenE (violation (code_hash \<notin> ac_code_hash ` set (md_codes s) \<and> code_type \<in> {''address'', ''product''}))
       (thenE (modifyE (\<lambda>s. s\<lparr>md_code_seq := md_code_seq s + 1, md_codes := md_codes s @
            [\<lparr>ac_code_hash = code_hash, ac_code_prefix = code_prefix, ac_code_type = code_type,
              ac_system_id = system_id, ac_domain = domain, ac_email_address = email_address,
              ac_claimed = False, ac_claimed_by = None, ac_expires_at = expires_at, ac_is_frozen = False\<rparr>]\<rparr>))
         (returnE (md_code_seq s + 1))))"

definition lookup_activation_code :: "sql_env \<Rightarrow> string \<Rightarrow> (string \<times> string) option mm" where
  "lookup_activation_code Q code_hash = bindE md_now (\<lambda>t. getsE (\<lambda>s.
     map_option (\<lambda>c. (ac_system_id c, ac_email_address c))
       (find (\<lambda>c. ac_code_hash c = code_hash \<and> \<not> ac_claimed c \<and> \<not> ac_is_frozen c \<and>
              not_expired Q t (ac_expires_at c)) (md_codes s))))"

definition claim_activation_code :: "string \<Rightarrow> string \<Rightarrow> bool mm" where
  "claim_activation_code code_hash claimed_by = bindE (getsE md_codes) (\<lambda>rows.
     thenE (modifyE (\<lambda>s. s\<lparr>md_codes := update_where (\<lambda>c. ac_code_hash c = code_hash \<and> \<not> ac_claimed c)
              (\<lambda>c. c\<lparr>ac_claimed := True, ac_claimed_by := Some claimed_by\<rparr>) (md_codes s)\<rparr>))
       (returnE (length (filter (\<lambda>c. ac_code_hash c = code_hash \<and> \<not> ac_claimed c) rows) = 1)))"

definition delete_activation_code :: "string \<Rightarrow> unit mm" where
  "delete_activation_code code_hash = modifyE (\<lambda>s. s\<lparr>md_codes :=
     filter (\<lambda>c. ac_code_hash c \<noteq> code_hash) (md_codes s)\<rparr>)"

section \<open>Pending deliveries\<close>

definition insert_pending_delivery :: "string \<Rightarrow> string \<Rightarrow> string \<Rightarrow> string \<Rightarrow> string \<Rightarrow> int mm" where
  "insert_pending_delivery system_id domain_addr email headers payload = bindE md_now (\<lambda>t. bindE (getsE (\<lambda>s. s)) (\<lambda>s.
     thenE (modifyE (\<lambda>s. s\<lparr>md_pending_seq := md_pending_seq s + 1, md_pending := md_pending s @
         [\<lparr>pd_id = md_pending_seq s + 1, pd_system_id = system_id, pd_domain_addr = domain_addr, pd_email = email,
           pd_headers = headers, pd_payload = payload, pd_status = ''pending'', pd_created_at = t div 1000\<rparr>]\<rparr>))
       (returnE (md_pending_seq s + 1))))"

text \<open>A negative \<open>LIMIT\<close> is none.\<close>

definition sql_limit :: "int \<Rightarrow> 'r list \<Rightarrow> 'r list" where
  "sql_limit n rows = (if n < 0 then rows else take (nat n) rows)"

definition list_pending_deliveries :: "string \<Rightarrow> int \<Rightarrow> string list option \<Rightarrow> pending_delivery list mm" where
  "list_pending_deliveries system_id limit domains = getsE (\<lambda>s. sql_limit limit (sort_key pd_created_at
     (filter (\<lambda>r. pd_system_id r = system_id \<and> (case domains of None \<Rightarrow> True
        | Some ds \<Rightarrow> ds = [] \<or> list_ex (\<lambda>d. sql_like (''%@'' @ d) (pd_domain_addr r)) ds)) (md_pending s))))"

definition list_pending_by_email :: "string \<Rightarrow> string \<Rightarrow> int \<Rightarrow> pending_delivery list mm" where
  "list_pending_by_email system_id email limit = getsE (\<lambda>s. take (nat (max 1 (min 200 limit))) (sort_key pd_id
     (filter (\<lambda>r. pd_system_id r = system_id \<and> pd_email r = email \<and> pd_status r = ''pending'') (md_pending s))))"

text \<open>
  The list of ids the address-scoped acknowledgement binds starts at the first parameter, so the system
  id and the address are among the ids; as texts they equal a row id where they read as a number.
\<close>

definition ack_pending_by_email :: "sql_env \<Rightarrow> string \<Rightarrow> string \<Rightarrow> int list \<Rightarrow> nat mm" where
  "ack_pending_by_email Q system_id email ids = (if ids = [] then returnE 0
     else bindE (getsE md_pending) (\<lambda>rows.
       let bound = filter_map (sq_text_int Q) [system_id, email] @ ids;
           hit = (\<lambda>r. pd_system_id r = system_id \<and> pd_email r = email \<and> pd_id r \<in> set bound) in
       thenE (modifyE (\<lambda>s. s\<lparr>md_pending := filter (\<lambda>r. \<not> hit r) (md_pending s)\<rparr>))
         (returnE (length (filter hit rows)))))"

definition ack_deliveries :: "string \<Rightarrow> int list \<Rightarrow> nat mm" where
  "ack_deliveries system_id ids = (if ids = [] then returnE 0
     else bindE (getsE md_pending) (\<lambda>rows.
       let hit = (\<lambda>r. pd_system_id r = system_id \<and> pd_id r \<in> set ids) in
       thenE (modifyE (\<lambda>s. s\<lparr>md_pending := filter (\<lambda>r. \<not> hit r) (md_pending s)\<rparr>))
         (returnE (length (filter hit rows)))))"

definition cleanup_deliveries :: "int \<Rightarrow> unit mm" where
  "cleanup_deliveries ttl_hours = bindE md_now (\<lambda>t.
     thenE (modifyE (\<lambda>s. s\<lparr>md_pending := filter (\<lambda>r. \<not> (pd_status r = ''delivered'' \<and>
              dated_before (pd_created_at r) (t div 1000 - 7 * 86400))) (md_pending s)\<rparr>))
       (modifyE (\<lambda>s. s\<lparr>md_pending := filter (\<lambda>r. \<not> (pd_status r = ''pending'' \<and>
              dated_before (pd_created_at r) (t div 1000 - ttl_hours * 3600))) (md_pending s)\<rparr>)))"

section \<open>Renaming an address\<close>

text \<open>The bytes an address may have; the quote is among them.\<close>

definition rename_safe :: "string \<Rightarrow> bool" where
  "rename_safe a \<longleftrightarrow> a \<noteq> [] \<and> length a \<le> 255 \<and>
     list_all (\<lambda>c. is_ascii_alphanumeric c \<or> c \<in> set ''@.-_+#$%&*/=?^`{|}~!'' \<or> c = CHR 0x27) a"

definition has_quote :: "string \<Rightarrow> bool" where
  "has_quote a \<longleftrightarrow> CHR 0x27 \<in> set a"

definition insert_wl_ignore :: "whitelist \<Rightarrow> mdb \<Rightarrow> mdb" where
  "insert_wl_ignore w s = (if wl_key w \<in> wl_key ` set (md_whitelists s) then s
     else s\<lparr>md_wl_seq := md_wl_seq s + 1,
            md_whitelists := md_whitelists s @ [w\<lparr>wl_id := md_wl_seq s + 1\<rparr>]\<rparr>)"

definition insert_state_ignore :: "state_row \<Rightarrow> state_row list \<Rightarrow> state_row list" where
  "insert_state_ignore r rows =
     (if list_ex (\<lambda>x. as_agent_addr x = as_agent_addr r \<and> as_state_key x = as_state_key r) rows
      then rows else rows @ [r])"

definition rename_whitelists :: "string \<Rightarrow> string \<Rightarrow> mdb \<Rightarrow> mdb" where
  "rename_whitelists old new s0 =
     (let s1 = fold insert_wl_ignore (map (\<lambda>w. w\<lparr>wl_domain_addr := new\<rparr>)
                 (filter (\<lambda>w. wl_domain_addr w = old) (md_whitelists s0))) s0;
          s2 = s1\<lparr>md_whitelists := filter (\<lambda>w. wl_domain_addr w \<noteq> old) (md_whitelists s1)\<rparr>;
          s3 = fold insert_wl_ignore (map (\<lambda>w. w\<lparr>wl_value := new\<rparr>)
                 (filter (\<lambda>w. wl_value w = old \<and> wl_domain_addr w \<noteq> old) (md_whitelists s2))) s2;
          s4 = s3\<lparr>md_whitelists := filter (\<lambda>w. \<not> (wl_value w = old \<and> wl_domain_addr w \<noteq> old)) (md_whitelists s3)\<rparr>
      in s4\<lparr>md_whitelists := update_where (\<lambda>w. wl_domain_addr w = new \<and> wl_value w = old)
             (\<lambda>w. w\<lparr>wl_value := new\<rparr>) (md_whitelists s4)\<rparr>)"

definition rename_state :: "string \<Rightarrow> string \<Rightarrow> state_row list \<Rightarrow> state_row list" where
  "rename_state old new rows =
     (let mentions = (\<lambda>r. sql_like (''%'' @ old @ ''%'') (as_state_key r));
          moved = map (\<lambda>r. r\<lparr>as_agent_addr := (if as_agent_addr r = old then new else as_agent_addr r),
                            as_state_key := sql_replace (as_state_key r) old new\<rparr>)
                    (filter (\<lambda>r. as_agent_addr r = old \<or> mentions r) rows) in
      filter (\<lambda>r. \<not> (as_agent_addr r \<noteq> old \<and> mentions r))
        (filter (\<lambda>r. as_agent_addr r \<noteq> old) (fold insert_state_ignore moved rows)))"

text \<open>The batch of statements between \<open>BEGIN\<close> and \<open>COMMIT\<close>.\<close>

definition rename_batch :: "string \<Rightarrow> string \<Rightarrow> unit mm" where
  "rename_batch old new = txE (bindE (getsE (\<lambda>s. s)) (\<lambda>s.
     thenE (violation (old = new \<or> old \<notin> dm_email_address ` set (md_metas s) \<or> new \<notin> dm_email_address ` set (md_metas s)))
     (thenE (violation (old = new \<or> list_all (\<lambda>k. ak_email_address k = old \<longrightarrow> list_all (\<lambda>k'.
               \<not> (ak_system_id k' = ak_system_id k \<and> ak_email_address k' = new)) (md_keys s)) (md_keys s)))
     (thenE (violation (old = new \<or> old \<notin> sd_domain ` set (md_domains s) \<or> new \<notin> sd_domain ` set (md_domains s)))
       (modifyE (\<lambda>s. rename_whitelists old new (s\<lparr>
          md_metas := update_where (\<lambda>r. dm_email_address r = old) (\<lambda>r. r\<lparr>dm_email_address := new\<rparr>) (md_metas s),
          md_keys := update_where (\<lambda>r. ak_email_address r = old) (\<lambda>r. r\<lparr>ak_email_address := new\<rparr>) (md_keys s),
          md_domains := update_where (\<lambda>r. sd_domain r = old) (\<lambda>r. r\<lparr>sd_domain := new\<rparr>) (md_domains s),
          md_state := rename_state old new (md_state s)\<rparr>)))))))"

text \<open>
  The statements on one board file. The copy of a member row names its columns and leaves out the salt
  of the token; it is inserted first and the old row removed last, so no foreign key is in the way.
\<close>

definition rename_in_board :: "string \<Rightarrow> string \<Rightarrow> bst \<Rightarrow> bst" where
  "rename_in_board old new b =
     (let swap = (\<lambda>a. if a = old then new else a);
          copies = map (\<lambda>m. m\<lparr>mb_email := new, mb_board_token_salt := None\<rparr>)
                     (filter (\<lambda>m. mb_email m = old) (db_members b));
          members = fold (\<lambda>m rows. if mb_email m \<in> mb_email ` set rows then rows else rows @ [m])
                      copies (db_members b) in
      b\<lparr>db_boards := map (\<lambda>r. r\<lparr>bd_board_email := swap (bd_board_email r)\<rparr>) (db_boards b),
        db_members := filter (\<lambda>m. mb_email m \<noteq> old) members,
        db_tasks := map (\<lambda>t. t\<lparr>tk_assignee := swap (tk_assignee t),
                              tk_reviewer := map_option swap (tk_reviewer t),
                              tk_created_by := swap (tk_created_by t)\<rparr>) (db_tasks b),
        db_events := map (\<lambda>e. e\<lparr>ev_actor := swap (ev_actor e)\<rparr>) (db_events b)\<rparr>)"

definition rename_in_volume :: "string \<Rightarrow> string \<Rightarrow> volume \<Rightarrow> volume" where
  "rename_in_volume old new vol = (case vol of
     Files fs \<Rightarrow> Files (map (\<lambda>(name, content).
       (name, if ends_with name ''.db'' \<and> name \<noteq> ''.db'' then map_option (rename_in_board old new) content else content)) fs)
   | _ \<Rightarrow> vol)"

text \<open>
  \<open>rename_agent_address_refs\<close>. The assertion on the addresses panics. The statements are built by
  formatting the addresses between quotes: what SQLite does when an address has a quote itself is the
  parameter \<open>quoted\<close>.
\<close>

definition rename_agent_address_refs :: "(string \<Rightarrow> string \<Rightarrow> unit mm) \<Rightarrow> string \<Rightarrow> string \<Rightarrow> unit mm" where
  "rename_agent_address_refs quoted old new =
     (if \<not> (rename_safe old \<and> rename_safe new) then panicE
      else thenE (if has_quote old \<or> has_quote new then quoted old new
                  else thenE (rename_batch old new)
                         (modifyE (\<lambda>s. s\<lparr>md_boards := rename_in_volume old new (md_boards s)\<rparr>)))
        (modifyE (\<lambda>s. s\<lparr>md_domain_cache :=
           filter (\<lambda>(key, _, r). key \<noteq> old \<and> sd_domain r \<noteq> old) (md_domain_cache s)\<rparr>)))"

section \<open>Opening\<close>

definition SCHEMA_VERSION :: int where "SCHEMA_VERSION = 1"

text \<open>The stored version, \<open>None\<close> in a new file; the result is the version that is stored afterwards.\<close>

definition check_schema_version :: "int option \<Rightarrow> app_error + int" where
  "check_schema_version stored = (let current = unwrap_or 0 stored in
     if current = 0
     then (if stored = None then Inr SCHEMA_VERSION else Inl (Database ConstraintViolation))
     else if current \<noteq> SCHEMA_VERSION then Inl (Config ''Database schema version mismatch'')
     else Inr current)"

definition ensure_cipher_support :: "string option \<Rightarrow> app_error + unit" where
  "ensure_cipher_support version = (case version of
     Some v \<Rightarrow> if trim v \<noteq> [] then Inr () else Inl (Config ''storage.encryption = true requires a SQLCipher build'')
   | None \<Rightarrow> Inl (Config ''storage.encryption = true requires a SQLCipher build''))"

end
