(* ===== verification/Env_Factory.thy ===== *)
theory Env_Factory
  imports Main_Db "HOL-Library.Word"
begin

text \<open>
  The layer in front of the main database: whitelist patterns with their cache
  (\<open>src/src/core/whitelist.rs\<close>), the targets a webhook may have (\<open>src/src/core/webhook_target.rs\<close>), and the
  environment factory (\<open>src/src/core/factory.rs\<close>) with the registration of domains, the whitelist decision
  and the endpoints of recipients. A compiled pattern is its text; \<open>re_valid\<close> and \<open>re_match\<close> of the
  environment are the \<open>regex\<close> crate. Name resolution is a parameter: each call gets the answer of its time.
\<close>

section \<open>Whitelist patterns\<close>

definition MAX_PATTERN_LEN :: nat where "MAX_PATTERN_LEN = 128"

definition pattern_text :: "sql_env \<Rightarrow> string \<Rightarrow> string" where
  "pattern_text Q value = ''(?i)^'' @ sql_replace (re_escape Q value) [CHR 0x5C, CHR ''*''] ''.*'' @ ''$''"

definition compile_whitelist_pattern :: "sql_env \<Rightarrow> string \<Rightarrow> app_error + string" where
  "compile_whitelist_pattern Q value =
     (if MAX_PATTERN_LEN < length value then Inl (Validation ''Whitelist pattern too long'')
      else if re_valid Q (pattern_text Q value) then Inr (pattern_text Q value)
      else Inl (Validation (''Invalid whitelist pattern '' @ value)))"

definition get_or_compile :: "sql_env \<Rightarrow> string \<Rightarrow> string mm" where
  "get_or_compile Q value = bindE md_now (\<lambda>t. bindE (getsE md_wl_cache) (\<lambda>cache.
     let compile = bindE (liftE (compile_whitelist_pattern Q value)) (\<lambda>re. bindE md_now (\<lambda>t'.
           thenE (modifyE (\<lambda>s. s\<lparr>md_wl_cache :=
               AList.update value (re, t') (filter (\<lambda>(_, _, created). t' - created < 30000) (md_wl_cache s))\<rparr>))
             (returnE re))) in
     case map_of cache value of
       Some (re, created) \<Rightarrow> if t - created < 30000 then returnE re else compile
     | None \<Rightarrow> compile))"

definition invalidate :: "string \<Rightarrow> unit mm" where
  "invalidate value = modifyE (\<lambda>s. s\<lparr>md_wl_cache := AList.delete value (md_wl_cache s)\<rparr>)"

fun is_whitelisted_wildcard :: "sql_env \<Rightarrow> string list \<Rightarrow> string \<Rightarrow> bool mm" where
  "is_whitelisted_wildcard Q [] target = returnE False"
| "is_whitelisted_wildcard Q (v # vs) target = bindE (tryE (get_or_compile Q v)) (\<lambda>r.
     case r of
       Inr re \<Rightarrow> if re_match Q re target then returnE True else is_whitelisted_wildcard Q vs target
     | Inl _ \<Rightarrow> is_whitelisted_wildcard Q vs target)"

definition is_whitelisted :: "sql_env \<Rightarrow> string \<Rightarrow> string \<Rightarrow> string \<Rightarrow> string \<Rightarrow> bool mm" where
  "is_whitelisted Q system_id domain_addr value direction =
     bindE (getsE (active_patterns system_id domain_addr direction)) (\<lambda>patterns.
       if patterns = [] then returnE False else is_whitelisted_wildcard Q patterns value)"

text \<open>\<open>ExactKeyResolver\<close>: one key, the address itself with the system that registered it.\<close>

definition resolve_keys :: "string \<Rightarrow> (string \<times> string) list mm" where
  "resolve_keys addr = bindE (get_system_domain_by_name addr) (\<lambda>r.
     case r of None \<Rightarrow> throwE (NotFound (''domain not found: '' @ addr))
     | Some d \<Rightarrow> returnE [(sd_system_id d, addr)])"

section \<open>Webhook targets\<close>

datatype ip_addr = V4 "8 word" "8 word" "8 word" "8 word" | V6 "16 word list"

definition is_unspecified :: "ip_addr \<Rightarrow> bool" where
  "is_unspecified ip = (case ip of V4 a b c d \<Rightarrow> a = 0 \<and> b = 0 \<and> c = 0 \<and> d = 0 | V6 s \<Rightarrow> s = replicate 8 0)"

definition is_loopback :: "ip_addr \<Rightarrow> bool" where
  "is_loopback ip = (case ip of V4 a b c d \<Rightarrow> a = 127 | V6 s \<Rightarrow> s = replicate 7 0 @ [1])"

unbundle bit_operations_syntax

definition ip_is_blocked :: "ip_addr \<Rightarrow> bool \<Rightarrow> bool" where
  "ip_is_blocked ip allow_private =
     (if allow_private then False
      else if is_unspecified ip \<or> is_loopback ip then True
      else (case ip of
        V4 a b c d \<Rightarrow> a = 10 \<or> (a = 172 \<and> 16 \<le> b \<and> b \<le> 31) \<or> (a = 192 \<and> b = 168) \<or> (a = 169 \<and> b = 254)
      | V6 s \<Rightarrow> (case s of [] \<Rightarrow> False
          | s0 # _ \<Rightarrow> s0 AND 0xfe00 = 0xfc00 \<or> s0 AND 0xffc0 = 0xfe80)))"

text \<open>Rust's parser of literal addresses.\<close>

definition digit_val :: "char \<Rightarrow> nat option" where
  "digit_val c = (if 48 \<le> code c \<and> code c \<le> 57 then Some (code c - 48) else None)"

definition hex_val :: "char \<Rightarrow> nat option" where
  "hex_val c = (case digit_val c of Some n \<Rightarrow> Some n
     | None \<Rightarrow> if 97 \<le> code c \<and> code c \<le> 102 then Some (code c - 87)
               else if 65 \<le> code c \<and> code c \<le> 70 then Some (code c - 55) else None)"

fun read_number :: "(char \<Rightarrow> nat option) \<Rightarrow> nat \<Rightarrow> nat \<Rightarrow> string \<Rightarrow> nat option" where
  "read_number val radix acc [] = Some acc"
| "read_number val radix acc (c # s) = (case val c of None \<Rightarrow> None
     | Some n \<Rightarrow> read_number val radix (acc * radix + n) s)"

definition parse_octet :: "string \<Rightarrow> 8 word option" where
  "parse_octet s = (if s = [] \<or> 3 < length s \<or> (1 < length s \<and> hd s = CHR ''0'') then None
     else (case read_number digit_val 10 0 s of None \<Rightarrow> None
           | Some n \<Rightarrow> if n \<le> 255 then Some (word_of_nat n) else None))"

definition parse_v4 :: "string \<Rightarrow> (8 word \<times> 8 word \<times> 8 word \<times> 8 word) option" where
  "parse_v4 s = (case map parse_octet (split_char (CHR ''.'') s) of
     [Some a, Some b, Some c, Some d] \<Rightarrow> Some (a, b, c, d) | _ \<Rightarrow> None)"

definition parse_group :: "string \<Rightarrow> 16 word option" where
  "parse_group s = (if s = [] \<or> 4 < length s then None
     else map_option word_of_nat (read_number hex_val 16 0 s))"

text \<open>Groups between colons; the last one may be a dotted quad, which counts for two.\<close>

fun parse_groups :: "string list \<Rightarrow> 16 word list option" where
  "parse_groups [] = Some []"
| "parse_groups [g] = (case parse_group g of Some w \<Rightarrow> Some [w]
     | None \<Rightarrow> (case parse_v4 g of None \<Rightarrow> None
         | Some (a, b, c, d) \<Rightarrow> Some [word_of_nat (unat a * 256 + unat b), word_of_nat (unat c * 256 + unat d)]))"
| "parse_groups (g # gs) = (case parse_group g of None \<Rightarrow> None
     | Some w \<Rightarrow> map_option (Cons w) (parse_groups gs))"

fun split_double :: "string \<Rightarrow> (string \<times> string) option" where
  "split_double (a # b # s) = (if a = CHR '':'' \<and> b = CHR '':'' then Some ([], s)
     else map_option (\<lambda>(x, y). (a # x, y)) (split_double (b # s)))"
| "split_double _ = None"

definition colon_groups :: "string \<Rightarrow> 16 word list option" where
  "colon_groups s = (if s = [] then Some [] else parse_groups (split_char (CHR '':'') s))"

definition parse_v6 :: "string \<Rightarrow> 16 word list option" where
  "parse_v6 s = (case split_double s of
     None \<Rightarrow> (case colon_groups s of Some ws \<Rightarrow> if length ws = 8 then Some ws else None | None \<Rightarrow> None)
   | Some (h, t) \<Rightarrow> (case (colon_groups h, colon_groups t) of
       (Some hs, Some ts) \<Rightarrow>
         if length hs + length ts \<le> 7 \<and> CHR ''.'' \<notin> set h
         then Some (hs @ replicate (8 - length hs - length ts) 0 @ ts) else None
     | _ \<Rightarrow> None))"

definition parse_ip :: "string \<Rightarrow> ip_addr option" where
  "parse_ip s = (case parse_v4 s of Some (a, b, c, d) \<Rightarrow> Some (V4 a b c d)
     | None \<Rightarrow> map_option V6 (parse_v6 s))"

text \<open>The host of a URL: authority without user information, brackets and port.\<close>

fun split_str_once :: "string \<Rightarrow> string \<Rightarrow> (string \<times> string) option" where
  "split_str_once sep [] = (if sep = [] then Some ([], []) else None)"
| "split_str_once sep (c # s) = (if starts_with (c # s) sep then Some ([], drop (length sep) (c # s))
     else map_option (\<lambda>(a, b). (c # a, b)) (split_str_once sep s))"

definition before_any :: "string \<Rightarrow> string \<Rightarrow> string" where
  "before_any stops s = takeWhile (\<lambda>c. c \<notin> set stops) s"

definition url_host :: "string \<Rightarrow> string" where
  "url_host u = (case split_str_once ''://'' u of None \<Rightarrow> []
     | Some (_, r) \<Rightarrow>
         (let rest = (case split_str_once ''://'' r of None \<Rightarrow> r | Some (a, _) \<Rightarrow> a);
              host_port = last (split_char (CHR ''@'') (before_any ''/?#'' rest)) in
          case strip_prefix ''['' host_port of
            Some inner \<Rightarrow> before_any '']'' inner
          | None \<Rightarrow> before_any '':'' host_port))"

definition is_http_url :: "string \<Rightarrow> bool" where
  "is_http_url u \<longleftrightarrow> starts_with u ''http://'' \<or> starts_with u ''https://''"

type_synonym resolver = "string \<Rightarrow> ip_addr list option"

definition target_error :: "string \<Rightarrow> app_error" where
  "target_error url = Validation (''webhook_target_not_allowed: '' @ url)"

definition validate_webhook_target :: "resolver \<Rightarrow> string \<Rightarrow> bool \<Rightarrow> app_error + unit" where
  "validate_webhook_target lookup_host url allow_private =
     (let u = trim url; host = url_host u in
      if \<not> is_http_url u then Inl (Validation (''webhook_url must be an absolute http(s) URL: '' @ u))
      else if host = [] then Inl (Validation (''webhook_url has no host: '' @ u))
      else (case parse_ip host of
        Some ip \<Rightarrow> if ip_is_blocked ip allow_private then Inl (target_error u) else Inr ()
      | None \<Rightarrow> (case lookup_host host of
          None \<Rightarrow> Inr ()
        | Some ips \<Rightarrow> if list_ex (\<lambda>ip. ip_is_blocked ip allow_private) ips then Inl (target_error u) else Inr ())))"

text \<open>The client of one delivery; \<open>build_ok\<close> is the answer of the client builder.\<close>

datatype client = BaseClient | PinnedClient string ip_addr

definition pinned_client :: "resolver \<Rightarrow> bool \<Rightarrow> string \<Rightarrow> bool \<Rightarrow> string + client" where
  "pinned_client lookup_host build_ok url allow_private =
     (let u = trim url; host = url_host u; refused = (\<lambda>why. Inl (''webhook_target_not_allowed: '' @ why)) in
      if \<not> is_http_url u then refused ''not an absolute http(s) URL''
      else if host = [] then refused ''no host''
      else (case parse_ip host of
        Some ip \<Rightarrow> if ip_is_blocked ip allow_private then refused ''blocked address'' else Inr BaseClient
      | None \<Rightarrow> (case lookup_host host of
          None \<Rightarrow> refused ''host does not resolve''
        | Some [] \<Rightarrow> refused ''host resolved to no addresses''
        | Some (ip # _) \<Rightarrow> if ip_is_blocked ip allow_private then refused ''blocked address (possible DNS rebinding)''
            else if \<not> build_ok then refused ''pinned client build failed''
            else Inr (PinnedClient host ip))))"

section \<open>The environment factory\<close>

record env_cfg =
  ef_resolver :: resolver
  ef_allow_private :: bool

definition validate_webhook_url :: "env_cfg \<Rightarrow> string option \<Rightarrow> app_error + unit" where
  "validate_webhook_url F webhook_url = (case webhook_url of
     None \<Rightarrow> Inr ()
   | Some w \<Rightarrow> if trim w = [] then Inr () else validate_webhook_target (ef_resolver F) (trim w) (ef_allow_private F))"

definition lookup_domain_addr :: "string \<Rightarrow> system_domain option mm" where
  "lookup_domain_addr key = get_system_domain_by_name key"

definition upsert_meta_of :: "string \<Rightarrow> string \<Rightarrow> string option \<Rightarrow> unit mm" where
  "upsert_meta_of domain system_id manager_address =
     (if CHR ''@'' \<in> set domain then okE (upsert_domain_addr_meta domain system_id manager_address None None)
      else returnE ())"

definition create_domain ::
    "env_cfg \<Rightarrow> string \<Rightarrow> string \<Rightarrow> string \<Rightarrow> string option \<Rightarrow> string option \<Rightarrow> string option \<Rightarrow> system_domain mm" where
  "create_domain F i system_id domain webhook_url webhook_secret manager_address =
     thenE (liftE (validate_webhook_url F webhook_url)) (bindE (lookup_domain_addr domain) (\<lambda>existing.
       case existing of
         Some d \<Rightarrow>
           if sd_system_id d \<noteq> system_id
           then throwE (Conflict (''Domain '' @ domain @ '' already exists (owned by another system)''))
           else bindE (update_system_domain (sd_id d) webhook_url webhook_secret (Some True)) (\<lambda>updated.
             case updated of
               None \<Rightarrow> throwE (Internal (''update_system_domain returned no rows for existing domain '' @ domain))
             | Some u \<Rightarrow> thenE (upsert_meta_of domain system_id manager_address) (returnE u))
       | None \<Rightarrow> bindE (insert_system_domain i system_id domain webhook_url webhook_secret) (\<lambda>r.
           thenE (upsert_meta_of domain system_id manager_address) (returnE r))))"

definition resolve_domain_from_address :: "string \<Rightarrow> system_domain option mm" where
  "resolve_domain_from_address address = bindE (tryE (lookup_domain_addr address)) (\<lambda>r.
     case r of Inr (Some d) \<Rightarrow> returnE (Some d)
     | _ \<Rightarrow> lookup_domain_addr (last (split_char (CHR ''@'') address)))"

definition resolve_system_id_from_domain :: "string \<Rightarrow> string mm" where
  "resolve_system_id_from_domain domain = bindE (lookup_domain_addr domain) (\<lambda>r.
     case r of None \<Rightarrow> throwE (NotFound (''domain not found: '' @ domain)) | Some d \<Rightarrow> returnE (sd_system_id d))"

definition list_domains :: "string \<Rightarrow> system_domain list mm" where
  "list_domains domain = bindE (resolve_system_id_from_domain domain) list_system_domains"

definition update_domain ::
    "env_cfg \<Rightarrow> string \<Rightarrow> string option \<Rightarrow> string option \<Rightarrow> bool option \<Rightarrow> system_domain option mm" where
  "update_domain F i webhook_url webhook_secret is_active =
     thenE (liftE (validate_webhook_url F webhook_url)) (update_system_domain i webhook_url webhook_secret is_active)"

definition delete_domain :: "string \<Rightarrow> unit mm" where
  "delete_domain i = bindE (get_system_domain i) (\<lambda>existing. thenE (delete_system_domain i)
     (case existing of
        Some d \<Rightarrow> if CHR ''@'' \<in> set (sd_domain d) then okE (delete_domain_addr_meta (sd_domain d)) else returnE ()
      | None \<Rightarrow> returnE ()))"

definition resolve_webhook_for_domain :: "system_domain \<Rightarrow> string \<times> string" where
  "resolve_webhook_for_domain d = (unwrap_or [] (sd_webhook_url d), unwrap_or [] (sd_webhook_secret d))"

subsection \<open>Whitelist entries\<close>

definition create_whitelist_entry_full ::
    "string \<Rightarrow> string \<Rightarrow> string \<Rightarrow> string \<Rightarrow> int option \<Rightarrow> string option \<Rightarrow> whitelist mm" where
  "create_whitelist_entry_full domain_addr direction value category api_key_id description =
     bindE (resolve_keys domain_addr) (\<lambda>keys.
       bindE (insert_whitelist (fst (hd keys)) domain_addr direction value category api_key_id description) (\<lambda>r.
         thenE (invalidate (wl_value r)) (returnE r)))"

definition create_whitelist_entry :: "string \<Rightarrow> string \<Rightarrow> string \<Rightarrow> string option \<Rightarrow> whitelist mm" where
  "create_whitelist_entry domain_addr direction value description =
     create_whitelist_entry_full domain_addr direction value ''system'' None description"

definition list_whitelist_entries :: "string \<Rightarrow> whitelist list mm" where
  "list_whitelist_entries domain = bindE (tryE (resolve_system_id_from_domain domain)) (\<lambda>r.
     case r of Inr system_id \<Rightarrow> list_whitelists system_id | Inl _ \<Rightarrow> returnE [])"

definition update_whitelist_entry :: "int \<Rightarrow> bool option \<Rightarrow> string option \<Rightarrow> whitelist option mm" where
  "update_whitelist_entry i is_active direction = bindE (update_whitelist i is_active direction) (\<lambda>r.
     thenE (case r of None \<Rightarrow> returnE () | Some w \<Rightarrow> invalidate (wl_value w)) (returnE r))"

definition delete_whitelist_entry :: "int \<Rightarrow> unit mm" where
  "delete_whitelist_entry i = bindE (get_whitelist_by_id i) (\<lambda>r.
     thenE (case r of None \<Rightarrow> returnE () | Some w \<Rightarrow> invalidate (wl_value w)) (delete_whitelist i))"

definition delete_whitelist_entry_by_value :: "string \<Rightarrow> string \<Rightarrow> unit mm" where
  "delete_whitelist_entry_by_value domain_addr value =
     thenE (invalidate value) (delete_whitelist_by_domain_and_value domain_addr value)"

fun count_over_keys :: "string list \<Rightarrow> (string \<times> string) list \<Rightarrow> nat mm" where
  "count_over_keys directions [] = returnE 0"
| "count_over_keys directions ((system_id, lookup_key) # keys) =
     bindE (count_whitelist_entries system_id lookup_key directions) (\<lambda>count.
       if 0 < count then returnE count else count_over_keys directions keys)"

definition count_whitelist_scope :: "string \<Rightarrow> string list \<Rightarrow> nat mm" where
  "count_whitelist_scope domain directions = bindE (resolve_keys domain) (count_over_keys directions)"

fun any_key_whitelisted :: "sql_env \<Rightarrow> string \<Rightarrow> string \<Rightarrow> (string \<times> string) list \<Rightarrow> bool mm" where
  "any_key_whitelisted Q value direction [] = returnE False"
| "any_key_whitelisted Q value direction ((system_id, lookup_key) # keys) =
     bindE (is_whitelisted Q system_id lookup_key value direction) (\<lambda>b.
       if b then returnE True else any_key_whitelisted Q value direction keys)"

definition check_whitelisted :: "sql_env \<Rightarrow> string \<Rightarrow> string \<Rightarrow> string \<Rightarrow> bool mm" where
  "check_whitelisted Q domain_addr value direction =
     (if is_board_address domain_addr then is_board_member domain_addr value
      else bindE (resolve_keys domain_addr) (\<lambda>keys.
        bindE (any_key_whitelisted Q value direction keys) (\<lambda>b.
          if b then returnE True
          else if is_board_address value then is_board_member value domain_addr
          else returnE False)))"

subsection \<open>Owners and endpoints\<close>

definition owning_system_of :: "string \<Rightarrow> string option mm" where
  "owning_system_of domain_addr =
     bindE (if CHR ''@'' \<in> set domain_addr then get_api_key_by_email domain_addr else returnE None) (\<lambda>k.
       case k of
         Some x \<Rightarrow> returnE (Some (ak_system_id x))
       | None \<Rightarrow> bindE (get_active_system_domain_by_domain domain_addr) (\<lambda>d. returnE (map_option sd_system_id d)))"

definition nonempty_url :: "system_domain \<Rightarrow> string option" where
  "nonempty_url d = (case sd_webhook_url d of Some u \<Rightarrow> if u = [] then None else Some u | None \<Rightarrow> None)"

definition resolve_webhook_url :: "string \<Rightarrow> string option mm" where
  "resolve_webhook_url sender = (let lower = to_lowercase sender in
     bindE (get_active_system_domain_by_domain lower) (\<lambda>exact.
       case exact of
         Some d \<Rightarrow> returnE (nonempty_url d)
       | None \<Rightarrow> (case nth_opt (split_char (CHR ''@'') lower) 1 of
           None \<Rightarrow> returnE None
         | Some domain \<Rightarrow> bindE (get_active_system_domain_by_domain domain) (\<lambda>bare.
             returnE (Option.bind bare nonempty_url)))))"

fun build_endpoints :: "(string \<times> json) list \<Rightarrow> string list \<Rightarrow> (string \<times> json) list mm" where
  "build_endpoints m [] = returnE m"
| "build_endpoints m (email # rest) = (let lower = to_lowercase email in
     if lower \<in> fst ` set m then build_endpoints m rest
     else bindE (resolve_webhook_url lower) (\<lambda>url.
       case url of
         None \<Rightarrow> build_endpoints m rest
       | Some u \<Rightarrow> build_endpoints (m @ [(lower, JObj [(''url'', JStr u), (''status'', JStr ''pending'')])]) rest))"

definition build_endpoints_for_recipients :: "string list \<Rightarrow> json mm" where
  "build_endpoints_for_recipients rcpts = bindE (build_endpoints [] rcpts) (\<lambda>m. returnE (JObj m))"

end
