(* ===== verification/Text_Functions.thy ===== *)
theory Text_Functions
  imports Prelude
begin

text \<open>
  Further string functions of Rust's standard library, on byte sequences: \<open>lines\<close>, \<open>find\<close>, \<open>rfind\<close>,
  \<open>replace\<close>, \<open>repeat\<close> and \<open>trim_end\<close>.
\<close>

section \<open>Lines\<close>

definition line_feed :: char where "line_feed = CHR 0x0A"

definition strip_cr :: "string \<Rightarrow> string" where
  "strip_cr l = (if l \<noteq> [] \<and> last l = CHR 0x0D then butlast l else l)"

text \<open>\<open>str::lines\<close>: a final line feed opens no further line, a carriage return before one is dropped.\<close>

definition split_lines :: "string \<Rightarrow> string list" where
  "split_lines s = (case split_char line_feed s of ls \<Rightarrow>
     map strip_cr (butlast ls) @ (if last ls = [] then [] else [last ls]))"

section \<open>Searching\<close>

fun find_sub :: "string \<Rightarrow> string \<Rightarrow> nat option" where
  "find_sub p [] = (if p = [] then Some 0 else None)"
| "find_sub p (c # s) = (if starts_with (c # s) p then Some 0 else map_option Suc (find_sub p s))"

text \<open>The last position.\<close>

fun rfind_sub :: "string \<Rightarrow> string \<Rightarrow> nat option" where
  "rfind_sub p [] = (if p = [] then Some 0 else None)"
| "rfind_sub p (c # s) = (case rfind_sub p s of
     Some i \<Rightarrow> Some (Suc i)
   | None \<Rightarrow> if starts_with (c # s) p then Some 0 else None)"

function replace_str :: "string \<Rightarrow> string \<Rightarrow> string \<Rightarrow> string" where
  "replace_str p r [] = []"
| "replace_str p r (c # s) =
     (if p \<noteq> [] \<and> starts_with (c # s) p then r @ replace_str p r (drop (length p) (c # s))
      else c # replace_str p r s)"
  by pat_completeness auto
termination
proof (relation "measure (\<lambda>(p, r, s). length s)", goal_cases)
  case (2 p r c s)
  then have "0 < length p" by simp
  then show ?case by simp
qed auto

definition repeat_str :: "string \<Rightarrow> nat \<Rightarrow> string" where
  "repeat_str s n = concat (replicate n s)"

definition trim_end :: "string \<Rightarrow> string" where
  "trim_end s = rev (dropWhile is_whitespace (rev s))"

fun first_some :: "('a \<Rightarrow> 'b option) \<Rightarrow> 'a list \<Rightarrow> 'b option" where
  "first_some f [] = None"
| "first_some f (x # xs) = (case f x of Some y \<Rightarrow> Some y | None \<Rightarrow> first_some f xs)"

text \<open>A text between single quotes.\<close>

definition quoted_text :: "string \<Rightarrow> string" where "quoted_text s = CHR 0x27 # s @ [CHR 0x27]"

lemma find_sub_Some: "find_sub p s = Some i \<Longrightarrow> \<exists>a b. s = a @ p @ b \<and> length a = i"
proof (induction s arbitrary: i)
  case (Cons c s)
  show ?case
  proof (cases "starts_with (c # s) p")
    case True
    with Cons.prems show ?thesis by (auto simp: starts_with_iff)
  next
    case False
    with Cons.prems obtain j where j: "find_sub p s = Some j" "i = Suc j" by auto
    from Cons.IH [OF j(1)] obtain a b where "s = a @ p @ b" "length a = j" by blast
    then have "c # s = (c # a) @ p @ b" "length (c # a) = i" using j(2) by simp_all
    then show ?thesis by blast
  qed
qed (auto split: if_splits)

lemma find_sub_contains: "find_sub p s \<noteq> None \<longleftrightarrow> contains_str s p"
  by (induction s) auto

lemma rfind_sub_Some: "rfind_sub p s = Some i \<Longrightarrow> \<exists>a b. s = a @ p @ b \<and> length a = i"
proof (induction s arbitrary: i)
  case (Cons c s)
  show ?case
  proof (cases "rfind_sub p s")
    case None
    with Cons.prems have "starts_with (c # s) p" "i = 0" by (auto split: if_splits)
    then show ?thesis by (auto simp: starts_with_iff)
  next
    case (Some j)
    from Cons.IH [OF Some] obtain a b where "s = a @ p @ b" "length a = j" by blast
    then have "c # s = (c # a) @ p @ b" "length (c # a) = i" using Cons.prems Some by simp_all
    then show ?thesis by blast
  qed
qed (auto split: if_splits)

lemma first_some_Some: "first_some f xs = Some y \<Longrightarrow> \<exists>x \<in> set xs. f x = Some y"
  by (induction xs) (auto split: option.splits)

lemma first_some_None: "first_some f xs = None \<longleftrightarrow> (\<forall>x \<in> set xs. f x = None)"
  by (induction xs) (auto split: option.splits)

end
