(* ===== verification/Api_Auth.thy ===== *)
theory Api_Auth
  imports Env_Factory Text_Functions
begin

text \<open>
  Scopes (\<open>src/src/core/scope.rs\<close>) and the authentication of API requests (\<open>src/src/core/api/auth.rs\<close>) with the
  replay cache and the tracker of used keys of \<open>src/src/core/factory.rs\<close>. A request is what the middleware
  reads of it: headers, method, path and the frames of its body. Its answer is a refusal with a status
  and a text, or the key record that is handed to the handler. Clock readings of the window check and of
  the cache are fields of the request's environment; instants are milliseconds, natural numbers whose
  subtraction stops at zero as the code's does.
\<close>

section \<open>Scopes\<close>

datatype scope = PlatformAdmin | SystemAdmin | AgentAdmin | Agent | Bridge

definition scope_parse_db :: "string \<Rightarrow> scope option" where
  "scope_parse_db s =
     (if s \<in> {''platform'', ''admin'', ''system_admin''} then Some PlatformAdmin
      else if s \<in> {''system'', ''tenant_admin''} then Some SystemAdmin
      else if s = ''agent_admin'' then Some AgentAdmin
      else if s = ''agent'' then Some Agent
      else if s \<in> {''bridge'', ''pending''} then Some Bridge
      else None)"

fun scope_as_str :: "scope \<Rightarrow> string" where
  "scope_as_str PlatformAdmin = ''platform''"
| "scope_as_str SystemAdmin = ''system''"
| "scope_as_str AgentAdmin = ''agent_admin''"
| "scope_as_str Agent = ''agent''"
| "scope_as_str Bridge = ''bridge''"

datatype key_category = KPlatform | KSystem | KDomain | KAgent | KAgentAdmin

fun key_category_as_str :: "key_category \<Rightarrow> string" where
  "key_category_as_str KPlatform = ''platform''"
| "key_category_as_str KSystem = ''system''"
| "key_category_as_str KDomain = ''domain''"
| "key_category_as_str KAgent = ''agent''"
| "key_category_as_str KAgentAdmin = ''agent_admin''"

definition key_category_parse_db :: "string \<Rightarrow> key_category option" where
  "key_category_parse_db s = find (\<lambda>c. key_category_as_str c = s) [KPlatform, KSystem, KDomain, KAgent, KAgentAdmin]"

datatype whitelist_category = WSystem | WAgent

fun whitelist_category_as_str :: "whitelist_category \<Rightarrow> string" where
  "whitelist_category_as_str WSystem = ''system''"
| "whitelist_category_as_str WAgent = ''agent''"

definition whitelist_category_parse_db :: "string \<Rightarrow> whitelist_category option" where
  "whitelist_category_parse_db s = find (\<lambda>c. whitelist_category_as_str c = s) [WSystem, WAgent]"

interpretation scope_text: text_codec scope_as_str scope_parse_db
  by unfold_locales (rename_tac x, case_tac x; simp add: scope_parse_db_def)

interpretation category_text: text_codec key_category_as_str key_category_parse_db
  by unfold_locales (rename_tac x, case_tac x; simp add: key_category_parse_db_def)

interpretation whitelist_text: text_codec whitelist_category_as_str whitelist_category_parse_db
  by unfold_locales (rename_tac x, case_tac x; simp add: whitelist_category_parse_db_def)

section \<open>Scope guards\<close>

record http_error =
  he_status :: nat
  he_error :: string
  he_detail :: "string option"

definition http_err :: "nat \<Rightarrow> string \<Rightarrow> http_error" where
  "http_err status error = \<lparr>he_status = status, he_error = error, he_detail = None\<rparr>"

definition http_detail :: "nat \<Rightarrow> string \<Rightarrow> string \<Rightarrow> http_error" where
  "http_detail status error detail = \<lparr>he_status = status, he_error = error, he_detail = Some detail\<rparr>"

text \<open>Rust's debug form of a list of texts without characters to escape.\<close>

definition debug_strings :: "string list \<Rightarrow> string" where
  "debug_strings xs = ''['' @ join '', '' (map (\<lambda>s. CHR 0x22 # s @ [CHR 0x22]) xs) @ '']''"

definition has_scope :: "api_key \<Rightarrow> scope \<Rightarrow> bool" where
  "has_scope key sc = list_ex (\<lambda>s. scope_parse_db s = Some sc) (ak_scopes key)"

definition is_agent_scope :: "api_key \<Rightarrow> bool" where "is_agent_scope key = has_scope key Agent"
definition is_system_admin_scope :: "api_key \<Rightarrow> bool" where "is_system_admin_scope key = has_scope key SystemAdmin"
definition is_agent_admin_scope :: "api_key \<Rightarrow> bool" where "is_agent_admin_scope key = has_scope key AgentAdmin"
definition is_platform_admin_scope :: "api_key \<Rightarrow> bool" where "is_platform_admin_scope key = has_scope key PlatformAdmin"

definition is_admin_scope :: "api_key \<Rightarrow> bool" where
  "is_admin_scope key = (is_platform_admin_scope key \<or> is_system_admin_scope key \<or> is_agent_admin_scope key)"

definition required_of :: "string \<Rightarrow> scope option" where
  "required_of s = find (\<lambda>sc. scope_as_str sc = s) [PlatformAdmin, SystemAdmin, AgentAdmin, Agent, Bridge]"

definition require_scope :: "api_key \<Rightarrow> string \<Rightarrow> http_error + unit" where
  "require_scope key required_scope = (case required_of required_scope of
     None \<Rightarrow> Inl (http_err 403 (''Unknown scope: '' @ required_scope))
   | Some required \<Rightarrow>
       if has_scope key required then Inr ()
       else Inl (http_detail 403 (''Insufficient scope: '' @ required_scope)
              (''Key '' @ quoted_text (ak_key_prefix key) @ '' has scopes: '' @ debug_strings (ak_scopes key))))"

definition require_scope_any :: "api_key \<Rightarrow> string list \<Rightarrow> http_error + unit" where
  "require_scope_any key required = (case required of
     [] \<Rightarrow> Inl (http_detail 403 ''No valid scopes specified'' ''require_scope_any called with empty scope list'')
   | s # _ \<Rightarrow> if list_ex (\<lambda>r. require_scope key r = Inr ()) required then Inr () else require_scope key s)"

definition check_domain_access :: "api_key \<Rightarrow> string \<Rightarrow> string \<Rightarrow> http_error + unit" where
  "check_domain_access key target role_label =
     (if is_platform_admin_scope key \<or> is_system_admin_scope key then Inr ()
      else if ak_email_address key = [] then Inr ()
      else if CHR ''@'' \<notin> set (ak_email_address key) \<and>
              ak_email_address key = last (split_char (CHR ''@'') target) then Inr ()
      else if ak_email_address key = target then Inr ()
      else Inl (http_detail 403 ''forbidden'' (role_label @ '' email '' @ quoted_text (ak_email_address key) @
        '' does not match target '' @ quoted_text target @ '' '' @ utf8 [226, 128, 148] @ '' cross-address access denied'')))"

definition require_domain_match :: "api_key \<Rightarrow> string \<Rightarrow> http_error + unit" where
  "require_domain_match key target = check_domain_access key target ''API key''"

definition require_agent_match :: "api_key \<Rightarrow> string \<Rightarrow> http_error + unit" where
  "require_agent_match key target = check_domain_access key target ''AgentAdmin''"

definition check_whitelist_access :: "api_key \<Rightarrow> string \<Rightarrow> string option \<Rightarrow> http_error + unit" where
  "check_whitelist_access key domain_addr target_system =
     (if is_platform_admin_scope key \<or> is_system_admin_scope key then Inr ()
      else if is_agent_admin_scope key \<and> target_system = Some (ak_system_id key) then Inr ()
      else if is_agent_scope key \<and> ak_email_address key = domain_addr then Inr ()
      else Inl (http_detail 403 ''forbidden'' ''Insufficient scope or email mismatch for whitelist operation''))"

section \<open>Replay cache\<close>

record sig_cache =
  sg_cap :: nat
  sg_ttl :: nat
  sg_key :: "(string \<times> nat) list"
  sg_order :: "string list"

definition SIGNATURE_CACHE_CAPACITY :: nat where "SIGNATURE_CACHE_CAPACITY = 10000"

definition signature_cache_new :: "nat \<Rightarrow> nat \<Rightarrow> sig_cache" where
  "signature_cache_new cap ttl = \<lparr>sg_cap = cap, sg_ttl = ttl, sg_key = [], sg_order = []\<rparr>"

text \<open>Oldest insertions first; an entry of the pool whose key is gone removes nothing.\<close>

fun evict :: "nat \<Rightarrow> (string \<times> nat) list \<Rightarrow> string list \<Rightarrow> (string \<times> nat) list \<times> string list" where
  "evict cap keys [] = (keys, [])"
| "evict cap keys (k # ks) = (if cap < length keys then evict cap (AList.delete k keys) ks else (keys, k # ks))"

definition record_signature :: "nat \<Rightarrow> string \<Rightarrow> sig_cache \<Rightarrow> sig_cache" where
  "record_signature t nonce c =
     (let (keys, order) = evict (sg_cap c) (AList.update nonce t (sg_key c)) (sg_order c @ [nonce]) in
      c\<lparr>sg_key := keys, sg_order := order\<rparr>)"

definition check_and_record :: "nat \<Rightarrow> string \<Rightarrow> sig_cache \<Rightarrow> nat option \<times> sig_cache" where
  "check_and_record t nonce c = (case map_of (sg_key c) nonce of
     Some ts \<Rightarrow>
       if t - ts \<le> sg_ttl c then (Some ts, c)
       else (None, record_signature t nonce (c\<lparr>sg_key := AList.delete nonce (sg_key c)\<rparr>))
   | None \<Rightarrow> (None, record_signature t nonce c))"

section \<open>Signatures\<close>

definition DEFAULT_SIGNATURE_WINDOW_MS :: nat where "DEFAULT_SIGNATURE_WINDOW_MS = 120000"

definition REGULAR_API_BODY_CAP :: nat where "REGULAR_API_BODY_CAP = 1024 * 1024"

record body_caps =
  bc_regular :: nat
  bc_attachment :: nat

definition for_path :: "body_caps \<Rightarrow> string \<Rightarrow> nat" where
  "for_path caps path = (if starts_with path ''/api/v1/upload'' then bc_attachment caps else bc_regular caps)"

definition window_expired :: "nat \<Rightarrow> nat \<Rightarrow> nat \<Rightarrow> bool" where
  "window_expired ts t window = (window < (t - ts) + (ts - t))"

record auth_env =
  ae_ext :: ext
  ae_sql :: sql_env
  ae_crypto :: crypto
  ae_seal_key :: "string option"
  ae_hex_decode :: "string \<Rightarrow> string option"
  ae_window_ms :: nat
  ae_caps :: body_caps
  ae_now :: nat
  ae_seen :: nat

definition LF :: string where "LF = [CHR 0x0A]"

definition signature_base :: "ext \<Rightarrow> string \<Rightarrow> string \<Rightarrow> string \<Rightarrow> string \<Rightarrow> string" where
  "signature_base E meth path timestamp body = meth @ LF @ path @ LF @ timestamp @ LF @ sha256_hex E body"

fun verify_request_signature ::
    "auth_env \<Rightarrow> api_key list \<Rightarrow> string \<Rightarrow> string \<Rightarrow> string \<Rightarrow> string \<Rightarrow> string \<Rightarrow> api_key option" where
  "verify_request_signature A [] meth path timestamp body sig = None"
| "verify_request_signature A (r # rs) meth path timestamp body sig =
     (case signing_material (ae_crypto A) (ae_seal_key A) (ak_key_hash r) of
        Inl _ \<Rightarrow> verify_request_signature A rs meth path timestamp body sig
      | Inr material \<Rightarrow>
          if cr_hmac (ae_crypto A) material (signature_base (ae_ext A) meth path timestamp body) = sig
          then Some r else verify_request_signature A rs meth path timestamp body sig)"

text \<open>\<open>str::parse::<u64>\<close>.\<close>

definition parse_u64 :: "string \<Rightarrow> nat option" where
  "parse_u64 s = (let digits = (case strip_prefix ''+'' s of Some d \<Rightarrow> d | None \<Rightarrow> s) in
     if digits = [] then None
     else (case read_number digit_val 10 0 digits of None \<Rightarrow> None
           | Some n \<Rightarrow> if n < 2 ^ 64 then Some n else None))"

section \<open>The middleware\<close>

datatype frame = Chunk string | ReadError string

record request =
  rq_identity :: "string option"
  rq_timestamp :: "string option"
  rq_signature :: "string option"
  rq_method :: string
  rq_path :: string
  rq_body :: "frame list"

datatype 'a reply = Refused nat string | Passed 'a

datatype body_read = Whole string | OverCap | Unreadable

fun read_body :: "nat \<Rightarrow> string \<Rightarrow> frame list \<Rightarrow> body_read" where
  "read_body cap buf [] = Whole buf"
| "read_body cap buf (ReadError e # fs) = Unreadable"
| "read_body cap buf (Chunk c # fs) =
     (if cap < length (buf @ c) then OverCap else read_body cap (buf @ c) fs)"

record auth_state =
  au_db :: mdb
  au_sigs :: "sig_cache option"
  au_used :: "int list"

definition check_and_record_signature :: "nat \<Rightarrow> string \<Rightarrow> auth_state \<Rightarrow> nat option \<times> auth_state" where
  "check_and_record_signature t nonce st = (case au_sigs st of
     None \<Rightarrow> (None, st)
   | Some c \<Rightarrow> (case check_and_record t nonce c of (seen, c') \<Rightarrow> (seen, st\<lparr>au_sigs := Some c'\<rparr>)))"

definition note_api_key_last_used :: "int \<Rightarrow> auth_state \<Rightarrow> auth_state" where
  "note_api_key_last_used i st = st\<lparr>au_used := List.insert i (au_used st)\<rparr>"

definition drain_last_used :: "auth_state \<Rightarrow> int list \<times> auth_state" where
  "drain_last_used st = (au_used st, st\<lparr>au_used := []\<rparr>)"

definition nonce_key :: "string \<Rightarrow> string \<Rightarrow> string \<Rightarrow> string \<Rightarrow> string" where
  "nonce_key identity timestamp meth path = identity @ LF @ timestamp @ LF @ meth @ LF @ path"

definition authenticate ::
    "auth_env \<Rightarrow> request \<Rightarrow> string \<Rightarrow> string \<Rightarrow> string \<Rightarrow> string \<Rightarrow> auth_state \<Rightarrow> api_key reply \<times> auth_state" where
  "authenticate A rq identity timestamp sig body st =
     (case list_api_keys_by_identity (ae_sql A) identity (au_db st) of
        (Inl _, db) \<Rightarrow> (Refused 401 ''Authentication error'', st\<lparr>au_db := db\<rparr>)
      | (Inr candidates, db) \<Rightarrow>
          (case verify_request_signature A candidates (rq_method rq) (rq_path rq) timestamp body sig of
             None \<Rightarrow> (Refused 401 ''Invalid X-Api-Signature'', st\<lparr>au_db := db\<rparr>)
           | Some r \<Rightarrow>
               (case check_and_record_signature (ae_seen A) (nonce_key identity timestamp (rq_method rq) (rq_path rq))
                       (st\<lparr>au_db := db\<rparr>) of
                  (Some _, st') \<Rightarrow> (Refused 409 ''replayed'', st')
                | (None, st') \<Rightarrow> (Passed r, note_api_key_last_used (ak_id r) st'))))"

definition auth_layer :: "auth_env \<Rightarrow> request \<Rightarrow> auth_state \<Rightarrow> api_key reply \<times> auth_state" where
  "auth_layer A rq st = (let identity = unwrap_or [] (rq_identity rq) in
     if identity = [] then (Refused 401 ''identity_required'', st)
     else (case (rq_timestamp rq, rq_signature rq) of
       (Some timestamp, Some signature) \<Rightarrow>
         (case parse_u64 timestamp of
            None \<Rightarrow> (Refused 401 ''Invalid X-Api-Timestamp'', st)
          | Some ts \<Rightarrow>
              if window_expired ts (ae_now A) (ae_window_ms A) then (Refused 401 ''Stale X-Api-Timestamp'', st)
              else (case ae_hex_decode A signature of
                None \<Rightarrow> (Refused 401 ''Invalid X-Api-Signature'', st)
              | Some sig \<Rightarrow>
                  (case read_body (for_path (ae_caps A) (rq_path rq)) [] (rq_body rq) of
                     OverCap \<Rightarrow> (Refused 413 ''payload_too_large'', st)
                   | Unreadable \<Rightarrow> (Refused 413 ''Payload too large or unreadable'', st)
                   | Whole body \<Rightarrow> authenticate A rq identity timestamp sig body st)))
     | _ \<Rightarrow> (Refused 401 ''Missing X-Api-Timestamp or X-Api-Signature header'', st)))"

definition with_signature_auth :: "nat \<Rightarrow> bool \<Rightarrow> nat \<times> sig_cache option" where
  "with_signature_auth window_secs replay_protection =
     (let window = min (window_secs * 1000) (2 ^ 64 - 1) in
      (window, if replay_protection then Some (signature_cache_new SIGNATURE_CACHE_CAPACITY window) else None))"

end
