(* ===== verification/Api_Keys.thy ===== *)
theory Api_Keys
  imports Api_Auth
begin

text \<open>
  The handlers of API keys (\<open>src/src/core/api/keys.rs\<close>), the redemption of activation codes
  (\<open>src/src/core/api/activation.rs\<close>).
  A handler is an effect on the main database whose errors are HTTP answers. The system store, the
  admission gate and the random generator are fields of \<open>key_env\<close>.
\<close>

section \<open>Handlers\<close>

type_synonym 'a hm = "(mdb, http_error, 'a) eff"

record key_env =
  ke_ext :: ext
  ke_sql :: sql_env
  ke_crypto :: crypto
  ke_seal_key :: "string option"
  ke_resolve_system :: "string \<Rightarrow> app_error + bool"
  ke_admit_address :: "string \<Rightarrow> app_error + unit"

text \<open>A database call whose error becomes an answer.\<close>

definition callE :: "(app_error \<Rightarrow> http_error) \<Rightarrow> 'a mm \<Rightarrow> 'a hm" where
  "callE f m = (\<lambda>s. case m s of
     (Inl (Err e), s') \<Rightarrow> (Inl (Err (f e)), s')
   | (Inl Panic, s') \<Rightarrow> (Inl Panic, s')
   | (Inr x, s') \<Rightarrow> (Inr x, s'))"

definition error_text :: "key_env \<Rightarrow> app_error \<Rightarrow> string" where
  "error_text V e = display (db_message (ke_ext V)) e"

definition db_failed :: "key_env \<Rightarrow> app_error \<Rightarrow> http_error" where
  "db_failed V e = http_detail 500 ''Database error'' (error_text V e)"

definition somE :: "http_error \<Rightarrow> 'a option \<Rightarrow> 'a hm" where
  "somE e z = (case z of None \<Rightarrow> throwE e | Some x \<Rightarrow> returnE x)"

record create_key_request =
  ck_system_id :: string
  ck_email_address :: string
  ck_scopes :: "string list"
  ck_expires_at :: "string option"
  ck_category :: string

definition invalid_category :: "string \<Rightarrow> http_error" where
  "invalid_category detail = http_detail 400 ''invalid_category'' detail"

definition check_category :: "string \<Rightarrow> string \<Rightarrow> http_error + unit" where
  "check_category category email =
     (if category = ''platform'' then
        (if email \<noteq> [] then Inl (invalid_category ''platform category requires empty email_address'') else Inr ())
      else if category = ''system'' then
        (if email \<noteq> [] then Inl (invalid_category ''system category requires empty email_address'') else Inr ())
      else if category = ''domain'' then
        (if email = [] \<or> CHR ''@'' \<in> set email then Inl (invalid_category (''domain category requires bare domain (no '' @ quoted_text ''@'' @ '')'')) else Inr ())
      else if category = ''agent'' then
        (if CHR ''@'' \<notin> set email then Inl (invalid_category (''agent category requires email address with '' @ quoted_text ''@'')) else Inr ())
      else if category = ''bridge'' then Inr ()
      else Inl (invalid_category (''unknown category: '' @ category)))"

definition creator_level :: "api_key \<Rightarrow> nat" where
  "creator_level key = (if is_platform_admin_scope key then 3 else if is_system_admin_scope key then 2 else 1)"

definition target_level :: "string list \<Rightarrow> nat" where
  "target_level scopes = (let parsed = filter_map (\<lambda>s. scope_parse_db (trim s)) scopes in
     if PlatformAdmin \<in> set parsed then 3 else if SystemAdmin \<in> set parsed then 2 else 1)"

definition level_detail :: "api_key \<Rightarrow> string list \<Rightarrow> string" where
  "level_detail key scopes = ''Your max scope is '' @
     quoted_text (if is_platform_admin_scope key then ''platform'' else if is_system_admin_scope key then ''system''
                  else ''agent_admin'') @
     '' (level '' @ show_nat (creator_level key) @ ''), cannot create scopes at level '' @
     show_nat (target_level scopes) @ '' or above''"

definition scope_detail :: "string list \<Rightarrow> string" where
  "scope_detail scopes = ''Scope '' @ quoted_text (unwrap_or [] (find (\<lambda>s. s \<in> {''platform'', ''system''}) scopes)) @
     '' is reserved for system-level keys (empty email_address). Address-level keys may only use '' @
     quoted_text ''agent'' @ '' or '' @ quoted_text ''whitelist'' @ ''.''"

definition is_system_to_domain :: "api_key \<Rightarrow> create_key_request \<Rightarrow> bool" where
  "is_system_to_domain key rq \<longleftrightarrow> ak_email_address key = [] \<and> ck_category rq = ''domain'' \<and>
     ck_email_address rq \<noteq> [] \<and> CHR ''@'' \<notin> set (ck_email_address rq)"

definition granted_scopes :: "create_key_request \<Rightarrow> string list" where
  "granted_scopes rq = (if ck_scopes rq = [] then [''agent''] else ck_scopes rq)"

text \<open>Rotation of the one system key of a system; \<open>None\<close> where there is none to rotate.\<close>

definition rotate_system_key :: "key_env \<Rightarrow> create_key_request \<Rightarrow> string \<Rightarrow> string \<Rightarrow> api_key option hm" where
  "rotate_system_key V rq key_hash key_prefix =
     (if ck_category rq \<noteq> ''system'' then returnE None
      else bindE (callE (db_failed V) (tryE (list_api_keys_by_system (ck_system_id rq) ''system''))) (\<lambda>existing.
        case existing of
          Inl _ \<Rightarrow> returnE None
        | Inr rows \<Rightarrow> (case find (\<lambda>k. ak_email_address k = []) rows of
            None \<Rightarrow> returnE None
          | Some row \<Rightarrow> callE (db_failed V) (txE (rotate_api_key (ak_id row) key_hash key_prefix)))))"

definition create_api_key :: "key_env \<Rightarrow> string \<Rightarrow> api_key \<Rightarrow> create_key_request \<Rightarrow> (api_key \<times> string) hm" where
  "create_api_key V raw_key key rq =
     thenE (liftE (require_scope_any key [''platform'', ''system'', ''agent_admin'']))
     (thenE (case ke_resolve_system V (ck_system_id rq) of
               Inl e \<Rightarrow> throwE (db_failed V e)
             | Inr found \<Rightarrow> requireE found (http_err 404 ''System not found''))
     (thenE (case ke_admit_address V (ck_system_id rq) of
               Inl e \<Rightarrow> throwE (http_detail 403 ''quota_exceeded'' (error_text V e))
             | Inr _ \<Rightarrow> returnE ())
     (thenE (liftE (check_category (ck_category rq) (ck_email_address rq)))
     (thenE (liftE (require_domain_match key (ck_email_address rq)))
     (let key_hash = store_hash (ke_crypto V) (ke_seal_key V) (sha256_hex (ke_ext V) raw_key);
          key_prefix = take 8 raw_key;
          scopes = granted_scopes rq in
      thenE (requireE (target_level scopes < creator_level key \<or> is_system_to_domain key rq)
               (http_detail 403 ''Cannot create key at or above your privilege level'' (level_detail key scopes)))
      (thenE (requireE (ck_email_address rq = [] \<or> ck_category rq = ''domain'' \<or>
                        (''platform'' \<notin> set scopes \<and> ''system'' \<notin> set scopes))
                (http_detail 403 ''Invalid scope for address-level key'' (scope_detail scopes)))
      (thenE (requireE (is_platform_admin_scope key \<or> ak_system_id key = ck_system_id rq)
                (http_detail 403 ''forbidden'' ''Cannot create API keys for a different system''))
      (bindE (rotate_system_key V rq key_hash key_prefix) (\<lambda>rotated.
         case rotated of
           Some r \<Rightarrow> returnE (r, raw_key)
         | None \<Rightarrow> bindE (callE (db_failed V) (insert_api_key (ck_system_id rq) (ck_email_address rq) key_hash
                       key_prefix scopes (ck_expires_at rq) (ck_category rq))) (\<lambda>r. returnE (r, raw_key)))))))))))"

definition list_api_keys_handler :: "key_env \<Rightarrow> api_key \<Rightarrow> string option \<Rightarrow> api_key list hm" where
  "list_api_keys_handler V key email_filter =
     (let pa = is_platform_admin_scope key; sa = is_system_admin_scope key;
          aa = is_agent_admin_scope key; ag = is_agent_scope key in
      case email_filter of
        Some email \<Rightarrow>
          thenE (requireE (pa \<or> sa \<or> aa \<or> \<not> (ag \<and> email \<noteq> ak_email_address key)) (http_err 403 ''Forbidden''))
          (bindE (callE (db_failed V) (get_api_key_by_email email)) (\<lambda>k.
             case k of
               Some x \<Rightarrow> if \<not> pa \<and> ak_system_id x \<noteq> ak_system_id key
                         then throwE (http_detail 403 ''forbidden'' ''cross-system key lookup denied'') else returnE [x]
             | None \<Rightarrow> returnE []))
      | None \<Rightarrow>
          if pa then callE (db_failed V) list_api_keys
          else if sa \<or> aa then callE (db_failed V) (list_api_keys_by_system (ak_system_id key) ''agent'')
          else if ag then bindE (callE (db_failed V) (get_api_key (ak_id key))) (\<lambda>k.
            returnE (case k of Some x \<Rightarrow> [x] | None \<Rightarrow> []))
          else throwE (http_err 403 ''Insufficient scope''))"

definition match_key :: "api_key \<Rightarrow> api_key \<Rightarrow> http_error + unit" where
  "match_key key r = (if is_agent_admin_scope key then require_agent_match key (ak_email_address r)
     else require_domain_match key (ak_email_address r))"

definition key_not_found :: http_error where "key_not_found = http_err 404 ''API key not found''"

definition get_api_key_handler :: "key_env \<Rightarrow> api_key \<Rightarrow> int \<Rightarrow> api_key hm" where
  "get_api_key_handler V key i =
     thenE (liftE (require_scope_any key [''platform'', ''system'', ''agent_admin'']))
     (bindE (callE (db_failed V) (get_api_key i)) (\<lambda>z. bindE (somE key_not_found z) (\<lambda>r.
       thenE (liftE (match_key key r)) (returnE r))))"

record update_key_request =
  uk_scopes :: "string list option"
  uk_is_active :: "bool option"
  uk_rotate :: "bool option"

definition rotate_key :: "key_env \<Rightarrow> string \<Rightarrow> int \<Rightarrow> (api_key \<times> string option) hm" where
  "rotate_key V raw_key i =
     bindE (callE (db_failed V) (txE (rotate_api_key i
        (store_hash (ke_crypto V) (ke_seal_key V) (sha256_hex (ke_ext V) raw_key)) (take 8 raw_key)))) (\<lambda>z.
       bindE (somE key_not_found z) (\<lambda>r. returnE (r, Some raw_key)))"

definition update_api_key_handler ::
    "key_env \<Rightarrow> string \<Rightarrow> api_key \<Rightarrow> int \<Rightarrow> update_key_request \<Rightarrow> (api_key \<times> string option) hm" where
  "update_api_key_handler V raw_key key i rq =
     (if is_admin_scope key then
        if unwrap_or False (uk_rotate rq) \<and> i = ak_id key then rotate_key V raw_key i
        else thenE (requireE (uk_scopes rq = None) (http_detail 403 ''Insufficient scope'' ''Admin keys can only disable keys or rotate their own''))
          (bindE (callE (db_failed V) (get_api_key i)) (\<lambda>z. bindE (somE key_not_found z) (\<lambda>existing.
             thenE (if is_platform_admin_scope key then returnE () else liftE (match_key key existing))
             (bindE (callE (db_failed V) (txE (update_api_key i None (uk_is_active rq)))) (\<lambda>z'.
                bindE (somE key_not_found z') (\<lambda>r. returnE (r, None)))))))
      else if is_agent_scope key then
        thenE (requireE (i = ak_id key) (http_err 403 ''Agent can only rotate their own key''))
        (thenE (requireE (unwrap_or False (uk_rotate rq))
                  (http_err 403 ''Agent can only rotate their key, not update other fields''))
          (rotate_key V raw_key i))
      else throwE (http_err 403 ''Insufficient scope''))"

definition delete_api_key_handler :: "key_env \<Rightarrow> api_key \<Rightarrow> int \<Rightarrow> unit hm" where
  "delete_api_key_handler V key i =
     thenE (liftE (require_scope_any key [''platform'', ''system'', ''agent_admin'']))
     (bindE (callE (db_failed V) (get_api_key i)) (\<lambda>z. bindE (somE key_not_found z) (\<lambda>existing.
       thenE (liftE (match_key key existing)) (callE (db_failed V) (delete_api_key i)))))"

section \<open>Activation codes\<close>

definition ACTIVATION_CODE_TTL_DAYS :: int where "ACTIVATION_CODE_TTL_DAYS = 7"

text \<open>One code per random text; an error leaves the codes inserted before it.\<close>

fun insert_codes :: "ext \<Rightarrow> string \<Rightarrow> string \<Rightarrow> string \<Rightarrow> string option \<Rightarrow> string list \<Rightarrow> string list mm" where
  "insert_codes E system_id domain email expires [] = returnE []"
| "insert_codes E system_id domain email expires (c # cs) =
     thenE (insert_activation_code (sha256_hex E c) c ''address'' system_id domain email expires)
     (bindE (insert_codes E system_id domain email expires cs) (\<lambda>rest. returnE (c # rest)))"

definition generate_activation_codes ::
    "ext \<Rightarrow> sql_env \<Rightarrow> (nat \<Rightarrow> string) \<Rightarrow> string \<Rightarrow> string \<Rightarrow> string option \<Rightarrow> nat \<Rightarrow> string list mm" where
  "generate_activation_codes E Q random_code system_id domain email_address count = bindE md_now (\<lambda>t.
     insert_codes E system_id domain (unwrap_or [] email_address)
       (Some (sq_rfc3339 Q (t + ACTIVATION_CODE_TTL_DAYS * 86400000)))
       (map (\<lambda>i. ''addr-'' @ random_code i) [0..<count]))"

definition activate_address_code :: "key_env \<Rightarrow> string \<Rightarrow> string \<Rightarrow> string \<Rightarrow> (string \<times> int) mm" where
  "activate_address_code V raw_key activation_code email_address =
     (let hash = sha256_hex (ke_ext V) activation_code in
      bindE (lookup_activation_code (ke_sql V) hash) (\<lambda>found.
        case found of
          None \<Rightarrow> throwE (ActivationCodeGone ''invalid or expired activation code'')
        | Some (system_id, bound_email) \<Rightarrow>
            thenE (requireE (bound_email = [] \<or> eq_ignore_ascii_case email_address bound_email)
                     (Forbidden ''activation code is bound to a different address''))
            (bindE (claim_activation_code hash email_address) (\<lambda>claimed.
               thenE (requireE claimed (ActivationCodeGone ''activation code already redeemed''))
               (bindE (\<lambda>s. case insert_api_key system_id email_address (sha256_hex (ke_ext V) raw_key) (take 8 raw_key)
                               [''agent''] None ''agent'' s of
                          (Inl (Err e), s') \<Rightarrow> (Inl (Err (Internal (''create key: '' @ error_text V e))), s')
                        | (Inl Panic, s') \<Rightarrow> (Inl Panic, s')
                        | (Inr r, s') \<Rightarrow> (Inr r, s')) (\<lambda>r.
                  thenE (delete_activation_code hash) (returnE (raw_key, ak_id r))))))))"

text \<open>The limiter of the public endpoint: failures per address, counted from the first one.\<close>

definition ACTIVATION_MAX_FAILURES :: nat where "ACTIVATION_MAX_FAILURES = 10"
definition ACTIVATION_BLOCK_SECS :: nat where "ACTIVATION_BLOCK_SECS = 300"

type_synonym limiter = "(string \<times> nat \<times> nat) list"

definition check_activation_limit :: "nat \<Rightarrow> string \<Rightarrow> limiter \<Rightarrow> bool \<times> limiter" where
  "check_activation_limit t ip m =
     (let live = filter (\<lambda>(_, _, since). t - since < ACTIVATION_BLOCK_SECS) m in
      (case map_of live ip of
         Some (count, since) \<Rightarrow> \<not> (ACTIVATION_MAX_FAILURES \<le> count \<and> t - since < ACTIVATION_BLOCK_SECS)
       | None \<Rightarrow> True, live))"

definition record_activation_failure :: "nat \<Rightarrow> string \<Rightarrow> limiter \<Rightarrow> limiter" where
  "record_activation_failure t ip m = (case map_of m ip of
     Some (count, since) \<Rightarrow> AList.update ip (Suc count, since) m
   | None \<Rightarrow> AList.update ip (1, t) m)"

definition clear_activation_limit :: "string \<Rightarrow> limiter \<Rightarrow> limiter" where
  "clear_activation_limit ip m = AList.delete ip m"

definition MAX_CODE_BATCH :: int where "MAX_CODE_BATCH = 10000"

definition parse_code_count :: "json option \<Rightarrow> nat option" where
  "parse_code_count v = (case v of
     Some (JNum c) \<Rightarrow> if 1 \<le> c \<and> c \<le> MAX_CODE_BATCH then Some (nat c) else None
   | _ \<Rightarrow> None)"

definition check_code_address :: "key_env \<Rightarrow> string \<Rightarrow> unit hm" where
  "check_code_address V email =
     bindE (callE (db_failed V) (lookup_domain_addr email)) (\<lambda>r.
       case r of
         None \<Rightarrow> throwE (http_err 412 ''Cannot generate activation code: email address not registered'')
       | Some d \<Rightarrow>
           thenE (requireE (sd_is_active d) (http_err 412 ''Cannot generate activation code: domain registration is inactive''))
           (thenE (requireE (unwrap_or [] (sd_webhook_url d) \<noteq> [])
                     (http_err 412 ''Cannot generate activation code: address has no webhook routing configured''))
           (bindE (callE (db_failed V) (get_domain_addr_meta email)) (\<lambda>m.
              requireE (case m of None \<Rightarrow> False | Some x \<Rightarrow> dm_manager_address x \<noteq> [])
                (http_err 412 ''Cannot generate activation code: manager_address not configured for this address'')))))"

definition batch_generate_codes :: "key_env \<Rightarrow> (nat \<Rightarrow> string) \<Rightarrow> api_key \<Rightarrow> json \<Rightarrow> string list hm" where
  "batch_generate_codes V random_code key body =
     (let field = (\<lambda>k. get_str (Some body) k) in
      thenE (liftE (require_scope_any key [''platform'', ''system'']))
      (thenE (requireE (unwrap_or ''address'' (field ''code_type'') = ''address'')
                (http_err 400 ''Only code_type=address is supported''))
      (bindE (case jget body ''count'' of
                None \<Rightarrow> returnE 1
              | Some v \<Rightarrow> somE (http_err 400 ''count must be in [1, 10000]'') (parse_code_count (Some v))) (\<lambda>count.
        thenE (case field ''email_address'' of None \<Rightarrow> returnE () | Some email \<Rightarrow> check_code_address V email)
          (callE (\<lambda>e. http_detail 500 ''Failed to generate codes'' (error_text V e))
             (generate_activation_codes (ke_ext V) (ke_sql V) random_code (unwrap_or [] (field ''system_id''))
                (unwrap_or [] (field ''domain'')) (field ''email_address'') (max 1 (min count 100))))))))"

text \<open>The key under which the domain of an address must be registered before it can be activated.\<close>

definition activation_anchor :: "string \<Rightarrow> string \<Rightarrow> string" where
  "activation_anchor system_id email =
     (let domain = last (split_char (CHR ''@'') email); local = hd (split_char (CHR ''@'') email) in
      if starts_with system_id ''shared-'' then last (split_char (CHR ''.'') local) @ ''@'' @ domain else domain)"

definition activate_address_handler ::
    "key_env \<Rightarrow> string \<Rightarrow> nat \<Rightarrow> string \<Rightarrow> json \<Rightarrow> mdb \<times> limiter \<Rightarrow> (http_error + string \<times> int) \<times> mdb \<times> limiter" where
  "activate_address_handler V raw_key t ip body state = (case state of (s, m) \<Rightarrow>
     (case check_activation_limit t ip m of
        (False, m') \<Rightarrow> (Inl (http_err 429 ''Too many activation attempts. Please try again later.''), s, m')
      | (True, m') \<Rightarrow>
          (let activation_code = unwrap_or [] (get_str (Some body) ''code'');
               email = unwrap_or [] (get_str (Some body) ''email_address'');
               email_domain = last (split_char (CHR ''@'') email);
               registered = (if email_domain = [] then returnE True
                 else bindE (tryE (lookup_activation_code (ke_sql V) (sha256_hex (ke_ext V) activation_code))) (\<lambda>found.
                   let sys_id = (case found of Inr (Some (sid, _)) \<Rightarrow> sid | _ \<Rightarrow> []) in
                   bindE (tryE (lookup_domain_addr (activation_anchor sys_id email))) (\<lambda>r.
                     returnE (case r of Inr (Some _) \<Rightarrow> True | _ \<Rightarrow> False)))) in
           case registered s of
             (Inr True, s1) \<Rightarrow>
               (case activate_address_code V raw_key activation_code email s1 of
                  (Inr (k, i), s2) \<Rightarrow> (Inr (k, i), s2, clear_activation_limit ip m')
                | (Inl (Err e), s2) \<Rightarrow>
                    (Inl (http_detail (app_error_status e) ''Activation failed'' (error_text V e)), s2,
                     record_activation_failure t ip m')
                | (Inl Panic, s2) \<Rightarrow> (Inl (http_err 500 ''panic''), s2, m'))
           | (_, s1) \<Rightarrow>
               (Inl (http_err 400 ''Domain not registered''), s1, record_activation_failure t ip m'))))"

end
