(* ===== verification/Send_Dedup.thy ===== *)
theory Send_Dedup
  imports Prelude "HOL-Library.Word" "HOL-Library.Char_ord" "HOL-Library.List_Lexorder" "HOL-Library.AList" "HOL-Library.Multiset"
begin

text \<open>
  The detector of duplicate sends (\<open>src/src/core/api/dedup.rs\<close>): a 64-bit FNV-1a hash over sender, sorted
  recipients, subject and the digest of the body, and a table of the hashes seen within the window. The
  digest (the \<open>sha2\<close> crate) is a parameter; instants are milliseconds.
\<close>

unbundle bit_operations_syntax

definition fnv_step :: "64 word \<Rightarrow> char \<Rightarrow> 64 word" where
  "fnv_step h c = (h XOR word_of_nat (code c)) * 0x100000001b3"

definition mix :: "string \<Rightarrow> 64 word \<Rightarrow> 64 word" where
  "mix bytes h = foldl fnv_step h bytes"

definition NUL :: string where "NUL = [CHR 0x00]"

definition mix_list :: "string list \<Rightarrow> 64 word \<Rightarrow> 64 word" where
  "mix_list addrs h = mix NUL (fold (\<lambda>a. mix NUL \<circ> mix a) (sort addrs) h)"

definition hash_key ::
    "(string \<Rightarrow> string) \<Rightarrow> string \<Rightarrow> string list \<Rightarrow> string list \<Rightarrow> string \<Rightarrow> string \<Rightarrow> 64 word" where
  "hash_key digest sender rto cc subject body =
     mix (digest body) (mix NUL (mix subject (mix_list cc (mix_list rto
       (mix NUL (mix sender 0xcbf29ce484222325))))))"

record dedup =
  dd_window :: int
  dd_capacity :: nat
  dd_entries :: "(64 word \<times> int \<times> 64 word) list"
  dd_seq :: "64 word"

definition dedup_new :: "int \<Rightarrow> nat \<Rightarrow> dedup" where
  "dedup_new window capacity = \<lparr>dd_window = window, dd_capacity = capacity, dd_entries = [], dd_seq = 0\<rparr>"

definition is_duplicate ::
    "(string \<Rightarrow> string) \<Rightarrow> int \<Rightarrow> string \<Rightarrow> string list \<Rightarrow> string list \<Rightarrow> string \<Rightarrow> string \<Rightarrow> dedup \<Rightarrow> bool \<times> dedup" where
  "is_duplicate digest t sender rto cc subject body d =
     (let live = filter (\<lambda>(_, seen, _). t - seen < dd_window d) (dd_entries d) in
      (hash_key digest sender rto cc subject body \<in> fst ` set live, d\<lparr>dd_entries := live\<rparr>))"

text \<open>The entry with the lowest insertion number.\<close>

fun oldest :: "(64 word \<times> int \<times> 64 word) list \<Rightarrow> (64 word \<times> int \<times> 64 word) option" where
  "oldest [] = None"
| "oldest (e # es) = (case oldest es of None \<Rightarrow> Some e
     | Some e' \<Rightarrow> if snd (snd e) \<le> snd (snd e') then Some e else Some e')"

definition mark ::
    "(string \<Rightarrow> string) \<Rightarrow> int \<Rightarrow> string \<Rightarrow> string list \<Rightarrow> string list \<Rightarrow> string \<Rightarrow> string \<Rightarrow> dedup \<Rightarrow> dedup" where
  "mark digest t sender rto cc subject body d =
     (let key = hash_key digest sender rto cc subject body; seq = dd_seq d + 1;
          kept = (if dd_capacity d \<le> length (dd_entries d)
                  then (case oldest (dd_entries d) of None \<Rightarrow> dd_entries d
                        | Some (k, _) \<Rightarrow> AList.delete k (dd_entries d))
                  else dd_entries d) in
      d\<lparr>dd_seq := seq, dd_entries := AList.update key (t, seq) kept\<rparr>)"

section \<open>Properties\<close>

text \<open>The order of recipients does not count.\<close>

lemma mix_list_mset: "mset xs = mset ys \<Longrightarrow> mix_list xs h = mix_list ys h"
  using properties_for_sort [of "sort ys" xs] by (simp add: mix_list_def)

lemma hash_key_mset:
  assumes "mset t1 = mset t2" and "mset c1 = mset c2"
  shows "hash_key digest sender t1 c1 subject body = hash_key digest sender t2 c2 subject body"
  unfolding hash_key_def mix_list_mset [OF assms(1)] mix_list_mset [OF assms(2)] by (rule refl)

lemma marked_is_duplicate:
  assumes "t' - t < dd_window d"
  shows "fst (is_duplicate digest t' sender rto cc subject body (mark digest t sender rto cc subject body d))"
proof -
  have "(k, v) \<in> set (AList.update k v kvs)" for k v and kvs :: "('a \<times> 'b) list"
    by (induction kvs) auto
  then show ?thesis
    using assms by (force simp: is_duplicate_def mark_def Let_def)
qed

end
