(* ===== verification/Env_Properties.thy ===== *)
theory Env_Properties
  imports Api_Keys Send_Dedup
begin

text \<open>
  The main database under its callers: the domain cache never disagrees with the table, the pattern cache
  never with the compiler, so lookups and whitelist decisions are those of the tables.
\<close>

section \<open>The domain cache\<close>

definition dom_ok :: "mdb \<Rightarrow> bool" where
  "dom_ok s \<longleftrightarrow> distinct (map sd_id (md_domains s)) \<and> distinct (map sd_domain (md_domains s)) \<and>
     (\<forall>(k, _, r) \<in> set (md_domain_cache s). r \<in> set (md_domains s) \<and> sd_domain r = k)"

lemma in_update [dest!]: "x \<in> set (AList.update k v kvs) \<Longrightarrow> x = (k, v) \<or> x \<in> set kvs"
  by (induction kvs) (auto split: if_splits)

lemma in_delete [dest!]: "x \<in> set (AList.delete k kvs) \<Longrightarrow> x \<in> set kvs"
  by (induction kvs) (auto split: if_splits)

lemma find_distinct:
  "distinct (map key rows) \<Longrightarrow> r \<in> set rows \<Longrightarrow> find (\<lambda>x. key x = key r) rows = Some r"
  by (induction rows) (auto simp: rev_image_eqI)

lemma find_in: "find p rows = Some r \<Longrightarrow> r \<in> set rows \<and> p r"
  by (induction rows) (auto split: if_splits)

lemma distinct_filter_map: "distinct (map f xs) \<Longrightarrow> distinct (map f (filter p xs))"
  by (simp add: distinct_map_filter)

lemma dom_now [keeps]: "preserves dom_ok md_now" "preserves dom_ok stale_rowid"
  by (auto simp: preserves_def md_now_def stale_rowid_def dom_ok_def)

lemma dom_violation [keeps]: "preserves dom_ok (violation b)"
  by (simp add: violation_def keeps)

lemma dom_insert: "preserves dom_ok (insert_system_domain i system_id domain url sec)"
proof (rule preservesI)
  fix s assume "dom_ok s"
  then show "dom_ok (snd (insert_system_domain i system_id domain url sec s))"
    by (auto simp: insert_system_domain_def violation_def md_now_def runs Let_def dom_ok_def)
qed

lemma dom_update: "preserves dom_ok (update_system_domain i url sec active)"
proof (rule preservesI)
  fix s assume ok: "dom_ok s"
  have unchanged: "r \<in> set (update_where (\<lambda>r. sd_id r = i) f rows)" if "r \<in> set rows" "sd_id r \<noteq> i" for r f rows
    using that by (force simp: update_where_def)
  show "dom_ok (snd (update_system_domain i url sec active s))"
    using ok
    by (auto simp: update_system_domain_def md_now_def get_system_domain_def runs dom_ok_def evict_id_def
        intro!: unchanged)
qed

lemma dom_delete: "preserves dom_ok (delete_system_domain i)"
  by (rule preservesI)
     (auto simp: delete_system_domain_def runs dom_ok_def evict_id_def distinct_filter_map)

lemma dom_lookup: "preserves dom_ok (get_system_domain_by_name domain)"
proof -
  have "dom_ok (snd (cache_domain domain (find (\<lambda>r. sd_domain r = domain) (md_domains s)) s))" if "dom_ok s" for s
    using that by (auto simp: cache_domain_def md_now_def runs dom_ok_def split: option.splits dest!: find_in)
  then have fetch: "preserves dom_ok (bindE (get_system_domain_by_domain domain)
      (\<lambda>result. thenE (cache_domain domain result) (returnE result)))"
    by (intro preservesI)
       (force simp: get_system_domain_by_domain_def runs split: prod.splits sum.splits)
  show ?thesis
    unfolding get_system_domain_by_name_def Let_def by (intro keeps fetch)
qed

lemma rename_whitelists_frame [simp]:
  "md_domains (rename_whitelists old new s) = md_domains s"
  "md_domain_cache (rename_whitelists old new s) = md_domain_cache s"
proof -
  have "md_domains (fold insert_wl_ignore ws t) = md_domains t \<and>
      md_domain_cache (fold insert_wl_ignore ws t) = md_domain_cache t" for ws t
    by (induction ws arbitrary: t) (simp_all add: insert_wl_ignore_def)
  then show "md_domains (rename_whitelists old new s) = md_domains s"
    "md_domain_cache (rename_whitelists old new s) = md_domain_cache s"
    by (simp_all add: rename_whitelists_def Let_def)
qed

text \<open>A batch that fails changes nothing; one that succeeds re-keys the domain of the address.\<close>

lemma batch_cases:
  obtains e where "rename_batch old new s = (Inl e, s)"
  | s' where "rename_batch old new s = (Inr (), s')"
      "md_domains s' = update_where (\<lambda>r. sd_domain r = old) (\<lambda>r. r\<lparr>sd_domain := new\<rparr>) (md_domains s)"
      "md_domain_cache s' = md_domain_cache s"
      "old = new \<or> old \<notin> sd_domain ` set (md_domains s) \<or> new \<notin> sd_domain ` set (md_domains s)"
  by (cases "rename_batch old new s")
     (auto simp: rename_batch_def txE_def violation_def runs split: if_splits)

lemma simps_of_swap:
  "md_domains (s\<lparr>md_boards := b, md_domain_cache := c\<rparr>) = md_domains s"
  "md_domain_cache (s\<lparr>md_boards := b, md_domain_cache := c\<rparr>) = c"
  "md_domain_cache (s\<lparr>md_boards := b\<rparr>) = md_domain_cache s"
  by simp_all

lemma dom_rename:
  assumes "preserves dom_ok (quoted old new)"
  shows "preserves dom_ok (rename_agent_address_refs quoted old new)"
proof -
  have evict: "dom_ok (s\<lparr>md_domain_cache := filter p (md_domain_cache s)\<rparr>)" if "dom_ok s" for s p
    using that by (auto simp: dom_ok_def)
  have plain: "dom_ok (snd (thenE (thenE (rename_batch old new)
        (modifyE (\<lambda>s. s\<lparr>md_boards := rename_in_volume old new (md_boards s)\<rparr>)))
      (modifyE (\<lambda>s. s\<lparr>md_domain_cache := filter (\<lambda>(key, _, r). key \<noteq> old \<and> sd_domain r \<noteq> old) (md_domain_cache s)\<rparr>)) s))"
    if ok: "dom_ok s" for s
  proof (cases rule: batch_cases [of old new s])
    case (2 s')
    let ?set = "update_where (\<lambda>r. sd_domain r = old) (\<lambda>r. r\<lparr>sd_domain := new\<rparr>)"
    have ids: "map sd_id (?set rows) = map sd_id rows" for rows by (simp add: update_where_def)
    have domains: "distinct (map sd_domain (?set rows))"
      if "distinct (map sd_domain rows)" "old = new \<or> old \<notin> sd_domain ` set rows \<or> new \<notin> sd_domain ` set rows" for rows
      using that by (induction rows) (auto simp: update_where_def image_iff split: if_splits)
    have other: "r \<in> set (?set rows)" if "r \<in> set rows" "sd_domain r \<noteq> old" for r rows
      using that by (force simp: update_where_def)
    have cached: "\<forall>(k, _, r) \<in> set (filter (\<lambda>(key, _, r). key \<noteq> old \<and> sd_domain r \<noteq> old) (md_domain_cache s)).
        r \<in> set (?set (md_domains s)) \<and> sd_domain r = k"
    proof clarify
      fix k ts r assume "(k, ts, r) \<in> set (filter (\<lambda>(key, _, r). key \<noteq> old \<and> sd_domain r \<noteq> old) (md_domain_cache s))"
      then show "r \<in> set (?set (md_domains s)) \<and> sd_domain r = k"
        using ok other [of r "md_domains s"] by (auto simp: dom_ok_def)
    qed
    have keys: "distinct (map sd_id (md_domains s))" "distinct (map sd_domain (md_domains s))"
      using ok by (simp_all add: dom_ok_def)
    show ?thesis
      unfolding thenE_run 2(1) prod.case sum.case run_simps snd_conv
      unfolding dom_ok_def simps_of_swap 2(2,3) ids using cached domains [OF keys(2) 2(4)] keys(1) by (intro conjI)
  qed (use ok in \<open>simp add: runs\<close>)
  have keeps_evict: "preserves dom_ok (modifyE (\<lambda>s. s\<lparr>md_domain_cache := filter p (md_domain_cache s)\<rparr>))" for p
    by (rule preserves_modifyE) (rule evict)
  have quoted: "preserves dom_ok (thenE (quoted old new)
      (modifyE (\<lambda>s. s\<lparr>md_domain_cache := filter p (md_domain_cache s)\<rparr>)))" for p
    by (intro preserves_thenE assms keeps_evict)
  show ?thesis
    unfolding rename_agent_address_refs_def if_distrib [where f = "\<lambda>m. thenE m k" for k]
    by (intro preserves_if preserves_pure quoted preservesI plain)
qed

datatype domain_event =
    InsertDomain string string string "string option" "string option"
  | UpdateDomain string "string option" "string option" "bool option"
  | DeleteDomain string
  | RenameAddress string string
  | LookupDomain string

fun domain_step :: "(string \<Rightarrow> string \<Rightarrow> unit mm) \<Rightarrow> domain_event \<Rightarrow> mdb \<Rightarrow> mdb" where
  "domain_step quoted (InsertDomain i sys d url sec) s = snd (insert_system_domain i sys d url sec s)"
| "domain_step quoted (UpdateDomain i url sec active) s = snd (update_system_domain i url sec active s)"
| "domain_step quoted (DeleteDomain i) s = snd (delete_system_domain i s)"
| "domain_step quoted (RenameAddress old new) s = snd (rename_agent_address_refs quoted old new s)"
| "domain_step quoted (LookupDomain d) s = snd (get_system_domain_by_name d s)"

lemma domain_machine:
  assumes "\<And>old new. preserves dom_ok (quoted old new)"
  shows "event_machine (domain_step quoted) dom_ok"
proof
  fix s e assume "dom_ok s"
  then show "dom_ok (domain_step quoted e s)"
    using dom_insert dom_update dom_delete dom_lookup dom_rename [where quoted = quoted, OF assms]
    by (cases e) (simp_all add: preserves_def)
qed

text \<open>A statement that SQLite rejects is one admissible meaning of a quote in an address.\<close>

definition quote_rejected :: "string \<Rightarrow> string \<Rightarrow> unit mm" where
  "quote_rejected old new = throwE (Database NoSuchTable)"

interpretation domain_run: event_machine "domain_step quote_rejected" dom_ok
  by (rule domain_machine) (simp add: quote_rejected_def keeps)

lemma lookup_agrees:
  assumes "dom_ok s"
  shows "fst (get_system_domain_by_name d s) = fst (get_system_domain_by_domain d s)"
proof -
  have "find (\<lambda>r. sd_domain r = d) (md_domains s) = Some r"
    if "map_of (md_domain_cache s) d = Some (ts, r)" for ts r
    using map_of_SomeD [OF that] assms find_distinct [of sd_domain "md_domains s" r] by (auto simp: dom_ok_def)
  then show ?thesis
    by (auto simp: get_system_domain_by_name_def get_system_domain_by_domain_def md_now_def runs Let_def
        cache_domain_def split: option.splits)
qed


definition empty_mdb :: mdb where
  "empty_mdb = \<lparr>md_domains = [], md_metas = [], md_whitelists = [], md_wl_seq = 0, md_groups = [],
     md_keys = [], md_key_seq = 0, md_codes = [], md_code_seq = 0, md_state = [], md_pending = [],
     md_pending_seq = 0, md_boards = NoDir, md_domain_cache = [], md_wl_cache = [],
     md_clock = (\<lambda>i. 0), md_reads = 0, md_rowid = (\<lambda>i. 0), md_rowids = 0\<rparr>"



section \<open>The pattern cache\<close>

definition wl_ok :: "sql_env \<Rightarrow> mdb \<Rightarrow> bool" where
  "wl_ok Q s \<longleftrightarrow> (\<forall>(v, re, _) \<in> set (md_wl_cache s). compile_whitelist_pattern Q v = Inr re)"

definition pattern_hits :: "sql_env \<Rightarrow> string \<Rightarrow> string \<Rightarrow> bool" where
  "pattern_hits Q target v = (case compile_whitelist_pattern Q v of Inr re \<Rightarrow> re_match Q re target | Inl _ \<Rightarrow> False)"

lemma wp_now [wps]: "wpE md_now X R s = X (md_clock s (md_reads s)) (s\<lparr>md_reads := Suc (md_reads s)\<rparr>)"
  by (simp add: wpE_def md_now_def)

lemma wp_get_or_compile:
  assumes "wl_ok Q s"
  shows "wpE (get_or_compile Q v)
    (\<lambda>re s'. compile_whitelist_pattern Q v = Inr re \<and> wl_ok Q s' \<and> md_groups s' = md_groups s)
    (\<lambda>e s'. (\<exists>x. e = Err x \<and> compile_whitelist_pattern Q v = Inl x) \<and> wl_ok Q s' \<and> md_groups s' = md_groups s) s"
proof -
  have hit: "compile_whitelist_pattern Q v = Inr re" if "map_of (md_wl_cache s) v = Some (re, ts)" for re ts
    using map_of_SomeD [OF that] assms by (auto simp: wl_ok_def)
  show ?thesis
    using assms
    by (auto simp: get_or_compile_def wps Let_def wl_ok_def hit split: option.splits sum.splits)
qed

lemma wp_wildcard:
  assumes "wl_ok Q s"
  shows "wpE (is_whitelisted_wildcard Q vs target)
    (\<lambda>b s'. b = list_ex (pattern_hits Q target) vs \<and> wl_ok Q s' \<and> md_groups s' = md_groups s) (\<lambda>_ _. False) s"
  using assms
proof (induction vs arbitrary: s)
  case (Cons v vs)
  show ?case
    unfolding is_whitelisted_wildcard.simps wpE_combinators wpE_tryE
    by (rule wpE_mono [OF wp_get_or_compile [OF Cons.prems, of v]])
       (auto simp: wps pattern_hits_def intro!: wpE_mono [OF Cons.IH])
qed (simp add: wps)

lemma wp_is_whitelisted:
  assumes "wl_ok Q s"
  shows "wpE (is_whitelisted Q system_id d target dir)
    (\<lambda>b s'. b = (\<exists>v \<in> set (active_patterns system_id d dir s). pattern_hits Q target v) \<and>
       wl_ok Q s' \<and> md_groups s' = md_groups s) (\<lambda>_ _. False) s"
  using assms wpE_mono [OF wp_wildcard [OF assms]]
  by (auto simp: is_whitelisted_def wps list_ex_iff)

definition whitelisted_by_tables :: "sql_env \<Rightarrow> mdb \<Rightarrow> string \<Rightarrow> string \<Rightarrow> string \<Rightarrow> string \<Rightarrow> bool" where
  "whitelisted_by_tables Q s system_id d target dir \<longleftrightarrow>
     (\<exists>w \<in> set (md_whitelists s). wl_is_active w \<and> wl_system_id w = system_id \<and> wl_domain_addr w = d \<and>
        wl_direction w \<in> {dir, ''all''} \<and> pattern_hits Q target (wl_value w)) \<or>
     (is_board_address target \<and> (target, d) \<in> set (md_groups s))"

definition wl_tables :: "mdb \<Rightarrow> mdb \<Rightarrow> bool" where
  "wl_tables s s' \<longleftrightarrow> md_whitelists s' = md_whitelists s \<and> md_groups s' = md_groups s \<and> md_wl_cache s' = md_wl_cache s"

lemma lookup_frame: "preserves (wl_tables s) (get_system_domain_by_name d)"
proof -
  have "preserves (wl_tables s) md_now"
    by (auto simp: preserves_def md_now_def wl_tables_def)
  moreover have "preserves (wl_tables s) (modifyE (\<lambda>s. s\<lparr>md_domain_cache := f s\<rparr>))" for f
    by (rule preserves_modifyE) (simp add: wl_tables_def)
  ultimately show ?thesis
    unfolding get_system_domain_by_name_def cache_domain_def get_system_domain_by_domain_def Let_def
    by (intro keeps)
qed

lemma wp_resolve_keys:
  assumes "dom_ok s"
  shows "wpE (resolve_keys d)
    (\<lambda>ks s'. (\<exists>r. find (\<lambda>r. sd_domain r = d) (md_domains s) = Some r \<and> ks = [(sd_system_id r, d)]) \<and> wl_tables s s')
    (\<lambda>e s'. find (\<lambda>r. sd_domain r = d) (md_domains s) = None \<and> e = Err (NotFound (''domain not found: '' @ d))) s"
proof -
  have "wl_tables s s" by (simp add: wl_tables_def)
  then have "wl_tables s (snd (get_system_domain_by_name d s))" by (rule preservesD [OF lookup_frame])
  then show ?thesis
    using lookup_agrees [OF assms, of d]
    by (cases "get_system_domain_by_name d s")
       (auto simp: resolve_keys_def wpE_def runs get_system_domain_by_domain_def split: option.splits)
qed

lemma check_whitelisted_tables:
  assumes "dom_ok s" and "wl_ok Q s"
  shows "fst (check_whitelisted Q d target dir s) =
    (if is_board_address d then Inr ((d, target) \<in> set (md_groups s))
     else case find (\<lambda>r. sd_domain r = d) (md_domains s) of
       None \<Rightarrow> Inl (Err (NotFound (''domain not found: '' @ d)))
     | Some r \<Rightarrow> Inr (whitelisted_by_tables Q s (sd_system_id r) d target dir))"
proof (cases "is_board_address d")
  case False
  have wl: "wl_ok Q s'" and groups: "md_groups s' = md_groups s"
    and patterns: "active_patterns i d dir s' = active_patterns i d dir s" if "wl_tables s s'" for s' i
    using that assms(2) by (auto simp: wl_tables_def wl_ok_def active_patterns_def)
  let ?row = "find (\<lambda>r. sd_domain r = d) (md_domains s)"
  have by_tables: "whitelisted_by_tables Q s i d target dir \<longleftrightarrow>
      (\<exists>v \<in> set (active_patterns i d dir s). pattern_hits Q target v) \<or>
      is_board_address target \<and> (target, d) \<in> set (md_groups s)" for i
    by (auto simp: whitelisted_by_tables_def active_patterns_def)
  define decide where "decide = (\<lambda>keys. bindE (any_key_whitelisted Q target dir keys) (\<lambda>b. if b then returnE True
        else if is_board_address target then is_board_member target d else returnE False))"
  have keyed: "wpE (decide [(i, d)]) (\<lambda>b s'. b = whitelisted_by_tables Q s i d target dir) (\<lambda>_ _. False) s'"
    if "wl_tables s s'" for s' i
    unfolding decide_def any_key_whitelisted.simps wpE_combinators by_tables
    by (rule wpE_mono [OF wp_is_whitelisted [OF wl [OF that]]])
       (auto simp: wps is_board_member_def patterns [OF that] groups [OF that])
  have "wpE (check_whitelisted Q d target dir)
      (\<lambda>b s'. \<exists>r. ?row = Some r \<and> b = whitelisted_by_tables Q s (sd_system_id r) d target dir)
      (\<lambda>e s'. ?row = None \<and> e = Err (NotFound (''domain not found: '' @ d))) s"
    unfolding check_whitelisted_def if_not_P [OF False] decide_def [symmetric] wpE_combinators
    by (rule wpE_mono [OF wp_resolve_keys [OF assms(1), of d]]) (auto intro!: wpE_mono [OF keyed])
  then show ?thesis
    using False by (auto simp: wpE_def split: prod.splits sum.splits)
qed (simp add: check_whitelisted_def is_board_member_def runs)

text \<open>
  C30. The whitelist decision is the one the tables give, whatever the two caches hold: a board address
  admits the members of its group; any other address must be registered, and admits what an active entry of
  its system and direction matches, and boards it is a member of. Patterns that do not compile match nothing.
\<close>

theorem whitelist_decision:
  assumes "dom_ok s" and "wl_ok Q s"
  shows "fst (check_whitelisted Q d target dir s) =
    (if is_board_address d then Inr ((d, target) \<in> set (md_groups s))
     else case find (\<lambda>r. sd_domain r = d) (md_domains s) of
       None \<Rightarrow> Inl (Err (NotFound (''domain not found: '' @ d)))
     | Some r \<Rightarrow> Inr (whitelisted_by_tables Q s (sd_system_id r) d target dir))"
  by (rule check_whitelisted_tables [OF assms])

definition demo_sql :: sql_env where
  "demo_sql = \<lparr>sq_seconds = (\<lambda>t. ''2026''), sq_rfc3339 = (\<lambda>t. ''2027''), sq_text_int = (\<lambda>t. None), re_escape = (\<lambda>s. s),
     re_valid = (\<lambda>re. True), re_match = (\<lambda>re t. re = ''(?i)^'' @ t @ ''$'')\<rparr>"

definition demo_domain :: system_domain where
  "demo_domain = \<lparr>sd_id = ''d1'', sd_system_id = ''s1'', sd_domain = ''a@x'', sd_webhook_url = Some ''https://x/h'',
     sd_webhook_secret = None, sd_is_active = True, sd_created_at = 0, sd_updated_at = 0\<rparr>"

definition demo_entry :: whitelist where
  "demo_entry = \<lparr>wl_id = 1, wl_system_id = ''s1'', wl_domain_addr = ''a@x'', wl_direction = ''all'', wl_value = ''b@y'',
     wl_description = None, wl_is_active = True, wl_created_at = 0, wl_category = ''system'', wl_api_key_id = None\<rparr>"

definition demo_mdb :: mdb where
  "demo_mdb = empty_mdb\<lparr>md_domains := [demo_domain], md_whitelists := [demo_entry]\<rparr>"

theorem whitelist_decision_witness: "fst (check_whitelisted demo_sql ''a@x'' ''b@y'' ''to'' demo_mdb) = Inr True"
proof -
  have ok: "dom_ok demo_mdb" "wl_ok demo_sql demo_mdb"
    by (simp_all add: demo_mdb_def empty_mdb_def dom_ok_def wl_ok_def)
  have no_board: "\<not> is_board_address ''a@x''" by code_simp
  have pat: "pattern_text demo_sql ''b@y'' = ''(?i)^b@y$''"
    by (simp add: pattern_text_def demo_sql_def)
  have "whitelisted_by_tables demo_sql demo_mdb ''s1'' ''a@x'' ''b@y'' ''to''"
    by (simp add: whitelisted_by_tables_def demo_mdb_def demo_entry_def pattern_hits_def compile_whitelist_pattern_def
        MAX_PATTERN_LEN_def pat) (simp add: demo_sql_def)
  then show ?thesis
    using whitelist_decision [OF ok, of "''a@x''" "''b@y''" "''to''"] no_board
    by (simp add: demo_mdb_def empty_mdb_def demo_domain_def)
qed

end
