(* ===== verification/Access_Properties.thy ===== *)
theory Access_Properties
  imports Env_Properties Board_Samples
begin

text \<open>
  Who gets in: what an accepted API request proves, that it is accepted once, what keys a key may create, and
  that an activation code is redeemed once.
\<close>

section \<open>Accepted requests\<close>

lemma verified_candidate:
  "verify_request_signature A rs meth path timestamp body sig = Some r \<Longrightarrow> r \<in> set rs \<and>
   (\<exists>material. signing_material (ae_crypto A) (ae_seal_key A) (ak_key_hash r) = Inr material \<and>
      cr_hmac (ae_crypto A) material (signature_base (ae_ext A) meth path timestamp body) = sig)"
  by (induction rs) (auto split: sum.splits if_splits)

lemma read_whole:
  "read_body cap buf fs = Whole b \<Longrightarrow> length buf \<le> cap \<Longrightarrow>
   \<exists>cs. fs = map Chunk cs \<and> b = buf @ concat cs \<and> length b \<le> cap"
proof (induction cap buf fs rule: read_body.induct)
  case (3 cap buf c fs)
  then obtain cs where "fs = map Chunk cs" "b = (buf @ c) @ concat cs" "length b \<le> cap"
    by (auto split: if_splits)
  then show ?case by (intro exI [of _ "c # cs"]) simp
qed (auto intro: exI [of _ "[]"])

lemma candidates_listed:
  assumes "list_api_keys_by_identity Q identity s = (Inr rs, s')" and "r \<in> set rs"
  shows "identity \<noteq> [] \<and> r \<in> set (md_keys s) \<and> ak_is_active r \<and> identity \<in> {ak_email_address r, ak_system_id r} \<and>
    not_expired Q (md_clock s (md_reads s)) (ak_expires_at r)"
  using assms by (auto simp: list_api_keys_by_identity_def md_now_def runs Let_def split: if_splits)

text \<open>
  C23. A request that passes the middleware is signed: it names an identity, its timestamp lies within the
  window around the clock, its body is complete and within the cap of its route, and its signature is the
  HMAC of method, path, timestamp and body under the unsealed hash of an active, unexpired key stored for
  that identity. That key, and no other, is what the handlers see.
\<close>

theorem accepted_is_signed:
  assumes "auth_layer A rq st = (Passed r, st')"
  shows "\<exists>identity timestamp ts signature chunks material.
    rq_identity rq = Some identity \<and> identity \<in> {ak_email_address r, ak_system_id r} \<and>
    r \<in> set (md_keys (au_db st)) \<and> ak_is_active r \<and>
    not_expired (ae_sql A) (md_clock (au_db st) (md_reads (au_db st))) (ak_expires_at r) \<and>
    rq_timestamp rq = Some timestamp \<and> parse_u64 timestamp = Some ts \<and>
    ts \<le> ae_now A + ae_window_ms A \<and> ae_now A \<le> ts + ae_window_ms A \<and>
    rq_body rq = map Chunk chunks \<and> length (concat chunks) \<le> for_path (ae_caps A) (rq_path rq) \<and>
    rq_signature rq = Some signature \<and> signing_material (ae_crypto A) (ae_seal_key A) (ak_key_hash r) = Inr material \<and>
    ae_hex_decode A signature = Some (cr_hmac (ae_crypto A) material
      (signature_base (ae_ext A) (rq_method rq) (rq_path rq) timestamp (concat chunks)))"
proof -
  obtain timestamp signature ts sig body where id: "rq_identity rq = Some (unwrap_or [] (rq_identity rq))"
    and ne: "unwrap_or [] (rq_identity rq) \<noteq> []" and t: "rq_timestamp rq = Some timestamp"
    and s: "rq_signature rq = Some signature" and ts: "parse_u64 timestamp = Some ts"
    and fresh: "\<not> window_expired ts (ae_now A) (ae_window_ms A)" and sig: "ae_hex_decode A signature = Some sig"
    and body: "read_body (for_path (ae_caps A) (rq_path rq)) [] (rq_body rq) = Whole body"
    and au: "authenticate A rq (unwrap_or [] (rq_identity rq)) timestamp sig body st = (Passed r, st')"
    using assms
    by (auto simp: auth_layer_def Let_def unwrap_or_def split: if_splits option.splits body_read.splits)
  obtain rs db where rs: "list_api_keys_by_identity (ae_sql A) (unwrap_or [] (rq_identity rq)) (au_db st) = (Inr rs, db)"
    and v: "verify_request_signature A rs (rq_method rq) (rq_path rq) timestamp body sig = Some r"
    using au by (auto simp: authenticate_def split: prod.splits sum.splits option.splits)
  show ?thesis
    using verified_candidate [OF v] candidates_listed [OF rs] read_whole [OF body] id t s ts sig fresh
    by (fastforce simp: window_expired_def)
qed

definition demo_key :: api_key where
  "demo_key = \<lparr>ak_id = 7, ak_system_id = ''s1'', ak_email_address = ''a@x'', ak_key_hash = ''h1'', ak_key_prefix = ''p'',
     ak_scopes = [''agent''], ak_is_active = True, ak_created_at = 0, ak_expires_at = None, ak_last_used_at = None,
     ak_category = ''agent''\<rparr>"

definition demo_crypto :: crypto where
  "demo_crypto = \<lparr>cr_hmac = (\<lambda>k m. ''mac''), cr_encrypt = (\<lambda>k n p. None), cr_decrypt = (\<lambda>k n c. None),
     cr_b64 = (\<lambda>b. b), cr_unb64 = Some, cr_is_utf8 = (\<lambda>s. True)\<rparr>"

definition demo_auth :: auth_env where
  "demo_auth = \<lparr>ae_ext = demo_ext, ae_sql = demo_sql, ae_crypto = demo_crypto, ae_seal_key = None, ae_hex_decode = Some,
     ae_window_ms = 120000, ae_caps = \<lparr>bc_regular = 1048576, bc_attachment = 31457280\<rparr>, ae_now = 1000, ae_seen = 1000\<rparr>"

definition demo_request :: request where
  "demo_request = \<lparr>rq_identity = Some ''a@x'', rq_timestamp = Some ''900'', rq_signature = Some ''mac'',
     rq_method = ''GET'', rq_path = ''/api/v1/whoami'', rq_body = [Chunk ''{}'']\<rparr>"

definition demo_auth_state :: auth_state where
  "demo_auth_state = \<lparr>au_db = demo_mdb\<lparr>md_keys := [demo_key]\<rparr>, au_sigs = Some (signature_cache_new 10 120000), au_used = []\<rparr>"

lemma demo_accepted: "\<exists>st'. auth_layer demo_auth demo_request demo_auth_state = (Passed demo_key, st')"
proof -
  have ts: "parse_u64 ''900'' = Some 900"
    by (simp add: parse_u64_def strip_prefix_def digit_val_def code_def)
  have plain: "signing_material demo_crypto None ''h1'' = Inr ''h1''"
    by (simp add: signing_material_def is_sealed_def SEAL_PREFIX_def)
  have v: "verify_request_signature demo_auth [demo_key] ''GET'' ''/api/v1/whoami'' ''900'' ''{}'' ''mac'' = Some demo_key"
    using plain by (simp add: demo_auth_def demo_key_def) (simp add: demo_crypto_def)
  have l: "\<exists>db. list_api_keys_by_identity (ae_sql demo_auth) ''a@x'' (au_db demo_auth_state) = (Inr [demo_key], db)"
    by (simp add: list_api_keys_by_identity_def md_now_def runs Let_def not_expired_def demo_auth_state_def demo_key_def)
  have sigs: "au_sigs demo_auth_state = Some (signature_cache_new 10 120000)"
    by (simp add: demo_auth_state_def)
  have rq: "rq_method demo_request = ''GET''" "rq_path demo_request = ''/api/v1/whoami''" "rq_identity demo_request = Some ''a@x''"
    "rq_timestamp demo_request = Some ''900''" "rq_signature demo_request = Some ''mac''" "rq_body demo_request = [Chunk ''{}'']"
    by (simp_all add: demo_request_def)
  have env: "ae_hex_decode demo_auth = Some" "ae_now demo_auth = 1000" "ae_window_ms demo_auth = 120000"
    "for_path (ae_caps demo_auth) ''/api/v1/whoami'' = 1048576"
    by (simp_all add: demo_auth_def for_path_def)
  have "\<exists>st'. authenticate demo_auth demo_request ''a@x'' ''900'' ''mac'' ''{}'' demo_auth_state = (Passed demo_key, st')"
    using l v by (auto simp: authenticate_def rq check_and_record_signature_def sigs check_and_record_def
        signature_cache_new_def split: prod.splits)
  then show ?thesis
    by (simp add: auth_layer_def rq env ts window_expired_def unwrap_or_def)
qed

theorem accepted_is_signed_witness:
  "\<exists>st'. auth_layer demo_auth demo_request demo_auth_state = (Passed demo_key, st') \<and> demo_key \<in> set (md_keys (au_db demo_auth_state))"
proof -
  obtain st' where a: "auth_layer demo_auth demo_request demo_auth_state = (Passed demo_key, st')"
    using demo_accepted by blast
  then show ?thesis using accepted_is_signed [OF a] by blast
qed

section \<open>The replay cache\<close>

definition sig_wf :: "sig_cache \<Rightarrow> bool" where
  "sig_wf c \<longleftrightarrow> distinct (map fst (sg_key c)) \<and> fst ` set (sg_key c) \<subseteq> set (sg_order c) \<and> length (sg_key c) \<le> sg_cap c"

lemma delete_keys_subset: "fst ` set (AList.delete k kvs) = fst ` set kvs - {k}"
  by (induction kvs) auto

lemma update_keys_subset: "fst ` set (AList.update k v kvs) = insert k (fst ` set kvs)"
  by (induction kvs) auto

text \<open>Eviction shrinks the table to its capacity and never runs out of pool entries.\<close>

lemma evict_wf:
  assumes "distinct (map fst keys)" and "fst ` set keys \<subseteq> set order" and "evict cap keys order = (keys', order')"
  shows "distinct (map fst keys') \<and> fst ` set keys' \<subseteq> set order' \<and> length keys' \<le> cap"
  using assms
proof (induction cap keys order rule: evict.induct)
  case (2 cap keys k ks)
  then show ?case
    by (auto simp: delete_keys_subset distinct_delete split: if_splits)
qed simp

lemma record_wf:
  assumes "distinct (map fst (sg_key c))" and "fst ` set (sg_key c) \<subseteq> set (sg_order c)"
  shows "sig_wf (record_signature t m c)"
proof -
  obtain keys order where e: "evict (sg_cap c) (AList.update m t (sg_key c)) (sg_order c @ [m]) = (keys, order)"
    by (rule prod.exhaust)
  have "distinct (map fst (AList.update m t (sg_key c)))" using assms(1) by (rule distinct_update)
  moreover have "fst ` set (AList.update m t (sg_key c)) \<subseteq> set (sg_order c @ [m])"
    using assms(2) by (auto simp: update_keys_subset simp del: in_set_conv_decomp)
  ultimately show ?thesis
    using evict_wf [OF _ _ e] by (simp add: record_signature_def e sig_wf_def)
qed

lemma check_wf: "sig_wf c \<Longrightarrow> sig_wf (snd (check_and_record t m c))"
proof -
  assume c: "sig_wf c"
  have "sig_wf (record_signature t m (c\<lparr>sg_key := AList.delete m (sg_key c)\<rparr>))"
    by (rule record_wf) (use c in \<open>auto simp: sig_wf_def distinct_delete delete_keys_subset simp del: image_subset_iff\<close>)
  moreover have "sig_wf (record_signature t m c)"
    by (rule record_wf) (use c in \<open>simp_all add: sig_wf_def\<close>)
  ultimately show ?thesis using c by (simp add: check_and_record_def split: option.split)
qed

interpretation sig_run: event_machine "\<lambda>(t, m) c. snd (check_and_record t m c)" sig_wf
  by unfold_locales (auto intro: check_wf)







lemma capacity_fixed [simp]:
  "sg_cap (snd (check_and_record t m c)) = sg_cap c" "sg_ttl (snd (check_and_record t m c)) = sg_ttl c"
  by (simp_all add: check_and_record_def record_signature_def split: option.splits prod.splits)








text \<open>
  The entry lives one window from the acceptance, but a timestamp as far in the future as the window allows
  stays acceptable for two: the request is accepted again after its entry expired.
\<close>

lemma evict_lookup:
  "evict cap keys order = (keys', order') \<Longrightarrow> map_of keys' n = map_of keys n \<or> map_of keys' n = None"
  by (induction cap keys order rule: evict.induct) (auto simp: delete_conv' split: if_splits)

lemma future_timestamp_replayed:
  assumes "check_and_record t n c = (None, c')" and "sg_ttl c = window" and "0 < window"
  shows "\<not> window_expired (t + window) t window \<and>
    \<not> window_expired (t + window) (t + window + 1) window \<and> fst (check_and_record (t + window + 1) n c') = None"
proof -
  have r: "map_of (sg_key (record_signature t n d)) n \<in> {None, Some t}" for d
    using evict_lookup [of "sg_cap d" "AList.update n t (sg_key d)" "sg_order d @ [n]" _ _ n]
    by (auto simp: record_signature_def update_conv' split: prod.splits)
  obtain d where c': "c' = record_signature t n d"
    using assms(1) by (auto simp: check_and_record_def split: option.splits if_splits)
  have "sg_ttl c' = window" using capacity_fixed(2) [of t n c] assms(1,2) by simp
  then show ?thesis using r [of d] assms(3) by (auto simp: c' check_and_record_def window_expired_def)
qed

section \<open>Keys that create keys\<close>



lemma callE_run:
  "callE f m s = (case m s of (Inl (Err e), s') \<Rightarrow> (Inl (Err (f e)), s') | (Inl Panic, s') \<Rightarrow> (Inl Panic, s')
     | (Inr x, s') \<Rightarrow> (Inr x, s'))"
  by (simp add: callE_def)

lemma liftE_run: "liftE r s = (case r of Inl e \<Rightarrow> (Inl (Err e), s) | Inr x \<Rightarrow> (Inr x, s))"
  by (cases r) (simp_all add: runs)



definition demo_keys :: key_env where
  "demo_keys = \<lparr>ke_ext = demo_ext, ke_sql = demo_sql, ke_crypto = demo_crypto, ke_seal_key = None,
     ke_resolve_system = (\<lambda>i. Inr True), ke_admit_address = (\<lambda>i. Inr ())\<rparr>"

definition system_key :: api_key where
  "system_key = demo_key\<lparr>ak_email_address := [], ak_scopes := [''system''], ak_category := ''system''\<rparr>"

definition agent_request :: create_key_request where
  "agent_request = \<lparr>ck_system_id = ''s1'', ck_email_address = ''b@x'', ck_scopes = [''agent''], ck_expires_at = None,
     ck_category = ''agent''\<rparr>"

lemma system_key_scopes [simp]:
  "is_platform_admin_scope system_key = False" "is_system_admin_scope system_key = True"
  "ak_system_id system_key = ''s1''" "ak_email_address system_key = []"
  "require_scope_any system_key [''platform'', ''system'', ''agent_admin''] = Inr ()"
  by (simp_all add: is_platform_admin_scope_def is_system_admin_scope_def has_scope_def system_key_def demo_key_def
      scope_parse_db_def require_scope_any_def require_scope_def required_of_def)

lemma demo_env [simp]:
  "ke_resolve_system demo_keys = (\<lambda>i. Inr True)" "ke_admit_address demo_keys = (\<lambda>i. Inr ())"
  by (simp_all add: demo_keys_def)



text \<open>The exemption for domain keys has no bound on the scopes: a system key mints a platform key.\<close>

lemma domain_exemption_escalates:
  "\<exists>r s'. create_api_key demo_keys ''raw'' system_key (agent_request\<lparr>ck_email_address := ''x'', ck_scopes := [''platform''],
     ck_category := ''domain''\<rparr>) empty_mdb = (Inr (r, ''raw''), s') \<and> is_platform_admin_scope r"
proof -
  let ?rq = "agent_request\<lparr>ck_email_address := ''x'', ck_scopes := [''platform''], ck_category := ''domain''\<rparr>"
  have rq: "ck_category ?rq = ''domain''" "ck_email_address ?rq = ''x''" "ck_system_id ?rq = ''s1''"
    "granted_scopes ?rq = [''platform'']" "is_system_to_domain system_key ?rq"
    by (simp_all add: agent_request_def granted_scopes_def is_system_to_domain_def)
  show ?thesis
    by (simp add: create_api_key_def rq runs liftE_run callE_run Let_def check_category_def require_domain_match_def
        check_domain_access_def creator_level_def rotate_system_key_def insert_api_key_def md_now_def violation_def
        empty_mdb_def is_platform_admin_scope_def has_scope_def scope_parse_db_def)
qed

section \<open>Activation codes\<close>

text \<open>
  C39. An activation code is redeemed once: a redemption finds an unclaimed, unfrozen, unexpired code that is
  unbound or bound to the address, adds exactly one key, with the agent scope, for that address and the
  system of the code, and removes the code, so that any later redemption is refused as gone. The key's hash
  is stored as it is, never sealed.
\<close>

theorem activation_once:
  assumes "activate_address_code V raw activation_code email s = (Inr (k, i), s')"
  shows "(\<exists>c \<in> set (md_codes s). ac_code_hash c = sha256_hex (ke_ext V) activation_code \<and> \<not> ac_claimed c \<and> \<not> ac_is_frozen c \<and>
      not_expired (ke_sql V) (md_clock s (md_reads s)) (ac_expires_at c) \<and>
      (ac_email_address c = [] \<or> eq_ignore_ascii_case email (ac_email_address c)) \<and>
      (\<exists>r. md_keys s' = md_keys s @ [r] \<and> ak_system_id r = ac_system_id c \<and> ak_email_address r = email \<and>
        ak_scopes r = [''agent''] \<and> ak_key_hash r = sha256_hex (ke_ext V) raw)) \<and>
    (\<forall>raw' email'. \<exists>s''. activate_address_code V raw' activation_code email' s' =
      (Inl (Err (ActivationCodeGone ''invalid or expired activation code'')), s''))"
proof -
  let ?h = "sha256_hex (ke_ext V) activation_code"
  let ?ok = "\<lambda>c. ac_code_hash c = ?h \<and> \<not> ac_claimed c \<and> \<not> ac_is_frozen c \<and>
      not_expired (ke_sql V) (md_clock s (md_reads s)) (ac_expires_at c)"
  obtain c where c: "find ?ok (md_codes s) = Some c"
    using assms
    by (cases "find ?ok (md_codes s)") (auto simp: activate_address_code_def lookup_activation_code_def md_now_def runs Let_def)
  have bound: "ac_email_address c = [] \<or> eq_ignore_ascii_case email (ac_email_address c)"
    using assms c
    by (auto simp: activate_address_code_def lookup_activation_code_def md_now_def runs Let_def split: if_splits)
  have keys: "\<exists>r. md_keys s' = md_keys s @ [r] \<and> ak_system_id r = ac_system_id c \<and> ak_email_address r = email \<and>
        ak_scopes r = [''agent''] \<and> ak_key_hash r = sha256_hex (ke_ext V) raw"
    and gone: "?h \<notin> ac_code_hash ` set (md_codes s')"
    using assms bound
    by (auto simp: activate_address_code_def lookup_activation_code_def claim_activation_code_def delete_activation_code_def
        insert_api_key_def violation_def md_now_def runs Let_def c split: if_splits)
  have "find (\<lambda>c. ac_code_hash c = ?h \<and> \<not> ac_claimed c \<and> \<not> ac_is_frozen c \<and> q c) (md_codes s') = None" for q
    using gone by (force simp: find_None_iff)
  then have "\<exists>s''. activate_address_code V raw' activation_code email' s' =
      (Inl (Err (ActivationCodeGone ''invalid or expired activation code'')), s'')" for raw' email'
    by (simp add: activate_address_code_def lookup_activation_code_def md_now_def runs Let_def)
  then show ?thesis using find_in [OF c] bound keys by blast
qed

definition demo_code :: activation_code where
  "demo_code = \<lparr>ac_code_hash = sha256_hex demo_ext ''c'', ac_code_prefix = ''c'', ac_code_type = ''agent'',
     ac_system_id = ''s1'', ac_domain = ''x'', ac_email_address = [], ac_claimed = False, ac_claimed_by = None,
     ac_expires_at = None, ac_is_frozen = False\<rparr>"

theorem activation_once_witness:
  "\<exists>k i s'. activate_address_code demo_keys ''raw'' ''c'' ''b@x'' (empty_mdb\<lparr>md_codes := [demo_code]\<rparr>) = (Inr (k, i), s') \<and>
     (\<exists>s''. activate_address_code demo_keys ''raw'' ''c'' ''b@x'' s' =
        (Inl (Err (ActivationCodeGone ''invalid or expired activation code'')), s''))"
proof -
  have V: "ke_ext demo_keys = demo_ext" "ke_sql demo_keys = demo_sql" by (simp_all add: demo_keys_def)
  have "\<exists>k i s'. activate_address_code demo_keys ''raw'' ''c'' ''b@x'' (empty_mdb\<lparr>md_codes := [demo_code]\<rparr>) = (Inr (k, i), s')"
    by (simp add: activate_address_code_def lookup_activation_code_def claim_activation_code_def delete_activation_code_def
        insert_api_key_def violation_def md_now_def runs Let_def V demo_code_def not_expired_def empty_mdb_def)
  then obtain k i s' where a: "activate_address_code demo_keys ''raw'' ''c'' ''b@x''
      (empty_mdb\<lparr>md_codes := [demo_code]\<rparr>) = (Inr (k, i), s')" by blast
  from activation_once [OF a] have "\<exists>s''. activate_address_code demo_keys ''raw'' ''c'' ''b@x'' s' =
      (Inl (Err (ActivationCodeGone ''invalid or expired activation code'')), s'')" by blast
  with a show ?thesis by blast
qed

end
