(* ===== verification/Gateway.thy ===== *)
theory Gateway
  imports Env_Factory Scheduler
begin

text \<open>
  The state the request handlers and the delivery work on: the main database with its caches, the mail
  tables, and the log of the HTTP requests sent to webhooks. Operations of the parts are lifted with
  \<open>on_db\<close> and \<open>on_mail\<close>. On top of them: the constructors of mails in \<open>src/src/core/email/factory.rs\<close> and the
  helper \<open>enqueue_outbound_simple\<close> of \<open>src/src/core/api/outbound.rs\<close>.
\<close>

section \<open>State\<close>

text \<open>A request as the HTTP client sends it: where, through which client, for which addresses with their
  signatures and times of signing, and the payload.\<close>

record post =
  po_url :: string
  po_client :: client
  po_entries :: "(string \<times> string \<times> string) list"
  po_payload :: json

record gw =
  gw_db :: mdb
  gw_mail :: est
  gw_posts :: "post list"
  gw_wakes :: "(string \<times> string option) list"

type_synonym 'a wm = "(gw, app_error, 'a) eff"

definition on_db :: "'a mm \<Rightarrow> 'a wm" where
  "on_db m = (\<lambda>g. case m (gw_db g) of (r, d) \<Rightarrow> (r, g\<lparr>gw_db := d\<rparr>))"

definition on_mail :: "'a em \<Rightarrow> 'a wm" where
  "on_mail m = (\<lambda>g. case m (gw_mail g) of (r, e) \<Rightarrow> (r, g\<lparr>gw_mail := e\<rparr>))"

lemma on_db_run [runs]: "on_db m g = (fst (m (gw_db g)), g\<lparr>gw_db := snd (m (gw_db g))\<rparr>)"
  by (simp add: on_db_def split: prod.splits)

lemma on_mail_run [runs]: "on_mail m g = (fst (m (gw_mail g)), g\<lparr>gw_mail := snd (m (gw_mail g))\<rparr>)"
  by (simp add: on_mail_def split: prod.splits)

lemma preserves_on_db [keeps]: "preserves P m \<Longrightarrow> preserves (\<lambda>g. P (gw_db g)) (on_db m)"
  by (auto simp: preserves_def on_db_run)

lemma preserves_on_mail [keeps]: "preserves (\<lambda>g. P (gw_db g)) (on_mail m)"
  by (simp add: preserves_def on_mail_run)

text \<open>
  What the model takes from elsewhere: digests and JSON text, the sender of system mails, the number of
  attempts, whether the trigger channel has room, and the printed local time.
\<close>

record wenv =
  we_ext :: ext
  we_sender :: string
  we_max_attempts :: int
  we_trigger_room :: "string \<Rightarrow> bool"
  we_local_time :: "int \<Rightarrow> string"

definition err_text :: "wenv \<Rightarrow> app_error \<Rightarrow> string" where
  "err_text W e = display (db_message (we_ext W)) e"

lemma lift_rets [rets]: "returns m \<Longrightarrow> returns (on_db m)" "returns e \<Longrightarrow> returns (on_mail e)"
  by (auto simp: returns_def runs)

lemma lift_calms [calms]: "calm m \<Longrightarrow> calm (on_db m)" "calm e \<Longrightarrow> calm (on_mail e)"
  by (auto simp: calm_def runs)

lemma clock_rets [rets]: "returns md_now" "returns now_ms" "returns new_uuid"
  by (auto simp: returns_def md_now_def now_ms_def new_uuid_def)

lemmas clock_calms [calms] = clock_rets [THEN returns_calm]

section \<open>Creation of mails\<close>

definition create_inbound ::
    "string \<Rightarrow> string \<Rightarrow> string \<Rightarrow> string \<Rightarrow> string \<Rightarrow> string \<Rightarrow> json option \<Rightarrow> string option \<Rightarrow> string option \<Rightarrow>
     int \<Rightarrow> email em" where
  "create_inbound i system_id sender rcpts subject body endpoints attachments headers max_attempts =
     insert_email i system_id ''inbound'' sender rcpts subject body endpoints attachments headers max_attempts"

definition create_outbound ::
    "string \<Rightarrow> string \<Rightarrow> string \<Rightarrow> string \<Rightarrow> string \<Rightarrow> string \<Rightarrow> json option \<Rightarrow> string option \<Rightarrow> string option \<Rightarrow>
     int \<Rightarrow> email em" where
  "create_outbound i system_id sender rcpts subject body endpoints attachments headers max_attempts =
     insert_email i system_id ''outbound'' sender rcpts subject body endpoints attachments headers max_attempts"

text \<open>\<open>try_send\<close> on the trigger channel, where there is one.\<close>

definition try_trigger :: "wenv \<Rightarrow> bool \<Rightarrow> string \<Rightarrow> unit wm" where
  "try_trigger W has_tx i =
     (if has_tx \<and> we_trigger_room W i then on_mail (modifyE (\<lambda>s. s\<lparr>st_triggers := st_triggers s @ [i]\<rparr>))
      else returnE ())"

section \<open>Queued outbound mails\<close>

definition mx_endpoints :: "string \<Rightarrow> json" where
  "mx_endpoints to_addr = JObj [(to_lowercase to_addr, JObj [(''status'', JStr ''pending''), (''protocol'', JStr ''mx'')])]"

text \<open>Internal recipients get their webhook endpoint, external ones the MX envelope.\<close>

definition outbound_endpoints :: "string \<Rightarrow> json mm" where
  "outbound_endpoints to_addr = bindE (build_endpoints_for_recipients [to_addr]) (\<lambda>internal.
     returnE (if internal = JObj [] then mx_endpoints to_addr else internal))"

definition to_only :: "wenv \<Rightarrow> string \<Rightarrow> string" where
  "to_only W to_addr = json_text (we_ext W) (JObj [(''to'', JArr [JStr to_addr])])"

definition message_id :: "string \<Rightarrow> string \<Rightarrow> json" where
  "message_id uuid domain = JStr (''<'' @ uuid @ ''@'' @ domain @ ''>'')"

definition has_url_key :: "wenv \<Rightarrow> json \<Rightarrow> bool" where
  "has_url_key W eps = contains_str (json_text (we_ext W) eps) (CHR 0x22 # ''url'' @ [CHR 0x22])"

definition enqueue_outbound_simple ::
    "wenv \<Rightarrow> bool \<Rightarrow> string \<Rightarrow> string \<Rightarrow> string \<Rightarrow> string \<Rightarrow> string \<Rightarrow> (string + string) wm" where
  "enqueue_outbound_simple W has_tx system_id from to_addr subject body =
     bindE (on_mail new_uuid) (\<lambda>email_id.
     bindE (on_db (outbound_endpoints to_addr)) (\<lambda>eps.
     bindE (on_mail new_uuid) (\<lambda>u.
       let domain = unwrap_or ''aimail-relay'' (nth_opt (split_char (CHR ''@'') from) 1);
           headers = JObj ((if has_url_key W eps then [(''delivery_type'', JStr ''webhook'')] else [])
                          @ [(''message_id'', message_id u domain)]) in
       bindE (tryE (on_mail (create_outbound email_id system_id from (to_only W to_addr) subject body (Some eps) None
                (Some (json_text (we_ext W) headers)) (we_max_attempts W)))) (\<lambda>r.
         case r of
           Inr m \<Rightarrow> thenE (try_trigger W has_tx (em_id m)) (returnE (Inr (em_id m)))
         | Inl e \<Rightarrow> returnE (Inl (err_text W e))))))"

text \<open>
  A notice to an address that may be on this gateway: an inbound mail with its webhook endpoint for an
  address of the gateway's own domain, an outbound mail for any other. Three attempts.
\<close>

definition queue_notice ::
    "wenv \<Rightarrow> bool \<Rightarrow> string \<Rightarrow> string \<Rightarrow> string \<Rightarrow> string \<Rightarrow> string \<Rightarrow> unit wm" where
  "queue_notice W has_tx id_prefix system_id to_addr subject body =
     bindE (on_mail new_uuid) (\<lambda>u1. bindE (on_mail new_uuid) (\<lambda>u2.
       let email_id = id_prefix @ u1; from = we_sender W;
           domain = to_lowercase (unwrap_or [] (nth_opt (split_char (CHR ''@'') from) 1));
           internal = ends_with (to_lowercase to_addr) (CHR ''@'' # domain);
           headers = Some (json_text (we_ext W) (JObj [(''message_id'', message_id u2 domain)])) in
       bindE (tryE
         (if internal
          then bindE (on_db (build_endpoints_for_recipients [to_addr])) (\<lambda>eps.
            on_mail (create_inbound email_id system_id from to_addr subject body
              (if eps = JObj [] then None else Some eps) None headers 3))
          else on_mail (create_outbound email_id system_id from (to_only W to_addr) subject body None None headers 3)))
         (\<lambda>r. case r of Inl _ \<Rightarrow> returnE () | Inr _ \<Rightarrow> try_trigger W has_tx email_id)))"

section \<open>Queueing a mail leaves the tables of the main database alone\<close>

text \<open>What the tables say; clocks and caches are not part of it.\<close>

definition db_tables :: "mdb \<Rightarrow> mdb" where
  "db_tables s = s\<lparr>md_reads := 0, md_rowids := 0, md_domain_cache := [], md_wl_cache := []\<rparr>"

abbreviation same_tables :: "mdb \<Rightarrow> 'a wm \<Rightarrow> bool" where
  "same_tables d m \<equiv> preserves (\<lambda>g. db_tables (gw_db g) = d) m"

lemma tables_md_now [keeps]: "preserves (\<lambda>s. db_tables s = d) md_now"
  by (auto simp: preserves_def md_now_def db_tables_def)

lemma tables_gets [keeps]: "preserves (\<lambda>s. db_tables s = d) (getsE f)"
  by (simp add: preserves_def runs)

lemma tables_resolve_webhook_url [keeps]: "preserves (\<lambda>s. db_tables s = d) (resolve_webhook_url a)"
  by (auto simp: resolve_webhook_url_def get_active_system_domain_by_domain_def Let_def intro!: keeps split: option.split)

lemma tables_build_endpoints [keeps]: "preserves (\<lambda>s. db_tables s = d) (build_endpoints m xs)"
  by (induction xs arbitrary: m) (auto simp: Let_def intro!: keeps split: option.split)

lemma tables_endpoints [keeps]:
  "preserves (\<lambda>s. db_tables s = d) (build_endpoints_for_recipients xs)"
  "preserves (\<lambda>s. db_tables s = d) (outbound_endpoints a)"
  by (auto simp: build_endpoints_for_recipients_def outbound_endpoints_def intro!: keeps)

lemma tables_try_trigger [keeps]: "same_tables d (try_trigger W b i)"
  by (auto simp: try_trigger_def intro!: keeps)

lemma tables_enqueue [keeps]: "same_tables d (enqueue_outbound_simple W b sys from to_addr subject body)"
  by (auto simp: enqueue_outbound_simple_def Let_def intro!: keeps split: sum.split)

lemma tables_queue_notice [keeps]: "same_tables d (queue_notice W b p sys to_addr subject body)"
  by (auto simp: queue_notice_def Let_def intro!: keeps split: sum.split)

section \<open>Queueing never fails\<close>

lemma insert_email_calm [calms]: "calm (insert_email i sys dir from rc sj bd ep att hs mx)"
  unfolding insert_email_def Let_def by (intro calms)

lemma create_inbound_calm [calms]: "calm (create_inbound i sys from rc sj bd ep att hs mx)"
    "calm (create_outbound i sys from rc sj bd ep att hs mx)"
  by (simp_all add: create_inbound_def create_outbound_def calms)

lemma resolve_returns [rets]: "returns (resolve_webhook_url a)"
  by (auto simp: resolve_webhook_url_def get_active_system_domain_by_domain_def Let_def intro!: rets split: option.split)

lemma build_endpoints_returns [rets]: "returns (build_endpoints m xs)"
  by (induction xs arbitrary: m) (auto simp: Let_def intro!: rets split: option.split)

lemma endpoints_return [rets]: "returns (build_endpoints_for_recipients xs)" "returns (outbound_endpoints a)"
  unfolding outbound_endpoints_def build_endpoints_for_recipients_def by (intro rets)+

lemmas endpoints_calm [calms] = endpoints_return [THEN returns_calm]

lemma try_trigger_returns [rets]: "returns (try_trigger W b i)"
  by (auto simp: try_trigger_def intro!: rets)

lemma enqueue_returns [rets]: "returns (enqueue_outbound_simple W b sys from to_addr subject body)"
  by (auto simp: enqueue_outbound_simple_def Let_def intro!: rets calms split: sum.split)

lemma queue_notice_returns [rets]: "returns (queue_notice W b p sys to_addr subject body)"
  by (auto simp: queue_notice_def Let_def intro!: rets calms split: sum.split)

end
