(* ===== verification/Manager_Commands.thy ===== *)
theory Manager_Commands
  imports Gateway Text_Functions
begin

text \<open>
  The commands a manager sends to an agent by mail (\<open>src/src/core/api/webhook.rs\<close>, from \<open>ManagerCommand\<close>
  on): detection in the subject, the payload in body and headers, the authority check, the change, and the
  confirmations. Every definition carries the name of its function.
\<close>

section \<open>Texts\<close>

definition zh_approve_persona :: string where
  "zh_approve_persona = utf8 [230, 137, 185, 229, 135, 134, 232, 167, 146, 232, 137, 178]"

definition zh_change_manager :: string where
  "zh_change_manager = utf8 [230, 155, 180, 230, 141, 162, 229, 174, 137, 229, 133, 168, 229, 145, 152]"

definition zh_wrote :: "string list" where
  "zh_wrote = [utf8 [229, 134, 153, 233, 129, 147, 58], utf8 [229, 134, 153, 233, 129, 147, 239, 188, 154]]"

definition zh_sender :: string where
  "zh_sender = utf8 [229, 143, 145, 228, 187, 182, 228, 186, 186]"

definition add_words :: "string list" where
  "add_words = [''add '', utf8 [230, 183, 187, 229, 138, 160, 32], utf8 [229, 138, 160, 229, 133, 165, 32]]"

definition remove_words :: "string list" where
  "remove_words = [''remove '', ''delete '', utf8 [231, 167, 187, 233, 153, 164, 32], utf8 [229, 136, 160, 233, 153, 164, 32]]"

definition arrow :: string where "arrow = utf8 [226, 134, 146]"

section \<open>Payloads\<close>

definition is_manager :: "string \<Rightarrow> string \<Rightarrow> bool" where
  "is_manager sender manager_address \<longleftrightarrow> manager_address \<noteq> [] \<and> eq_ignore_ascii_case sender manager_address"

datatype manager_command =
    PersonaApproval string string
  | AddContact string "string option"
  | RemoveContact string
  | TransferManager string string

text \<open>A text made of dashes, long dashes, underscores and spaces only.\<close>

fun only_rules :: "string \<Rightarrow> bool" where
  "only_rules [] = True"
| "only_rules (a # b # c # s) =
     ((a \<in> {CHR ''-'', CHR ''_'', CHR '' ''} \<and> only_rules (b # c # s)) \<or>
      ([a, b, c] \<in> {utf8 [226, 128, 148], utf8 [226, 128, 147]} \<and> only_rules s))"
| "only_rules (a # s) = (a \<in> {CHR ''-'', CHR ''_'', CHR '' ''} \<and> only_rules s)"

definition payload_terminator :: "string \<Rightarrow> bool" where
  "payload_terminator l = (let lower = to_lowercase l in
     l = [] \<or> starts_with l ''>'' \<or> l = ''--'' \<or> starts_with l ''-- '' \<or> only_rules l \<or>
     contains_str lower ''original message'' \<or>
     (starts_with lower ''on '' \<and> contains_str lower ''wrote:'') \<or>
     list_ex (contains_str lower) zh_wrote \<or>
     starts_with lower ''from:'' \<or> starts_with lower zh_sender \<or> starts_with lower ''sent:'')"

definition is_placeholder_line :: "string \<Rightarrow> bool" where
  "is_placeholder_line l \<longleftrightarrow> 2 \<le> length l \<and> starts_with l ''<'' \<and> ends_with l ''>''"

definition push_capture :: "string \<Rightarrow> string \<Rightarrow> string" where
  "push_capture target l = (if target = [] then l else target @ line_feed # l)"

text \<open>The loop over the lines; the section is 0 before the first key, 1 in the persona, 2 in the signature.\<close>

fun approval_lines :: "nat \<Rightarrow> string \<Rightarrow> string \<Rightarrow> string list \<Rightarrow> string \<times> string" where
  "approval_lines sec persona signature [] = (persona, signature)"
| "approval_lines sec persona signature (l # ls) = (let t = trim l in
     if sec \<noteq> 0 \<and> payload_terminator t then (persona, signature)
     else (case strip_prefix ''persona:'' t of
       Some rem \<Rightarrow> approval_lines 1 (trim rem) signature ls
     | None \<Rightarrow> (case strip_prefix ''signature:'' t of
         Some rem \<Rightarrow> approval_lines 2 persona (trim rem) ls
       | None \<Rightarrow>
           if sec = 1 \<and> t \<noteq> [] then
             approval_lines 1 (if is_placeholder_line t then persona else push_capture persona t) signature ls
           else if sec = 2 \<and> t \<noteq> [] \<and> \<not> is_placeholder_line t then
             approval_lines 2 persona (push_capture signature t) ls
           else approval_lines sec persona signature ls)))"

definition parse_persona_approval :: "string \<Rightarrow> (string \<times> string) option" where
  "parse_persona_approval body = (case approval_lines 0 [] [] (split_lines body) of
     (persona, signature) \<Rightarrow> if persona = [] \<and> signature = [] then None else Some (persona, signature))"

definition extract_description_from_body :: "string \<Rightarrow> string option" where
  "extract_description_from_body body = first_some (\<lambda>l. first_some (\<lambda>key. case strip_prefix key (trim l) of
       Some rem \<Rightarrow> if trim rem = [] then None else Some (trim rem)
     | None \<Rightarrow> None) [''description:'', ''desc:'']) (split_lines body)"

text \<open>
  The address between the first occurrence of one of the words and the first of one of the endings. The
  positions are those of the lowercased text, which on bytes outside ASCII is as long as the text.
\<close>

definition contact_between :: "string list \<Rightarrow> string list \<Rightarrow> string \<Rightarrow> string option" where
  "contact_between words_before endings body =
     first_some (\<lambda>w. case find_sub w (to_lowercase body) of
         None \<Rightarrow> None
       | Some pos \<Rightarrow> (let rem = drop (pos + length w) body in
           first_some (\<lambda>kw. case find_sub kw (to_lowercase rem) of
               None \<Rightarrow> None
             | Some end_pos \<Rightarrow> (let email = trim (take end_pos rem) in
                 if email \<noteq> [] \<and> CHR ''@'' \<in> set email then Some email else None)) endings)) words_before"

definition parse_add_contact_body :: "string \<Rightarrow> manager_command option" where
  "parse_add_contact_body body = map_option (\<lambda>email. AddContact email (extract_description_from_body body))
     (contact_between add_words ['' to my contacts'', '' to contacts''] body)"

definition parse_remove_contact_body :: "string \<Rightarrow> manager_command option" where
  "parse_remove_contact_body body = map_option RemoveContact
     (contact_between remove_words ['' from my contacts'', '' from contacts''] body)"

section \<open>Subjects\<close>

datatype command_kind = ApprovePersona | AddContactKind | RemoveContactKind | ChangeManager

fun kind_name :: "command_kind \<Rightarrow> string" where
  "kind_name ApprovePersona = ''approve persona''"
| "kind_name AddContactKind = ''add contact''"
| "kind_name RemoveContactKind = ''remove contact''"
| "kind_name ChangeManager = ''change manager''"

definition TRIGGERS :: "(string \<times> command_kind) list" where
  "TRIGGERS = [(''approve persona'', ApprovePersona), (zh_approve_persona, ApprovePersona),
     (''add contact'', AddContactKind), (''remove contact'', RemoveContactKind),
     (''change manager'', ChangeManager), (zh_change_manager, ChangeManager)]"

definition matches_name :: "string \<Rightarrow> string \<Rightarrow> bool" where
  "matches_name rem name = (case strip_prefix name rem of
     None \<Rightarrow> False
   | Some after \<Rightarrow> after = [] \<or> is_whitespace (hd after) \<or> hd after = CHR '':'')"

definition detect_command :: "string \<Rightarrow> command_kind option" where
  "detect_command subject = (case strip_prefix ''[cmd]'' (to_lowercase (trim_start subject)) of
     None \<Rightarrow> None
   | Some after \<Rightarrow> map_option snd (find (\<lambda>(name, _). matches_name (trim_start after) name) TRIGGERS))"

section \<open>Matching the payload of a kind\<close>

definition match_transfer :: "ext \<Rightarrow> email \<Rightarrow> string + manager_command" where
  "match_transfer E m = (let r = recipients_from_json E (em_recipients m); body_lc = to_lowercase (em_body m) in
     if length (rp_to r) \<noteq> 1 then
       Inl (''exactly one recipient in To: is required (the new manager); found '' @ show_nat (length (rp_to r)))
     else if length (rp_cc r) \<noteq> 1 then
       Inl (''exactly one recipient in Cc: is required (the managed agent); found '' @ show_nat (length (rp_cc r)))
     else (let new_manager = trim (hd (rp_to r)); agent = trim (hd (rp_cc r)) in
       if CHR ''@'' \<notin> set new_manager then Inl (''To: address '' @ quoted_text new_manager @ '' is not a valid email'')
       else if CHR ''@'' \<notin> set agent then Inl (''Cc: address '' @ quoted_text agent @ '' is not a valid email'')
       else if \<not> contains_str body_lc (to_lowercase new_manager) then
         Inl (''body must name the new manager ('' @ new_manager @ '')'')
       else if \<not> contains_str body_lc (to_lowercase agent) then
         Inl (''body must name the managed agent ('' @ agent @ '')'')
       else if \<not> contains_str body_lc ''change manager'' \<and> \<not> contains_str body_lc zh_change_manager then
         Inl (''body must contain '' @ quoted_text ''change manager'' @ '' (or '' @ quoted_text zh_change_manager @ '')'')
       else Inr (TransferManager new_manager agent)))"

definition match_payload :: "ext \<Rightarrow> command_kind \<Rightarrow> email \<Rightarrow> string + manager_command" where
  "match_payload E kind m = (let or_else = (\<lambda>z why. case z of None \<Rightarrow> Inl why | Some x \<Rightarrow> Inr x) in
     case kind of
       ApprovePersona \<Rightarrow>
         or_else (map_option (\<lambda>(persona, signature). PersonaApproval persona signature)
                    (parse_persona_approval (em_body m)))
           (''no '' @ quoted_text ''persona:'' @ '' and/or '' @ quoted_text ''signature:'' @ '' section found in the body'')
     | AddContactKind \<Rightarrow>
         or_else (parse_add_contact_body (em_body m))
           (''body must be of the form '' @ quoted_text ''add <email> to my contacts'')
     | RemoveContactKind \<Rightarrow>
         or_else (parse_remove_contact_body (em_body m))
           (''body must be of the form '' @ quoted_text ''remove <email> from my contacts'')
     | ChangeManager \<Rightarrow> match_transfer E m)"

section \<open>Confirmations\<close>

text \<open>The context of confirmations: whether the trigger channel is at hand; and whom a failure is reported to.\<close>

record failed_ack =
  fa_trigger :: bool
  fa_sender :: string
  fa_system_id :: string

definition footer :: "string \<Rightarrow> string" where
  "footer from = ''--'' @ nl @ ''Automated confirmation from '' @ from @ ''; do not reply.'' @ nl"

definition failed_body :: "string \<Rightarrow> string \<Rightarrow> string \<Rightarrow> string \<Rightarrow> string \<Rightarrow> string" where
  "failed_body to_agent command reason ts from =
     ''Your command email for '' @ to_agent @ '' was received but NOT applied.'' @ nl @ nl @
     ''Command : '' @ command @ nl @ ''Result  : FAILED - '' @ reason @ nl @ ''Time    : '' @ ts @ nl @ nl @ footer from"

definition applied_body :: "string \<Rightarrow> string \<Rightarrow> string \<Rightarrow> string \<Rightarrow> string \<Rightarrow> string" where
  "applied_body to_agent command applied ts from =
     ''Your command email for '' @ to_agent @ '' has been received and applied.'' @ nl @ nl @
     ''Command : '' @ command @ nl @ ''Result  : OK'' @ nl @ ''Applied : '' @ applied @ nl @
     ''Time    : '' @ ts @ nl @ nl @ footer from"

definition local_time :: "wenv \<Rightarrow> string wm" where
  "local_time W = bindE (on_mail now_ms) (\<lambda>t. returnE (we_local_time W t))"

definition send_failed_command_ack :: "wenv \<Rightarrow> failed_ack \<Rightarrow> string \<Rightarrow> string \<Rightarrow> string \<Rightarrow> unit wm" where
  "send_failed_command_ack W fa to_agent command reason = bindE (local_time W) (\<lambda>ts.
     okE (enqueue_outbound_simple W (fa_trigger fa) (fa_system_id fa) (we_sender W) (fa_sender fa)
       (''[AIMail] Command failed: '' @ command) (failed_body to_agent command reason ts (we_sender W))))"

definition report_failure :: "wenv \<Rightarrow> failed_ack option \<Rightarrow> string \<Rightarrow> string \<Rightarrow> string \<Rightarrow> unit wm" where
  "report_failure W fa to_agent command reason = (case fa of
     None \<Rightarrow> returnE () | Some f \<Rightarrow> send_failed_command_ack W f to_agent command reason)"

definition send_command_ack ::
    "wenv \<Rightarrow> bool option \<Rightarrow> string \<Rightarrow> string \<Rightarrow> string \<Rightarrow> string \<Rightarrow> string + string \<Rightarrow> unit wm" where
  "send_command_ack W ack to_agent sender system_id command outcome = (case ack of
     None \<Rightarrow> returnE ()
   | Some has_tx \<Rightarrow> bindE (local_time W) (\<lambda>ts.
       okE (enqueue_outbound_simple W has_tx system_id (we_sender W) sender
         (case outcome of Inr _ \<Rightarrow> ''[AIMail] Command applied: '' @ command
                        | Inl _ \<Rightarrow> ''[AIMail] Command failed: '' @ command)
         (case outcome of Inr applied \<Rightarrow> applied_body to_agent command applied ts (we_sender W)
                        | Inl e \<Rightarrow> failed_body to_agent command e ts (we_sender W)))))"

definition notify_new_manager :: "wenv \<Rightarrow> bool option \<Rightarrow> string \<Rightarrow> string \<Rightarrow> string \<Rightarrow> unit wm" where
  "notify_new_manager W ack new_manager agent system_id = (case ack of
     None \<Rightarrow> returnE ()
   | Some has_tx \<Rightarrow> queue_notice W has_tx ''sys_manager_'' system_id new_manager
       (''[AIMail] You are now the manager of '' @ agent)
       (''You are now the manager (safety officer) of '' @ agent @ ''.'' @ nl @ nl @
        ''To issue a manager command for this agent, send a mail whose subject'' @ nl @
        ''is set to exactly [CMD] <command> (for example [CMD] approve persona),'' @ nl @
        ''with the command details in the body.'' @ nl @ nl @ footer (we_sender W)))"

definition persona_applied_body :: "string \<Rightarrow> string \<Rightarrow> string \<Rightarrow> string \<Rightarrow> string" where
  "persona_applied_body to_agent persona signature from =
     ''Your persona and signature are now active on '' @ to_agent @ ''.'' @ nl @ nl @
     ''persona    : '' @ persona @ nl @ ''signature  : '' @ signature @ nl @
     ''my_profile : injected into every inbound message from now on'' @ nl @ nl @
     ''Nothing else is required '' @ utf8 [226, 128, 148] @ '' this closes the activation.'' @ nl @ nl @ footer from"

definition notify_agent_persona_applied ::
    "wenv \<Rightarrow> bool option \<Rightarrow> string \<Rightarrow> string \<Rightarrow> string \<Rightarrow> string \<Rightarrow> unit wm" where
  "notify_agent_persona_applied W ack to_agent system_id persona signature = (case ack of
     None \<Rightarrow> returnE ()
   | Some has_tx \<Rightarrow> queue_notice W has_tx ''sys_persona_'' system_id to_agent ''[AIMail] Persona applied''
       (persona_applied_body to_agent persona signature (we_sender W)))"

section \<open>Execution\<close>

text \<open>A fallible call whose error becomes its text.\<close>

definition catchE :: "wenv \<Rightarrow> 'a wm \<Rightarrow> (string + 'a) wm" where
  "catchE W m = bindE (tryE m) (\<lambda>r. returnE (case r of Inl e \<Rightarrow> Inl (err_text W e) | Inr x \<Rightarrow> Inr x))"

definition or_keep :: "string \<Rightarrow> string \<Rightarrow> string" where
  "or_keep given kept = (if given = [] then kept else given)"

definition execute_regular ::
    "wenv \<Rightarrow> command_kind \<Rightarrow> manager_command \<Rightarrow> string \<Rightarrow> addr_meta \<Rightarrow> bool option \<Rightarrow> (string + string) wm" where
  "execute_regular W kind cmd agent meta ack = (case (kind, cmd) of
     (ApprovePersona, PersonaApproval persona signature) \<Rightarrow>
       (let sig = or_keep signature (dm_agent_signature meta); per = or_keep persona (dm_agent_persona meta) in
        bindE (catchE W (on_db (upsert_domain_addr_meta agent (dm_system_id meta) (Some (dm_manager_address meta))
                 (Some sig) (Some per)))) (\<lambda>r. case r of
          Inl e \<Rightarrow> returnE (Inl e)
        | Inr _ \<Rightarrow> thenE (notify_agent_persona_applied W ack agent (dm_system_id meta) per sig)
            (returnE (Inr (''persona = '' @ per @ nl @ ''          signature = '' @ sig @
               (if persona = [] \<or> signature = []
                then nl @ ''          (unchanged: omitted section keeps its previous value)'' else []))))))
   | (AddContactKind, AddContact email description) \<Rightarrow>
       bindE (catchE W (on_db (create_whitelist_entry agent ''all'' email description))) (\<lambda>r. returnE (case r of
          Inl e \<Rightarrow> Inl e | Inr _ \<Rightarrow> Inr (email @ '' added to your contacts (direction: all)'')))
   | (RemoveContactKind, RemoveContact email) \<Rightarrow>
       bindE (catchE W (on_db (delete_whitelist_entry_by_value agent email))) (\<lambda>r. returnE (case r of
          Inl e \<Rightarrow> Inl e | Inr _ \<Rightarrow> Inr (email @ '' removed from your contacts'')))
   | _ \<Rightarrow> returnE (Inl ''internal: command kind does not match payload''))"

definition agent_is_registered :: "string \<Rightarrow> bool wm" where
  "agent_is_registered addr = bindE (on_db (get_domain_addr_meta addr)) (\<lambda>z. returnE (z \<noteq> None))"

definition not_manager :: "string \<Rightarrow> string \<Rightarrow> string" where
  "not_manager sender agent = ''sender '' @ sender @ '' is not the manager of '' @ agent"

definition handle_regular_command ::
    "wenv \<Rightarrow> command_kind \<Rightarrow> email \<Rightarrow> bool option \<Rightarrow> failed_ack option \<Rightarrow> bool wm" where
  "handle_regular_command W kind m ack fa = (let name = kind_name kind in
     case recipients_delivery (recipients_from_json (we_ext W) (em_recipients m)) of
       [] \<Rightarrow> returnE False
     | agent # _ \<Rightarrow> bindE (on_db (get_domain_addr_meta agent)) (\<lambda>z. case z of
         None \<Rightarrow> returnE False
       | Some meta \<Rightarrow> (case match_payload (we_ext W) kind m of
           Inl reason \<Rightarrow> thenE (report_failure W fa agent name reason) (returnE True)
         | Inr cmd \<Rightarrow>
             if \<not> is_manager (em_sender m) (dm_manager_address meta) then
               thenE (report_failure W fa agent name (not_manager (em_sender m) agent)) (returnE False)
             else bindE (execute_regular W kind cmd agent meta ack) (\<lambda>r.
               thenE (send_command_ack W ack agent (em_sender m) (dm_system_id meta) name r)
                 (returnE (case r of Inl _ \<Rightarrow> False | Inr _ \<Rightarrow> True))))))"

definition handle_change_manager :: "wenv \<Rightarrow> email \<Rightarrow> bool option \<Rightarrow> failed_ack option \<Rightarrow> bool wm" where
  "handle_change_manager W m ack fa = (let name = kind_name ChangeManager in
     case match_payload (we_ext W) ChangeManager m of
       Inl reason \<Rightarrow>
         (let label = (case rp_cc (recipients_from_json (we_ext W) (em_recipients m)) of [] \<Rightarrow> [] | c # _ \<Rightarrow> c) in
          if label = [] then returnE False
          else bindE (agent_is_registered label) (\<lambda>reg.
            if reg then thenE (report_failure W fa label name reason) (returnE True) else returnE False))
     | Inr (TransferManager new_manager agent) \<Rightarrow> bindE (on_db (get_domain_addr_meta agent)) (\<lambda>z. case z of
         None \<Rightarrow> returnE False
       | Some meta \<Rightarrow>
           if \<not> is_manager (em_sender m) (dm_manager_address meta) then
             thenE (report_failure W fa agent name (not_manager (em_sender m) agent)) (returnE False)
           else bindE (catchE W (on_db (upsert_domain_addr_meta agent (dm_system_id meta) (Some new_manager)
                    (Some (dm_agent_signature meta)) (Some (dm_agent_persona meta))))) (\<lambda>r. case r of
             Inl e \<Rightarrow> thenE (send_command_ack W ack agent (em_sender m) (dm_system_id meta) name (Inl e)) (returnE False)
           | Inr _ \<Rightarrow> thenE (send_command_ack W ack agent (em_sender m) (dm_system_id meta) name
                 (Inr (''manager of '' @ agent @ '' changed: '' @ em_sender m @ '' '' @ arrow @ '' '' @ new_manager)))
               (thenE (notify_new_manager W ack new_manager agent (dm_system_id meta)) (returnE True))))
     | Inr _ \<Rightarrow> returnE False)"

definition handle_manager_commands :: "wenv \<Rightarrow> email \<Rightarrow> bool option \<Rightarrow> failed_ack option \<Rightarrow> bool wm" where
  "handle_manager_commands W m ack fa = (case detect_command (em_subject m) of
     None \<Rightarrow> returnE False
   | Some ChangeManager \<Rightarrow> handle_change_manager W m ack fa
   | Some kind \<Rightarrow> handle_regular_command W kind m ack fa)"

end
