(* ===== verification/Body_Pipeline.thy ===== *)
theory Body_Pipeline
  imports Text_Functions Board_Notify
begin

text \<open>
  The processing of a mail body before it is handed to a webhook: signatures
  (\<open>src/src/core/email/signature.rs\<close>), whitelist instructions (\<open>src/src/core/email/preprocess.rs\<close>), and the
  decomposition into layers with their assembly (\<open>src/src/core/email/bodyproc.rs\<close>).

  What the \<open>regex\<close> crate and the HTML converter decide is in \<open>pipe\<close>: whether a line is an instruction or
  noise, the last group captured by the pattern of named closings, the two groups of the pattern of bare
  Chinese names, and the Markdown of an HTML text.
\<close>

record pipe =
  bp_instruction :: "string \<Rightarrow> bool"
  bp_noise :: "string \<Rightarrow> bool"
  bp_named :: "string \<Rightarrow> string option"
  bp_chinese :: "string \<Rightarrow> (string \<times> string) option"
  bp_markdown :: "string \<Rightarrow> string option"

section \<open>Signatures\<close>

definition continuation_byte :: "char \<Rightarrow> bool" where
  "continuation_byte c \<longleftrightarrow> 128 \<le> code c \<and> code c < 192"

text \<open>\<open>str::floor_char_boundary\<close>.\<close>

fun floor_char_boundary :: "string \<Rightarrow> nat \<Rightarrow> nat" where
  "floor_char_boundary s 0 = 0"
| "floor_char_boundary s (Suc i) = (if length s \<le> Suc i then length s
     else if continuation_byte (s ! Suc i) then floor_char_boundary s i else Suc i)"

text \<open>The first line that is exactly the separator; what follows it, trimmed.\<close>

fun after_separator :: "string list \<Rightarrow> string option" where
  "after_separator [] = None"
| "after_separator (l # ls) = (if l = ''-- '' then Some (trim (join [line_feed] ls)) else after_separator ls)"

definition extract_rfc3676 :: "string \<Rightarrow> string option" where
  "extract_rfc3676 body = (case after_separator (split_char line_feed body) of
     None \<Rightarrow> None | Some sig \<Rightarrow> if sig = [] then None else Some sig)"

definition extract_named_closing :: "pipe \<Rightarrow> string \<Rightarrow> string option" where
  "extract_named_closing B body = map_option trim (bp_named B body)"

definition extract_chinese_bare :: "pipe \<Rightarrow> string \<Rightarrow> string option" where
  "extract_chinese_bare B body = map_option (\<lambda>(name, org). name @ '' | '' @ org)
     (bp_chinese B (drop (floor_char_boundary body (length body - 500)) body))"

definition clean_signature :: "pipe \<Rightarrow> string \<Rightarrow> string" where
  "clean_signature B sig = (let joined = join '' | ''
       (filter (\<lambda>l. l \<noteq> []) (map trim (filter (\<lambda>l. \<not> bp_noise B l) (split_lines sig)))) in
     if 300 < length joined then take (floor_char_boundary joined 300) joined else joined)"

definition title_hints :: "string list" where
  "title_hints = [''Engineer'', ''Manager'', ''Director'', ''VP'', ''CTO'', ''CEO'', ''Developer'', ''Designer'',
     ''Analyst'', ''Lead'', ''Head'', ''Chief'', ''President'', ''Specialist'', ''Coordinator'', ''Consultant'']"

definition extract_bare_name_end :: "string \<Rightarrow> string option" where
  "extract_bare_name_end body = (let ls = split_lines body;
       last_lines = rev (take 3 (filter (\<lambda>l. trim l \<noteq> []) (rev ls))) in
     if length body < 40 \<or> length ls < 3 \<or> length last_lines < 2 then None
     else (let penultimate = trim (last_lines ! (length last_lines - 2)); final = trim (last last_lines) in
       if length penultimate < 2 \<or> 30 < length penultimate \<or> (CHR ''.'' \<in> set penultimate \<and> 6 < length penultimate) \<or>
          \<not> list_ex (contains_str final) title_hints
       then None else Some (penultimate @ '' | '' @ final)))"

text \<open>The rules in order; a rule whose cleaned text is empty gives way to the next. Confidence in percent.\<close>

definition extract_signature :: "pipe \<Rightarrow> string \<Rightarrow> string option \<times> nat" where
  "extract_signature B body =
     (if body = [] then (None, 0)
      else (case first_some (\<lambda>(found, confidence). case found of
              None \<Rightarrow> None
            | Some sig \<Rightarrow> (let cleaned = clean_signature B sig in
                if cleaned = [] then None else Some (cleaned, confidence)))
          [(extract_rfc3676 body, 95), (extract_named_closing B body, 80), (extract_chinese_bare B body, 65),
           (extract_bare_name_end body, 40)] of
        None \<Rightarrow> (None, 0)
      | Some (sig, confidence) \<Rightarrow> (Some sig, confidence)))"

section \<open>Whitelist instructions\<close>

definition strip_whitelist_instructions :: "pipe \<Rightarrow> string \<Rightarrow> string \<times> bool" where
  "strip_whitelist_instructions B body =
     (if list_ex (bp_instruction B) (split_lines body)
      then (trim (join [line_feed] (filter (\<lambda>l. \<not> bp_instruction B l) (split_lines body))), True)
      else (body, False))"

section \<open>Layers\<close>

datatype layer_kind = Current | Forward | Reply

record extracted =
  ex_raw :: string
  ex_separator :: string
  ex_confidence :: nat

record layer =
  ly_body :: string
  ly_signature :: "extracted option"
  ly_kind :: layer_kind

definition is_forward_boundary :: "string \<Rightarrow> bool" where
  "is_forward_boundary l = (let t = trim l;
       unquoted = (case strip_prefix ''>'' t of Some s \<Rightarrow> trim s | None \<Rightarrow> t) in
     t \<in> {''--- Forwarded message ---'', ''--- forwarded message ---'',
          utf8 [45, 45, 232, 189, 172, 229, 143, 145, 233, 130, 174, 228, 187, 182, 45, 45],
          ''---------- Forwarded message ---------'', ''-----Original Message-----''} \<or>
     unquoted = ''-----Original Message-----'' \<or>
     contains_str t (replicate 18 (CHR ''-'') @ utf8 [32, 229, 142, 159, 229, 167, 139, 233, 130, 174, 228, 187, 182, 32]
       @ replicate 9 (CHR ''-'')))"

definition is_reply_boundary :: "string \<Rightarrow> bool" where
  "is_reply_boundary l = (let t = to_lowercase (trim l) in
     (starts_with t ''on '' \<and> ends_with t ''wrote:'') \<or>
     ((starts_with t (utf8 [229, 156, 168, 32]) \<or> starts_with t (utf8 [228, 186, 142, 32])) \<and>
      contains_str t (utf8 [229, 134, 153, 233, 129, 147])))"

text \<open>The first boundary: its index and what it is.\<close>

fun find_boundary :: "string list \<Rightarrow> (nat \<times> layer_kind) option" where
  "find_boundary [] = None"
| "find_boundary (l # ls) = (if is_forward_boundary l then Some (0, Forward)
     else if is_reply_boundary l then Some (0, Reply)
     else map_option (\<lambda>(i, k). (Suc i, k)) (find_boundary ls))"

definition quoted_line :: "string \<Rightarrow> bool" where
  "quoted_line l \<longleftrightarrow> trim l = [] \<or> starts_with (trim l) ''>''"

text \<open>The text before the boundary, the quoted text, and what comes after the quotation of a reply.\<close>

definition split_at_quote_boundary :: "string \<Rightarrow> (string \<times> string \<times> string \<times> layer_kind) option" where
  "split_at_quote_boundary body = (let ls = split_lines body; unlines = join [line_feed] in
     map_option (\<lambda>(i, kind). let after = drop (Suc i) ls in
       if kind = Reply
       then (unlines (take i ls), unlines (takeWhile quoted_line after), unlines (dropWhile quoted_line after), kind)
       else (unlines (take i ls), unlines after, [], kind)) (find_boundary ls))"

section \<open>One layer\<close>

definition html_to_text_loop :: "string \<Rightarrow> string \<times> bool \<Rightarrow> string \<times> bool" where
  "html_to_text_loop html st = fold (\<lambda>c (result, in_tag).
     if c = CHR ''<'' then (result @ '' '', True) else if c = CHR ''>'' then (result, False)
     else if in_tag then (result, in_tag) else (result @ [c], in_tag)) html st"

definition html_to_text :: "string \<Rightarrow> string" where
  "html_to_text html = join '' '' (split_whitespace (fst (html_to_text_loop html ([], False))))"

definition html_to_markdown :: "pipe \<Rightarrow> string \<Rightarrow> string" where
  "html_to_markdown B html = (case bp_markdown B html of Some m \<Rightarrow> m | None \<Rightarrow> html_to_text html)"

definition decode_html_entities :: "string \<Rightarrow> string" where
  "decode_html_entities text = fold (\<lambda>(entity, c). replace_str entity c)
     [(''&nbsp;'', '' ''), (''&amp;'', ''&''), (''&gt;'', ''>''), (''&lt;'', ''<''), (''&quot;'', [CHR 0x22]),
      (''&#39;'', [CHR 0x27])] text"

text \<open>\<open>trim_end_matches\<close> with two dashes.\<close>

fun trim_dashes :: "string \<Rightarrow> string" where
  "trim_dashes s = (if 2 \<le> length s \<and> drop (length s - 2) s = ''--'' then trim_dashes (take (length s - 2) s) else s)"

declare trim_dashes.simps [simp del]

definition strip_signature_from_body :: "string \<Rightarrow> string \<Rightarrow> string" where
  "strip_signature_from_body body signature = (case rfind_sub signature body of
     None \<Rightarrow> body | Some pos \<Rightarrow> trim (trim_dashes (trim (take pos body))))"

definition DISCLAIMER_MARKERS :: "string list" where
  "DISCLAIMER_MARKERS = [''This email is intended for'', ''This communication is confidential'',
     ''This message contains confidential'', ''DISCLAIMER'',
     utf8 [230, 156, 172, 233, 130, 174, 228, 187, 182, 229, 143, 138, 229, 133, 182, 233, 153, 132, 228, 187, 182, 229, 134, 133, 229, 174, 185],
     utf8 [230, 156, 172, 231, 148, 181, 229, 173, 144, 233, 130, 174, 228, 187, 182, 229, 143, 138, 229, 133, 182, 233, 153, 132, 228, 187, 182],
     utf8 [230, 156, 172, 233, 130, 174, 228, 187, 182, 229, 140, 133, 229, 144, 171, 228, 191, 157, 229, 175, 134, 228, 191, 161, 230, 129, 175],
     ''IMPORTANT NOTICE'', ''The information contained in this'', ''If you have received this email in error'',
     ''Email intended for'', ''This email has been sent'', ''EMAIL SECURITY INFORMATION'', ''RESTRICTED'',
     ''ACCOUNT-RELATED QUESTIONS'', ''Please do not reply to this email'', ''Stay in the know'']"

definition is_disclaimer_start :: "string \<Rightarrow> bool" where
  "is_disclaimer_start l = list_ex (contains_str l) DISCLAIMER_MARKERS"

definition is_disclaimer_continuation :: "string \<Rightarrow> bool" where
  "is_disclaimer_continuation l = (list_ex (starts_with l)
       [utf8 [194, 169], utf8 [194, 174], ''RESTRICTED'', ''Member FDIC'', ''&nbsp;'', utf8 [194, 160], ''PO Box'',
        ''P.O. Box'', ''All rights reserved'',
        utf8 [230, 173, 164, 231, 148, 181, 229, 173, 144, 233, 130, 174, 228, 187, 182],
        utf8 [230, 173, 164, 233, 130, 174, 228, 187, 182], ''N.A.'', ''P.O.''] \<or>
     contains_str l ''License #:'')"

fun noise_lines :: "bool \<Rightarrow> string list \<Rightarrow> string list" where
  "noise_lines in_disclaimer [] = []"
| "noise_lines in_disclaimer (l # ls) = (let t = trim l in
     if t = [] \<and> in_disclaimer then noise_lines True ls
     else if is_disclaimer_start t then noise_lines True ls
     else if in_disclaimer then
       (if t \<noteq> [] \<and> \<not> is_disclaimer_continuation t then l # noise_lines False ls else noise_lines True ls)
     else l # noise_lines False ls)"

definition filter_noise :: "string \<Rightarrow> string" where
  "filter_noise body = join [line_feed] (noise_lines False (split_lines body))"

definition process_single_layer :: "pipe \<Rightarrow> string \<Rightarrow> layer_kind \<Rightarrow> layer" where
  "process_single_layer B body kind =
     (let clean1 = fst (strip_whitelist_instructions B body);
          (sig_raw, confidence) = extract_signature B clean1;
          sig = map_option (\<lambda>raw. \<lparr>ex_raw = raw, ex_separator = ''-- '', ex_confidence = confidence\<rparr>) sig_raw;
          clean2 = (case sig of Some s \<Rightarrow> strip_signature_from_body clean1 (ex_raw s) | None \<Rightarrow> clean1);
          clean3 = (if starts_with (trim_start clean2) ''<'' then html_to_markdown B clean2 else clean2) in
      \<lparr>ly_body = filter_noise (decode_html_entities clean3), ly_signature = sig, ly_kind = kind\<rparr>)"

section \<open>Decomposition and assembly\<close>

definition MAX_LAYERS :: nat where "MAX_LAYERS = 20"

fun decompose :: "pipe \<Rightarrow> nat \<Rightarrow> bool \<Rightarrow> string \<Rightarrow> layer list" where
  "decompose B 0 is_first remaining = []"
| "decompose B (Suc n) is_first remaining = (case split_at_quote_boundary remaining of
     Some (current, quoted, after_quote, kind) \<Rightarrow>
       process_single_layer B (if after_quote = [] then current else current @ line_feed # after_quote)
         (if is_first then Current else kind) # decompose B n False quoted
   | None \<Rightarrow> [process_single_layer B remaining (if is_first then Current else Reply)])"

definition decompose_layers :: "pipe \<Rightarrow> string \<Rightarrow> layer list" where
  "decompose_layers B body = decompose B MAX_LAYERS True body"

definition kind_label :: "layer_kind \<Rightarrow> bool \<Rightarrow> string" where
  "kind_label kind cn = (case kind of
     Forward \<Rightarrow> if cn then utf8 [42, 42, 232, 189, 172, 229, 143, 145, 233, 130, 174, 228, 187, 182, 58, 42, 42]
                else ''**Forwarded Message:**''
   | Reply \<Rightarrow> if cn then utf8 [42, 42, 229, 155, 158, 229, 164, 141, 58, 42, 42] else ''**Reply:**''
   | Current \<Rightarrow> if cn then utf8 [42, 42, 229, 188, 149, 231, 148, 168, 58, 42, 42] else ''**Quoted:**'')"

definition layer_parts :: "bool \<Rightarrow> nat \<times> layer \<Rightarrow> string list" where
  "layer_parts cn = (\<lambda>(depth, ly).
     if depth = 0 then
       (if ly_body ly = [] then [] else [ly_body ly]) @
       (case ly_signature ly of None \<Rightarrow> []
        | Some s \<Rightarrow> [''---'' @ nl @ nl @
            (if cn then utf8 [42, 42, 229, 143, 145, 228, 187, 182, 228, 186, 186, 231, 173, 190, 229, 144, 141, 58, 42, 42]
             else ''**Sender Signature:**'') @ '' '' @ ex_raw s])
     else
       [''---'' @ nl @ kind_label (ly_kind ly) cn] @
       (if ly_body ly = [] then []
        else [join nl (map (\<lambda>l. if trim l = [] then ''>'' else ''> '' @ l) (split_lines (ly_body ly)))]) @
       (case ly_signature ly of None \<Rightarrow> []
        | Some s \<Rightarrow> (let prefix = repeat_str ''> '' depth in
            [prefix @ ''> ---'' @ nl @ prefix @ ''> '' @
             (if cn then utf8 [42, 42, 229, 142, 159, 229, 143, 145, 228, 187, 182, 228, 186, 186, 231, 173, 190, 229, 144, 141, 58, 42, 42]
              else ''**Original Sender Signature:**'') @ '' '' @ ex_raw s])))"

definition assemble_layers :: "layer list \<Rightarrow> bool \<Rightarrow> string" where
  "assemble_layers layers cn = join (nl @ nl) (concat (map (layer_parts cn) (zip [0..<length layers] layers)))"

definition process_email_body :: "pipe \<Rightarrow> string \<Rightarrow> string \<times> extracted option" where
  "process_email_body B body = (let layers = decompose_layers B body in
     (assemble_layers layers (has_cjk body), case layers of [] \<Rightarrow> None | l # _ \<Rightarrow> ly_signature l))"

end
