(* ===== verification/Webhook_Delivery.thy ===== *)
theory Webhook_Delivery
  imports Manager_Commands Body_Pipeline Board_Interceptor
begin

text \<open>
  The delivery of one mail to its webhooks, \<open>process_email_webhook\<close> of \<open>src/src/core/api/webhook.rs\<close> with the
  payload of \<open>to_webhook_payload\<close> (\<open>src/src/core/email/records.rs\<close>): manager commands first, then the interceptor
  chain, then the addresses that pull their mail, then the endpoints that are pushed to, grouped by URL.

  The HTTP client, the HMAC, the texts of instants, the interceptors and the iteration order of the hash
  map of URL groups are fields of \<open>hook\<close>. Every request that is sent is recorded in \<open>gw_posts\<close>, every wake-up
  of waiting readers in \<open>gw_wakes\<close>.
\<close>

section \<open>Environment\<close>

datatype http_reply = HttpStatus nat | RequestError string

record hook =
  wh_env :: wenv
  wh_pipe :: pipe
  wh_relay_username :: "string option"
  wh_hmac :: "string \<Rightarrow> string \<Rightarrow> string"
  wh_time_text :: "int \<Rightarrow> string"
  wh_interceptors :: "(email \<Rightarrow> json \<Rightarrow> (decision \<times> json) wm) list"
  wh_resolver :: resolver
  wh_build_ok :: bool
  wh_allow_private :: bool
  wh_reply :: "nat \<Rightarrow> post \<Rightarrow> http_reply"
  wh_group_order :: "(string \<times> (string \<times> string \<times> string) list) list \<Rightarrow> (string \<times> (string \<times> string \<times> string) list) list"

section \<open>Payload\<close>

definition jopt :: "string option \<Rightarrow> json" where
  "jopt z = (case z of None \<Rightarrow> JNull | Some s \<Rightarrow> JStr s)"

definition body_and_signature :: "pipe \<Rightarrow> email \<Rightarrow> string option \<Rightarrow> string \<times> string option" where
  "body_and_signature B m cached = (let (body, sig) = process_email_body B (em_body m) in
     case cached of
       None \<Rightarrow> (body, case sig of Some s \<Rightarrow> if 65 \<le> ex_confidence s then Some (ex_raw s) else None | None \<Rightarrow> None)
     | Some c \<Rightarrow> (em_body m, if c = [] then None else Some c))"

definition to_webhook_payload :: "hook \<Rightarrow> email \<Rightarrow> string \<Rightarrow> string option \<Rightarrow> int \<Rightarrow> json" where
  "to_webhook_payload H m forwarder cached t = (let E = we_ext (wh_env H);
       rc = recipients_from_json E (em_recipients m);
       (body, sig) = body_and_signature (wh_pipe H) m cached;
       headers = headers_parsed E m;
       references = (case get_str (Some (JObj headers)) ''references'' of None \<Rightarrow> [] | Some r \<Rightarrow> split_whitespace r);
       base = [(''mail_id'', JStr (em_id m)), (''from'', JStr (em_sender m)), (''to'', JArr (map JStr (rp_to rc))),
         (''cc'', JArr (map JStr (rp_cc rc))), (''subject'', JStr (em_subject m)), (''body'', JStr body),
         (''signature'', jopt sig), (''headers'', JObj headers), (''attachments'', JArr (attachments_parsed E m)),
         (''created_at'', JStr (wh_time_text H (em_created_at m))), (''forwarder'', JStr forwarder),
         (''forward_at'', JStr (wh_time_text H t))] in
     JObj (base
       @ (case get_str (Some (JObj headers)) ''message_id'' of None \<Rightarrow> [] | Some i \<Rightarrow> [(''message_id'', JStr i)])
       @ (if references = [] then [] else [(''references'', JArr (map JStr references))])))"

definition forwarder_of :: "hook \<Rightarrow> string" where
  "forwarder_of H = unwrap_or ''relay@aimail-relay.local'' (wh_relay_username H)"

section \<open>Requests\<close>

text \<open>\<open>sign_payload\<close>: the HMAC of the payload's text and the time of signing.\<close>

definition sign_payload :: "hook \<Rightarrow> string \<Rightarrow> json \<Rightarrow> (string \<times> string) wm" where
  "sign_payload H secret payload = bindE (on_mail now_ms) (\<lambda>t.
     returnE (wh_hmac H secret (json_text (we_ext (wh_env H)) payload), show_int t))"

text \<open>One request; \<open>None\<close> when it was answered with a success status.\<close>

definition send_post :: "hook \<Rightarrow> post \<Rightarrow> string option wm" where
  "send_post H p = bindE (getsE (\<lambda>g. length (gw_posts g))) (\<lambda>n.
     thenE (modifyE (\<lambda>g. g\<lparr>gw_posts := gw_posts g @ [p]\<rparr>))
     (returnE (case wh_reply H n p of
        HttpStatus s \<Rightarrow> if 200 \<le> s \<and> s < 300 then None else Some (''HTTP '' @ show_nat s)
      | RequestError e \<Rightarrow> Some (''request error: '' @ e))))"

definition mark_success :: "email \<Rightarrow> string \<Rightarrow> bool wm" where
  "mark_success m domain = bindE (tryE (on_mail (update_email_endpoint_status (em_id m) domain ''success''))) (\<lambda>r.
     returnE (case r of Inl _ \<Rightarrow> False | Inr _ \<Rightarrow> True))"

section \<open>Addresses that pull\<close>

record pull_state =
  ps_any :: bool
  ps_attempted :: bool
  ps_domains :: "string list"

definition pulls :: "system_domain \<Rightarrow> bool" where
  "pulls d = (case sd_webhook_url d of None \<Rightarrow> True | Some u \<Rightarrow> trim u = [])"

definition endpoint_key :: "(string \<times> json) list \<Rightarrow> string \<Rightarrow> system_domain \<Rightarrow> string" where
  "endpoint_key eps addr d = (if addr \<in> fst ` set eps then addr else sd_domain d)"

definition already_done :: "(string \<times> json) list \<Rightarrow> string \<Rightarrow> bool" where
  "already_done eps key = (case get_str (map_of eps key) ''status'' of
     None \<Rightarrow> False | Some s \<Rightarrow> s = ''success'' \<or> s = ''delivered'')"

definition resolve_or_none :: "string \<Rightarrow> system_domain option wm" where
  "resolve_or_none addr = bindE (tryE (on_db (resolve_domain_from_address addr))) (\<lambda>r.
     returnE (case r of Inl _ \<Rightarrow> None | Inr d \<Rightarrow> d))"

definition pull_headers :: "hook \<Rightarrow> string \<Rightarrow> (string \<times> string) option \<Rightarrow> string" where
  "pull_headers H addr sg = json_text (we_ext (wh_env H)) (JObj
     [(''X-AIMail-Email'', JStr addr),
      (''X-Webhook-Signature'', JStr (case sg of Some (s, _) \<Rightarrow> s | None \<Rightarrow> [])),
      (''X-AIMail-Timestamp'', case sg of Some (_, t) \<Rightarrow> JStr t | None \<Rightarrow> JNull),
      (''content-type'', JStr ''application/json'')])"

definition wake :: "string \<Rightarrow> string \<Rightarrow> unit wm" where
  "wake system_id addr = modifyE (\<lambda>g. g\<lparr>gw_wakes := gw_wakes g @ [(system_id, None), (system_id, Some (to_lowercase addr))]\<rparr>)"

text \<open>One delivery target: a pull address gets a row of pending deliveries instead of a request.\<close>

definition pull_one :: "hook \<Rightarrow> email \<Rightarrow> (string \<times> json) list \<Rightarrow> json \<Rightarrow> string \<Rightarrow> pull_state \<Rightarrow> pull_state wm" where
  "pull_one H m eps payload addr st = bindE (resolve_or_none addr) (\<lambda>z. case z of
     None \<Rightarrow> returnE st
   | Some d \<Rightarrow>
       if \<not> pulls d then returnE st
       else (let key = endpoint_key eps addr d in
         if already_done eps key then returnE (st\<lparr>ps_domains := key # ps_domains st\<rparr>)
         else bindE (resolve_or_none addr) (\<lambda>z2.
           bindE (case Option.bind z2 sd_webhook_secret of
               Some secret \<Rightarrow> bindE (sign_payload H secret payload) (\<lambda>s. returnE (Some s))
             | None \<Rightarrow> returnE None) (\<lambda>sg.
           bindE (tryE (on_db (insert_pending_delivery (sd_system_id d) key addr (pull_headers H addr sg)
                   (json_text (we_ext (wh_env H)) payload)))) (\<lambda>r. case r of
               Inl _ \<Rightarrow> returnE (st\<lparr>ps_attempted := True\<rparr>)
             | Inr _ \<Rightarrow> thenE (wake (sd_system_id d) addr)
                 (bindE (mark_success m key) (\<lambda>_.
                   returnE (st\<lparr>ps_any := True, ps_domains := key # ps_domains st\<rparr>))))))))"

fun pull_all :: "hook \<Rightarrow> email \<Rightarrow> (string \<times> json) list \<Rightarrow> json \<Rightarrow> string list \<Rightarrow> pull_state \<Rightarrow> pull_state wm" where
  "pull_all H m eps payload [] st = returnE st"
| "pull_all H m eps payload (a # as) st = bindE (pull_one H m eps payload a st) (pull_all H m eps payload as)"

section \<open>Endpoints that are pushed to\<close>

type_synonym groups = "(string \<times> (string \<times> string \<times> string) list) list"

fun add_to_group :: "string \<Rightarrow> string \<times> string \<times> string \<Rightarrow> groups \<Rightarrow> groups" where
  "add_to_group url x [] = [(url, [x])]"
| "add_to_group url x ((u, xs) # gs) = (if u = url then (u, xs @ [x]) # gs else (u, xs) # add_to_group url x gs)"

definition header_address :: "recipients \<Rightarrow> string \<Rightarrow> string" where
  "header_address rc domain = (if CHR ''@'' \<in> set domain then domain
     else unwrap_or domain (find (\<lambda>r. last (split_char (CHR ''@'') r) = domain) (rp_to rc @ rp_cc rc)))"

definition endpoint_secret :: "string \<Rightarrow> json \<Rightarrow> string wm" where
  "endpoint_secret domain ep = (case get_str (Some ep) ''secret'' of
     Some s \<Rightarrow> returnE s
   | None \<Rightarrow> bindE (resolve_or_none domain) (\<lambda>z. returnE (case z of
       Some d \<Rightarrow> snd (resolve_webhook_for_domain d) | None \<Rightarrow> [])))"

fun collect_groups ::
    "recipients \<Rightarrow> string list \<Rightarrow> (string \<times> json) list \<Rightarrow> bool \<times> groups \<Rightarrow> (bool \<times> groups) wm" where
  "collect_groups rc pulled [] acc = returnE acc"
| "collect_groups rc pulled ((domain, ep) # eps) (any, gs) =
     (if domain \<in> set pulled then collect_groups rc pulled eps (any, gs)
      else if unwrap_or [] (get_str (Some ep) ''status'') \<noteq> ''pending'' then collect_groups rc pulled eps (True, gs)
      else (let url = unwrap_or [] (get_str (Some ep) ''url'') in
        if url = [] then collect_groups rc pulled eps (True, gs)
        else bindE (endpoint_secret domain ep) (\<lambda>secret.
          collect_groups rc pulled eps (True, add_to_group url (domain, secret, header_address rc domain) gs))))"

text \<open>The entries of a batch: an endpoint without a secret is not signed; a single request always is.\<close>

fun batch_entries :: "hook \<Rightarrow> json \<Rightarrow> (string \<times> string \<times> string) list \<Rightarrow> (string \<times> string \<times> string) list wm" where
  "batch_entries H payload [] = returnE []"
| "batch_entries H payload ((domain, secret, email) # es) =
     bindE (if secret = [] then returnE ([], []) else sign_payload H secret payload) (\<lambda>sig.
       bindE (batch_entries H payload es) (\<lambda>others. returnE ((email, sig) # others)))"

fun mark_entries :: "email \<Rightarrow> (string \<times> string \<times> string) list \<Rightarrow> bool wm" where
  "mark_entries m [] = returnE True"
| "mark_entries m ((domain, secret, email) # es) =
     bindE (mark_success m domain) (\<lambda>ok. bindE (mark_entries m es) (\<lambda>others. returnE (ok \<and> others)))"

definition dispatch_group :: "hook \<Rightarrow> email \<Rightarrow> json \<Rightarrow> string \<times> (string \<times> string \<times> string) list \<Rightarrow> bool wm" where
  "dispatch_group H m payload = (\<lambda>(url, entries).
     case pinned_client (wh_resolver H) (wh_build_ok H) url (wh_allow_private H) of
       Inl _ \<Rightarrow> returnE False
     | Inr c \<Rightarrow>
         bindE (case entries of
             [(domain, secret, email)] \<Rightarrow> bindE (sign_payload H secret payload) (\<lambda>sig. returnE [(email, sig)])
           | _ \<Rightarrow> batch_entries H payload entries) (\<lambda>sg.
         bindE (send_post H \<lparr>po_url = url, po_client = c, po_entries = sg, po_payload = payload\<rparr>) (\<lambda>failed.
           if failed = None then mark_entries m entries else returnE False)))"

fun dispatch_groups :: "hook \<Rightarrow> email \<Rightarrow> json \<Rightarrow> groups \<Rightarrow> bool wm" where
  "dispatch_groups H m payload [] = returnE True"
| "dispatch_groups H m payload (x # xs) =
     bindE (dispatch_group H m payload x) (\<lambda>ok. bindE (dispatch_groups H m payload xs) (\<lambda>others. returnE (ok \<and> others)))"

section \<open>The delivery\<close>

fun intercept_all :: "(email \<Rightarrow> json \<Rightarrow> (decision \<times> json) wm) list \<Rightarrow> email \<Rightarrow> json \<Rightarrow> (decision \<times> json) wm" where
  "intercept_all [] m payload = returnE (PassThrough, payload)"
| "intercept_all (f # fs) m payload = bindE (f m payload) (\<lambda>(d, payload').
     if d = Handled then returnE (Handled, payload') else intercept_all fs m payload')"

text \<open>The cleaned body and the signature are saved once, before the first delivery.\<close>

definition save_cleaned :: "email \<Rightarrow> json \<Rightarrow> unit wm" where
  "save_cleaned m payload = (if em_sender_signature m \<noteq> None then returnE ()
     else okE (on_mail (update_email_body_and_signature (em_id m) (unwrap_or (em_body m) (get_str (Some payload) ''body''))
       (unwrap_or [] (get_str (Some payload) ''signature'')))))"

definition deliver_payload :: "hook \<Rightarrow> email \<Rightarrow> json \<Rightarrow> bool wm" where
  "deliver_payload H m payload =
     (let rc = recipients_from_json (we_ext (wh_env H)) (em_recipients m);
          eps = unwrap_or [] (endpoints_parsed m) in
      bindE (pull_all H m eps payload (recipients_delivery rc)
               \<lparr>ps_any = False, ps_attempted = False, ps_domains = []\<rparr>) (\<lambda>st.
      bindE (collect_groups rc (ps_domains st) eps (ps_any st, [])) (\<lambda>(any, gs).
        if \<not> any then returnE (\<not> ps_attempted st)
        else bindE (dispatch_groups H m payload (wh_group_order H gs)) (\<lambda>all_succeeded.
          bindE (tryE (on_mail (check_all_endpoints_completed (em_id m)))) (\<lambda>r.
            returnE (case r of Inl _ \<Rightarrow> False | Inr completed \<Rightarrow> all_succeeded \<and> completed))))))"

definition process_email_webhook :: "hook \<Rightarrow> email \<Rightarrow> bool option \<Rightarrow> failed_ack option \<Rightarrow> bool wm" where
  "process_email_webhook H m ack fa =
     bindE (handle_manager_commands (wh_env H) m ack fa) (\<lambda>consumed.
       if consumed then returnE True
       else bindE (on_mail now_ms) (\<lambda>t.
         bindE (intercept_all (wh_interceptors H) m (to_webhook_payload H m (forwarder_of H) (em_sender_signature m) t))
           (\<lambda>(d, payload). if d = Handled then returnE True
             else thenE (save_cleaned m payload) (deliver_payload H m payload))))"

text \<open>The delivery as the scheduler calls it: confirmations go out with the same trigger channel.\<close>

definition deliver_webhook_record :: "hook \<Rightarrow> bool \<Rightarrow> email \<Rightarrow> string option wm" where
  "deliver_webhook_record H has_tx m = bindE (process_email_webhook H m (Some has_tx)
       (Some \<lparr>fa_trigger = has_tx, fa_sender = em_sender m, fa_system_id = em_system_id m\<rparr>)) (\<lambda>ok.
     returnE (if ok then None else Some ''multi-endpoint webhook delivery incomplete''))"

end
