(* ===== verification/Gateway_Samples.thy ===== *)
theory Gateway_Samples
  imports Gateway Mail_Samples Env_Properties
begin

text \<open>A concrete state of the gateway for the witnesses.\<close>

definition demo_wenv :: wenv where
  "demo_wenv = \<lparr>we_ext = demo_ext, we_sender = ''noreply@x'', we_max_attempts = 3, we_trigger_room = (\<lambda>i. True),
     we_local_time = (\<lambda>t. ''now'')\<rparr>"

definition demo_meta :: addr_meta where
  "demo_meta = \<lparr>dm_email_address = ''a@x'', dm_system_id = ''s1'', dm_manager_address = ''boss@x'',
     dm_agent_signature = ''sig'', dm_agent_persona = ''per'', dm_is_active = True, dm_created_at = 0, dm_updated_at = 0\<rparr>"

definition demo_gw :: gw where
  "demo_gw = \<lparr>gw_db = empty_mdb\<lparr>md_metas := [demo_meta]\<rparr>, gw_mail = demo_store [], gw_posts = [], gw_wakes = []\<rparr>"

definition command_mail :: "string \<Rightarrow> string \<Rightarrow> string \<Rightarrow> email" where
  "command_mail sender subject body = (demo_email ''m1'' ''sending'' 0)\<lparr>em_sender := sender, em_recipients := ''a@x'',
     em_subject := subject, em_body := body\<rparr>"

end
