(* ===== verification/Manager_Properties.thy ===== *)
theory Manager_Properties
  imports Manager_Commands Gateway_Samples
begin

text \<open>
  What a manager command may change: nothing without the authority of the manager, and with it only the rows
  of the managed agent; what a transfer and an approval write; and that no confirmation is a command.
\<close>

section \<open>The rows of one agent\<close>

definition agent_view :: "string \<Rightarrow> mdb \<Rightarrow> mdb" where
  "agent_view a s = (db_tables s)\<lparr>md_metas := filter (\<lambda>r. dm_email_address r \<noteq> to_lowercase a) (md_metas s),
     md_whitelists := filter (\<lambda>w. wl_domain_addr w \<noteq> a) (md_whitelists s), md_wl_seq := 0\<rparr>"

abbreviation only_agent :: "string \<Rightarrow> mdb \<Rightarrow> 'a mm \<Rightarrow> bool" where
  "only_agent a d m \<equiv> preserves (\<lambda>s. agent_view a s = d) m"

lemma agent_view_tables: "agent_view a s = agent_view a t" if "db_tables s = db_tables t"
proof -
  have s: "agent_view a u = (db_tables u)\<lparr>md_metas := filter (\<lambda>r. dm_email_address r \<noteq> to_lowercase a) (md_metas (db_tables u)),
     md_whitelists := filter (\<lambda>w. wl_domain_addr w \<noteq> a) (md_whitelists (db_tables u)), md_wl_seq := 0\<rparr>" for u
    by (simp add: agent_view_def db_tables_def)
  show ?thesis unfolding s that ..
qed

lemma same_tables_only_agent:
  assumes "\<And>d. same_tables d m"
  shows "preserves (\<lambda>g. agent_view a (gw_db g) = d) m"
proof (rule preservesI)
  fix g :: gw assume g: "agent_view a (gw_db g) = d"
  have "db_tables (gw_db (snd (m g))) = db_tables (gw_db g)"
    using preservesD [OF assms, of g "db_tables (gw_db g)"] by simp
  with g show "agent_view a (gw_db (snd (m g))) = d" using agent_view_tables by metis
qed

lemma filter_update_where: "(\<And>r. p r \<Longrightarrow> \<not> q r \<and> \<not> q (f r)) \<Longrightarrow> filter q (update_where p f rows) = filter q rows"
  by (induction rows) (auto simp: update_where_def)

lemma agent_upsert [keeps]: "only_agent a d (upsert_domain_addr_meta a sys man sig per)"
  unfolding upsert_domain_addr_meta_def Let_def
  by (auto intro!: keeps preserves_modifyE simp: agent_view_def db_tables_def md_now_def preserves_def runs filter_update_where)

lemma agent_lookup [keeps]: "only_agent a d (get_system_domain_by_name b)"
  by (auto simp: get_system_domain_by_name_def get_system_domain_by_domain_def cache_domain_def md_now_def
      agent_view_def db_tables_def runs preserves_def Let_def split: option.splits)

lemma agent_keys [keeps]: "only_agent a d (resolve_keys b)"
  by (auto simp: resolve_keys_def intro!: keeps split: option.split)

lemma agent_insert [keeps]: "only_agent a d (insert_whitelist sys a dir v cat k desc)"
proof -
  have "filter (\<lambda>w. wl_domain_addr w \<noteq> a) (update_where (\<lambda>r. wl_key r = (sys, a, v)) f rows) =
      filter (\<lambda>w. wl_domain_addr w \<noteq> a) rows" if "\<And>r. wl_domain_addr (f r) = wl_domain_addr r" for f :: "whitelist \<Rightarrow> whitelist" and rows
    by (rule filter_update_where) (auto simp: wl_key_def that)
  then show ?thesis
    by (auto simp: insert_whitelist_def violation_def requireE_def md_now_def stale_rowid_def runs preserves_def Let_def
        agent_view_def db_tables_def)
qed

lemma agent_invalidate [keeps]: "only_agent a d (invalidate v)"
  by (simp add: invalidate_def preserves_def runs agent_view_def db_tables_def)

lemma agent_create [keeps]: "only_agent a d (create_whitelist_entry a dir v desc)"
  unfolding create_whitelist_entry_def create_whitelist_entry_full_def
  by (intro keeps)

lemma agent_delete [keeps]: "only_agent a d (delete_whitelist_entry_by_value a v)"
  unfolding delete_whitelist_entry_by_value_def delete_whitelist_by_domain_and_value_def
  by (intro keeps preserves_modifyE)
    (auto simp: agent_view_def db_tables_def intro!: arg_cong2 [where f = "\<lambda>x y. y\<lparr>md_whitelists := x, md_wl_seq := 0\<rparr>"]
      filter_cong)

section \<open>Confirmations change no table\<close>

lemma tables_local_time [keeps]: "same_tables d (local_time W)"
  by (auto simp: local_time_def intro!: keeps)

lemma tables_report [keeps]:
  "same_tables d (report_failure W fa a n r)" "same_tables d (send_command_ack W ack a sender sys n out)"
  "same_tables d (notify_new_manager W ack nm a sys)" "same_tables d (notify_agent_persona_applied W ack a sys p sg)"
  by (auto simp: report_failure_def send_failed_command_ack_def send_command_ack_def notify_new_manager_def
      notify_agent_persona_applied_def intro!: keeps split: option.split)

lemma agent_report [keeps]:
  "preserves (\<lambda>g. agent_view b (gw_db g) = d) (report_failure W fa a n r)"
  "preserves (\<lambda>g. agent_view b (gw_db g) = d) (send_command_ack W ack a sender sys n out)"
  "preserves (\<lambda>g. agent_view b (gw_db g) = d) (notify_new_manager W ack nm a sys)"
  "preserves (\<lambda>g. agent_view b (gw_db g) = d) (notify_agent_persona_applied W ack a sys p sg)"
  by (intro same_tables_only_agent tables_report)+

lemma agent_on_db [keeps]: "only_agent a d m \<Longrightarrow> preserves (\<lambda>g. agent_view a (gw_db g) = d) (on_db m)"
  by (rule preserves_on_db)

lemma agent_catch [keeps]: "preserves P m \<Longrightarrow> preserves P (catchE W m)"
  by (auto simp: catchE_def intro!: keeps)

lemma agent_execute [keeps]: "preserves (\<lambda>g. agent_view a (gw_db g) = d) (execute_regular W kind cmd a meta ack)"
  by (cases kind; cases cmd) (auto simp: execute_regular_def Let_def intro!: keeps split: sum.split)

section \<open>Authority\<close>






lemma meta_found:
  "get_domain_addr_meta a s = (Inr (find (\<lambda>r. dm_email_address r = to_lowercase a) (md_metas s)), s)"
  by (simp add: get_domain_addr_meta_def runs)

lemma find_meta: "find (\<lambda>r. dm_email_address r = to_lowercase a) rows = Some meta \<Longrightarrow>
  meta \<in> set rows \<and> dm_email_address meta = to_lowercase a"
  by (auto dest: find_in)





section \<open>What an authorised command writes\<close>

lemma local_time_returns [rets]: "returns (local_time W)"
  by (auto simp: local_time_def intro!: rets)

lemma report_returns [rets]:
  "returns (send_command_ack W ack a sender sys n out)" "returns (notify_new_manager W ack nm a sys)"
  "returns (notify_agent_persona_applied W ack a sys p sg)" "returns (report_failure W fa a n r)"
  by (auto simp: send_command_ack_def notify_new_manager_def notify_agent_persona_applied_def report_failure_def
      send_failed_command_ack_def intro!: rets returns_calm split: option.split)

text \<open>The row of an address after an upsert.\<close>

definition meta_written :: "string \<Rightarrow> addr_meta \<Rightarrow> string \<Rightarrow> string \<Rightarrow> string \<Rightarrow> mdb \<Rightarrow> mdb" where
  "meta_written a meta manager sig per s = s\<lparr>md_metas := update_where (\<lambda>r. dm_email_address r = to_lowercase a)
     (\<lambda>r. r\<lparr>dm_system_id := dm_system_id meta, dm_manager_address := to_lowercase (trim manager),
           dm_agent_signature := sig, dm_agent_persona := per, dm_updated_at := md_clock s (md_reads s)\<rparr>) (md_metas s)\<rparr>"

lemma upsert_existing:
  assumes "find (\<lambda>r. dm_email_address r = to_lowercase a) (md_metas s) = Some meta"
  shows "\<exists>r s'. upsert_domain_addr_meta a (dm_system_id meta) (Some manager) (Some sig) (Some per) s = (Inr r, s') \<and>
    db_tables s' = db_tables (meta_written a meta manager sig per s)"
proof -
  have "to_lowercase a \<in> dm_email_address ` set (md_metas s)"
    using find_meta [OF assms] by (metis imageI)
  then show ?thesis
    by (auto simp: upsert_domain_addr_meta_def md_now_def runs Let_def unwrap_or_def meta_written_def db_tables_def)
qed

lemma tables_after:
  assumes "\<And>d. same_tables d k" and "returns k"
  shows "\<exists>x g'. k g = (Inr x, g') \<and> db_tables (gw_db g') = db_tables (gw_db g)"
  using returnsD [OF assms(2), of g] preservesD [OF assms(1), of g "db_tables (gw_db g)"] by auto

text \<open>
  An authorised and complete transfer is consumed and writes exactly the new manager, trimmed and in
  lower case, into the row of the agent named in Cc; its persona and signature stay, and no other table
  changes.
\<close>

lemma transfer_exact:
  assumes "detect_command (em_subject m) = Some ChangeManager"
    and "match_transfer (we_ext W) m = Inr (TransferManager new_manager a)"
    and "find (\<lambda>r. dm_email_address r = to_lowercase a) (md_metas (gw_db g)) = Some meta"
    and "is_manager (em_sender m) (dm_manager_address meta)"
  shows "\<exists>g'. handle_manager_commands W m ack fa g = (Inr True, g') \<and>
    db_tables (gw_db g') = db_tables (meta_written a meta new_manager (dm_agent_signature meta) (dm_agent_persona meta) (gw_db g))"
proof -
  obtain r s' where up: "upsert_domain_addr_meta a (dm_system_id meta) (Some new_manager) (Some (dm_agent_signature meta))
      (Some (dm_agent_persona meta)) (gw_db g) = (Inr r, s')"
    and s': "db_tables s' = db_tables (meta_written a meta new_manager (dm_agent_signature meta) (dm_agent_persona meta) (gw_db g))"
    using upsert_existing [OF assms(3)] by blast
  define k where "k = thenE (send_command_ack W ack a (em_sender m) (dm_system_id meta) (kind_name ChangeManager)
                 (Inr (''manager of '' @ a @ '' changed: '' @ em_sender m @ '' '' @ arrow @ '' '' @ new_manager)))
               (thenE (notify_new_manager W ack new_manager a (dm_system_id meta)) (returnE True))"
  have run: "handle_manager_commands W m ack fa g = k (g\<lparr>gw_db := s'\<rparr>)"
    using assms up
    by (simp add: handle_manager_commands_def handle_change_manager_def match_payload_def runs meta_found catchE_def
        k_def Let_def)
  have "same_tables d k" for d unfolding k_def by (intro keeps)
  moreover have "returns k" unfolding k_def by (intro rets)
  ultimately obtain x g' where k: "k (g\<lparr>gw_db := s'\<rparr>) = (Inr x, g')" "db_tables (gw_db g') = db_tables s'"
    using tables_after [of k "g\<lparr>gw_db := s'\<rparr>"] by auto
  moreover have "x = True"
    using k(1) by (auto simp: k_def runs split: prod.splits sum.splits)
  ultimately show ?thesis using run s' by auto
qed


section \<open>Subjects\<close>

text \<open>No mail the commands queue is itself a command.\<close>

definition uncommanding :: "email set \<Rightarrow> gw \<Rightarrow> bool" where
  "uncommanding old g \<longleftrightarrow> (\<forall>m \<in> set (st_emails (gw_mail g)). m \<in> old \<or> detect_command (em_subject m) = None)"

lemma uncommanding_db [keeps]: "preserves (uncommanding old) (on_db m)"
  by (simp add: preserves_def uncommanding_def on_db_run)

lemma uncommanding_mail: "preserves (\<lambda>e. \<forall>m \<in> set (st_emails e). m \<in> old \<or> detect_command (em_subject m) = None) k \<Longrightarrow>
    preserves (uncommanding old) (on_mail k)"
  by (auto simp: preserves_def uncommanding_def on_mail_run)

lemma uncommanding_clock [keeps]: "preserves (uncommanding old) (on_mail new_uuid)" "preserves (uncommanding old) (on_mail now_ms)"
  by (rule uncommanding_mail; simp add: preserves_def new_uuid_def now_ms_def)+

lemma uncommanding_insert:
  assumes "detect_command subject = None"
  shows "preserves (\<lambda>e. \<forall>m \<in> set (st_emails e). m \<in> old \<or> detect_command (em_subject m) = None)
    (insert_email i sys dir from rc subject bd ep att hs mx)"
  using assms
  by (auto simp: insert_email_def now_ms_def preserves_def runs requireE_def Let_def)

lemma uncommanding_queue:
  assumes "detect_command subject = None"
  shows "preserves (uncommanding old) (enqueue_outbound_simple W b sys from to_addr subject body)"
    and "preserves (uncommanding old) (queue_notice W b p sys to_addr subject body)"
proof -
  note ins = uncommanding_mail [OF uncommanding_insert [OF assms]]
  have trig: "preserves (uncommanding old) (try_trigger W c i)" for c i
    by (auto simp: try_trigger_def intro!: keeps uncommanding_mail preserves_modifyE)
  show "preserves (uncommanding old) (enqueue_outbound_simple W b sys from to_addr subject body)"
    unfolding enqueue_outbound_simple_def create_outbound_def by (intro keeps ins trig)
  show "preserves (uncommanding old) (queue_notice W b p sys to_addr subject body)"
    unfolding queue_notice_def create_outbound_def create_inbound_def Let_def by (intro keeps ins trig)
qed

lemma bracket_subject: "detect_command (''[AIMail]'' @ s) = None"
  by (simp add: detect_command_def trim_start_def is_whitespace_def code_def to_lowercase_def ascii_lower_char_def strip_prefix_def)

lemma confirmation_subjects:
  "detect_command (''[AIMail] Command failed: '' @ s) = None" "detect_command (''[AIMail] Command applied: '' @ s) = None"
  "detect_command (''[AIMail] You are now the manager of '' @ s) = None" "detect_command ''[AIMail] Persona applied'' = None"
  using bracket_subject [of "'' Command failed: '' @ s"] bracket_subject [of "'' Command applied: '' @ s"]
    bracket_subject [of "'' You are now the manager of '' @ s"] bracket_subject [of "'' Persona applied''"] by simp_all

lemma uncommanding_local_time [keeps]: "preserves (uncommanding old) (local_time W)"
  unfolding local_time_def by (intro keeps)

lemma uncommanding_reports [keeps]:
  "preserves (uncommanding old) (report_failure W fa a n r)"
  "preserves (uncommanding old) (notify_new_manager W ack nm a sys)"
  "preserves (uncommanding old) (notify_agent_persona_applied W ack a sys p sg)"
  unfolding report_failure_def send_failed_command_ack_def notify_new_manager_def notify_agent_persona_applied_def
  by (intro keeps uncommanding_queue confirmation_subjects)+

lemma uncommanding_ack [keeps]: "preserves (uncommanding old) (send_command_ack W ack a sender sys n out)"
proof -
  have "detect_command (case out of Inr _ \<Rightarrow> ''[AIMail] Command applied: '' @ n | Inl _ \<Rightarrow> ''[AIMail] Command failed: '' @ n) = None"
    by (cases out) (simp_all only: sum.case confirmation_subjects)
  then show ?thesis unfolding send_command_ack_def by (intro keeps uncommanding_queue)
qed

text \<open>
  C32. The confirmations cannot start a loop: no mail that the handling of a command queues has a subject
  that is a command.
\<close>

theorem confirmations_are_no_commands:
  assumes "handle_manager_commands W m ack fa g = (r, g')" and "c \<in> set (st_emails (gw_mail g'))"
    and "c \<notin> set (st_emails (gw_mail g))"
  shows "detect_command (em_subject c) = None"
proof -
  have exe: "preserves (uncommanding old) (execute_regular W kind cmd a meta ack)" for old kind cmd a meta
    by (cases kind; cases cmd) (auto simp: execute_regular_def Let_def intro!: keeps split: sum.split)
  have "preserves (uncommanding (set (st_emails (gw_mail g)))) (handle_manager_commands W m ack fa)"
    unfolding handle_manager_commands_def handle_change_manager_def handle_regular_command_def agent_is_registered_def Let_def
    by (auto intro!: keeps exe split: option.split sum.split list.split command_kind.split manager_command.split)
  then show ?thesis
    using assms preservesE [of "uncommanding (set (st_emails (gw_mail g)))" _ g r g'] by (auto simp: uncommanding_def)
qed

section \<open>Examples\<close>



definition approval_mail :: email where
  "approval_mail = command_mail ''Boss@x'' ''[CMD] Approve Persona'' (''persona: helper'' @ [line_feed, line_feed] @ ''> quoted'')"



theorem confirmations_are_no_commands_witness:
  "filter (\<lambda>c. detect_command (em_subject c) \<noteq> None)
     (st_emails (gw_mail (snd (handle_manager_commands demo_wenv approval_mail (Some True) None demo_gw)))) = []"
proof -
  obtain r g' where run: "handle_manager_commands demo_wenv approval_mail (Some True) None demo_gw = (r, g')"
    by (cases "handle_manager_commands demo_wenv approval_mail (Some True) None demo_gw") auto
  have "st_emails (gw_mail demo_gw) = []" by (simp add: demo_gw_def demo_store_def)
  then show ?thesis using confirmations_are_no_commands [OF run] by (auto simp: run filter_empty_conv)
qed

definition transfer_env :: wenv where
  "transfer_env = demo_wenv\<lparr>we_ext := demo_ext\<lparr>json_parse := (\<lambda>t. Some (JObj [(''to'', JArr [JStr ''new@y'']),
     (''cc'', JArr [JStr ''a@x''])]))\<rparr>\<rparr>"

definition transfer_mail :: email where
  "transfer_mail = command_mail ''boss@x'' ''[CMD] change manager'' ''Please change manager of a@x to new@y''"

lemma transfer_exact_witness:
  "\<exists>g'. handle_manager_commands transfer_env transfer_mail None None demo_gw = (Inr True, g') \<and>
    db_tables (gw_db g') = db_tables (meta_written ''a@x'' demo_meta ''new@y'' ''sig'' ''per'' (gw_db demo_gw))"
proof -
  have s: "em_subject transfer_mail = ''[CMD] change manager''" "em_sender transfer_mail = ''boss@x''"
    "em_body transfer_mail = ''Please change manager of a@x to new@y''"
    by (simp_all add: transfer_mail_def command_mail_def)
  have d: "detect_command (em_subject transfer_mail) = Some ChangeManager" unfolding s by code_simp
  have r: "recipients_from_json (we_ext transfer_env) (em_recipients transfer_mail) =
      \<lparr>rp_to = [''new@y''], rp_cc = [''a@x''], rp_rcpt = []\<rparr>"
    by (simp add: recipients_from_json_def recipients_of_json_def transfer_env_def demo_wenv_def demo_ext_def json_strings_def)
  have named: "contains_str (to_lowercase ''Please change manager of a@x to new@y'') (to_lowercase ''new@y'')"
    "contains_str (to_lowercase ''Please change manager of a@x to new@y'') (to_lowercase ''a@x'')"
    "contains_str (to_lowercase ''Please change manager of a@x to new@y'') ''change manager''"
    "trim ''new@y'' = ''new@y''" "trim ''a@x'' = ''a@x''"
    by code_simp+
  have t: "match_transfer (we_ext transfer_env) transfer_mail = Inr (TransferManager ''new@y'' ''a@x'')"
    by (simp add: match_transfer_def r s named Let_def)
  have f: "find (\<lambda>r. dm_email_address r = to_lowercase ''a@x'') (md_metas (gw_db demo_gw)) = Some demo_meta"
    by (simp add: demo_gw_def demo_meta_def to_lowercase_def ascii_lower_char_def code_def)
  have m: "is_manager (em_sender transfer_mail) (dm_manager_address demo_meta)" unfolding s by code_simp
  show ?thesis using transfer_exact [OF d t f m, of None None] by (simp add: demo_meta_def)
qed

end
