(* ===== verification/Webhook_Targets.thy ===== *)
theory Webhook_Targets
  imports Env_Factory
begin

text \<open>
  Where a webhook may be sent: the policy of \<open>src/src/core/webhook_target.rs\<close> against the address ranges it stands for.
\<close>

definition v4_number :: "ip_addr \<Rightarrow> nat option" where
  "v4_number ip = (case ip of V4 a b c d \<Rightarrow>
     Some (((unat a * 256 + unat b) * 256 + unat c) * 256 + unat d) | V6 _ \<Rightarrow> None)"

definition private_v4 :: "nat \<Rightarrow> bool" where
  "private_v4 n \<longleftrightarrow> n = 0 \<or> n div 2 ^ 24 \<in> {10, 127} \<or> n div 2 ^ 20 = 172 * 16 + 1 \<or>
     n div 2 ^ 16 \<in> {192 * 256 + 168, 169 * 256 + 254}"

lemma word8_bound: "unat (w :: 8 word) \<le> 255"
  using unsigned_less [of w, where ?'a = nat] by simp

lemma octet_ranges:
  fixes a b q :: nat
  assumes "a \<le> 255" and "b \<le> 255"
  shows "a * 256 + b = 49320 \<longleftrightarrow> a = 192 \<and> b = 168" and "a * 256 + b = 43518 \<longleftrightarrow> a = 169 \<and> b = 254"
    and "a * 16 + b div 16 = 2753 \<longleftrightarrow> a = 172 \<and> 16 \<le> b \<and> b \<le> 31"
proof -
  show "a * 256 + b = 49320 \<longleftrightarrow> a = 192 \<and> b = 168" "a * 256 + b = 43518 \<longleftrightarrow> a = 169 \<and> b = 254"
    using assms by arith+
  define q where "q = b div 16"
  have q: "16 * q \<le> b" "b < 16 * q + 16" unfolding q_def by simp_all
  have "q < 16" using q assms by linarith
  then have top: "(a * 16 + q) div 16 = a" by simp
  have "a * 16 + q = 2753 \<longleftrightarrow> a = 172 \<and> q = 1"
  proof
    assume eq: "a * 16 + q = 2753"
    have "a = 172" using top unfolding eq by simp
    with eq show "a = 172 \<and> q = 1" by simp
  qed simp
  moreover have "q = 1 \<longleftrightarrow> 16 \<le> b \<and> b \<le> 31" using q by arith
  ultimately show "a * 16 + b div 16 = 2753 \<longleftrightarrow> a = 172 \<and> 16 \<le> b \<and> b \<le> 31" unfolding q_def by blast
qed

lemma octets_blocked:
  "ip_is_blocked (V4 a b c d) False \<longleftrightarrow>
     (unat a = 0 \<and> unat b = 0 \<and> unat c = 0 \<and> unat d = 0) \<or> unat a = 127 \<or> unat a = 10 \<or>
     (unat a = 172 \<and> 16 \<le> unat b \<and> unat b \<le> 31) \<or> (unat a = 192 \<and> unat b = 168) \<or> (unat a = 169 \<and> unat b = 254)"
  by (simp add: ip_is_blocked_def is_unspecified_def is_loopback_def word_unat_eq_iff word_le_nat_alt) auto

lemma octet_divs:
  fixes a b c d :: nat
  assumes "b \<le> 255" "c \<le> 255" "d \<le> 255" and n: "n = ((a * 256 + b) * 256 + c) * 256 + d"
  shows "n div 2 ^ 24 = a" "n div 2 ^ 16 = a * 256 + b" "n div 2 ^ 20 = a * 16 + b div 16"
proof -
  show two: "n div 2 ^ 16 = a * 256 + b" unfolding n using assms(2,3) by simp
  have "n div 2 ^ 24 = n div 2 ^ 16 div 256" by (simp flip: div_mult2_eq)
  also have "\<dots> = a" unfolding two using assms(1) by simp
  finally show "n div 2 ^ 24 = a" .
  have "n div 2 ^ 20 = n div 2 ^ 16 div 16" by (simp flip: div_mult2_eq)
  also have "\<dots> = a * 16 + b div 16" unfolding two by simp
  finally show "n div 2 ^ 20 = a * 16 + b div 16" .
qed

lemma blocked_v4:
  assumes "v4_number ip = Some n"
  shows "ip_is_blocked ip False \<longleftrightarrow> private_v4 n"
proof -
  obtain a b c d where ip: "ip = V4 a b c d" and n: "n = ((unat a * 256 + unat b) * 256 + unat c) * 256 + unat d"
    using assms by (auto simp: v4_number_def split: ip_addr.splits)
  note bounds = word8_bound [of a] word8_bound [of b] word8_bound [of c] word8_bound [of d]
  have "n = 0 \<longleftrightarrow> unat a = 0 \<and> unat b = 0 \<and> unat c = 0 \<and> unat d = 0" unfolding n by auto
  then show ?thesis
    unfolding ip octets_blocked private_v4_def octet_divs [OF bounds(2-4) n]
    using octet_ranges [OF bounds(1,2)] by auto
qed

lemma pinned_target_allowed:
  assumes "pinned_client lookup_host build_ok url False = Inr c"
  shows "\<exists>ip. (case c of BaseClient \<Rightarrow> parse_ip (url_host (trim url)) = Some ip
      | PinnedClient host ip' \<Rightarrow> host = url_host (trim url) \<and> ip' = ip \<and>
          parse_ip host = None \<and> (\<exists>rest. lookup_host host = Some (ip # rest))) \<and>
    \<not> ip_is_blocked ip False \<and> (\<forall>n. v4_number ip = Some n \<longrightarrow> \<not> private_v4 n)"
  using assms blocked_v4
  by (auto simp: pinned_client_def Let_def split: if_splits option.splits list.splits)

lemma demo_target:
  "pinned_client (\<lambda>h. Some [V4 93 184 215 14]) True ''https://hooks.x:8443/in'' False =
     Inr (PinnedClient ''hooks.x'' (V4 93 184 215 14))"
proof -
  have trimmed: "trim ''https://hooks.x:8443/in'' = ''https://hooks.x:8443/in''" by code_simp
  have host: "url_host ''https://hooks.x:8443/in'' = ''hooks.x''" and name: "parse_ip ''hooks.x'' = None" by code_simp+
  show ?thesis
    unfolding pinned_client_def Let_def trimmed host name
    by (simp add: is_http_url_def ip_is_blocked_def is_unspecified_def is_loopback_def)
qed

text \<open>
  The host is cut out of the URL by hand, where a backslash does not end the authority; a URL parser that
  follows the WHATWG standard, as the one of the HTTP client does, ends it there and connects to the loopback
  address.
\<close>

lemma backslash_hides_host: "url_host (''http://127.0.0.1'' @ [CHR 0x5C] @ ''@good.x/'') = ''good.x''"
  by code_simp

text \<open>
  An IPv4 address written as a mapped IPv6 literal escapes the policy: the loopback range is not among the
  blocked segments.
\<close>

lemma mapped_loopback_allowed:
  "parse_ip ''::ffff:127.0.0.1'' = Some (V6 [0, 0, 0, 0, 0, 0xffff, 0x7f00, 1])"
  "\<not> ip_is_blocked (V6 [0, 0, 0, 0, 0, 0xffff, 0x7f00, 1]) False"
proof -
  have zeros: "replicate 8 x = [x, x, x, x, x, x, x, x]" "replicate 5 x = [x, x, x, x, x]" "replicate 7 x = [x, x, x, x, x, x, x]" for x :: "16 word"
    by (simp_all add: numeral_eq_Suc)
  show "parse_ip ''::ffff:127.0.0.1'' = Some (V6 [0, 0, 0, 0, 0, 0xffff, 0x7f00, 1])"
    by (simp add: parse_ip_def parse_v6_def parse_v4_def colon_groups_def parse_group_def parse_octet_def
        digit_val_def hex_val_def code_def zeros)
  show "\<not> ip_is_blocked (V6 [0, 0, 0, 0, 0, 0xffff, 0x7f00, 1]) False"
    unfolding ip_is_blocked_def is_unspecified_def is_loopback_def ip_addr.case zeros by simp
qed

end
