(* ===== verification/Delivery_Properties.thy ===== *)
theory Delivery_Properties
  imports Webhook_Delivery Manager_Properties Webhook_Targets
begin

text \<open>
  What a delivery attempt does: where its requests go, and what its success means.
\<close>

section \<open>Requests go to allowed targets\<close>

definition posts_in :: "(post list \<Rightarrow> bool) \<Rightarrow> gw \<Rightarrow> bool" where
  "posts_in Q g \<longleftrightarrow> Q (gw_posts g)"

definition pinned_posts :: "hook \<Rightarrow> post set \<Rightarrow> post list \<Rightarrow> bool" where
  "pinned_posts H old ps \<longleftrightarrow> (\<forall>p \<in> set ps. p \<in> old \<or>
     pinned_client (wh_resolver H) (wh_build_ok H) (po_url p) (wh_allow_private H) = Inr (po_client p))"

abbreviation posts_pinned :: "hook \<Rightarrow> post set \<Rightarrow> gw \<Rightarrow> bool" where
  "posts_pinned H old \<equiv> posts_in (pinned_posts H old)"

lemma posts_lift [keeps]: "preserves (posts_in Q) (on_db m)" "preserves (posts_in Q) (on_mail e)"
    "preserves (posts_in Q) (wake sys a)"
  by (simp_all add: preserves_def posts_in_def runs wake_def)

lemma posts_queue [keeps]:
  "preserves (posts_in Q) (enqueue_outbound_simple W b sys from to_addr subject body)"
  "preserves (posts_in Q) (queue_notice W b p sys to_addr subject body)"
  unfolding enqueue_outbound_simple_def queue_notice_def try_trigger_def Let_def by (intro keeps)+

lemma posts_reports [keeps]:
  "preserves (posts_in Q) (report_failure W fa a n r)"
  "preserves (posts_in Q) (send_command_ack W ack a sender sys n out)"
  "preserves (posts_in Q) (notify_new_manager W ack nm a sys)"
  "preserves (posts_in Q) (notify_agent_persona_applied W ack a sys p sg)"
  unfolding report_failure_def send_failed_command_ack_def send_command_ack_def notify_new_manager_def
    notify_agent_persona_applied_def local_time_def by (intro keeps)+

lemma posts_commands [keeps]: "preserves (posts_in Q) (handle_manager_commands W m ack fa)"
proof -
  have exe: "preserves (posts_in Q) (execute_regular W kind cmd a meta ack)" for kind cmd a meta
    by (cases kind; cases cmd) (auto simp: execute_regular_def Let_def intro!: keeps split: sum.split)
  then show ?thesis
    unfolding handle_manager_commands_def handle_change_manager_def handle_regular_command_def agent_is_registered_def Let_def
    by (auto intro!: keeps split: option.split sum.split list.split command_kind.split manager_command.split)
qed

lemma posts_helpers [keeps]:
  "preserves (posts_in Q) (sign_payload H' secret payload)" "preserves (posts_in Q) (mark_success m d)"
  "preserves (posts_in Q) (resolve_or_none a)" "preserves (posts_in Q) (endpoint_secret d ep)"
  "preserves (posts_in Q) (save_cleaned m payload)"
  unfolding sign_payload_def mark_success_def resolve_or_none_def endpoint_secret_def save_cleaned_def by (intro keeps)+

lemma posts_pull [keeps]: "preserves (posts_in Q) (pull_one H' m eps payload a st)"
  unfolding pull_one_def Let_def by (intro keeps)



lemma posts_entries [keeps]: "preserves (posts_in Q) (batch_entries H' payload es)"
    "preserves (posts_in Q) (mark_entries m es)"
  by (induction es) (auto intro!: keeps)

lemma posts_send [keeps]:
  assumes "pinned_client (wh_resolver H) (wh_build_ok H) (po_url p) (wh_allow_private H) = Inr (po_client p)"
  shows "preserves (posts_pinned H old) (send_post H p)"
  using assms by (auto simp: preserves_def posts_in_def pinned_posts_def send_post_def runs)

lemma posts_group [keeps]: "preserves (posts_pinned H old) (dispatch_group H m payload x)"
proof -
  obtain url entries where x: "x = (url, entries)" by (cases x)
  show ?thesis
  proof (cases "pinned_client (wh_resolver H) (wh_build_ok H) url (wh_allow_private H)")
    case (Inr c)
    then show ?thesis unfolding dispatch_group_def x prod.case sum.case
      by (auto intro!: keeps split: list.split prod.split)
  qed (simp add: dispatch_group_def x keeps)
qed

lemma posts_groups [keeps]: "preserves (posts_pinned H old) (dispatch_groups H m payload xs)"
  by (induction xs) (auto intro!: keeps)




section \<open>Success means delivered\<close>






section \<open>Examples\<close>

definition demo_hook :: hook where
  "demo_hook = \<lparr>wh_env = demo_wenv,
     wh_pipe = \<lparr>bp_instruction = (\<lambda>l. False), bp_noise = (\<lambda>l. False), bp_named = (\<lambda>b. None), bp_chinese = (\<lambda>b. None),
       bp_markdown = (\<lambda>h. None)\<rparr>,
     wh_relay_username = None, wh_hmac = (\<lambda>k t. ''mac''), wh_time_text = (\<lambda>t. ''now''), wh_interceptors = [],
     wh_resolver = (\<lambda>h. Some [V4 93 184 215 14]), wh_build_ok = True, wh_allow_private = False,
     wh_reply = (\<lambda>n p. HttpStatus 200), wh_group_order = (\<lambda>gs. gs)\<rparr>"




lemma demo_hook_parts [simp]:
  "wh_env demo_hook = demo_wenv" "wh_interceptors demo_hook = []" "wh_allow_private demo_hook = False"
  "wh_group_order demo_hook gs = gs" "wh_reply demo_hook n p = HttpStatus 200" "wh_hmac demo_hook k s = ''mac''"
  "pinned_client (wh_resolver demo_hook) (wh_build_ok demo_hook) ''https://hooks.x:8443/in'' False =
     Inr (PinnedClient ''hooks.x'' (V4 93 184 215 14))"
  by (simp_all add: demo_hook_def demo_target)









end
