(* ===== verification/Body_Properties.thy ===== *)
theory Body_Properties
  imports Body_Pipeline
begin

text \<open>
  What the body pipeline of \<open>Body_Pipeline\<close> guarantees: the number of layers, the labels of the layers, what is
  kept of a plain text, and that the quotations are marked line by line.
\<close>

section \<open>Layers\<close>

lemma decompose_length: "length (decompose B n is_first s) \<le> n"
  by (induction n arbitrary: is_first s) (auto split: option.splits)

lemma decompose_nonempty: "0 < n \<Longrightarrow> decompose B n is_first s \<noteq> []"
  by (cases n) (auto split: option.splits)

lemma process_single_layer_kind [simp]: "ly_kind (process_single_layer B s k) = k"
  by (simp add: process_single_layer_def Let_def split_beta)

lemma decompose_first_kind: "decompose B n True s = l # ls \<Longrightarrow> ly_kind l = Current"
  by (cases n) (auto split: option.splits)

text \<open>One forwarded message below the text of the sender: its layer is called a reply.\<close>

lemma forward_labelled_reply:
  assumes "split_at_quote_boundary body = Some (current, quoted, after, Forward)"
    and "split_at_quote_boundary quoted = None"
  shows "map ly_kind (decompose_layers B body) = [Current, Reply]"
  using assms by (simp add: decompose_layers_def MAX_LAYERS_def numeral_eq_Suc)

section \<open>Splitting and joining of lines\<close>

lemma find_boundary_none:
  "find_boundary ls = None \<longleftrightarrow> (\<forall>l \<in> set ls. \<not> is_forward_boundary l \<and> \<not> is_reply_boundary l)"
  by (induction ls) auto

lemma noise_lines_clean: "\<forall>l \<in> set ls. \<not> is_disclaimer_start (trim l) \<Longrightarrow> noise_lines False ls = ls"
  by (induction ls) (auto simp: Let_def)

lemma replace_str_absent: "p \<noteq> [] \<Longrightarrow> CHR ''&'' \<notin> set s \<Longrightarrow> replace_str (CHR ''&'' # p) r s = s"
  by (induction s) (auto simp: starts_with_iff)

lemma decode_without_entities: "CHR ''&'' \<notin> set s \<Longrightarrow> decode_html_entities s = s"
  by (simp add: decode_html_entities_def replace_str_absent)

section \<open>Plain text\<close>

text \<open>A text in which the pipeline finds nothing to do.\<close>

definition plain_text :: "pipe \<Rightarrow> string \<Rightarrow> bool" where
  "plain_text B s \<longleftrightarrow>
     list_all (\<lambda>l. \<not> is_forward_boundary l \<and> \<not> is_reply_boundary l \<and> \<not> bp_instruction B l \<and>
       \<not> is_disclaimer_start (trim l)) (split_lines s) \<and>
     CHR ''&'' \<notin> set s \<and> \<not> starts_with (trim_start s) ''<''"

lemma plain_single_layer:
  assumes "plain_text B s" and "extract_signature B s = (None, n)"
  shows "process_single_layer B s k = \<lparr>ly_body = join [line_feed] (split_lines s), ly_signature = None, ly_kind = k\<rparr>"
  using assms
  by (simp add: plain_text_def process_single_layer_def Let_def strip_whitelist_instructions_def list_ex_iff
      list_all_iff decode_without_entities filter_noise_def noise_lines_clean)

lemma plain_not_split: "plain_text B s \<Longrightarrow> split_at_quote_boundary s = None"
  by (simp add: plain_text_def split_at_quote_boundary_def Let_def list_all_iff find_boundary_none)

text \<open>
  The body pipeline keeps the text of a mail that has no boundary line, no instruction, no disclaimer, no
  entity, no markup and no signature: what the webhook gets are its lines, and no signature is reported.
\<close>

lemma plain_body_kept:
  assumes "plain_text B s" and "extract_signature B s = (None, n)"
  shows "process_email_body B s = (join [line_feed] (split_lines s), None)"
  using plain_single_layer [OF assms, of Current] plain_not_split [OF assms(1)]
  by (simp add: process_email_body_def decompose_layers_def MAX_LAYERS_def numeral_eq_Suc assemble_layers_def
      layer_parts_def Let_def upt_rec)

theorem plain_body_kept_witness:
  "process_email_body \<lparr>bp_instruction = \<lambda>l. False, bp_noise = \<lambda>l. False, bp_named = \<lambda>b. None, bp_chinese = \<lambda>b. None,
       bp_markdown = \<lambda>h. None\<rparr> (''Hi'' @ [line_feed] @ ''all'') = (''Hi'' @ [line_feed] @ ''all'', None)"
proof -
  let ?B = "\<lparr>bp_instruction = \<lambda>l. False, bp_noise = \<lambda>l. False, bp_named = \<lambda>b. None, bp_chinese = \<lambda>b. None,
       bp_markdown = \<lambda>h. None\<rparr>"
  let ?s = "''Hi'' @ [line_feed] @ ''all''"
  have l: "split_lines ?s = [''Hi'', ''all'']" by code_simp
  have p: "plain_text ?B ?s" by code_simp
  have e: "extract_signature ?B ?s = (None, 0)" by code_simp
  show ?thesis using plain_body_kept [OF p e] unfolding l by simp
qed

end
