(* ===== verification/Mime_Parts.thy ===== *)
theory Mime_Parts
  imports Body_Pipeline Email_Store
begin

text \<open>
  What the gateway reads from a MIME message: the MIME functions of \<open>src/src/core/email/factory.rs\<close> and the
  reading of delivery status notifications in \<open>src/src/core/smtp/receiver.rs\<close>.

  The parser is the \<open>mailparse\<close> crate and the character sets come from \<open>encoding_rs\<close>; both are fields of
  \<open>mime\<close>. A \<open>part\<close> holds what the accessors of a parsed mail return: the headers with their decoded values,
  the media type, the charset and file name parameters, whether the disposition is inline, the decoded bytes
  and text of the body where decoding works, and the nested parts.
\<close>

section \<open>Parsed messages\<close>

type_synonym headers = "(string \<times> string) list"

datatype part = Part (pt_headers: headers) (pt_mimetype: string) (pt_charset: "string option")
    (pt_inline: bool) (pt_filename: "string option") (pt_raw: "string option") (pt_text: "string option")
    (pt_subparts: "part list")

record mime =
  mp_parse :: "string \<Rightarrow> part option"
  mp_headers :: "string \<Rightarrow> headers option"
  mp_encoding :: "string \<Rightarrow> (string \<Rightarrow> string) option"
  mp_lossy :: "string \<Rightarrow> string"

text \<open>The first header of a name, any case; the values of all of them; the last one.\<close>

definition header_is :: "string \<Rightarrow> string \<times> string \<Rightarrow> bool" where
  "header_is name h \<longleftrightarrow> eq_ignore_ascii_case (fst h) name"

definition header_value :: "headers \<Rightarrow> string \<Rightarrow> string" where
  "header_value hs name = (case find (header_is name) hs of Some h \<Rightarrow> snd h | None \<Rightarrow> [])"

definition get_header_value :: "part \<Rightarrow> string \<Rightarrow> string" where
  "get_header_value p name = header_value (pt_headers p) name"

definition last_header :: "headers \<Rightarrow> string \<Rightarrow> string" where
  "last_header hs name = header_value (rev hs) name"

fun find_mime_part :: "string \<Rightarrow> part \<Rightarrow> part option"
  and find_in_parts :: "string \<Rightarrow> part list \<Rightarrow> part option" where
  "find_mime_part t (Part hs mt cs inl fn raw txt subs) =
     (if mt = t then Some (Part hs mt cs inl fn raw txt subs) else find_in_parts t subs)"
| "find_in_parts t [] = None"
| "find_in_parts t (p # ps) = (case find_mime_part t p of Some q \<Rightarrow> Some q | None \<Rightarrow> find_in_parts t ps)"

section \<open>Body, attachments and headers\<close>

text \<open>An unknown charset, or none, is read as UTF-8.\<close>

definition decode_text_body :: "mime \<Rightarrow> string \<Rightarrow> string option \<Rightarrow> string" where
  "decode_text_body P raw charset = (let label = unwrap_or [] charset in
     if label = [] then mp_lossy P raw
     else (case mp_encoding P label of Some decode \<Rightarrow> decode raw | None \<Rightarrow> mp_lossy P raw))"

type_synonym attachment = "string \<times> string \<times> string \<times> string option"

text \<open>One text part: a plain part replaces the body, any other fills an empty one.\<close>

definition text_part :: "mime \<Rightarrow> part \<Rightarrow> string \<Rightarrow> string" where
  "text_part P p body =
     (let (major, minor) = (case split_once (CHR ''/'') (pt_mimetype p) of
            Some (a, b) \<Rightarrow> (to_lowercase a, to_lowercase b) | None \<Rightarrow> (to_lowercase (pt_mimetype p), []));
          content = decode_text_body P (unwrap_or [] (pt_raw p)) (pt_charset p) in
      if major \<noteq> ''text'' \<or> content = [] then body
      else if minor = ''plain'' \<or> body = [] then content else body)"

definition attached_name :: "part \<Rightarrow> string option" where
  "attached_name p = (if pt_inline p then None
     else (case pt_filename p of Some f \<Rightarrow> if f = [] then None else Some f | None \<Rightarrow> None))"

fun walk_mime_parts :: "mime \<Rightarrow> part list \<Rightarrow> string \<times> attachment list \<Rightarrow> string \<times> attachment list"
  and walk_part :: "mime \<Rightarrow> part \<Rightarrow> string \<times> attachment list \<Rightarrow> string \<times> attachment list" where
  "walk_mime_parts P [] acc = acc"
| "walk_mime_parts P (p # ps) acc = walk_mime_parts P ps (walk_part P p acc)"
| "walk_part P (Part hs mt cs inl fn raw txt subs) acc =
     (case (attached_name (Part hs mt cs inl fn raw txt subs), acc) of
        (Some f, body, atts) \<Rightarrow> (body, atts @ [(f, to_lowercase mt, unwrap_or [] raw, None)])
      | (None, body, atts) \<Rightarrow>
          walk_mime_parts P subs (text_part P (Part hs mt cs inl fn raw txt subs) body, atts))"

definition address_list :: "headers \<Rightarrow> string \<Rightarrow> string list" where
  "address_list hs name = filter (\<lambda>s. s \<noteq> [])
     (concat (map (\<lambda>h. map trim (split_char (CHR '','') (snd h))) (filter (header_is name) hs)))"

record parsed_mail =
  pm_body :: string
  pm_attachments :: "attachment list"
  pm_to :: "string list"
  pm_cc :: "string list"
  pm_in_reply_to :: string
  pm_references :: string
  pm_message_id :: string
  pm_subject :: string

definition parse_mime_detailed_from_parsed :: "mime \<Rightarrow> part \<Rightarrow> parsed_mail" where
  "parse_mime_detailed_from_parsed P p =
     (let (body, atts) = walk_mime_parts P (pt_subparts p) ([], []);
          body' = (if body = [] then decode_text_body P (unwrap_or [] (pt_raw p)) (pt_charset p) else body);
          hs = pt_headers p in
      \<lparr>pm_body = (if starts_with body' ''<'' then html_to_text body' else body'), pm_attachments = atts,
       pm_to = address_list hs ''to'', pm_cc = address_list hs ''cc'',
       pm_in_reply_to = last_header hs ''in-reply-to'', pm_references = last_header hs ''references'',
       pm_message_id = last_header hs ''message-id'', pm_subject = last_header hs ''subject''\<rparr>)"

section \<open>Delivery status notifications\<close>

record bounce_dsn =
  bn_original_from :: string
  bn_original_to :: string
  bn_original_subject :: string
  bn_orig_message_id :: string
  bn_dsn_status :: string
  bn_dsn_diagnostic :: string

text \<open>The last line with the prefix.\<close>

definition last_field :: "string \<Rightarrow> string list \<Rightarrow> string" where
  "last_field prefix ls = unwrap_or [] (first_some (strip_prefix prefix) (rev ls))"

definition parse_bounce_dsn :: "mime \<Rightarrow> string \<Rightarrow> bounce_dsn option" where
  "parse_bounce_dsn P raw =
     Option.bind (mp_parse P raw) (\<lambda>parsed.
     Option.bind (find_mime_part ''message/delivery-status'' parsed) (\<lambda>dsn_part.
     Option.bind (pt_text dsn_part) (\<lambda>dsn_body.
     Option.bind (find_mime_part ''message/rfc822'' parsed) (\<lambda>orig_part.
     Option.bind (pt_raw orig_part) (\<lambda>orig_raw.
     map_option (\<lambda>orig.
       \<lparr>bn_original_from = get_header_value orig ''from'', bn_original_to = get_header_value orig ''to'',
        bn_original_subject = get_header_value orig ''subject'', bn_orig_message_id = get_header_value orig ''message-id'',
        bn_dsn_status = last_field ''Status: '' (split_lines dsn_body),
        bn_dsn_diagnostic = last_field ''Diagnostic-Code: '' (split_lines dsn_body)\<rparr>) (mp_parse P orig_raw))))))"

end
