(* ===== verification/Smtp_Receiver.thy ===== *)
theory Smtp_Receiver
  imports Mime_Parts Gateway
begin

text \<open>
  The SMTP receiver, \<open>src/src/core/smtp/receiver.rs\<close>: the handler of one connection with its session state,
  one definition per callback of the SMTP library (\<open>mail\<close>, \<open>rcpt\<close>, \<open>data_start\<close>, \<open>data\<close>, \<open>data_end\<close>), the
  handling of bounces, and the loop that reads the lines of a connection.

  A callback is an effect on the session together with the gateway; a panic ends the connection. The SMTP
  library itself, which decides when a callback runs, is a parameter of the loop. Metrics are left out.
\<close>

section \<open>State\<close>

record session =
  ss_sender :: "string option"
  ss_recipients :: "string list"
  ss_message_data :: string
  ss_domain :: "string option"
  ss_system_id :: "string option"
  ss_persona :: "string option"
  ss_sender_whitelisted :: bool

definition new_session :: session where
  "new_session = \<lparr>ss_sender = None, ss_recipients = [], ss_message_data = [], ss_domain = None,
     ss_system_id = None, ss_persona = None, ss_sender_whitelisted = True\<rparr>"

record conn =
  cn_session :: session
  cn_gw :: gw

type_synonym 'a cm = "(conn, app_error, 'a) eff"

definition on_gw :: "'a wm \<Rightarrow> 'a cm" where
  "on_gw m = (\<lambda>c. case m (cn_gw c) of (r, g) \<Rightarrow> (r, c\<lparr>cn_gw := g\<rparr>))"

definition on_session :: "(session \<Rightarrow> session) \<Rightarrow> unit cm" where
  "on_session f = modifyE (\<lambda>c. c\<lparr>cn_session := f (cn_session c)\<rparr>)"

definition of_session :: "(session \<Rightarrow> 'a) \<Rightarrow> 'a cm" where
  "of_session f = getsE (\<lambda>c. f (cn_session c))"

text \<open>
  The configuration, the whitelist engine, the board registry, the MIME parser, and which files can be
  written.
\<close>

record smtp_env =
  sm_wenv :: wenv
  sm_sql :: sql_env
  sm_mime :: mime
  sm_storage :: storage_config
  sm_registry :: board_registry
  sm_max_message_size :: nat
  sm_delivery_window_secs :: int
  sm_auto_reply_body :: "string option"
  sm_writable :: "string \<Rightarrow> bool"

abbreviation sm_ext :: "smtp_env \<Rightarrow> ext" where "sm_ext S \<equiv> we_ext (sm_wenv S)"

section \<open>Responses\<close>

type_synonym response = "nat \<times> string"

definition ok :: response where "ok = (250, ''OK'')"

definition perm_fail :: "string \<Rightarrow> response" where "perm_fail msg = (550, msg)"

definition temp_fail :: "string \<Rightarrow> response" where "temp_fail msg = (451, msg)"

section \<open>MAIL FROM\<close>

text \<open>A sender whose domain is registered here is refused; the session has it as its sender all the same.\<close>

definition mail_with_sender :: "string \<Rightarrow> string \<Rightarrow> response cm" where
  "mail_with_sender from effective_sender =
     thenE (on_session (\<lambda>s. s\<lparr>ss_sender := Some effective_sender\<rparr>))
     (bindE (tryE (on_gw (on_db (lookup_domain_addr (last (split_char (CHR ''@'') from)))))) (\<lambda>r.
       returnE (case r of
         Inr (Some _) \<Rightarrow> perm_fail ''Internal sender address rejected on inbound path''
       | Inr None \<Rightarrow> ok
       | Inl _ \<Rightarrow> temp_fail ''Database error during domain lookup'')))"

definition mail_from :: "string \<Rightarrow> response cm" where
  "mail_from from = mail_with_sender from from"

definition helo :: "response cm" where "helo = returnE ok"

section \<open>RCPT TO\<close>

text \<open>\<open>strip_persona\<close> of \<open>src/src/core/email/utils.rs\<close>.\<close>

definition strip_persona :: "string \<Rightarrow> string \<times> string" where
  "strip_persona address = (case split_once (CHR ''@'') (to_lowercase address) of
     None \<Rightarrow> (address, [])
   | Some (local_part, domain) \<Rightarrow> (case split_once (CHR ''.'') local_part of
       Some (persona, profile) \<Rightarrow> if persona \<noteq> [] \<and> profile \<noteq> [] then (profile @ CHR ''@'' # domain, persona)
                                  else (address, [])
     | None \<Rightarrow> (address, [])))"

definition add_system :: "string \<Rightarrow> string option \<Rightarrow> string option" where
  "add_system system_id prev = (case prev of
     None \<Rightarrow> Some system_id
   | Some p \<Rightarrow> if p = system_id then Some p else Some (p @ ''|'' @ system_id))"

text \<open>The mailbox of a shared system is no recipient.\<close>

definition system_anchor :: "system_domain \<Rightarrow> string \<Rightarrow> bool" where
  "system_anchor d addr \<longleftrightarrow> starts_with (sd_system_id d) ''shared-'' \<and>
     CHR ''.'' \<notin> set (hd (split_char (CHR ''@'') addr))"

definition enter_domain :: "system_domain \<Rightarrow> unit cm" where
  "enter_domain d = on_session (\<lambda>s. s\<lparr>ss_system_id := add_system (sd_system_id d) (ss_system_id s),
     ss_domain := Some (sd_domain d)\<rparr>)"

text \<open>The address to use and the persona it was reached by, or the refusal.\<close>

definition resolve_recipient :: "string \<Rightarrow> (response + string \<times> string) cm" where
  "resolve_recipient to = (let full_lower = to_lowercase to; (base, p) = strip_persona to; base_lower = to_lowercase base;
       refuse = returnE (Inl (perm_fail ''Recipient does not exist''));
       unknown = returnE (Inl (perm_fail ''Recipient domain not found''));
       broken = returnE (Inl (temp_fail ''Database error during domain lookup'')) in
     bindE (tryE (on_gw (on_db (lookup_domain_addr full_lower)))) (\<lambda>r. case r of
       Inl _ \<Rightarrow> broken
     | Inr (Some d) \<Rightarrow> if system_anchor d full_lower then refuse
         else thenE (enter_domain d) (returnE (Inr (full_lower, [])))
     | Inr None \<Rightarrow>
         if base_lower = full_lower then unknown
         else bindE (tryE (on_gw (on_db (lookup_domain_addr base_lower)))) (\<lambda>r2. case r2 of
             Inl _ \<Rightarrow> broken
           | Inr None \<Rightarrow> unknown
           | Inr (Some d) \<Rightarrow> if system_anchor d base_lower then refuse
               else thenE (enter_domain d) (returnE (Inr (base_lower, p))))))"

text \<open>The whitelist of the recipient decides; a refusal is kept for the end of the data.\<close>

definition admit :: "smtp_env \<Rightarrow> string \<Rightarrow> string \<Rightarrow> response cm" where
  "admit S lookup_addr stored =
     (let push = thenE (on_session (\<lambda>s. s\<lparr>ss_recipients := ss_recipients s @ [stored]\<rparr>)) (returnE ok) in
      bindE (of_session ss_sender) (\<lambda>z. case z of
        None \<Rightarrow> push
      | Some sender \<Rightarrow>
          bindE (tryE (on_gw (on_db (check_whitelisted (sm_sql S) lookup_addr sender ''from'')))) (\<lambda>r. case r of
            Inl _ \<Rightarrow> returnE (temp_fail ''Whitelist check failed'')
          | Inr allowed \<Rightarrow> thenE (on_session (\<lambda>s. s\<lparr>ss_sender_whitelisted := allowed\<rparr>)) push)))"

definition owner_lookup :: "smtp_env \<Rightarrow> string \<Rightarrow> (string \<Rightarrow> string option) cm" where
  "owner_lookup S to = bindE (on_gw (on_db (getsE md_boards))) (\<lambda>vol.
     case orchestrator_email (derive_board_id (sm_ext S) to) vol of
       None \<Rightarrow> returnE (\<lambda>a. None)
     | Some orch \<Rightarrow> bindE (tryE (on_gw (on_db (lookup_domain_addr orch)))) (\<lambda>r.
         returnE (\<lambda>a. case r of Inr (Some d) \<Rightarrow> Some (sd_system_id d) | _ \<Rightarrow> None)))"

text \<open>The table of addresses is asked only for a board the registry knows without a system.\<close>

definition resolve_board :: "smtp_env \<Rightarrow> string \<Rightarrow> (board_addr_error + board_recipient) cm" where
  "resolve_board S to =
     bindE (on_gw (on_db (getsE md_boards))) (\<lambda>vol.
     bindE (case registry_lookup to (sm_registry S) of
         Some e \<Rightarrow> if parse_board_email (sm_ext S) to \<noteq> None \<and> nonempty (be_system_id e) = None
                   then owner_lookup S to else returnE (\<lambda>a. None)
       | None \<Rightarrow> returnE (\<lambda>a. None)) (\<lambda>lookup.
       returnE (resolve_board_recipient (sm_ext S) (sm_registry S) lookup vol to)))"

definition rcpt_board_addr :: "smtp_env \<Rightarrow> string \<Rightarrow> response cm" where
  "rcpt_board_addr S to = bindE (resolve_board S to) (\<lambda>r. case r of
     Inl AddrInvalid \<Rightarrow> returnE (perm_fail ''Invalid board address'')
   | Inl AddrNotFound \<Rightarrow> returnE (perm_fail ''Recipient does not exist'')
   | Inl AddrNoSystem \<Rightarrow> returnE (temp_fail ''Board system not resolvable'')
   | Inr b \<Rightarrow>
       thenE (on_session (\<lambda>s. s\<lparr>ss_system_id := Some (rc_system_id b), ss_domain := Some (rc_domain b)\<rparr>))
         (admit S to (to_lowercase to)))"

definition rcpt :: "smtp_env \<Rightarrow> string \<Rightarrow> response cm" where
  "rcpt S to =
     (if is_board_address to then rcpt_board_addr S to
      else bindE (resolve_recipient to) (\<lambda>r. case r of
        Inl refusal \<Rightarrow> returnE refusal
      | Inr (lookup_addr, persona) \<Rightarrow>
          thenE (on_session (\<lambda>s. if persona = [] then s else s\<lparr>ss_persona := Some persona\<rparr>))
            (admit S lookup_addr lookup_addr)))"

section \<open>DATA\<close>

definition data_start :: "response cm" where "data_start = returnE ok"

definition data :: "smtp_env \<Rightarrow> string \<Rightarrow> unit cm" where
  "data S chunk = bindE (of_session ss_message_data) (\<lambda>d.
     if sm_max_message_size S < length d + length chunk then throwE (Io ''Message too large'')
     else on_session (\<lambda>s. s\<lparr>ss_message_data := ss_message_data s @ chunk\<rparr>))"

text \<open>The deferred refusal. Nothing of the session is consumed.\<close>

definition check_deferred_whitelist :: "smtp_env \<Rightarrow> session \<Rightarrow> response option" where
  "check_deferred_whitelist S s =
     (if ss_sender_whitelisted s \<or> (case ss_sender s of Some a \<Rightarrow> trim a = [] | None \<Rightarrow> False) then None
      else if (case mp_headers (sm_mime S) (ss_message_data s) of
                 Some hs \<Rightarrow> is_stranger_command (header_value hs ''subject'') | None \<Rightarrow> False) then None
      else Some (perm_fail ''Sender not whitelisted''))"

section \<open>Bounces\<close>

text \<open>The first delivered outbound mail of the sender, among the ten latest, that the notification names.\<close>

definition bounce_matches :: "ext \<Rightarrow> bounce_dsn \<Rightarrow> int \<Rightarrow> email \<Rightarrow> bool" where
  "bounce_matches E dsn cutoff m \<longleftrightarrow> em_status m = ''delivered'' \<and> cutoff \<le> em_last_sent_at m \<and>
     to_lowercase (trim (em_subject m)) = to_lowercase (trim (bn_original_subject dsn)) \<and>
     unwrap_or [] (message_id_from_headers E m) = trim (bn_orig_message_id dsn)"

definition verify_bounce :: "smtp_env \<Rightarrow> bounce_dsn \<Rightarrow> string option wm" where
  "verify_bounce S dsn =
     bindE (tryE (on_mail (find_emails_by_sender_direction (bn_original_from dsn) ''outbound'' 10))) (\<lambda>r. case r of
       Inl _ \<Rightarrow> returnE None
     | Inr ms \<Rightarrow> if ms = [] then returnE None
         else bindE (on_mail now_ms) (\<lambda>t. returnE (map_option em_id
           (find (bounce_matches (sm_ext S) dsn (t - sm_delivery_window_secs S * 1000)) ms))))"

definition bounce_body :: "smtp_env \<Rightarrow> bounce_dsn \<Rightarrow> string" where
  "bounce_body S dsn = join [line_feed] [unwrap_or ''Your message could not be delivered.'' (sm_auto_reply_body S), ''---'',
     ''From: '' @ bn_original_from dsn, ''To: '' @ bn_original_to dsn, ''Subject: '' @ bn_original_subject dsn,
     ''Status: '' @ bn_dsn_status dsn, ''Diagnostic: '' @ bn_dsn_diagnostic dsn]"

definition create_bounce_notification ::
    "smtp_env \<Rightarrow> bounce_dsn \<Rightarrow> string \<Rightarrow> string \<Rightarrow> string \<Rightarrow> string option wm" where
  "create_bounce_notification S dsn system_id bounce_recipient original_id =
     bindE (on_mail new_uuid) (\<lambda>u. let notif_id = ''bn-'' @ u in
     bindE (on_db (build_endpoints_for_recipients [bounce_recipient])) (\<lambda>eps.
       let rcpts = \<lparr>rp_to = [bounce_recipient], rp_cc = [], rp_rcpt = [bounce_recipient]\<rparr>;
           headers = JObj [(''message_id'', JStr notif_id), (''original_message_id'', JStr (bn_orig_message_id dsn)),
             (''bounce_status'', JStr (bn_dsn_status dsn)), (''bounce_diagnostic'', JStr (bn_dsn_diagnostic dsn))] in
       bindE (tryE (on_mail (create_inbound notif_id system_id (we_sender (sm_wenv S))
           (recipients_to_json (sm_ext S) rcpts) ''Mail delivery failed'' (bounce_body S dsn) (Some eps) None
           (Some (json_text (sm_ext S) headers)) (we_max_attempts (sm_wenv S))))) (\<lambda>r. case r of
         Inl _ \<Rightarrow> returnE None
       | Inr m \<Rightarrow>
           thenE (okE (on_mail (update_email_completed original_id)))
           (thenE (okE (on_mail (delete_email original_id)))
           (thenE (try_trigger (sm_wenv S) True (em_id m))
             (returnE (Some (em_id m))))))))"

text \<open>An empty sender: a verified notification is turned into a mail, anything else is dropped.\<close>

definition handle_bounce :: "smtp_env \<Rightarrow> string \<Rightarrow> string \<Rightarrow> string \<Rightarrow> unit wm" where
  "handle_bounce S raw system_id bounce_for = (case parse_bounce_dsn (sm_mime S) raw of
     None \<Rightarrow> returnE ()
   | Some dsn \<Rightarrow> bindE (verify_bounce S dsn) (\<lambda>z. case z of
       None \<Rightarrow> returnE ()
     | Some original_id \<Rightarrow>
         bindE (create_bounce_notification S dsn system_id bounce_for original_id) (\<lambda>n. case n of
           None \<Rightarrow> returnE ()
         | Some nid \<Rightarrow> try_trigger (sm_wenv S) True nid)))"

section \<open>Recipients of a message\<close>

text \<open>
  The text between the last angle brackets; a text without both is taken whole. \<open>None\<close> is the panic of a
  slice whose end lies before its start.
\<close>

definition angle_part :: "string \<Rightarrow> string option" where
  "angle_part raw = (case (rfind_sub ''<'' raw, rfind_sub ''>'' raw) of
     (Some i, Some j) \<Rightarrow> if Suc i \<le> j then Some (take (j - Suc i) (drop (Suc i) raw)) else None
   | _ \<Rightarrow> Some raw)"

definition extract_email_for_envelope :: "string \<Rightarrow> string set \<Rightarrow> bool option" where
  "extract_email_for_envelope raw envelope = map_option (\<lambda>a. let email = to_lowercase (trim a) in
     email \<in> envelope \<or> (case split_once (CHR ''.'') email of
       Some (_, base) \<Rightarrow> CHR ''@'' \<in> set base \<and> base \<in> envelope | None \<Rightarrow> False)) (angle_part raw)"

definition strip_mime_display :: "string \<Rightarrow> string option" where
  "strip_mime_display raw = (case (rfind_sub ''<'' raw, rfind_sub ''>'' raw) of
     (Some i, Some j) \<Rightarrow> map_option trim (angle_part raw) | _ \<Rightarrow> Some raw)"

fun filter_addresses :: "string set \<Rightarrow> string list \<Rightarrow> string list option" where
  "filter_addresses envelope [] = Some []"
| "filter_addresses envelope (a # as) =
     Option.bind (extract_email_for_envelope a envelope) (\<lambda>keep.
       if keep then Option.bind (strip_mime_display a) (\<lambda>x. map_option (Cons x) (filter_addresses envelope as))
       else filter_addresses envelope as)"

section \<open>Learning the members of a board\<close>

text \<open>\<open>replace_board_members\<close> of \<open>src/src/core/storage.rs\<close>.\<close>

definition store_board_members :: "string \<Rightarrow> string list \<Rightarrow> unit mm" where
  "store_board_members board_email members = modifyE (\<lambda>s. s\<lparr>md_groups :=
     fold (\<lambda>m. insert_or_ignore (board_email, m)) members (filter (\<lambda>(b, _). b \<noteq> board_email) (md_groups s))\<rparr>)"

definition plausible_member :: "string \<Rightarrow> bool" where
  "plausible_member s \<longleftrightarrow> s \<noteq> [] \<and> CHR ''@'' \<in> set s \<and> \<not> starts_with s ''@'' \<and> \<not> ends_with s ''@''"

definition board_header :: "smtp_env \<Rightarrow> string \<Rightarrow> string option" where
  "board_header S raw = map_option trim
     (first_some (\<lambda>l. strip_prefix ''X-Board-Members:'' (trim l)) (split_lines (mp_lossy (sm_mime S) raw)))"

text \<open>The board named by the header and its members, where the header belongs to the sender.\<close>

definition learned_members :: "smtp_env \<Rightarrow> string \<Rightarrow> string \<Rightarrow> string \<Rightarrow> (string \<times> string list) option" where
  "learned_members S sender subject raw =
     (if is_board_address sender \<and> starts_with subject ''[A2A]'' \<and> parse_board_email (sm_ext S) sender \<noteq> None
      then (case Option.bind (board_header S raw) (split_once (CHR '';'')) of
          Some (board, csv) \<Rightarrow>
            (let members = filter plausible_member (map trim (split_char (CHR '','') csv)) in
             if eq_ignore_ascii_case (trim board) sender \<and> members \<noteq> [] then Some (trim board, members) else None)
        | None \<Rightarrow> None)
      else None)"

definition learn_members :: "smtp_env \<Rightarrow> string \<Rightarrow> string \<Rightarrow> string \<Rightarrow> unit wm" where
  "learn_members S sender subject raw = (case learned_members S sender subject raw of
     Some (board, members) \<Rightarrow> okE (on_db (store_board_members board members)) | None \<Rightarrow> returnE ())"

section \<open>Storing a message\<close>

text \<open>The stored headers: threading, the first texts of To, Cc and From, the persona, and the marks of a command.\<close>

definition put_nonempty :: "string \<Rightarrow> string \<Rightarrow> (string \<times> json) list \<Rightarrow> (string \<times> json) list" where
  "put_nonempty k v m = (if v = [] then m else obj_insert k (JStr v) m)"

definition keep_raw_header :: "string \<times> string \<Rightarrow> (string \<times> json) list \<Rightarrow> (string \<times> json) list" where
  "keep_raw_header h m = (let k = to_lowercase (fst h) in
     if k \<in> {''to'', ''cc'', ''from''} \<and> snd h \<noteq> [] \<and> k \<notin> fst ` set m then obj_insert k (JStr (snd h)) m else m)"

definition command_name :: "string \<Rightarrow> string" where
  "command_name cmd = to_lowercase (rev (dropWhile (\<lambda>c. c = CHR '']'') (rev (dropWhile (\<lambda>c. c = CHR ''['') cmd))))"

definition mark_command :: "string \<Rightarrow> bool \<Rightarrow> (string \<times> json) list \<Rightarrow> (string \<times> json) list" where
  "mark_command subject whitelisted m =
     (case find (\<lambda>cmd. starts_with (to_uppercase subject) cmd) STRANGER_COMMANDS of
        None \<Rightarrow> m
      | Some cmd \<Rightarrow> obj_insert ''x-mail-command'' (JStr (command_name cmd))
          (if whitelisted then m else obj_insert ''x-mail-stranger'' (JStr ''true'') m))"

definition inbound_headers :: "session \<Rightarrow> headers \<Rightarrow> parsed_mail \<Rightarrow> (string \<times> json) list" where
  "inbound_headers s hs pm = mark_command (pm_subject pm) (ss_sender_whitelisted s)
     ((case ss_persona s of None \<Rightarrow> id | Some p \<Rightarrow> obj_insert ''_persona'' (JStr p))
       (fold keep_raw_header hs
         (put_nonempty ''references'' (pm_references pm)
           (put_nonempty ''in_reply_to'' (pm_in_reply_to pm) (put_nonempty ''message_id'' (pm_message_id pm) [])))))"

text \<open>One attachment: the file, its row, and a permission for every recipient. A file that cannot be written
  is skipped, the other failures are only logged.\<close>

definition store_attachment ::
    "smtp_env \<Rightarrow> string \<Rightarrow> string \<Rightarrow> string list \<Rightarrow> attachment \<times> string \<Rightarrow> json list em" where
  "store_attachment S sender mail_id rcpts = (\<lambda>((filename, content_type, content, _), uuid).
     let path = file_path (sm_ext S) sender uuid (extension_for filename) in
     if \<not> sm_writable S path then returnE []
     else thenE (write_file path)
       (thenE (okE (insert_attachment_meta uuid filename (Some content_type) sender (Some [mail_id])))
         (thenE (forE (\<lambda>u. okE (insert_attachment_permission uuid u)) rcpts)
           (returnE [JObj [(''attachment_id'', JStr uuid), (''filename'', JStr filename),
              (''content_type'', JStr content_type), (''size'', JNum (int (length content)))]]))))"

fun store_attachments ::
    "smtp_env \<Rightarrow> string \<Rightarrow> string \<Rightarrow> string list \<Rightarrow> (attachment \<times> string) list \<Rightarrow> json list em" where
  "store_attachments S sender mail_id rcpts [] = returnE []"
| "store_attachments S sender mail_id rcpts (a # as) =
     bindE (store_attachment S sender mail_id rcpts a) (\<lambda>entry.
       bindE (store_attachments S sender mail_id rcpts as) (\<lambda>entries. returnE (entry @ entries)))"

fun new_uuids :: "nat \<Rightarrow> string list em" where
  "new_uuids 0 = returnE []"
| "new_uuids (Suc n) = bindE new_uuid (\<lambda>u. bindE (new_uuids n) (\<lambda>us. returnE (u # us)))"

text \<open>The attachments of a stored mail, their list in its row, and the wake-up of the scheduler.\<close>

definition finish_message :: "smtp_env \<Rightarrow> string \<Rightarrow> email \<Rightarrow> string list \<Rightarrow> (attachment \<times> string) list \<Rightarrow> response wm" where
  "finish_message S sender m rcpts pairs =
     bindE (on_mail (store_attachments S sender (em_id m) rcpts pairs)) (\<lambda>entries.
       thenE (if entries = [] then returnE ()
              else okE (on_mail (update_email_attachments (em_id m) (json_text (sm_ext S) (JArr entries)))))
       (thenE (try_trigger (sm_wenv S) True (em_id m)) (returnE ok)))"

text \<open>What is stored of an admitted message whose recipients are known.\<close>

definition message_recipients :: "string list \<Rightarrow> string list \<Rightarrow> recipients" where
  "message_recipients tos ccs =
     \<lparr>rp_to = tos, rp_cc = ccs, rp_rcpt = filter (\<lambda>a. \<not> is_board_address a) (tos @ ccs)\<rparr>"

definition store_row ::
    "smtp_env \<Rightarrow> session \<Rightarrow> string \<Rightarrow> string \<Rightarrow> headers \<Rightarrow> parsed_mail \<Rightarrow> string list \<Rightarrow> string list \<Rightarrow> string \<Rightarrow> json \<Rightarrow> email em" where
  "store_row S s sender system_id hs pm tos ccs mail_uuid eps =
     create_inbound mail_uuid (hd (split_char (CHR ''|'') system_id)) sender
       (recipients_to_json (sm_ext S) (message_recipients tos ccs)) (pm_subject pm) (pm_body pm) (Some eps) None
       (Some (json_text (sm_ext S) (JObj (inbound_headers s hs pm)))) (we_max_attempts (sm_wenv S))"

definition store_message ::
    "smtp_env \<Rightarrow> session \<Rightarrow> string \<Rightarrow> string \<Rightarrow> headers \<Rightarrow> parsed_mail \<Rightarrow> string list \<Rightarrow> string list \<Rightarrow> response wm" where
  "store_message S s sender system_id hs pm tos ccs =
     bindE (on_mail new_uuid) (\<lambda>mail_uuid.
     bindE (on_mail (new_uuids (length (pm_attachments pm)))) (\<lambda>uuids.
     bindE (on_db (build_endpoints_for_recipients (tos @ ccs))) (\<lambda>eps.
     bindE (tryE (on_mail (store_row S s sender system_id hs pm tos ccs mail_uuid eps))) (\<lambda>r. case r of
       Inl _ \<Rightarrow> returnE (temp_fail ''Database insert failed'')
     | Inr m \<Rightarrow> finish_message S sender m (tos @ ccs) (zip (pm_attachments pm) uuids)))))"

section \<open>End of the data\<close>

definition process_message ::
    "smtp_env \<Rightarrow> session \<Rightarrow> nat option \<Rightarrow> nat option \<Rightarrow> string \<Rightarrow> string list \<Rightarrow> string \<Rightarrow> string \<Rightarrow> response wm" where
  "process_message S s att_count att_size sender recipients system_id raw =
     (case mp_parse (sm_mime S) raw of
        None \<Rightarrow> returnE (temp_fail ''MIME parse error'')
      | Some parsed \<Rightarrow> (let pm = parse_mime_detailed_from_parsed (sm_mime S) parsed in
          case validate_attachments (sm_storage S) (pm_attachments pm) att_count att_size of
            Inl e \<Rightarrow> returnE (perm_fail (err_text (sm_wenv S) e))
          | Inr _ \<Rightarrow> (let envelope = set (map to_lowercase recipients) in
              case (filter_addresses envelope (pm_to pm), filter_addresses envelope (pm_cc pm)) of
                (Some filtered_to, Some filtered_cc) \<Rightarrow>
                  if filtered_to = [] \<and> filtered_cc = []
                  then returnE (perm_fail ''No recipients match between envelope and email headers'')
                  else thenE (learn_members S sender (pm_subject pm) raw)
                    (store_message S s sender system_id (pt_headers parsed) pm filtered_to filtered_cc)
              | _ \<Rightarrow> panicE)))"

text \<open>The sender and the recipients are taken out of the session first, the data only when a system and a
  domain are known; domain, system and persona stay.\<close>

definition process_data_end_post :: "smtp_env \<Rightarrow> nat option \<Rightarrow> nat option \<Rightarrow> response cm" where
  "process_data_end_post S att_count att_size = bindE (of_session id) (\<lambda>s. case ss_sender s of
     None \<Rightarrow> returnE (temp_fail ''No sender'')
   | Some sender \<Rightarrow>
       thenE (on_session (\<lambda>s. s\<lparr>ss_sender := None, ss_recipients := []\<rparr>))
       (if ss_recipients s = [] then returnE (perm_fail ''No recipients'')
        else (case ss_system_id s of
          None \<Rightarrow> returnE (temp_fail ''No system'')
        | Some system_id \<Rightarrow>
            if ss_domain s = None then returnE (temp_fail ''No domain'')
            else thenE (on_session (\<lambda>s. s\<lparr>ss_message_data := []\<rparr>))
              (if sender = []
               then thenE (on_gw (handle_bounce S (ss_message_data s) system_id (hd (ss_recipients s)))) (returnE ok)
               else on_gw (process_message S s att_count att_size sender (ss_recipients s) system_id
                 (ss_message_data s))))))"

definition data_end :: "smtp_env \<Rightarrow> response cm" where
  "data_end S = bindE (of_session id) (\<lambda>s. case check_deferred_whitelist S s of
     Some refusal \<Rightarrow> returnE refusal | None \<Rightarrow> process_data_end_post S None None)"

end
