(* ===== verification/Smtp_Session.thy ===== *)
theory Smtp_Session
  imports Smtp_Receiver
begin

text \<open>
  The loop that reads the lines of an SMTP connection, \<open>handle_smtp_session_blocking\<close> of
  \<open>src/src/core/smtp/receiver.rs\<close>. The state machine of the SMTP library with the handler inside it is the
  parameter \<open>fsm\<close>: it takes a line and its state to a reply code, an action and the next state. The greeting
  is written before the loop. A line is a byte string that is valid UTF-8, as \<open>read_line\<close> guarantees.
\<close>

datatype action = Close | Reply | NoReply | UpgradeTls

datatype read_result = Line string | ReadError

record loop =
  lp_in_data :: bool
  lp_total :: nat
  lp_declared :: "nat option"

definition start_loop :: loop where
  "start_loop = \<lparr>lp_in_data = False, lp_total = 0, lp_declared = None\<rparr>"

text \<open>How a connection ends; \<open>Panicked\<close> is the slice of a line inside a character.\<close>

datatype ending = Finished | Panicked

definition cuts_character :: "string \<Rightarrow> bool" where
  "cuts_character line \<longleftrightarrow> 6 < length line \<and> continuation_byte (line ! 6)"

definition max_u64 :: nat where "max_u64 = 2 ^ 64 - 1"

definition decimal :: "string \<Rightarrow> nat option" where
  "decimal ds = (if ds = [] then None
     else Option.bind (read_number digit_val 10 0 ds) (\<lambda>n. if max_u64 < n then None else Some n))"

definition is_mail_from :: "string \<Rightarrow> bool" where
  "is_mail_from line \<longleftrightarrow> 6 < length line \<and> eq_ignore_ascii_case (take 6 line) ''MAIL FR''"

definition declared_in :: "string \<Rightarrow> nat option" where
  "declared_in line = Option.bind (find_sub '' SIZE='' (to_uppercase line)) (\<lambda>pos. decimal (takeWhile (\<lambda>c. digit_val c \<noteq> None) (drop (pos + 6) line)))"

definition note_size :: "string \<Rightarrow> loop \<Rightarrow> loop" where
  "note_size line l = (if is_mail_from line then l\<lparr>lp_declared := declared_in line\<rparr> else l)"

text \<open>The size declared with the sender, looked at when DATA arrives; looking at it forgets it.\<close>

definition is_data_command :: "string \<Rightarrow> bool" where
  "is_data_command line \<longleftrightarrow> eq_ignore_ascii_case (trim line) ''data''"

definition after_process :: "nat \<Rightarrow> loop \<Rightarrow> loop" where
  "after_process reply_code l =
     (let l1 = (if lp_in_data l \<and> reply_code = 250 then l\<lparr>lp_declared := None\<rparr> else l) in
      if reply_code = 354 then l1\<lparr>lp_in_data := True, lp_total := 0\<rparr> else l1)"

text \<open>
  One round per line. The log has the reply codes written to the peer; \<open>write_ok\<close> says which writes
  succeed.
\<close>

datatype round = Stop ending | Again

definition run_line ::
    "(string \<Rightarrow> 'h \<Rightarrow> nat \<times> action \<times> 'h) \<Rightarrow> (nat \<Rightarrow> bool) \<Rightarrow> string \<Rightarrow> loop \<Rightarrow> 'h \<Rightarrow> nat list \<Rightarrow>
     round \<times> loop \<times> 'h \<times> nat list" where
  "run_line fsm write_ok line l h out = (case fsm line h of (reply_code, act, h') \<Rightarrow>
     (case act of
        Close \<Rightarrow> (Stop Finished, after_process reply_code l, h', out @ [reply_code])
      | Reply \<Rightarrow> (if write_ok (length out) then Again else Stop Finished, after_process reply_code l, h', out @ [reply_code])
      | NoReply \<Rightarrow> (Again, after_process reply_code l, h', out)
      | UpgradeTls \<Rightarrow> (Stop Finished, after_process reply_code l, h', out)))"

definition count_line :: "string \<Rightarrow> loop \<Rightarrow> loop" where
  "count_line line l = (if lp_in_data l then l\<lparr>lp_total := lp_total l + length line\<rparr> else l)"

definition loop_round ::
    "nat \<Rightarrow> (string \<Rightarrow> 'h \<Rightarrow> nat \<times> action \<times> 'h) \<Rightarrow> (nat \<Rightarrow> bool) \<Rightarrow> string \<Rightarrow> loop \<Rightarrow> 'h \<Rightarrow> nat list \<Rightarrow>
     round \<times> loop \<times> 'h \<times> nat list" where
  "loop_round mx fsm write_ok line l h out =
     (let l1 = count_line line l; l2 = note_size line l1; at_data = (\<not> lp_in_data l2 \<and> is_data_command line) in
      if lp_in_data l \<and> mx < lp_total l1 then (Stop Finished, l1, h, out @ [552])
      else if cuts_character line then (Stop Panicked, l1, h, out)
      else if at_data \<and> (case lp_declared l2 of Some n \<Rightarrow> mx < n | None \<Rightarrow> False)
      then (Again, l2\<lparr>lp_declared := None\<rparr>, h, out @ [552])
      else run_line fsm write_ok line (if at_data then l2\<lparr>lp_declared := None\<rparr> else l2) h out)"

fun smtp_loop ::
    "nat \<Rightarrow> (string \<Rightarrow> 'h \<Rightarrow> nat \<times> action \<times> 'h) \<Rightarrow> (nat \<Rightarrow> bool) \<Rightarrow> read_result list \<Rightarrow> loop \<Rightarrow> 'h \<Rightarrow> nat list \<Rightarrow>
     ending \<times> loop \<times> 'h \<times> nat list" where
  "smtp_loop mx fsm write_ok [] l h out = (Finished, l, h, out)"
| "smtp_loop mx fsm write_ok (ReadError # rs) l h out = (Finished, l, h, out)"
| "smtp_loop mx fsm write_ok (Line line # rs) l h out =
     (case loop_round mx fsm write_ok line l h out of
        (Stop e, l', h', out') \<Rightarrow> (e, l', h', out')
      | (Again, l', h', out') \<Rightarrow> smtp_loop mx fsm write_ok rs l' h' out')"

definition handle_smtp_session_blocking ::
    "nat \<Rightarrow> (string \<Rightarrow> 'h \<Rightarrow> nat \<times> action \<times> 'h) \<Rightarrow> (nat \<Rightarrow> bool) \<Rightarrow> bool \<Rightarrow> read_result list \<Rightarrow> 'h \<Rightarrow>
     ending \<times> loop \<times> 'h \<times> nat list" where
  "handle_smtp_session_blocking mx fsm write_ok greeted rs h =
     (if greeted then smtp_loop mx fsm write_ok rs start_loop h [] else (Finished, start_loop, h, []))"

section \<open>The declared size\<close>

text \<open>The comparison takes six bytes of the line and a word of seven: it never holds, so no size is ever declared.\<close>

lemma never_mail_from [simp]: "\<not> is_mail_from line"
proof
  assume m: "is_mail_from line"
  then have "to_lowercase (take 6 line) = to_lowercase ''MAIL FR''"
    by (simp add: is_mail_from_def eq_ignore_ascii_case_def)
  then have "length (take 6 line) = length ''MAIL FR''" by (metis length_map to_lowercase_def)
  then show False by simp
qed

lemma note_size_id [simp]: "note_size line l = l"
  by (simp add: note_size_def)

definition undeclared :: "loop \<Rightarrow> bool" where "undeclared l \<longleftrightarrow> lp_declared l = None"

lemma loop_round_kept:
  assumes "loop_round mx fsm write_ok line l h out = (r, l', h', out')"
  shows "undeclared l \<Longrightarrow> undeclared l'" and "lp_in_data l \<Longrightarrow> lp_in_data l'"
  using assms by (auto simp: loop_round_def run_line_def count_line_def after_process_def undeclared_def Let_def
      split: if_splits prod.splits action.splits)

lemma smtp_loop_kept:
  assumes "smtp_loop mx fsm write_ok rs l h out = (e, l', h', out')"
  shows "undeclared l \<Longrightarrow> undeclared l'" and "lp_in_data l \<Longrightarrow> lp_in_data l'"
proof -
  have "(undeclared l \<longrightarrow> undeclared l') \<and> (lp_in_data l \<longrightarrow> lp_in_data l')"
    using assms
  proof (induction mx fsm write_ok rs l h out rule: smtp_loop.induct)
    case (3 mx fsm write_ok line rs l h out)
    obtain r l1 h1 o1 where r: "loop_round mx fsm write_ok line l h out = (r, l1, h1, o1)"
      by (cases "loop_round mx fsm write_ok line l h out") auto
    show ?case
    proof (cases r)
      case (Stop e1)
      then show ?thesis using 3(2) loop_round_kept [OF r] by (simp add: r)
    next
      case Again
      then have "smtp_loop mx fsm write_ok rs l1 h1 o1 = (e, l', h', out')" using 3(2) by (simp add: r)
      then show ?thesis using 3(1) [OF r [symmetric]] Again loop_round_kept [OF r] by auto
    qed
  qed simp_all
  then show "undeclared l \<Longrightarrow> undeclared l'" "lp_in_data l \<Longrightarrow> lp_in_data l'" by blast+
qed

text \<open>The loop stays in the data phase after the first message, so later commands count against the size too.
  A character that spans the sixth and the seventh byte of a line ends the connection without a reply.\<close>

lemma size_never_declared:
  "handle_smtp_session_blocking mx fsm write_ok greeted rs h = (e, l', h', out') \<Longrightarrow> lp_declared l' = None"
  using smtp_loop_kept(1) by (fastforce simp: handle_smtp_session_blocking_def start_loop_def undeclared_def split: if_splits)

lemma cut_line_panics:
  "\<not> lp_in_data l \<Longrightarrow> cuts_character line \<Longrightarrow> smtp_loop mx fsm write_ok (Line line # rs) l h out = (Panicked, l, h, out)"
  by (simp add: loop_round_def count_line_def Let_def)

section \<open>Size of the data\<close>

text \<open>What the library is given in one data phase never exceeds the limit.\<close>

lemma round_within:
  assumes "loop_round mx fsm write_ok line l h out = (Again, l', h', out')" and "lp_in_data l" and "lp_total l \<le> mx"
  shows "lp_total l' \<le> mx"
  using assms by (auto simp: loop_round_def run_line_def count_line_def after_process_def Let_def
      split: if_splits prod.splits action.splits)

end
