(* ===== verification/Smtp_Properties.thy ===== *)
theory Smtp_Properties
  imports Smtp_Session Mail_Lifecycle Gateway_Samples
begin

text \<open>
  What the SMTP receiver keeps and promises: the type of a session over any sequence of callbacks, the
  refusal of senders that are not admitted, what an accepted message stores, and what a bounce can do.
\<close>

section \<open>Steps of a computation that returned\<close>

named_theorems steps "inversion of a computation that ended with a value"

lemma bindE_Inr [steps]: "bindE m f s = (Inr y, s') \<longleftrightarrow> (\<exists>x s1. m s = (Inr x, s1) \<and> f x s1 = (Inr y, s'))"
  by (auto simp: runs split: prod.splits sum.splits)

lemma thenE_Inr [steps]: "thenE m k s = (Inr y, s') \<longleftrightarrow> (\<exists>x s1. m s = (Inr x, s1) \<and> k s1 = (Inr y, s'))"
  by (auto simp: thenE_def steps)

lemma pure_Inr [steps]:
  "returnE x s = (Inr y, s') \<longleftrightarrow> x = y \<and> s' = s" "getsE f s = (Inr y, s') \<longleftrightarrow> f s = y \<and> s' = s"
  "modifyE h s = (Inr u, s') \<longleftrightarrow> s' = h s" "panicE s = (Inr y, s') \<longleftrightarrow> False"
  by (auto simp: runs)

lemma guard_Inr [steps]:
  "requireE b e s = (Inr u, s') \<longleftrightarrow> b \<and> s' = s" "liftE r s = (Inr y, s') \<longleftrightarrow> r = Inr y \<and> s' = s"
  "throwE e s = (Inr y, s') \<longleftrightarrow> False"
  by (auto simp: requireE_def runs) (cases r; simp add: runs)+

lemma tryE_Inr [steps]: "tryE m s = (Inr z, s') \<longleftrightarrow>
    (case z of Inl e \<Rightarrow> m s = (Inl (Err e), s') | Inr x \<Rightarrow> m s = (Inr x, s'))"
  by (auto simp: runs split: prod.splits sum.splits abort.splits)

lemma on_mail_Inr [steps]: "on_mail m g = (Inr y, g') \<longleftrightarrow> (\<exists>e. m (gw_mail g) = (Inr y, e) \<and> g' = g\<lparr>gw_mail := e\<rparr>)"
  by (auto simp: on_mail_def split: prod.splits)

lemma on_db_Inr [steps]: "on_db m g = (Inr y, g') \<longleftrightarrow> (\<exists>d. m (gw_db g) = (Inr y, d) \<and> g' = g\<lparr>gw_db := d\<rparr>)"
  by (auto simp: on_db_def split: prod.splits)

lemma on_gw_Inr [steps]: "on_gw m c = (Inr y, c') \<longleftrightarrow> (\<exists>g. m (cn_gw c) = (Inr y, g) \<and> c' = c\<lparr>cn_gw := g\<rparr>)"
  by (auto simp: on_gw_def split: prod.splits)

section \<open>Frames\<close>

text \<open>Predicates of the mail tables and of the session, lifted through the layers.\<close>

definition on_mails :: "(est \<Rightarrow> bool) \<Rightarrow> gw \<Rightarrow> bool" where "on_mails P g \<longleftrightarrow> P (gw_mail g)"

definition conn_mails :: "(est \<Rightarrow> bool) \<Rightarrow> conn \<Rightarrow> bool" where "conn_mails P c \<longleftrightarrow> on_mails P (cn_gw c)"

definition conn_session :: "(session \<Rightarrow> bool) \<Rightarrow> conn \<Rightarrow> bool" where "conn_session P c \<longleftrightarrow> P (cn_session c)"

lemma mails_lift [keeps]:
  "preserves P m \<Longrightarrow> preserves (on_mails P) (on_mail m)" "preserves (on_mails P) (on_db d)"
  "preserves (on_mails P) w \<Longrightarrow> preserves (conn_mails P) (on_gw w)" "preserves (conn_mails P) (on_session f)"
  "preserves (conn_mails P) (of_session h)"
  by (auto simp: preserves_def on_mails_def conn_mails_def on_mail_run on_db_run on_gw_def on_session_def of_session_def
      runs split: prod.splits)

lemma session_lift [keeps]:
  "preserves (conn_session P) (on_gw w)" "preserves (conn_session P) (of_session h)"
  by (auto simp: preserves_def conn_session_def on_gw_def of_session_def runs split: prod.splits)

lemma session_update: "(\<And>s. P s \<Longrightarrow> P (f s)) \<Longrightarrow> preserves (conn_session P) (on_session f)"
  by (auto simp: preserves_def conn_session_def on_session_def runs)

text \<open>The operations before the end of the data do not touch the mail tables.\<close>

lemma preserves_case_addr [keeps]:
  "preserves P a \<Longrightarrow> preserves P b \<Longrightarrow> preserves P c \<Longrightarrow>
   preserves P (case e of AddrInvalid \<Rightarrow> a | AddrNotFound \<Rightarrow> b | AddrNoSystem \<Rightarrow> c)"
  by (cases e) simp_all

lemma mails_admit [keeps]: "preserves (conn_mails P) (admit S a b)"
  unfolding admit_def Let_def by (intro keeps)

lemma mails_resolve [keeps]: "preserves (conn_mails P) (resolve_recipient to)"
  unfolding resolve_recipient_def enter_domain_def Let_def by (intro keeps)

lemma mails_board [keeps]: "preserves (conn_mails P) (rcpt_board_addr S to)"
  unfolding rcpt_board_addr_def resolve_board_def owner_lookup_def by (intro keeps)

lemma mails_before_data [keeps]:
  "preserves (conn_mails P) (mail_from from)" "preserves (conn_mails P) (rcpt S to)"
  "preserves (conn_mails P) (data S chunk)"
  unfolding mail_from_def mail_with_sender_def rcpt_def data_def by (intro keeps)+


section \<open>The type of a session\<close>

text \<open>Recipients are in lower case and come with a system and a domain; the data stays within the limit.\<close>

definition session_typed :: "smtp_env \<Rightarrow> session \<Rightarrow> bool" where
  "session_typed S s \<longleftrightarrow>
     (ss_recipients s \<noteq> [] \<longrightarrow> ss_system_id s \<noteq> None) \<and> (ss_system_id s \<noteq> None \<longleftrightarrow> ss_domain s \<noteq> None) \<and>
     list_all (\<lambda>r. to_lowercase r = r) (ss_recipients s) \<and> length (ss_message_data s) \<le> sm_max_message_size S"

definition placed :: "smtp_env \<Rightarrow> session \<Rightarrow> bool" where
  "placed S s \<longleftrightarrow> session_typed S s \<and> ss_system_id s \<noteq> None"

lemma placed_typed: "preserves (conn_session (placed S)) m \<Longrightarrow> placed S (cn_session c) \<Longrightarrow> session_typed S (cn_session (snd (m c)))"
  by (auto simp: preserves_def conn_session_def placed_def)

lemma placed_admit: "to_lowercase b = b \<Longrightarrow> preserves (conn_session (placed S)) (admit S a b)"
  unfolding admit_def Let_def
  by (intro keeps session_update) (auto simp: placed_def session_typed_def)

lemma typed_bind:
  assumes "\<And>c r c'. session_typed S (cn_session c) \<Longrightarrow> m c = (r, c') \<Longrightarrow>
      session_typed S (cn_session c') \<and> (\<forall>x. r = Inr x \<longrightarrow> session_typed S (cn_session (snd (f x c'))))"
  shows "preserves (conn_session (session_typed S)) (bindE m f)"
proof (rule preservesI)
  fix c assume c: "conn_session (session_typed S) c"
  obtain r c' where m: "m c = (r, c')" by (cases "m c")
  show "conn_session (session_typed S) (snd (bindE m f c))"
    using assms [OF c [unfolded conn_session_def] m] m
    by (cases r) (auto simp: conn_session_def runs)
qed

text \<open>A recipient that is resolved is in lower case and has set the system.\<close>

lemma enter_domain_run:
  "enter_domain d c = (Inr (), c\<lparr>cn_session := (cn_session c)\<lparr>ss_system_id := add_system (sd_system_id d) (ss_system_id (cn_session c)),
     ss_domain := Some (sd_domain d)\<rparr>\<rparr>)"
  by (simp add: enter_domain_def on_session_def runs)

lemma add_system_some: "add_system i z \<noteq> None" "\<exists>y. add_system i z = Some y"
  by (auto simp: add_system_def split: option.split)

lemma entered_placed:
  "session_typed S s \<Longrightarrow> placed S (s\<lparr>ss_system_id := add_system i (ss_system_id s), ss_domain := Some d\<rparr>)"
  by (auto simp: placed_def session_typed_def add_system_some)

lemma on_gw_session: "on_gw m c = (r, c') \<Longrightarrow> cn_session c' = cn_session c"
  by (auto simp: on_gw_def split: prod.splits)

lemma tryE_on_gw: "tryE (on_gw m) c = (r, c') \<Longrightarrow> cn_session c' = cn_session c"
  by (auto simp: tryE_def split: prod.splits sum.splits abort.splits dest: on_gw_session)

lemma resolve_recipient_placed:
  assumes "session_typed S (cn_session c)" and "resolve_recipient to c = (r, c')"
  shows "session_typed S (cn_session c') \<and>
    (\<forall>a p. r = Inr (Inr (a, p)) \<longrightarrow> placed S (cn_session c') \<and> to_lowercase a = a)"
proof -
  obtain base p where b: "strip_persona to = (base, p)" by (cases "strip_persona to")
  let ?look = "\<lambda>a. tryE (on_gw (on_db (lookup_domain_addr a)))"
  obtain r1 c1 where l1: "?look (to_lowercase to) c = (r1, c1)" by (cases "?look (to_lowercase to) c")
  obtain r2 c2 where l2: "?look (to_lowercase base) c1 = (r2, c2)" by (cases "?look (to_lowercase base) c1")
  have s: "cn_session c1 = cn_session c" "cn_session c2 = cn_session c"
    using tryE_on_gw [OF l1] tryE_on_gw [OF l2] by simp_all
  have e: "placed S (cn_session (snd (enter_domain d c1)))" "placed S (cn_session (snd (enter_domain d c2)))" for d
    using entered_placed [OF assms(1)] s by (simp_all add: enter_domain_run)
  show ?thesis
    using assms(2) l1 l2 s e assms(1)
    by (auto simp: resolve_recipient_def b Let_def bindE_run thenE_run run_simps enter_domain_run placed_def
        split: sum.splits option.splits if_splits)
qed


lemma rcpt_board_typed: "preserves (conn_session (session_typed S)) (rcpt_board_addr S to)"
proof -
  have r: "preserves (conn_session (session_typed S)) (resolve_board S to)"
    unfolding resolve_board_def owner_lookup_def by (intro keeps)
  have ok: "session_typed S (cn_session (snd (thenE (on_session (\<lambda>s. s\<lparr>ss_system_id := Some i, ss_domain := Some d\<rparr>))
      (admit S to (to_lowercase to)) c)))" if "session_typed S (cn_session c)" for c i d
  proof -
    have "placed S (cn_session (snd (on_session (\<lambda>s. s\<lparr>ss_system_id := Some i, ss_domain := Some d\<rparr>) c)))"
      using that by (auto simp: on_session_def runs placed_def session_typed_def)
    from placed_typed [OF placed_admit this] show ?thesis by (simp add: thenE_run on_session_def runs)
  qed
  show ?thesis
    unfolding rcpt_board_addr_def
  proof (rule typed_bind)
    fix c r1 c1
    assume t: "session_typed S (cn_session c)" and m: "resolve_board S to c = (r1, c1)"
    have t1: "session_typed S (cn_session c1)"
      using preservesE [OF r, of c r1 c1] t m by (simp add: conn_session_def)
    then show "session_typed S (cn_session c1) \<and> (\<forall>x. r1 = Inr x \<longrightarrow> session_typed S (cn_session (snd ((case x of
        Inl AddrInvalid \<Rightarrow> returnE (perm_fail ''Invalid board address'')
      | Inl AddrNotFound \<Rightarrow> returnE (perm_fail ''Recipient does not exist'')
      | Inl AddrNoSystem \<Rightarrow> returnE (temp_fail ''Board system not resolvable'')
      | Inr b \<Rightarrow> thenE (on_session (\<lambda>s. s\<lparr>ss_system_id := Some (rc_system_id b), ss_domain := Some (rc_domain b)\<rparr>))
         (admit S to (to_lowercase to))) c1))))"
      using ok by (auto simp: run_simps split: sum.splits board_addr_error.splits)
  qed
qed

lemma rcpt_typed: "preserves (conn_session (session_typed S)) (rcpt S to)"
proof -
  have ok: "session_typed S (cn_session (snd (thenE (on_session (\<lambda>s. if p = [] then s else s\<lparr>ss_persona := Some p\<rparr>))
      (admit S a a) c)))" if "placed S (cn_session c)" and "to_lowercase a = a" for c a p
  proof -
    have "placed S (cn_session (snd (on_session (\<lambda>s. if p = [] then s else s\<lparr>ss_persona := Some p\<rparr>) c)))"
      using that(1) by (auto simp: on_session_def runs placed_def session_typed_def)
    from placed_typed [OF placed_admit [OF that(2)] this] show ?thesis by (simp add: thenE_run on_session_def runs)
  qed
  have "preserves (conn_session (session_typed S)) (bindE (resolve_recipient to) (\<lambda>r. case r of
      Inl refusal \<Rightarrow> returnE refusal
    | Inr (lookup_addr, persona) \<Rightarrow>
        thenE (on_session (\<lambda>s. if persona = [] then s else s\<lparr>ss_persona := Some persona\<rparr>)) (admit S lookup_addr lookup_addr)))"
  proof (rule typed_bind)
    fix c r c1
    assume "session_typed S (cn_session c)" and "resolve_recipient to c = (r, c1)"
    from resolve_recipient_placed [OF this]
    show "session_typed S (cn_session c1) \<and> (\<forall>x. r = Inr x \<longrightarrow> session_typed S (cn_session (snd ((case x of
        Inl refusal \<Rightarrow> returnE refusal
      | Inr (lookup_addr, persona) \<Rightarrow>
          thenE (on_session (\<lambda>s. if persona = [] then s else s\<lparr>ss_persona := Some persona\<rparr>))
            (admit S lookup_addr lookup_addr)) c1))))"
      using ok by (auto simp: run_simps split: sum.splits)
  qed
  then show ?thesis by (simp add: rcpt_def rcpt_board_typed)
qed

lemma data_typed: "preserves (conn_session (session_typed S)) (data S chunk)"
  by (auto simp: preserves_def conn_session_def data_def of_session_def on_session_def bindE_run run_simps session_typed_def)

lemma mail_typed: "preserves (conn_session (session_typed S)) (mail_from from)"
  unfolding mail_from_def mail_with_sender_def by (intro keeps session_update) (auto simp: session_typed_def)

lemma data_end_typed: "preserves (conn_session (session_typed S)) (data_end S)"
  unfolding data_end_def process_data_end_post_def by (intro keeps session_update) (auto simp: session_typed_def)

section \<open>The mail tables stay well formed\<close>

lemma wf_attachments [keeps]:
  "preserves wf_mails (write_file p)" "preserves wf_mails (insert_attachment_meta i f ct sn ids)"
  "preserves wf_mails (insert_attachment_permission i u)" "preserves wf_mails (update_email_attachments i a)"
  unfolding write_file_def insert_attachment_meta_def insert_attachment_permission_def update_email_attachments_def update_email_def Let_def
  by (intro keeps preserves_modifyE; auto simp: wf_mails_def dest!: in_update_where split: if_splits)+

lemma wf_store [keeps]: "preserves wf_mails (store_attachments S sender i rcpts as)" "preserves wf_mails (new_uuids n)"
proof -
  have "preserves wf_mails (store_attachment S sender i rcpts a)" for a
    unfolding store_attachment_def Let_def by (cases a; cases "fst a") (auto intro!: keeps)
  then show "preserves wf_mails (store_attachments S sender i rcpts as)" by (induction as) (auto intro!: keeps)
  show "preserves wf_mails (new_uuids n)" by (induction n) (auto intro!: keeps)
qed

lemma wf_wakeup [keeps]: "preserves (on_mails wf_mails) (try_trigger W b i)"
  unfolding try_trigger_def by (intro keeps preserves_modifyE) (simp add: wf_mails_def)

lemma wf_process [keeps]:
  "preserves (on_mails wf_mails) (handle_bounce S raw sys a)"
  "preserves (on_mails wf_mails) (process_message S s n k sender rcpts sys raw)"
  unfolding handle_bounce_def verify_bounce_def find_emails_by_sender_direction_def create_bounce_notification_def
    process_message_def store_message_def store_row_def finish_message_def learn_members_def create_inbound_def Let_def
  by (intro keeps)+

lemma wf_data_end: "preserves (conn_mails wf_mails) (data_end S)"
  unfolding data_end_def process_data_end_post_def by (intro keeps)


section \<open>Sequences of callbacks\<close>

datatype smtp_event = MailFrom string | RcptTo string | DataChunk string | DataEnd

fun session_step :: "smtp_env \<Rightarrow> smtp_event \<Rightarrow> conn \<Rightarrow> conn" where
  "session_step S (MailFrom a) c = snd (mail_from a c)"
| "session_step S (RcptTo a) c = snd (rcpt S a c)"
| "session_step S (DataChunk d) c = snd (data S d c)"
| "session_step S DataEnd c = snd (data_end S c)"

definition conn_typed :: "smtp_env \<Rightarrow> conn \<Rightarrow> bool" where
  "conn_typed S c \<longleftrightarrow> conn_session (session_typed S) c \<and> conn_mails wf_mails c"

lemma session_step_typed: "conn_typed S c \<Longrightarrow> conn_typed S (session_step S e c)"
  by (cases e) (auto simp: conn_typed_def intro: preservesD [OF mail_typed] preservesD [OF rcpt_typed]
    preservesD [OF data_typed] preservesD [OF data_end_typed] preservesD [OF wf_data_end] preservesD [OF mails_before_data(1)]
    preservesD [OF mails_before_data(2)] preservesD [OF mails_before_data(3)])

interpretation session_run: event_machine "session_step S" "conn_typed S" for S
  by unfold_locales (rule session_step_typed)

text \<open>
  C22. Whatever callbacks a client provokes, in whatever order and whether they succeed, fail or panic, the
  session keeps its type: the recipients are in lower case and come with a system and a domain, the collected
  data stays within the configured size, and the mail table stays well formed.
\<close>

theorem session_keeps_type:
  assumes "wf_mails (gw_mail g)"
  shows "conn_typed S (fold (session_step S) evs \<lparr>cn_session = new_session, cn_gw = g\<rparr>)"
  by (rule session_run.run_inv)
    (use assms in \<open>simp add: conn_typed_def conn_session_def conn_mails_def on_mails_def session_typed_def new_session_def\<close>)

definition demo_smtp :: smtp_env where
  "demo_smtp = \<lparr>sm_wenv = demo_wenv, sm_sql = demo_sql,
     sm_mime = \<lparr>mp_parse = \<lambda>t. Some (Part [(''To'', ''a@x''), (''Subject'', ''hi'')] ''text/plain'' None False None (Some t) (Some t) []),
       mp_headers = \<lambda>t. Some [(''Subject'', ''hi'')], mp_encoding = \<lambda>l. None, mp_lossy = id\<rparr>,
     sm_storage = \<lparr>attachment_max_size = 10, attachment_max_attachments = 2, attachment_allowed_types = [],
       attachment_lifetime_hours = 1\<rparr>,
     sm_registry = [], sm_max_message_size = 100, sm_delivery_window_secs = 60, sm_auto_reply_body = None,
     sm_writable = \<lambda>p. True\<rparr>"

theorem session_keeps_type_witness:
  "conn_typed demo_smtp (fold (session_step demo_smtp)
     [MailFrom ''z@y'', RcptTo ''a@x'', DataChunk ''body'', DataEnd] \<lparr>cn_session = new_session, cn_gw = demo_gw\<rparr>)"
  by (rule session_keeps_type) (simp add: demo_gw_def demo_store_def wf_mails_def)

section \<open>Refusals\<close>

text \<open>
  C35. A message of a sender who is not admitted is refused at the end of the data without any effect, on the
  session or on the gateway, unless its envelope sender is blank or its subject is a command for strangers.
\<close>

theorem stranger_refused:
  assumes "\<not> ss_sender_whitelisted (cn_session c)" and "ss_sender (cn_session c) = Some sender" and "trim sender \<noteq> []"
    and "\<And>hs. mp_headers (sm_mime S) (ss_message_data (cn_session c)) = Some hs \<Longrightarrow>
      \<not> is_stranger_command (header_value hs ''subject'')"
  shows "data_end S c = (Inr (550, ''Sender not whitelisted''), c)"
  using assms
  by (auto simp: data_end_def of_session_def check_deferred_whitelist_def perm_fail_def bindE_run run_simps split: option.splits)

definition demo_conn :: "bool \<Rightarrow> conn" where
  "demo_conn whitelisted = \<lparr>cn_session = new_session\<lparr>ss_sender := Some ''z@y'', ss_recipients := [''a@x''], ss_message_data := ''body'',
     ss_domain := Some ''x'', ss_system_id := Some ''s1'', ss_sender_whitelisted := whitelisted\<rparr>, cn_gw = demo_gw\<rparr>"

theorem stranger_refused_witness: "data_end demo_smtp (demo_conn False) = (Inr (550, ''Sender not whitelisted''), demo_conn False)"
proof (rule stranger_refused)
  show "\<not> is_stranger_command (header_value hs ''subject'')"
    if "mp_headers (sm_mime demo_smtp) (ss_message_data (cn_session (demo_conn False))) = Some hs" for hs
  proof -
    have "hs = [(''Subject'', ''hi'')]" using that by (simp add: demo_smtp_def)
    then show ?thesis by simp code_simp
  qed
  show "trim ''z@y'' \<noteq> []" by code_simp
qed (simp_all add: demo_conn_def new_session_def)

lemma admit_ok:
  assumes "admit S a b c = (Inr r, c')" and "fst r = 250" and "ss_sender (cn_session c) = Some sender"
  shows "\<exists>w d. check_whitelisted (sm_sql S) a sender ''from'' (gw_db (cn_gw c)) = (Inr w, d) \<and>
    cn_session c' = (cn_session c)\<lparr>ss_sender_whitelisted := w, ss_recipients := ss_recipients (cn_session c) @ [b]\<rparr>"
proof -
  obtain z d where z: "check_whitelisted (sm_sql S) a sender ''from'' (gw_db (cn_gw c)) = (z, d)"
    by (cases "check_whitelisted (sm_sql S) a sender ''from'' (gw_db (cn_gw c))")
  have t: "tryE (on_gw (on_db (check_whitelisted (sm_sql S) a sender ''from''))) c =
      (case z of Inl (Err e) \<Rightarrow> Inr (Inl e) | Inl Panic \<Rightarrow> Inl Panic | Inr w \<Rightarrow> Inr (Inr w), c\<lparr>cn_gw := (cn_gw c)\<lparr>gw_db := d\<rparr>\<rparr>)"
    by (simp add: tryE_def on_gw_def on_db_def z split: sum.split abort.split)
  show ?thesis
    using assms unfolding admit_def Let_def of_session_def on_session_def
    by (auto simp: bindE_run thenE_run run_simps t z temp_fail_def split: sum.splits abort.splits)
qed

text \<open>The admission of the last recipient counts for all of them: after a refused recipient an admitted one
  opens the session, and both stay recipients.\<close>

lemma last_recipient_decides:
  assumes "admit S a a' c = (Inr r1, c1)" and "admit S b b' c1 = (Inr r2, c2)" and "fst r1 = 250" and "fst r2 = 250"
    and "ss_sender (cn_session c) = Some sender"
    and "check_whitelisted (sm_sql S) b sender ''from'' (gw_db (cn_gw c1)) = (Inr True, d)"
  shows "ss_sender_whitelisted (cn_session c2) \<and> ss_recipients (cn_session c2) = ss_recipients (cn_session c) @ [a', b']"
proof -
  obtain w where c1: "cn_session c1 = (cn_session c)\<lparr>ss_sender_whitelisted := w, ss_recipients := ss_recipients (cn_session c) @ [a']\<rparr>"
    using admit_ok [OF assms(1,3,5)] by blast
  then have "ss_sender (cn_session c1) = Some sender" using assms(5) by simp
  from admit_ok [OF assms(2,4) this] assms(6) c1 show ?thesis by auto
qed

text \<open>A sender of blanks passes the refusal like the empty one, but is not treated as a bounce.\<close>

lemma blank_sender_passes:
  "ss_sender s = Some '' '' \<Longrightarrow> check_deferred_whitelist S s = None"
  by (simp add: check_deferred_whitelist_def trim_def trim_start_def is_whitespace_def code_def)

text \<open>A message that is refused leaves its recipients and its data in the session, where the next message finds them.\<close>

lemma refused_data_stays:
  assumes "check_deferred_whitelist S (cn_session c) = Some r"
  shows "data_end S c = (Inr r, c)"
  using assms by (simp add: data_end_def of_session_def bindE_run run_simps)


text \<open>A closing bracket before the last opening one makes the extraction of the address panic.\<close>

lemma crossed_brackets_panic: "extract_email_for_envelope ''a@x> <'' envelope = None"
  by (simp add: extract_email_for_envelope_def angle_part_def)

section \<open>What an accepted message stores\<close>

text \<open>An address of a header reaches an admitted recipient: it is one, or its form without the persona is.\<close>

definition addressed_to :: "string set \<Rightarrow> string \<Rightarrow> bool" where
  "addressed_to envelope a \<longleftrightarrow> (let email = to_lowercase (trim a) in
     email \<in> envelope \<or> (case split_once (CHR ''.'') email of
       Some (_, base) \<Rightarrow> CHR ''@'' \<in> set base \<and> base \<in> envelope | None \<Rightarrow> False))"

lemma dropWhile_once: "dropWhile P (dropWhile P xs) = dropWhile P xs"
  by (induction xs) auto

lemma trim_trim [simp]: "trim (trim s) = trim s"
proof -
  have "trim_start (rev (dropWhile is_whitespace (rev t))) = rev (dropWhile is_whitespace (rev t))" if "trim_start t = t" for t
  proof (cases "rev (dropWhile is_whitespace (rev t))")
    case (Cons x xs)
    have "t = rev (dropWhile is_whitespace (rev t)) @ rev (takeWhile is_whitespace (rev t))"
      by (metis rev_append rev_rev_ident takeWhile_dropWhile_id)
    then have "t = x # (xs @ rev (takeWhile is_whitespace (rev t)))" using Cons by simp
    then have "\<not> is_whitespace x" using that unfolding trim_start_def
      by (metis dropWhile.simps(2) dropWhile_eq_self_iff list.sel(1) list.simps(3))
    then show ?thesis using Cons by (simp add: trim_start_def)
  next
    case Nil
    then show ?thesis unfolding Nil by (simp add: trim_start_def)
  qed
  then show ?thesis by (simp add: trim_def trim_start_def dropWhile_once)
qed

lemma filter_addresses_sound:
  "filter_addresses envelope as = Some bs \<Longrightarrow> b \<in> set bs \<Longrightarrow> addressed_to envelope b"
proof (induction as arbitrary: bs)
  case (Cons a as)
  obtain keep where k: "extract_email_for_envelope a envelope = Some keep"
    using Cons.prems(1) by (cases "extract_email_for_envelope a envelope") auto
  show ?case
  proof (cases keep)
    case True
    then obtain x bs' where x: "strip_mime_display a = Some x" "filter_addresses envelope as = Some bs'" "bs = x # bs'"
      using Cons.prems(1) k by (auto simp: bind_eq_Some_conv)
    obtain y where y: "angle_part a = Some y" "addressed_to envelope y"
      using k True by (auto simp: extract_email_for_envelope_def addressed_to_def)
    have "trim x = trim y"
      using x(1) y(1) by (auto simp: strip_mime_display_def angle_part_def split: option.splits if_splits)
    then have "addressed_to envelope x" using y(2) by (simp add: addressed_to_def)
    then show ?thesis using Cons.IH [OF x(2)] Cons.prems(2) x(3) by auto
  next
    case False
    then show ?thesis using Cons.IH Cons.prems k by simp
  qed
qed simp

text \<open>The parts of storing that leave the rows of mails alone.\<close>

definition rows_are :: "email list \<Rightarrow> est \<Rightarrow> bool" where "rows_are es e \<longleftrightarrow> st_emails e = es"

lemma rows_frame [keeps]:
  "preserves (rows_are es) now_ms" "preserves (rows_are es) new_uuid" "preserves (rows_are es) (write_file p)" "preserves (rows_are es) (insert_attachment_meta i f ct sn ids)"
  "preserves (rows_are es) (insert_attachment_permission i u)"
proof -
  show [keeps]: "preserves (rows_are es) now_ms" "preserves (rows_are es) new_uuid"
    by (simp_all add: rows_are_def preserves_def now_ms_def new_uuid_def)
  show "preserves (rows_are es) (write_file p)" "preserves (rows_are es) (insert_attachment_meta i f ct sn ids)"
    "preserves (rows_are es) (insert_attachment_permission i u)"
    unfolding write_file_def insert_attachment_meta_def insert_attachment_permission_def Let_def
    by (intro keeps preserves_modifyE; simp add: rows_are_def)+
qed

lemma rows_store [keeps]: "preserves (rows_are es) (store_attachments S sender i rcpts as)" "preserves (rows_are es) (new_uuids n)"
proof -
  have "preserves (rows_are es) (store_attachment S sender i rcpts a)" for a
    unfolding store_attachment_def Let_def by (cases a; cases "fst a") (auto intro!: keeps)
  then show "preserves (rows_are es) (store_attachments S sender i rcpts as)" by (induction as) (auto intro!: keeps)
  show "preserves (rows_are es) (new_uuids n)" by (induction n) (auto intro!: keeps)
qed

lemma rows_trigger [keeps]: "preserves (on_mails (rows_are es)) (try_trigger W b i)"
  unfolding try_trigger_def by (intro keeps preserves_modifyE) (simp add: rows_are_def)

lemma rows_learn [keeps]: "preserves (on_mails (rows_are es)) (learn_members S sender subject raw)"
  unfolding learn_members_def by (intro keeps)

lemma rows_same: "preserves (rows_are (st_emails e)) m \<Longrightarrow> m e = (r, e') \<Longrightarrow> st_emails e' = st_emails e"
  using preservesE [of "rows_are (st_emails e)" m e r e'] by (simp add: rows_are_def)

lemma rows_same_gw:
  "preserves (on_mails (rows_are (st_emails (gw_mail g)))) m \<Longrightarrow> m g = (r, g') \<Longrightarrow> st_emails (gw_mail g') = st_emails (gw_mail g)"
  using preservesE [of "on_mails (rows_are (st_emails (gw_mail g)))" m g r g'] by (simp add: rows_are_def on_mails_def)

lemma insert_email_cases:
  assumes "insert_email i sys dir from rc sj bd ep att hs mx e = (r, e')"
  shows "(\<exists>m. r = Inr m \<and> st_emails e' = st_emails e @ [m] \<and> em_id m = i \<and> i \<notin> em_id ` set (st_emails e) \<and>
      em_status m = ''readying'' \<and> em_system_id m = sys \<and> em_direction m = dir \<and> em_sender m = from \<and>
      em_recipients m = rc \<and> em_subject m = sj \<and> em_body m = bd \<and> em_endpoints m = ep \<and> em_headers m = hs \<and>
      em_send_count m = 0) \<or>
    (\<exists>x. r = Inl (Err x) \<and> st_emails e' = st_emails e)"
  using assms
  by (auto simp: insert_email_def now_ms_def Let_def bindE_run thenE_run requireE_run run_simps split: if_splits)

lemmas create_inbound_cases = insert_email_cases [where dir = "''inbound''", folded create_inbound_def]
lemmas create_outbound_cases = insert_email_cases [where dir = "''outbound''", folded create_outbound_def]


text \<open>The row of an accepted message.\<close>

definition inbound_row ::
    "smtp_env \<Rightarrow> session \<Rightarrow> string \<Rightarrow> string \<Rightarrow> headers \<Rightarrow> parsed_mail \<Rightarrow> string list \<Rightarrow> string list \<Rightarrow> email \<Rightarrow> bool" where
  "inbound_row S s sender system_id hs pm tos ccs m \<longleftrightarrow>
     em_status m = ''readying'' \<and> em_direction m = ''inbound'' \<and> em_send_count m = 0 \<and>
     em_sender m = sender \<and> em_system_id m = hd (split_char (CHR ''|'') system_id) \<and>
     em_recipients m = recipients_to_json (sm_ext S) (message_recipients tos ccs) \<and>
     em_subject m = pm_subject pm \<and> em_body m = pm_body pm \<and>
     em_headers m = Some (json_text (sm_ext S) (JObj (inbound_headers s hs pm)))"

lemma try_on_mail: "tryE (on_mail m) g = (Inr z, g') \<longleftrightarrow> (\<exists>e. tryE m (gw_mail g) = (Inr z, e) \<and> g' = g\<lparr>gw_mail := e\<rparr>)"
  by (auto simp: tryE_def on_mail_def split: prod.splits sum.splits abort.splits)

lemma finish_message_rows:
  assumes "finish_message S sender m rcpts pairs g = (Inr r, g')"
    and "st_emails (gw_mail g) = es @ [m]" and "em_id m \<notin> em_id ` set es"
  shows "fst r = 250 \<and> (\<exists>z. st_emails (gw_mail g') = es @ [m\<lparr>em_attachments := z\<rparr>])"
proof -
  from assms(1) obtain entries e1 g2 where
    e1: "store_attachments S sender (em_id m) rcpts pairs (gw_mail g) = (Inr entries, e1)" and
    g2: "(if entries = [] then returnE () else okE (on_mail (update_email_attachments (em_id m) (json_text (sm_ext S) (JArr entries)))))
      (g\<lparr>gw_mail := e1\<rparr>) = (Inr (), g2)" and
    g': "thenE (try_trigger (sm_wenv S) True (em_id m)) (returnE ok) g2 = (Inr r, g')"
    unfolding finish_message_def bindE_Inr thenE_Inr [of "if _ then _ else _"] on_mail_Inr by auto
  have rows1: "st_emails e1 = es @ [m]" using rows_same [OF rows_store(1) e1] assms(2) by simp
  have fresh: "em_id x \<noteq> em_id m" if "x \<in> set es" for x using assms(3) that by (metis imageI)
  have others: "update_where (\<lambda>x. em_id x = em_id m) f es = es" for f
    using fresh by (auto simp: update_where_def intro!: map_idI)
  have rows2: "\<exists>z. st_emails (gw_mail g2) = es @ [m\<lparr>em_attachments := z\<rparr>]"
  proof (cases "entries = []")
    case True
    then have "st_emails (gw_mail g2) = es @ [m\<lparr>em_attachments := em_attachments m\<rparr>]" using g2 rows1 by (auto simp: runs)
    then show ?thesis by blast
  next
    case False
    then have "st_emails (gw_mail g2) = es @ [m\<lparr>em_attachments := Some (json_text (sm_ext S) (JArr entries))\<rparr>]"
      using g2 rows1 others by (auto simp: okE_run on_mail_run update_email_attachments_def update_email_def runs update_where_def)
    then show ?thesis by blast
  qed
  obtain u g3 where g3: "try_trigger (sm_wenv S) True (em_id m) g2 = (Inr u, g3)" "r = ok" "g' = g3"
    using g' by (auto simp: thenE_Inr pure_Inr)
  then show ?thesis using rows2 rows_same_gw [OF rows_trigger g3(1)] by (simp add: ok_def)
qed

lemma store_message_rows:
  assumes "store_message S s sender system_id hs pm tos ccs g = (Inr r, g')"
  shows "(fst r = 250 \<and> (\<exists>m. inbound_row S s sender system_id hs pm tos ccs m \<and>
      em_id m \<notin> em_id ` set (st_emails (gw_mail g)) \<and> st_emails (gw_mail g') = st_emails (gw_mail g) @ [m])) \<or>
    (fst r = 451 \<and> st_emails (gw_mail g') = st_emails (gw_mail g))"
proof -
  from assms obtain u e1 us e2 eps d z g3 where
    e1: "new_uuid (gw_mail g) = (Inr u, e1)" and
    e2: "new_uuids (length (pm_attachments pm)) e1 = (Inr us, e2)" and
    z: "tryE (on_mail (store_row S s sender system_id hs pm tos ccs u eps)) (g\<lparr>gw_mail := e2, gw_db := d\<rparr>) = (Inr z, g3)" and
    cont: "(case z of Inl _ \<Rightarrow> returnE (temp_fail ''Database insert failed'')
      | Inr m \<Rightarrow> finish_message S sender m (tos @ ccs) (zip (pm_attachments pm) us)) g3 = (Inr r, g')"
    unfolding store_message_def bindE_Inr on_mail_Inr on_db_Inr by fastforce
  have rows: "st_emails e2 = st_emails (gw_mail g)"
    using rows_same [OF rows_frame(2) e1] rows_same [OF rows_store(2) e2] by simp
  obtain e3 where e3: "tryE (store_row S s sender system_id hs pm tos ccs u eps) e2 = (Inr z, e3)" "gw_mail g3 = e3"
    using z by (auto simp: try_on_mail)
  show ?thesis
  proof (cases z)
    case (Inl x)
    then show ?thesis using cont e3 create_inbound_cases rows
      by (fastforce simp: pure_Inr temp_fail_def tryE_Inr store_row_def)
  next
    case (Inr m)
    have m: "store_row S s sender system_id hs pm tos ccs u eps e2 = (Inr m, e3)" using e3 Inr by (simp add: tryE_Inr)
    have row: "st_emails e3 = st_emails (gw_mail g) @ [m]" "em_id m \<notin> em_id ` set (st_emails (gw_mail g))"
      "inbound_row S s sender system_id hs pm tos ccs m"
      using create_inbound_cases [OF m [unfolded store_row_def]] rows by (auto simp: inbound_row_def)
    have fin: "finish_message S sender m (tos @ ccs) (zip (pm_attachments pm) us) g3 = (Inr r, g')" using cont Inr by simp
    obtain z where z: "fst r = 250" "st_emails (gw_mail g') = st_emails (gw_mail g) @ [m\<lparr>em_attachments := z\<rparr>]"
      using finish_message_rows [OF fin _ row(2)] row(1) e3(2) by auto
    have "inbound_row S s sender system_id hs pm tos ccs (m\<lparr>em_attachments := z\<rparr>)"
      "em_id (m\<lparr>em_attachments := z\<rparr>) \<notin> em_id ` set (st_emails (gw_mail g))"
      using row(2,3) by (simp_all add: inbound_row_def)
    then show ?thesis using z by blast
  qed
qed


lemma process_message_rows:
  assumes "process_message S s n k sender recipients system_id raw g = (Inr r, g')"
  shows "(fst r = 250 \<and> (\<exists>parsed tos ccs m. mp_parse (sm_mime S) raw = Some parsed \<and>
      inbound_row S s sender system_id (pt_headers parsed) (parse_mime_detailed_from_parsed (sm_mime S) parsed) tos ccs m \<and>
      (\<forall>a \<in> set (tos @ ccs). addressed_to (set (map to_lowercase recipients)) a) \<and> tos @ ccs \<noteq> [] \<and>
      em_id m \<notin> em_id ` set (st_emails (gw_mail g)) \<and> st_emails (gw_mail g') = st_emails (gw_mail g) @ [m])) \<or>
    (fst r \<noteq> 250 \<and> st_emails (gw_mail g') = st_emails (gw_mail g))"
proof (cases "mp_parse (sm_mime S) raw")
  case None
  then show ?thesis using assms by (auto simp: process_message_def pure_Inr temp_fail_def)
next
  case (Some parsed)
  let ?pm = "parse_mime_detailed_from_parsed (sm_mime S) parsed"
  let ?env = "set (map to_lowercase recipients)"
  show ?thesis
  proof (cases "validate_attachments (sm_storage S) (pm_attachments ?pm) n k")
    case (Inl e)
    then show ?thesis using assms Some by (auto simp: process_message_def pure_Inr perm_fail_def Let_def)
  next
    case (Inr u)
    note run = assms [unfolded process_message_def Some option.case Let_def Inr sum.case]
    show ?thesis
    proof (cases "filter_addresses ?env (pm_to ?pm)")
      case None
      then show ?thesis using run by (simp add: pure_Inr)
    next
      case tos: (Some tos)
      show ?thesis
      proof (cases "filter_addresses ?env (pm_cc ?pm)")
        case None
        then show ?thesis using run tos by (simp add: pure_Inr)
      next
        case ccs: (Some ccs)
        show ?thesis
        proof (cases "tos = [] \<and> ccs = []")
          case True
          then show ?thesis using run tos ccs by (auto simp: pure_Inr perm_fail_def)
        next
          case False
          then have "thenE (learn_members S sender (pm_subject ?pm) raw)
              (store_message S s sender system_id (pt_headers parsed) ?pm tos ccs) g = (Inr r, g')"
            using run tos ccs by auto
          then obtain x g1 where l: "learn_members S sender (pm_subject ?pm) raw g = (Inr x, g1)"
            and st: "store_message S s sender system_id (pt_headers parsed) ?pm tos ccs g1 = (Inr r, g')"
            by (auto simp: thenE_Inr)
          have same: "st_emails (gw_mail g1) = st_emails (gw_mail g)" using rows_same_gw [OF rows_learn l] .
          have adr: "\<forall>a \<in> set (tos @ ccs). addressed_to ?env a"
            using filter_addresses_sound [OF tos] filter_addresses_sound [OF ccs] by auto
          from store_message_rows [OF st] same False adr Some show ?thesis by fastforce
        qed
      qed
    qed
  qed
qed


text \<open>What the end of the data runs once the message is neither refused nor incomplete.\<close>

lemma data_end_runs:
  assumes "data_end S c = (Inr r, c')" and "fst r = 250" and "ss_sender (cn_session c) = Some sender"
  shows "\<exists>system_id. ss_system_id (cn_session c) = Some system_id \<and> ss_recipients (cn_session c) \<noteq> [] \<and>
    check_deferred_whitelist S (cn_session c) = None \<and>
    (if sender = []
     then \<exists>u. handle_bounce S (ss_message_data (cn_session c)) system_id (hd (ss_recipients (cn_session c))) (cn_gw c) = (Inr u, cn_gw c')
     else process_message S (cn_session c) None None sender (ss_recipients (cn_session c)) system_id
       (ss_message_data (cn_session c)) (cn_gw c) = (Inr r, cn_gw c'))"
proof -
  let ?s = "cn_session c"
  have w: "check_deferred_whitelist S ?s = None"
    using assms(1,2) by (auto simp: data_end_def of_session_def bindE_run run_simps check_deferred_whitelist_def perm_fail_def
        split: option.splits if_splits)
  have p: "process_data_end_post S None None c = (Inr r, c')"
    using assms(1) w by (simp add: data_end_def of_session_def bindE_run run_simps)
  show ?thesis
    using p assms(2,3) w
    by (auto simp: process_data_end_post_def of_session_def on_session_def bindE_run thenE_run run_simps on_gw_def
        perm_fail_def temp_fail_def split: option.splits if_splits prod.splits sum.splits)
qed


section \<open>Bounces\<close>

lemma verify_bounce_sound:
  assumes "verify_bounce S dsn g = (Inr (Some i), g')"
  shows "\<exists>m t. m \<in> set (st_emails (gw_mail g)) \<and> em_id m = i \<and> em_sender m = bn_original_from dsn \<and>
      em_direction m = ''outbound'' \<and> bounce_matches (sm_ext S) dsn t m"
    and "st_emails (gw_mail g') = st_emails (gw_mail g)"
proof -
  let ?ms = "ordered_by (\<lambda>m. - em_created_at m) (\<lambda>m. em_sender m = bn_original_from dsn \<and> em_direction m = ''outbound'') 10
    (st_emails (gw_mail g))"
  have found: "\<exists>t m. find (bounce_matches (sm_ext S) dsn t) ?ms = Some m \<and> em_id m = i"
    and "st_emails (gw_mail g') = st_emails (gw_mail g)"
    using assms by (auto simp: verify_bounce_def find_emails_by_sender_direction_def bindE_run tryE_run on_mail_run run_simps now_ms_def
        split: if_splits)
  then show "st_emails (gw_mail g') = st_emails (gw_mail g)" by simp
  from found obtain t m where m: "find (bounce_matches (sm_ext S) dsn t) ?ms = Some m" "em_id m = i" by blast
  then have "bounce_matches (sm_ext S) dsn t m" "m \<in> set ?ms" by (auto simp: find_Some_iff)
  moreover have "set ?ms \<subseteq> {m \<in> set (st_emails (gw_mail g)). em_sender m = bn_original_from dsn \<and> em_direction m = ''outbound''}"
    by (auto simp: ordered_by_def dest: in_set_takeD)
  ultimately show "\<exists>m t. m \<in> set (st_emails (gw_mail g)) \<and> em_id m = i \<and> em_sender m = bn_original_from dsn \<and>
      em_direction m = ''outbound'' \<and> bounce_matches (sm_ext S) dsn t m" using m(2) by blast
qed


definition notice_row :: "smtp_env \<Rightarrow> bounce_dsn \<Rightarrow> string \<Rightarrow> string \<Rightarrow> email \<Rightarrow> bool" where
  "notice_row S dsn system_id a n \<longleftrightarrow> em_status n = ''readying'' \<and> em_direction n = ''inbound'' \<and>
     em_sender n = we_sender (sm_wenv S) \<and> em_system_id n = system_id \<and> em_subject n = ''Mail delivery failed'' \<and>
     em_body n = bounce_body S dsn \<and>
     em_recipients n = recipients_to_json (sm_ext S) \<lparr>rp_to = [a], rp_cc = [], rp_rcpt = [a]\<rparr>"

lemma filter_updated:
  "(\<And>m. em_id (f m) = em_id m) \<Longrightarrow> filter (\<lambda>m. em_id m \<noteq> i) (update_where (\<lambda>m. em_id m = i) f rows) = filter (\<lambda>m. em_id m \<noteq> i) rows"
  by (induction rows) (auto simp: update_where_def)

lemma complete_and_delete:
  "st_emails (snd (thenE (okE (update_email_completed i)) (okE (delete_email i)) e)) = filter (\<lambda>m. em_id m \<noteq> i) (st_emails e)"
  by (auto simp: thenE_run okE_run update_email_completed_def mark_status_def get_email_def update_email_def delete_email_def
      now_ms_def bindE_run run_simps Let_def filter_updated split: option.split)

lemma create_notice_rows:
  assumes "create_bounce_notification S dsn system_id a i g = (Inr z, g')"
  shows "(z = None \<and> st_emails (gw_mail g') = st_emails (gw_mail g)) \<or>
    (\<exists>n. z = Some (em_id n) \<and> notice_row S dsn system_id a n \<and> em_id n \<notin> em_id ` set (st_emails (gw_mail g)) \<and>
      st_emails (gw_mail g') = filter (\<lambda>m. em_id m \<noteq> i) (st_emails (gw_mail g) @ [n]))"
proof -
  let ?rc = "recipients_to_json (sm_ext S) \<lparr>rp_to = [a], rp_cc = [], rp_rcpt = [a]\<rparr>"
  obtain u e1 where u: "new_uuid (gw_mail g) = (Inr u, e1)" "st_emails e1 = st_emails (gw_mail g)"
    by (simp add: new_uuid_def)
  let ?hs = "Some (json_text (sm_ext S) (JObj [(''message_id'', JStr (''bn-'' @ u)),
     (''original_message_id'', JStr (bn_orig_message_id dsn)), (''bounce_status'', JStr (bn_dsn_status dsn)),
     (''bounce_diagnostic'', JStr (bn_dsn_diagnostic dsn))]))"
  from assms obtain eps d y g3 where
    y: "tryE (on_mail (create_inbound (''bn-'' @ u) system_id (we_sender (sm_wenv S)) ?rc ''Mail delivery failed'' (bounce_body S dsn)
      (Some eps) None ?hs (we_max_attempts (sm_wenv S)))) (g\<lparr>gw_mail := e1, gw_db := d\<rparr>) = (Inr y, g3)" and
    cont: "(case y of Inl _ \<Rightarrow> returnE None
      | Inr m \<Rightarrow> thenE (okE (on_mail (update_email_completed i))) (thenE (okE (on_mail (delete_email i)))
          (thenE (try_trigger (sm_wenv S) True (em_id m)) (returnE (Some (em_id m)))))) g3 = (Inr z, g')"
    unfolding create_bounce_notification_def bindE_Inr on_mail_Inr on_db_Inr Let_def using u by fastforce
  obtain e3 where e3: "tryE (create_inbound (''bn-'' @ u) system_id (we_sender (sm_wenv S)) ?rc ''Mail delivery failed''
      (bounce_body S dsn) (Some eps) None ?hs (we_max_attempts (sm_wenv S))) e1 = (Inr y, e3)" "gw_mail g3 = e3"
    using y by (auto simp: try_on_mail)
  show ?thesis
  proof (cases y)
    case (Inl x)
    then show ?thesis using cont e3 create_inbound_cases u(2) by (fastforce simp: pure_Inr tryE_Inr)
  next
    case (Inr n)
    have m: "create_inbound (''bn-'' @ u) system_id (we_sender (sm_wenv S)) ?rc ''Mail delivery failed'' (bounce_body S dsn)
      (Some eps) None ?hs (we_max_attempts (sm_wenv S)) e1 = (Inr n, e3)" using e3 Inr by (simp add: tryE_Inr)
    have n: "notice_row S dsn system_id a n" "em_id n \<notin> em_id ` set (st_emails (gw_mail g))"
      "st_emails e3 = st_emails (gw_mail g) @ [n]"
      using create_inbound_cases [OF m] u(2) by (auto simp: notice_row_def)
    obtain x1 g4 x2 g5 x3 g6 where
      g4: "okE (on_mail (update_email_completed i)) g3 = (Inr x1, g4)" and g5: "okE (on_mail (delete_email i)) g4 = (Inr x2, g5)" and
      g6: "try_trigger (sm_wenv S) True (em_id n) g5 = (Inr x3, g6)" and z: "z = Some (em_id n)" "g' = g6"
      using cont Inr by (auto simp: thenE_Inr pure_Inr)
    have "gw_mail g5 = snd (thenE (okE (update_email_completed i)) (okE (delete_email i)) (gw_mail g3))"
      using g4 g5 by (auto simp: okE_run thenE_run on_mail_def split: prod.splits sum.splits abort.splits)
    then have "st_emails (gw_mail g5) = filter (\<lambda>m. em_id m \<noteq> i) (st_emails (gw_mail g) @ [n])"
      using n(3) e3(2) by (simp add: complete_and_delete)
    then show ?thesis using z n(1,2) rows_same_gw [OF rows_trigger g6] by auto
  qed
qed

lemma handle_bounce_rows:
  assumes "handle_bounce S raw system_id a g = (Inr u, g')"
  shows "st_emails (gw_mail g') = st_emails (gw_mail g) \<or>
    (\<exists>dsn m t n. parse_bounce_dsn (sm_mime S) raw = Some dsn \<and> m \<in> set (st_emails (gw_mail g)) \<and>
      em_sender m = bn_original_from dsn \<and> em_direction m = ''outbound'' \<and> bounce_matches (sm_ext S) dsn t m \<and>
      notice_row S dsn system_id a n \<and>
      st_emails (gw_mail g') = filter (\<lambda>x. em_id x \<noteq> em_id m) (st_emails (gw_mail g)) @ [n])"
proof (cases "parse_bounce_dsn (sm_mime S) raw")
  case None
  then show ?thesis using assms by (simp add: handle_bounce_def pure_Inr)
next
  case (Some dsn)
  obtain z g1 where v: "verify_bounce S dsn g = (Inr z, g1)"
    and k: "(case z of None \<Rightarrow> returnE () | Some i \<Rightarrow> bindE (create_bounce_notification S dsn system_id a i) (\<lambda>n. case n of
       None \<Rightarrow> returnE () | Some nid \<Rightarrow> try_trigger (sm_wenv S) True nid)) g1 = (Inr u, g')"
    using assms Some by (auto simp: handle_bounce_def bindE_Inr)
  have same: "st_emails (gw_mail g1) = st_emails (gw_mail g)"
  proof (cases z)
    case None
    then show ?thesis using v
      by (auto simp: verify_bounce_def find_emails_by_sender_direction_def bindE_run tryE_run on_mail_run run_simps now_ms_def
          split: if_splits)
  qed (use verify_bounce_sound(2) v in blast)
  show ?thesis
  proof (cases z)
    case None
    then show ?thesis using k same by (simp add: pure_Inr)
  next
    case z: (Some i)
    obtain m t where m: "m \<in> set (st_emails (gw_mail g))" "em_id m = i" "em_sender m = bn_original_from dsn"
        "em_direction m = ''outbound''" "bounce_matches (sm_ext S) dsn t m"
      using verify_bounce_sound(1) v z by blast
    obtain y g2 where y: "create_bounce_notification S dsn system_id a i g1 = (Inr y, g2)"
      and last: "(case y of None \<Rightarrow> returnE () | Some nid \<Rightarrow> try_trigger (sm_wenv S) True nid) g2 = (Inr u, g')"
      using k z by (auto simp: bindE_Inr)
    have last_rows: "st_emails (gw_mail g') = st_emails (gw_mail g2)"
      using last rows_same_gw [OF rows_trigger] by (auto simp: pure_Inr split: option.splits)
    from create_notice_rows [OF y] show ?thesis
    proof (elim disjE exE conjE)
      fix n assume n: "notice_row S dsn system_id a n" "em_id n \<notin> em_id ` set (st_emails (gw_mail g1))"
        and rows: "st_emails (gw_mail g2) = filter (\<lambda>x. em_id x \<noteq> i) (st_emails (gw_mail g1) @ [n])"
      have "em_id n \<noteq> i" using n(2) m(1,2) same by (metis imageI)
      then have "st_emails (gw_mail g') = filter (\<lambda>x. em_id x \<noteq> em_id m) (st_emails (gw_mail g)) @ [n]"
        using rows last_rows same m(2) by simp
      then show ?thesis using Some m n(1) by blast
    qed (use last_rows same in simp)
  qed
qed


text \<open>A reply other than 250 means that no mail was stored or removed.\<close>

lemma refused_stores_nothing:
  assumes "data_end S c = (Inr r, c')" and "fst r \<noteq> 250"
  shows "st_emails (gw_mail (cn_gw c')) = st_emails (gw_mail (cn_gw c))"
proof (cases "check_deferred_whitelist S (cn_session c)")
  case Some
  then show ?thesis using assms(1) by (simp add: data_end_def of_session_def bindE_run run_simps)
next
  case None
  then have p: "process_data_end_post S None None c = (Inr r, c')"
    using assms(1) by (simp add: data_end_def of_session_def bindE_run run_simps)
  show ?thesis
    using p assms(2)
    by (auto simp: process_data_end_post_def of_session_def on_session_def bindE_run thenE_run run_simps on_gw_def ok_def
        split: option.splits if_splits prod.splits sum.splits dest!: process_message_rows)
qed

text \<open>
  C36. A message with an empty envelope sender never reaches a mailbox: it leaves the mails as they are, or its
  parts form a delivery notification for a delivered outbound mail with the same original sender, subject and
  message id; then that mail is removed and one notice to the first recipient takes its place.
\<close>

theorem bounce_replaces_one_mail:
  assumes "data_end S c = (Inr r, c')" and "ss_sender (cn_session c) = Some []"
  shows "st_emails (gw_mail (cn_gw c')) = st_emails (gw_mail (cn_gw c)) \<or>
    (\<exists>system_id dsn m n. ss_system_id (cn_session c) = Some system_id \<and>
      parse_bounce_dsn (sm_mime S) (ss_message_data (cn_session c)) = Some dsn \<and> m \<in> set (st_emails (gw_mail (cn_gw c))) \<and>
      em_sender m = bn_original_from dsn \<and> em_direction m = ''outbound'' \<and> em_status m = ''delivered'' \<and>
      to_lowercase (trim (em_subject m)) = to_lowercase (trim (bn_original_subject dsn)) \<and>
      unwrap_or [] (message_id_from_headers (sm_ext S) m) = trim (bn_orig_message_id dsn) \<and>
      notice_row S dsn system_id (hd (ss_recipients (cn_session c))) n \<and>
      st_emails (gw_mail (cn_gw c')) = filter (\<lambda>x. em_id x \<noteq> em_id m) (st_emails (gw_mail (cn_gw c))) @ [n])"
proof (cases "fst r = 250")
  case True
  then obtain system_id u where s: "ss_system_id (cn_session c) = Some system_id"
    and b: "handle_bounce S (ss_message_data (cn_session c)) system_id (hd (ss_recipients (cn_session c))) (cn_gw c) = (Inr u, cn_gw c')"
    using data_end_runs [OF assms(1) _ assms(2)] by auto
  from handle_bounce_rows [OF b] s show ?thesis unfolding bounce_matches_def by blast
qed (use refused_stores_nothing [OF assms(1)] in simp)

section \<open>Concrete messages\<close>

definition dsn_parse :: "string \<Rightarrow> part option" where
  "dsn_parse t = (if t = ''orig'' then Some (Part [(''From'', ''a@x''), (''Subject'', ''hello'')] ''text/plain'' None False None None None [])
     else Some (Part [] ''multipart/report'' None False None None None
       [Part [] ''message/delivery-status'' None False None None (Some ''Status: 5.1.1'') [],
        Part [] ''message/rfc822'' None False None (Some ''orig'') None []]))"

definition bounce_smtp :: smtp_env where
  "bounce_smtp = demo_smtp\<lparr>sm_mime := (sm_mime demo_smtp)\<lparr>mp_parse := dsn_parse\<rparr>\<rparr>"

definition bounce_conn :: conn where
  "bounce_conn = \<lparr>cn_session = (cn_session (demo_conn True))\<lparr>ss_sender := Some []\<rparr>,
     cn_gw = demo_gw\<lparr>gw_mail := demo_store [(demo_email ''m1'' ''delivered'' 1)\<lparr>em_sender := ''a@x'', em_direction := ''outbound'',
       em_last_sent_at := 1000\<rparr>]\<rparr>\<rparr>"


lemma bounce_run: "fst (data_end bounce_smtp bounce_conn) = Inr (250, ''OK'')"
  by code_simp

lemma bounce_leaves: "map em_id (st_emails (gw_mail (cn_gw (snd (data_end bounce_smtp bounce_conn))))) = [''bn-u'']"
  by code_simp


theorem bounce_replaces_one_mail_witness:
  "\<exists>n dsn. notice_row bounce_smtp dsn ''s1'' ''a@x'' n \<and> bn_dsn_status dsn = ''5.1.1'' \<and>
     st_emails (gw_mail (cn_gw (snd (data_end bounce_smtp bounce_conn)))) = [n]"
proof -
  obtain c' where c': "data_end bounce_smtp bounce_conn = (Inr (250, ''OK''), c')"
    using bounce_run by (cases "data_end bounce_smtp bounce_conn") auto
  let ?m = "(demo_email ''m1'' ''delivered'' 1)\<lparr>em_sender := ''a@x'', em_direction := ''outbound'', em_last_sent_at := 1000\<rparr>"
  have rows: "st_emails (gw_mail (cn_gw bounce_conn)) = [?m]"
    by (simp add: bounce_conn_def demo_store_def)
  have s: "ss_sender (cn_session bounce_conn) = Some []" "ss_system_id (cn_session bounce_conn) = Some ''s1''"
    "hd (ss_recipients (cn_session bounce_conn)) = ''a@x''" "ss_message_data (cn_session bounce_conn) = ''body''"
    by (simp_all add: bounce_conn_def demo_conn_def)
  have d: "map_option bn_dsn_status (parse_bounce_dsn (sm_mime bounce_smtp) ''body'') = Some ''5.1.1''" by code_simp
  have "st_emails (gw_mail (cn_gw c')) \<noteq> [?m]" using bounce_leaves c' by (auto simp: demo_email_def)
  then show ?thesis
    using bounce_replaces_one_mail [OF c' s(1)] c' rows s d by auto
qed

end
