(* ===== verification/Send_Api.thy ===== *)
theory Send_Api
  imports Smtp_Receiver Api_Keys Send_Dedup
begin

text \<open>
  The send API, \<open>src/src/core/api/send.rs\<close>: from the request of an agent to the mails queued for it. First the
  sender and the suppression of duplicates, then the parsing of recipients, names and headers, then the two
  whitelist checks with the classification of the recipients, at last the rows and the notices.

  A handler is an effect on the gateway and the table of recent sends; its errors are HTTP answers. Hash maps
  and hash sets are lists in order of insertion; where the code iterates over one, the field \<open>sv_order\<close> gives the
  order.
\<close>

section \<open>State, environment, request\<close>

record send_state =
  sn_gw :: gw
  sn_dedup :: dedup

type_synonym 'a am = "(send_state, http_error, 'a) eff"

definition lift_gw :: "(app_error \<Rightarrow> http_error) \<Rightarrow> 'a wm \<Rightarrow> 'a am" where
  "lift_gw f m = (\<lambda>s. case m (sn_gw s) of
     (Inl (Err e), g) \<Rightarrow> (Inl (Err (f e)), s\<lparr>sn_gw := g\<rparr>)
   | (Inl Panic, g) \<Rightarrow> (Inl Panic, s\<lparr>sn_gw := g\<rparr>)
   | (Inr x, g) \<Rightarrow> (Inr x, s\<lparr>sn_gw := g\<rparr>))"

record send_env =
  sv_wenv :: wenv
  sv_sql :: sql_env
  sv_registry :: board_registry
  sv_digest :: "string \<Rightarrow> string"
  sv_dedupe_window_secs :: int
  sv_order :: "string list \<Rightarrow> string list"
  sv_smtp_hostname :: "string option"
  sv_http_hostname :: "string option"
  sv_auto_reply_body :: "string option"
  sv_subject_prefix :: string
  sv_open_ok :: "string \<Rightarrow> bool"
  sv_fresh :: "string \<Rightarrow> bst"

abbreviation sv_ext :: "send_env \<Rightarrow> ext" where "sv_ext V \<equiv> we_ext (sv_wenv V)"

record attachment_ref =
  ar_id :: string
  ar_filename :: string
  ar_content_type :: string

record send_request =
  sq_sender :: "string option"
  sq_to :: string
  sq_cc :: "string list option"
  sq_subject :: "string option"
  sq_markdown :: string
  sq_attachments :: "attachment_ref list option"
  sq_headers :: "(string \<times> string) list option"

definition failed_with :: "send_env \<Rightarrow> string \<Rightarrow> app_error \<Rightarrow> http_error" where
  "failed_with V error e = http_detail 500 error (err_text (sv_wenv V) e)"

text \<open>A call on the gateway whose error the code handles itself.\<close>

definition try_gw :: "'a wm \<Rightarrow> (app_error + 'a) am" where
  "try_gw m = lift_gw (\<lambda>e. http_err 500 []) (tryE m)"

section \<open>The sender\<close>

definition dots :: "string \<Rightarrow> nat" where
  "dots address = length (filter (\<lambda>c. c = CHR ''.'') (hd (split_char (CHR ''@'') address)))"

definition is_shared :: "api_key \<Rightarrow> bool" where
  "is_shared key \<longleftrightarrow> starts_with (ak_system_id key) ''shared-''"

definition sender_forms :: "bool \<Rightarrow> string \<Rightarrow> string \<times> string" where
  "sender_forms shared raw =
     (if shared then (if 2 \<le> dots raw then strip_persona raw else (to_lowercase raw, [])) else strip_persona raw)"

definition signed_body :: "string \<Rightarrow> string \<Rightarrow> string am" where
  "signed_body sender markdown = bindE (try_gw (on_db (get_domain_addr_meta sender))) (\<lambda>r. returnE (case r of
     Inr (Some meta) \<Rightarrow> if dm_agent_signature meta = [] then markdown
       else markdown @ nl @ nl @ ''-- '' @ nl @ dm_agent_signature meta
   | _ \<Rightarrow> markdown))"

text \<open>Suppression of duplicates: the key is made of the request as it came.\<close>

definition dedup_to :: "send_request \<Rightarrow> string list" where
  "dedup_to rq = filter (\<lambda>s. s \<noteq> []) (map (\<lambda>s. to_lowercase (trim s)) (split_char (CHR '','') (sq_to rq)))"

definition dedup_cc :: "send_request \<Rightarrow> string list" where
  "dedup_cc rq = map (\<lambda>s. to_lowercase (trim s)) (unwrap_or [] (sq_cc rq))"

definition duplicate_send :: "send_env \<Rightarrow> http_error" where
  "duplicate_send V = http_detail 409 ''duplicate_send''
     (''An identical email (same sender/to/cc/subject/body) was already sent within '' @
      show_int (sv_dedupe_window_secs V) @
      ''s. This is terminal '' @ utf8 [226, 128, 148] @ '' do not retry by any other means (no scripts, no direct API calls). '' @
      ''If the original delivery matters, verify it arrived before acting.'')"

definition check_duplicate :: "send_env \<Rightarrow> send_request \<Rightarrow> string \<Rightarrow> string \<Rightarrow> unit am" where
  "check_duplicate V rq sender body =
     (if sv_dedupe_window_secs V \<le> 0 then returnE ()
      else bindE (lift_gw (\<lambda>e. http_err 500 []) (on_mail now_ms)) (\<lambda>t.
        bindE (getsE (\<lambda>s. is_duplicate (sv_digest V) t sender (dedup_to rq) (dedup_cc rq) (unwrap_or [] (sq_subject rq)) body (sn_dedup s)))
          (\<lambda>(dup, d). thenE (modifyE (\<lambda>s. s\<lparr>sn_dedup := d\<rparr>)) (requireE (\<not> dup) (duplicate_send V)))))"

definition mark_sent :: "send_env \<Rightarrow> send_request \<Rightarrow> string \<Rightarrow> string \<Rightarrow> unit am" where
  "mark_sent V rq sender body =
     (if sv_dedupe_window_secs V \<le> 0 then returnE ()
      else bindE (lift_gw (\<lambda>e. http_err 500 []) (on_mail now_ms)) (\<lambda>t.
        modifyE (\<lambda>s. s\<lparr>sn_dedup := mark (sv_digest V) t sender (dedup_to rq) (dedup_cc rq) (unwrap_or [] (sq_subject rq)) body (sn_dedup s)\<rparr>)))"

section \<open>Recipients of the request\<close>

text \<open>A name and an address; \<open>None\<close> is the panic of a slice whose end lies before its start.\<close>

definition parse_one :: "string \<Rightarrow> (string \<times> string) option" where
  "parse_one raw = (let s = trim raw in
     if s = [] then Some ([], [])
     else (case find_sub ''<'' s of
         None \<Rightarrow> Some ([], to_lowercase s)
       | Some pos \<Rightarrow> (case find_sub ''>'' s of
           None \<Rightarrow> Some (trim (take pos s), to_lowercase (trim (drop (Suc pos) s)))
         | Some close \<Rightarrow> if close \<le> pos then None
             else Some (trim (take pos s), to_lowercase (trim (take (close - Suc pos) (drop (Suc pos) s)))))))"

fun parse_list :: "string list \<Rightarrow> (string \<times> string) list option" where
  "parse_list [] = Some []"
| "parse_list (s # ss) = Option.bind (parse_one s) (\<lambda>(name, email).
     map_option (\<lambda>others. if email = [] then others else (name, email) # others) (parse_list ss))"

text \<open>Board addresses keep their dots; on a shared domain only a second dot marks a persona.\<close>

definition recipient_forms :: "bool \<Rightarrow> string \<Rightarrow> string \<times> string" where
  "recipient_forms shared email =
     (if is_board_address email then (email, [])
      else if shared then (if 2 \<le> dots email then strip_persona email else (email, [])) else strip_persona email)"

record addressees =
  ad_to :: "(string \<times> string) list"
  ad_cc :: "(string \<times> string) list"
  ad_personas :: "(string \<times> string) list"

definition add_persona :: "string \<times> string \<Rightarrow> (string \<times> string) list \<Rightarrow> (string \<times> string) list" where
  "add_persona = (\<lambda>(base, persona) m. if persona = [] \<or> base \<in> fst ` set m then m else m @ [(base, persona)])"

definition parse_addresses :: "bool \<Rightarrow> send_request \<Rightarrow> addressees option" where
  "parse_addresses shared rq =
     Option.bind (parse_list (split_char (CHR '','') (sq_to rq))) (\<lambda>tos.
     Option.bind (parse_list (unwrap_or [] (sq_cc rq))) (\<lambda>ccs.
       let forms = recipient_forms shared;
           to_raw = map (\<lambda>(n, e). (n, fst (forms e))) tos;
           cc_raw = filter (\<lambda>(n, e). e \<notin> snd ` set to_raw) (map (\<lambda>(n, e). (n, fst (forms e))) ccs) in
       Some \<lparr>ad_to = to_raw, ad_cc = cc_raw, ad_personas = fold (\<lambda>(n, e). add_persona (forms e)) (tos @ ccs) []\<rparr>))"

definition to_set :: "addressees \<Rightarrow> string list" where "to_set a = remdups (map snd (ad_to a))"
definition cc_set :: "addressees \<Rightarrow> string list" where "cc_set a = remdups (map snd (ad_cc a))"

definition full_addr :: "addressees \<Rightarrow> string \<Rightarrow> string" where
  "full_addr a e = (case map_of (ad_personas a) e of None \<Rightarrow> e | Some p \<Rightarrow> p @ ''.'' @ e)"

section \<open>Names\<close>

definition local_part :: "string \<Rightarrow> string" where "local_part e = hd (split_char (CHR ''@'') e)"

definition domain_from_email :: "string \<Rightarrow> string" where
  "domain_from_email address = unwrap_or address (nth_opt (split_char (CHR ''@'') address) 1)"

definition bare_emails :: "addressees \<Rightarrow> string list" where
  "bare_emails a = rev (remdups (rev (map snd (filter (\<lambda>(n, e). n = []) (ad_to a @ ad_cc a)))))"

fun entries_of :: "string list \<Rightarrow> (string \<times> whitelist list) list am" where
  "entries_of [] = returnE []"
| "entries_of (d # ds) = bindE (try_gw (on_db (list_whitelist_entries d))) (\<lambda>r.
     bindE (entries_of ds) (\<lambda>others. returnE ((d, case r of Inl _ \<Rightarrow> [] | Inr ws \<Rightarrow> ws) # others)))"

text \<open>The name a whitelist entry of the address describes, else the local part.\<close>

definition described_name :: "ext \<Rightarrow> (string \<times> whitelist list) list \<Rightarrow> string \<Rightarrow> string" where
  "described_name E entries email =
     (let found = Option.bind (map_of entries (domain_from_email email)) (\<lambda>ws.
            Option.bind (find (\<lambda>w. wl_value w = email) ws) (\<lambda>w. Option.bind (wl_description w) (\<lambda>desc.
            get_str (json_parse E desc) ''name''))) in
      case found of Some n \<Rightarrow> if n = [] then local_part email else n | None \<Rightarrow> local_part email)"

definition resolve_names :: "send_env \<Rightarrow> addressees \<Rightarrow> (string \<times> string) list am" where
  "resolve_names V a = (let bare = bare_emails a in
     bindE (entries_of (sv_order V (remdups (map domain_from_email bare)))) (\<lambda>entries.
       returnE (map (\<lambda>e. (e, described_name (sv_ext V) entries e)) bare)))"

definition named :: "addressees \<Rightarrow> (string \<times> string) list \<Rightarrow> (string \<times> string) list \<Rightarrow> (string \<times> string) list" where
  "named a names raw = map (\<lambda>(n, e). (if n = [] then unwrap_or (local_part e) (map_of names e) else n, full_addr a e)) raw"

definition fmt_display :: "string \<times> string \<Rightarrow> string" where
  "fmt_display = (\<lambda>(name, email). if name = [] then email else name @ '' <'' @ email @ ''>'')"

section \<open>Headers\<close>

definition put_display :: "string \<Rightarrow> (string \<times> string) list \<Rightarrow> (string \<times> string) list \<Rightarrow> (string \<times> string) list" where
  "put_display k xs m = (if xs = [] then m else AList.update k (join '', '' (map fmt_display xs)) m)"

definition display_headers :: "addressees \<Rightarrow> (string \<times> string) list \<Rightarrow> string \<times> string \<Rightarrow> (string \<times> string) list \<Rightarrow> (string \<times> string) list" where
  "display_headers a names from headers =
     AList.update ''from'' (fmt_display from)
       (put_display ''cc'' (named a names (ad_cc a)) (put_display ''to'' (named a names (ad_to a)) headers))"

definition CANONICAL :: "string list" where "CANONICAL = [''message_id'', ''in_reply_to'', ''references'']"

definition alias_of :: "string \<Rightarrow> string \<Rightarrow> bool" where
  "alias_of canonical k \<longleftrightarrow> k \<noteq> canonical \<and> map (\<lambda>c. if c = CHR ''-'' then CHR ''_'' else c) (to_lowercase k) = canonical"

definition normalize_one :: "(string list \<Rightarrow> string list) \<Rightarrow> string \<Rightarrow> (string \<times> string) list \<Rightarrow> (string \<times> string) list" where
  "normalize_one order canonical headers =
     (let aliases = order (filter (alias_of canonical) (map fst headers));
          value = (case aliases of [] \<Rightarrow> None | k # _ \<Rightarrow> map_of headers k);
          kept = filter (\<lambda>(k, v). k \<notin> set aliases) headers in
      case value of None \<Rightarrow> kept
      | Some v \<Rightarrow> if canonical \<in> fst ` set kept then kept else kept @ [(canonical, v)])"

definition normalize_thread_headers :: "(string list \<Rightarrow> string list) \<Rightarrow> (string \<times> string) list \<Rightarrow> (string \<times> string) list" where
  "normalize_thread_headers order headers = fold (normalize_one order) CANONICAL headers"

definition resolve_fallback_domain :: "string \<Rightarrow> string option \<Rightarrow> string option \<Rightarrow> string" where
  "resolve_fallback_domain sender smtp_hostname http_hostname =
     (let fallback = (case smtp_hostname of Some h \<Rightarrow> h | None \<Rightarrow> unwrap_or ''aimail.local'' http_hostname) in
      case rfind_sub ''@'' sender of
        None \<Rightarrow> fallback
      | Some pos \<Rightarrow> if drop (Suc pos) sender = [] then fallback else drop (Suc pos) sender)"


text \<open>The board of the first board address in the cc list: its headers are added when the sender and the first
  recipient are both members. Opening a board that has no file creates one.\<close>

definition open_session_board :: "send_env \<Rightarrow> string \<Rightarrow> bst option mm" where
  "open_session_board V board_id =
     (if \<not> sv_open_ok V board_id then returnE None
      else bindE (getsE md_boards) (\<lambda>vol. case file_db board_id vol of
        Some db \<Rightarrow> returnE (Some db)
      | None \<Rightarrow> thenE (modifyE (\<lambda>s. s\<lparr>md_boards := Files ((board_id @ ''.db'', Some (sv_fresh V board_id)) #
            (case vol of Files fs \<Rightarrow> fs | _ \<Rightarrow> []))\<rparr>)) (returnE (Some (sv_fresh V board_id)))))"

definition member_in :: "string \<Rightarrow> string \<Rightarrow> bst \<Rightarrow> member option" where
  "member_in board_id email db = (case fst (get_member board_id email db) of Inr z \<Rightarrow> z | Inl _ \<Rightarrow> None)"

definition session_headers :: "send_env \<Rightarrow> send_request \<Rightarrow> addressees \<Rightarrow> string \<Rightarrow> (string \<times> string) list \<Rightarrow> (string \<times> string) list am" where
  "session_headers V rq a sender headers =
     (case first_some (\<lambda>c. parse_board_email (sv_ext V) (to_lowercase (trim c))) (unwrap_or [] (sq_cc rq)) of
        None \<Rightarrow> returnE headers
      | Some (_, board_id, _) \<Rightarrow> bindE (try_gw (on_db (open_session_board V board_id))) (\<lambda>r.
          let to_addr = (case sv_order V (to_set a) of [] \<Rightarrow> [] | t # _ \<Rightarrow> t) in
          returnE (case r of
            Inr (Some db) \<Rightarrow> (case (member_in board_id sender db, member_in board_id to_addr db) of
                (Some from_m, Some to_m) \<Rightarrow> AList.update ''X-From-Role'' (mb_role from_m)
                  (AList.update ''X-Board-Role'' (mb_role to_m) (AList.update ''X-Board-ID'' board_id headers))
              | _ \<Rightarrow> headers)
          | _ \<Rightarrow> headers)))"

definition ensure_message_id :: "send_env \<Rightarrow> string \<Rightarrow> (string \<times> string) list \<Rightarrow> (string \<times> string) list am" where
  "ensure_message_id V sender headers =
     (if ''message_id'' \<in> fst ` set headers then returnE headers
      else bindE (lift_gw (\<lambda>e. http_err 500 []) (on_mail new_uuid)) (\<lambda>u.
        returnE (AList.update ''message_id''
          (''<'' @ u @ ''@'' @ resolve_fallback_domain sender (sv_smtp_hostname V) (sv_http_hostname V) @ ''>'') headers)))"

definition request_headers :: "send_env \<Rightarrow> send_request \<Rightarrow> addressees \<Rightarrow> string \<Rightarrow> string \<Rightarrow> (string \<times> string) list am" where
  "request_headers V rq a sender sender_display =
     bindE (resolve_names V a) (\<lambda>names.
       let from = (unwrap_or (local_part sender) (map_of names sender), sender_display) in
       bindE (session_headers V rq a sender (normalize_thread_headers (sv_order V)
                (display_headers a names from (unwrap_or [] (sq_headers rq)))))
         (ensure_message_id V sender))"

section \<open>Admission of the recipients\<close>

definition delivery_list :: "send_env \<Rightarrow> addressees \<Rightarrow> string list" where
  "delivery_list V a = filter (\<lambda>e. e \<in> set (to_set a) \<or> \<not> is_board_address e)
     (sv_order V (to_set a) @ sv_order V (cc_set a))"

fun anchor_guard :: "string list \<Rightarrow> unit am" where
  "anchor_guard [] = returnE ()"
| "anchor_guard (r # rs) =
     (if CHR ''.'' \<in> set (local_part r) then anchor_guard rs
      else bindE (try_gw (on_db (lookup_domain_addr r))) (\<lambda>z. case z of
          Inr (Some d) \<Rightarrow> if starts_with (sd_system_id d) ''shared-''
            then throwE (http_detail 400 ''invalid_recipient'' (CHR 0x27 # r @ [CHR 0x27] @ '' is a system-level address and cannot be a recipient''))
            else anchor_guard rs
        | _ \<Rightarrow> anchor_guard rs))"

definition sending_enabled :: "send_env \<Rightarrow> string \<Rightarrow> unit am" where
  "sending_enabled V sender =
     bindE (lift_gw (failed_with V ''Database error'') (on_db (count_whitelist_scope sender [''to'', ''all'']))) (\<lambda>n.
       requireE (n \<noteq> 0) (http_detail 403 ''Sending disabled''
         ''No outbound whitelist entries configured for this system/domain''))"

definition is_system_sink :: "send_env \<Rightarrow> string \<Rightarrow> bool" where
  "is_system_sink V r \<longleftrightarrow> to_lowercase r = we_sender (sv_wenv V)"

definition stranger_board :: "string \<Rightarrow> string \<Rightarrow> bool" where
  "stranger_board r subject \<longleftrightarrow> is_board_address r \<and> is_stranger_command subject"

definition outbound_allowed :: "send_env \<Rightarrow> string \<Rightarrow> string \<Rightarrow> string \<Rightarrow> bool am" where
  "outbound_allowed V sender subject r =
     (if is_system_sink V r then returnE True
      else bindE (try_gw (on_db (check_whitelisted (sv_sql V) sender r ''to''))) (\<lambda>z. returnE (case z of
        Inl _ \<Rightarrow> False | Inr True \<Rightarrow> True | Inr False \<Rightarrow> stranger_board r subject)))"

text \<open>The admitted recipients and the refused ones.\<close>

fun filter_outbound :: "send_env \<Rightarrow> string \<Rightarrow> string \<Rightarrow> string list \<Rightarrow> (string list \<times> string list) am" where
  "filter_outbound V sender subject [] = returnE ([], [])"
| "filter_outbound V sender subject (r # rs) = bindE (outbound_allowed V sender subject r) (\<lambda>b.
     bindE (filter_outbound V sender subject rs) (\<lambda>(ok, bad). returnE (if b then (r # ok, bad) else (ok, r # bad))))"

record buckets =
  bu_internal :: "string list"
  bu_external :: "string list"
  bu_unregistered :: "string list"
  bu_sink :: "string list"
  bu_filtered :: "string list"
  bu_board_system :: "string option"

definition no_buckets :: buckets where
  "no_buckets = \<lparr>bu_internal = [], bu_external = [], bu_unregistered = [], bu_sink = [], bu_filtered = [], bu_board_system = None\<rparr>"

text \<open>\<open>resolve_board_recipient\<close>, with the address table asked only where the registry has no system.\<close>

definition resolve_board_entry :: "send_env \<Rightarrow> string \<Rightarrow> (board_addr_error + board_recipient) mm" where
  "resolve_board_entry V r = bindE (getsE md_boards) (\<lambda>vol.
     bindE (case registry_lookup r (sv_registry V) of
         Some e \<Rightarrow> if parse_board_email (sv_ext V) r \<noteq> None \<and> nonempty (be_system_id e) = None
           then (case orchestrator_email (derive_board_id (sv_ext V) r) vol of
               None \<Rightarrow> returnE (\<lambda>a. None)
             | Some orch \<Rightarrow> bindE (tryE (lookup_domain_addr orch)) (\<lambda>z. returnE (\<lambda>a. case z of
                 Inr (Some d) \<Rightarrow> Some (sd_system_id d) | _ \<Rightarrow> None)))
           else returnE (\<lambda>a. None)
       | None \<Rightarrow> returnE (\<lambda>a. None)) (\<lambda>lookup.
     returnE (resolve_board_recipient (sv_ext V) (sv_registry V) lookup vol r)))"

definition classify_board :: "send_env \<Rightarrow> string \<Rightarrow> buckets \<Rightarrow> buckets am" where
  "classify_board V r b = bindE (try_gw (on_db (resolve_board_entry V r))) (\<lambda>z. case z of
     Inr (Inr x) \<Rightarrow> bindE (try_gw (on_db (lookup_domain_addr (rc_domain x)))) (\<lambda>_.
       returnE (b\<lparr>bu_internal := bu_internal b @ [r],
         bu_board_system := (case bu_board_system b of None \<Rightarrow> Some (rc_system_id x) | Some y \<Rightarrow> Some y)\<rparr>))
   | _ \<Rightarrow> returnE (b\<lparr>bu_filtered := bu_filtered b @ [r]\<rparr>))"

text \<open>A registered address of the system or of a shared one is internal; another address of a domain of the
  system is unregistered; the rest is external.\<close>

definition classify_address :: "api_key \<Rightarrow> string \<Rightarrow> buckets \<Rightarrow> buckets am" where
  "classify_address key r b = bindE (try_gw (on_db (lookup_domain_addr r))) (\<lambda>z.
     let own = (case z of Inr (Some d) \<Rightarrow> sd_is_active d \<and>
           (sd_system_id d = ak_system_id key \<or> starts_with (sd_system_id d) ''shared-'') | _ \<Rightarrow> False) in
     if own then returnE (b\<lparr>bu_internal := bu_internal b @ [r]\<rparr>)
     else bindE (try_gw (on_db (lookup_domain_addr (last (split_char (CHR ''@'') r))))) (\<lambda>z2.
       returnE (if (case z2 of Inr (Some d) \<Rightarrow> sd_is_active d \<and> sd_system_id d = ak_system_id key | _ \<Rightarrow> False)
         then b\<lparr>bu_unregistered := bu_unregistered b @ [r]\<rparr> else b\<lparr>bu_external := bu_external b @ [r]\<rparr>)))"

definition classify_one :: "send_env \<Rightarrow> api_key \<Rightarrow> string \<Rightarrow> buckets \<Rightarrow> buckets am" where
  "classify_one V key r b =
     (if is_system_sink V r then returnE (b\<lparr>bu_sink := bu_sink b @ [r]\<rparr>)
      else if is_board_address r then classify_board V r b else classify_address key r b)"

fun classify :: "send_env \<Rightarrow> api_key \<Rightarrow> string list \<Rightarrow> buckets \<Rightarrow> buckets am" where
  "classify V key [] b = returnE b"
| "classify V key (r # rs) b = bindE (classify_one V key r b) (classify V key rs)"

text \<open>The recipients whose own whitelist admits the sender, whether one of them knows him, and the refused.\<close>

fun filter_inbound :: "send_env \<Rightarrow> string \<Rightarrow> string \<Rightarrow> string list \<Rightarrow> (string list \<times> bool \<times> string list) am" where
  "filter_inbound V sender subject [] = returnE ([], False, [])"
| "filter_inbound V sender subject (r # rs) =
     bindE (try_gw (on_db (check_whitelisted (sv_sql V) r sender ''from''))) (\<lambda>z.
       bindE (filter_inbound V sender subject rs) (\<lambda>(ok, known, bad). returnE (case z of
           Inr True \<Rightarrow> (r # ok, True, bad)
         | Inr False \<Rightarrow> if stranger_board r subject then (r # ok, known, bad) else (ok, known, r # bad)
         | Inl _ \<Rightarrow> (ok, known, r # bad))))"


section \<open>The rows\<close>

text \<open>The headers of the inbound row carry the marks of a universal command.\<close>

definition marked_headers :: "string \<Rightarrow> bool \<Rightarrow> (string \<times> string) list \<Rightarrow> (string \<times> string) list" where
  "marked_headers subject known headers =
     (case find (\<lambda>cmd. starts_with (to_uppercase subject) cmd) STRANGER_COMMANDS of
        None \<Rightarrow> headers
      | Some cmd \<Rightarrow> AList.update ''x-mail-command'' (command_name cmd)
          (if \<not> known \<and> ''x-mail-stranger'' \<notin> fst ` set headers then AList.update ''x-mail-stranger'' ''true'' headers else headers))"

definition headers_text :: "send_env \<Rightarrow> (string \<times> string) list \<Rightarrow> string option" where
  "headers_text V headers = Some (json_text (sv_ext V) (JObj (map (\<lambda>(k, v). (k, JStr v)) headers)))"

definition attachments_text :: "send_env \<Rightarrow> send_request \<Rightarrow> string option" where
  "attachments_text V rq = map_option (\<lambda>as. json_text (sv_ext V) (JArr (map (\<lambda>a. JObj
     [(''attachment_id'', JStr (ar_id a)), (''filename'', JStr (ar_filename a)), (''content_type'', JStr (ar_content_type a))]) as)))
     (sq_attachments rq)"

definition attachment_id_list :: "send_request \<Rightarrow> string list" where
  "attachment_id_list rq = map ar_id (unwrap_or [] (sq_attachments rq))"

text \<open>What every recipient sees: the addresses that are delivered to, each in the list it came from.\<close>

record outgoing =
  og_external :: "string list"
  og_internal :: "string list"
  og_to :: "string list"
  og_cc :: "string list"

definition outgoing_of :: "addressees \<Rightarrow> string list \<Rightarrow> string list \<Rightarrow> string list \<Rightarrow> outgoing" where
  "outgoing_of a external internal sink =
     (let bases = rev (remdups (rev (external @ internal @ sink))) in
      \<lparr>og_external = external, og_internal = internal,
       og_to = map (full_addr a) (filter (\<lambda>e. e \<in> set (to_set a)) bases),
       og_cc = map (full_addr a) (filter (\<lambda>e. e \<in> set (cc_set a)) bases)\<rparr>)"

text \<open>The attachments learn of the mail, then the scheduler is woken.\<close>

definition announce :: "send_env \<Rightarrow> send_request \<Rightarrow> string \<Rightarrow> unit wm" where
  "announce V rq mail_id =
     thenE (forE (\<lambda>i. okE (on_mail (add_mail_id_to_attachment_meta i mail_id))) (attachment_id_list rq))
       (try_trigger (sv_wenv V) True mail_id)"

definition mx_all :: "string list \<Rightarrow> json" where
  "mx_all external = JObj (fold (\<lambda>a. obj_insert (to_lowercase a) (JObj [(''status'', JStr ''pending''), (''protocol'', JStr ''mx'')])) external [])"

definition queue_external ::
    "send_env \<Rightarrow> send_request \<Rightarrow> api_key \<Rightarrow> string \<Rightarrow> string \<Rightarrow> addressees \<Rightarrow> outgoing \<Rightarrow> (string \<times> string) list \<Rightarrow> string wm" where
  "queue_external V rq key sender body a og headers =
     bindE (on_mail new_uuid) (\<lambda>i.
     bindE (on_mail (create_outbound i (ak_system_id key) sender
         (recipients_to_json (sv_ext V) \<lparr>rp_to = og_to og, rp_cc = og_cc og, rp_rcpt = map (full_addr a) (og_external og)\<rparr>)
         (unwrap_or [] (sq_subject rq)) body (Some (mx_all (og_external og))) (attachments_text V rq) (headers_text V headers)
         (we_max_attempts (sv_wenv V)))) (\<lambda>m. thenE (announce V rq (em_id m)) (returnE (em_id m))))"

definition queue_internal ::
    "send_env \<Rightarrow> send_request \<Rightarrow> string \<Rightarrow> string \<Rightarrow> string \<Rightarrow> outgoing \<Rightarrow> (string \<times> string) list \<Rightarrow> string wm" where
  "queue_internal V rq system_id sender body og headers =
     bindE (on_mail new_uuid) (\<lambda>i.
     bindE (on_db (build_endpoints_for_recipients (og_internal og))) (\<lambda>eps.
     bindE (on_mail (create_inbound i system_id sender
         (recipients_to_json (sv_ext V) \<lparr>rp_to = og_to og, rp_cc = og_cc og,
            rp_rcpt = filter (\<lambda>r. \<not> is_board_address r) (og_internal og)\<rparr>)
         (unwrap_or [] (sq_subject rq)) body (if eps = JObj [] then None else Some eps) (attachments_text V rq)
         (headers_text V headers) (we_max_attempts (sv_wenv V)))) (\<lambda>m.
     thenE (forE (\<lambda>r. forE (\<lambda>att. okE (on_mail (insert_attachment_permission att r))) (attachment_id_list rq)) (og_internal og))
       (thenE (announce V rq (em_id m)) (returnE (em_id m))))))"

text \<open>A pong for an external address is turned back to its sender.\<close>

definition redirect_pong ::
    "send_env \<Rightarrow> send_request \<Rightarrow> api_key \<Rightarrow> string \<Rightarrow> string \<Rightarrow> string \<Rightarrow> (string \<times> string) list \<Rightarrow> string wm" where
  "redirect_pong V rq key sender body new_sender headers =
     bindE (on_mail new_uuid) (\<lambda>i.
     bindE (on_db (build_endpoints_for_recipients [sender])) (\<lambda>eps.
     thenE (on_mail (create_inbound i (ak_system_id key) new_sender
         (json_text (sv_ext V) (JObj [(''to'', JArr [JStr sender]), (''cc'', JArr []), (''rcpt'', JArr [JStr sender])]))
         (unwrap_or [] (sq_subject rq)) body (if eps = JObj [] then None else Some eps) None (headers_text V headers)
         (we_max_attempts (sv_wenv V))))
       (thenE (try_trigger (sv_wenv V) True i) (returnE i))))"

section \<open>Notices\<close>

definition bullet :: "string \<Rightarrow> string" where "bullet a = ''  '' @ utf8 [226, 128, 162] @ '' '' @ a"

definition notice_text :: "send_env \<Rightarrow> string \<Rightarrow> string list \<Rightarrow> string \<Rightarrow> string" where
  "notice_text V heading addrs advice =
     unwrap_or ''This is an automated message from the aimail system.'' (sv_auto_reply_body V) @ nl @ nl @ ''---'' @ nl @ nl @
     heading @ nl @ nl @ join nl (map bullet addrs) @ nl @ nl @ advice"

definition send_filtered_notification :: "send_env \<Rightarrow> string \<Rightarrow> string \<Rightarrow> string list \<Rightarrow> unit wm" where
  "send_filtered_notification V system_id sender filtered =
     (if filtered = [] then returnE ()
      else bindE (enqueue_outbound_simple (sv_wenv V) True system_id (we_sender (sv_wenv V)) sender
          (sv_subject_prefix V @ ''[AimailGW] Filtered recipients: '' @ show_nat (length filtered) @ '' recipient(s) not delivered'')
          (notice_text V ''**Filtered Recipients** (not in whitelist or blocked by policy):'' filtered
            (''These recipients will NOT receive your message. '' @
             ''Please verify the addresses or contact your administrator to update whitelist settings.'')))
        (\<lambda>_. returnE ()))"

definition send_unregistered_notification :: "send_env \<Rightarrow> string \<Rightarrow> string \<Rightarrow> string list \<Rightarrow> unit wm" where
  "send_unregistered_notification V system_id sender unregistered =
     (if unregistered = [] then returnE ()
      else bindE (enqueue_outbound_simple (sv_wenv V) True system_id (we_sender (sv_wenv V)) sender
          (sv_subject_prefix V @ ''[AimailGW] Unregistered addresses: '' @ show_nat (length unregistered) @ '' address(es) not deliverable'')
          (notice_text V ''**Unregistered Addresses** (domain exists but address not created):'' unregistered
            (''These addresses belong to your domain but have not been registered. '' @
             ''Please create them via the Agent integration or contact your administrator to register these addresses.'')))
        (\<lambda>_. returnE ()))"

section \<open>The request\<close>

definition send_rows ::
    "send_env \<Rightarrow> send_request \<Rightarrow> api_key \<Rightarrow> string \<Rightarrow> string \<Rightarrow> addressees \<Rightarrow> (string \<times> string) list \<Rightarrow> bool \<Rightarrow>
     string list \<Rightarrow> buckets \<Rightarrow> outgoing \<Rightarrow> (nat \<times> string \<times> string) am" where
  "send_rows V rq key sender body a headers known filtered b og =
     (let subject = unwrap_or [] (sq_subject rq); inbound_hs = marked_headers subject known headers in
      if starts_with subject ''__aimail_pong__:'' \<and> og_external og \<noteq> []
      then bindE (lift_gw (failed_with V ''Pong redirect failed'') (redirect_pong V rq key sender body (hd (og_external og)) headers))
        (\<lambda>i. returnE (200, i, ''pong_redirected''))
      else bindE (if og_external og = [] then returnE []
          else bindE (lift_gw (failed_with V ''Failed to queue outbound email'') (queue_external V rq key sender body a og headers))
            (\<lambda>i. returnE [i])) (\<lambda>ids1.
        bindE (if og_internal og = [] then returnE []
          else bindE (lift_gw (failed_with V ''Failed to queue internal email'')
              (queue_internal V rq (unwrap_or (ak_system_id key) (bu_board_system b)) sender body og inbound_hs)) (\<lambda>i. returnE [i])) (\<lambda>ids2.
        thenE (lift_gw (\<lambda>e. http_err 500 []) (send_filtered_notification V (ak_system_id key) sender filtered))
        (thenE (lift_gw (\<lambda>e. http_err 500 []) (send_unregistered_notification V (ak_system_id key) sender (bu_unregistered b)))
        (if ids1 @ ids2 = [] then returnE (201, [], ''filtered'')
         else thenE (mark_sent V rq sender body) (returnE (201, hd (ids1 @ ids2), ''queued'')))))))"

definition send_to :: "send_env \<Rightarrow> send_request \<Rightarrow> api_key \<Rightarrow> string \<Rightarrow> string \<Rightarrow> string \<Rightarrow> addressees \<Rightarrow> (nat \<times> string \<times> string) am" where
  "send_to V rq key sender sender_display body a =
     (let subject = unwrap_or [] (sq_subject rq) in
      bindE (request_headers V rq a sender sender_display) (\<lambda>headers.
      let rcpts = delivery_list V a in
      thenE (requireE (rcpts \<noteq> []) (http_detail 400 ''No valid recipients provided''
               ''The 'to' field must contain at least one valid email address''))
      (thenE (if is_shared key then anchor_guard rcpts else returnE ())
      (thenE (sending_enabled V sender)
      (bindE (filter_outbound V sender subject rcpts) (\<lambda>(valid, bad1).
       bindE (classify V key valid no_buckets) (\<lambda>b.
       bindE (filter_inbound V sender subject (bu_internal b)) (\<lambda>(final, known, bad2).
         send_rows V rq key sender body a headers known (bad1 @ bu_filtered b @ bad2) b
           (outgoing_of a (bu_external b) final (bu_sink b))))))))))"

definition send_email_core :: "send_env \<Rightarrow> api_key \<Rightarrow> send_request \<Rightarrow> (nat \<times> string \<times> string) am" where
  "send_email_core V key rq =
     (let sender_raw = unwrap_or (ak_email_address key) (sq_sender rq);
          (sender, persona) = sender_forms (is_shared key) sender_raw in
      thenE (requireE (sender = ak_email_address key) (http_detail 403 ''Sender mismatch''
        (''The sender '' @ quoted_text sender_raw @ '' must match the API key email '' @ quoted_text (ak_email_address key))))
      (bindE (signed_body sender (sq_markdown rq)) (\<lambda>body.
       thenE (check_duplicate V rq sender body)
       (case parse_addresses (is_shared key) rq of
          None \<Rightarrow> panicE
        | Some a \<Rightarrow> send_to V rq key sender (if persona = [] then sender else sender_raw) body a))))"

definition send_email :: "send_env \<Rightarrow> api_key \<Rightarrow> send_request \<Rightarrow> (nat \<times> string \<times> string) am" where
  "send_email V key rq =
     thenE (liftE (require_scope key ''agent''))
     (thenE (requireE (CHR ''@'' \<in> set (ak_email_address key)) (http_detail 403 ''Sender mismatch''
        (''Domain-level key '' @ quoted_text (ak_email_address key) @ '' cannot send '' @ utf8 [226, 128, 148] @
         '' use an address-level key with a valid email'')))
      (send_email_core V key rq))"

end
