(* ===== verification/Send_Properties.thy ===== *)
theory Send_Properties
  imports Send_Api Smtp_Properties Access_Properties
begin

text \<open>
  What the send API guarantees: mails are queued only for recipients both whitelists admit, in the name of
  the key, and an identical request within the window is refused.
\<close>

section \<open>The rules of admission are not touched\<close>

text \<open>The tables the decisions depend on, and the consistency of the two caches.\<close>

definition rule_rows :: "mdb \<Rightarrow> system_domain list \<times> whitelist list \<times> (string \<times> string) list \<times> addr_meta list" where
  "rule_rows d = (md_domains d, md_whitelists d, md_groups d, md_metas d)"

definition rules_kept :: "sql_env \<Rightarrow> mdb \<Rightarrow> mdb \<Rightarrow> bool" where
  "rules_kept Q d0 d \<longleftrightarrow> dom_ok d \<and> wl_ok Q d \<and> rule_rows d = rule_rows d0"

lemma rules_parts:
  assumes "preserves dom_ok m" and "preserves (wl_ok Q) m" and "preserves (\<lambda>d. rule_rows d = rule_rows d0) m"
  shows "preserves (rules_kept Q d0) m"
  using assms by (simp add: preserves_def rules_kept_def)



lemma rules_now [keeps]: "preserves (rules_kept Q d0) md_now"
  by (auto simp: preserves_def md_now_def rules_kept_def dom_ok_def wl_ok_def rule_rows_def)

lemma rules_lookup [keeps]: "preserves (rules_kept Q d0) (get_system_domain_by_name a)"
proof (rule rules_parts [OF dom_lookup])
  have now: "preserves (wl_ok Q) md_now" "preserves (\<lambda>d. rule_rows d = rule_rows d0) md_now"
    by (auto simp: preserves_def md_now_def wl_ok_def rule_rows_def)
  have c: "preserves (wl_ok Q) (modifyE (\<lambda>s. s\<lparr>md_domain_cache := f s\<rparr>))"
    "preserves (\<lambda>d. rule_rows d = rule_rows d0) (modifyE (\<lambda>s. s\<lparr>md_domain_cache := f s\<rparr>))" for f
    by (rule preserves_modifyE, simp add: wl_ok_def rule_rows_def)+
  show "preserves (wl_ok Q) (get_system_domain_by_name a)"
    "preserves (\<lambda>d. rule_rows d = rule_rows d0) (get_system_domain_by_name a)"
    unfolding get_system_domain_by_name_def cache_domain_def get_system_domain_by_domain_def Let_def
    by (intro keeps now c)+
qed

lemma rules_compile [keeps]: "preserves (rules_kept Q d0) (get_or_compile Q v)"
proof (rule rules_parts)
  have now: "preserves dom_ok md_now" "preserves (\<lambda>d. rule_rows d = rule_rows d0) md_now"
    by (auto simp: preserves_def md_now_def dom_ok_def rule_rows_def)
  have c: "preserves dom_ok (modifyE (\<lambda>s. s\<lparr>md_wl_cache := f s\<rparr>))"
    "preserves (\<lambda>d. rule_rows d = rule_rows d0) (modifyE (\<lambda>s. s\<lparr>md_wl_cache := f s\<rparr>))" for f
    by (rule preserves_modifyE, simp add: dom_ok_def rule_rows_def)+
  show "preserves (wl_ok Q) (get_or_compile Q v)"
    unfolding preserves_wpE by (intro allI impI; rule wpE_mono [OF wp_get_or_compile]; simp)
  show "preserves dom_ok (get_or_compile Q v)" "preserves (\<lambda>d. rule_rows d = rule_rows d0) (get_or_compile Q v)"
    unfolding get_or_compile_def Let_def by (intro keeps now c)+
qed

lemma rules_wildcard [keeps]: "preserves (rules_kept Q d0) (is_whitelisted_wildcard Q vs target)"
proof (induction vs)
  case (Cons v vs)
  show ?case unfolding is_whitelisted_wildcard.simps by (intro keeps Cons.IH)
qed (simp add: keeps)

lemma rules_any_key [keeps]: "preserves (rules_kept Q d0) (any_key_whitelisted Q target dir keys)"
proof (induction keys)
  case (Cons k keys)
  obtain i a where k: "k = (i, a)" by (cases k)
  show ?case unfolding k any_key_whitelisted.simps is_whitelisted_def by (intro keeps Cons.IH)
qed (simp add: keeps)


lemma rules_reads [keeps]:
  "preserves (rules_kept Q d0) (lookup_domain_addr a)" "preserves (rules_kept Q d0) (list_whitelist_entries a)"
  "preserves (rules_kept Q d0) (get_domain_addr_meta a)"
  unfolding lookup_domain_addr_def list_whitelist_entries_def resolve_system_id_from_domain_def list_whitelists_def
    get_domain_addr_meta_def lookup_domain_addr_def by (intro keeps)+

lemma rules_count [keeps]: "preserves (rules_kept Q d0) (count_whitelist_scope a dirs)"
proof -
  have count: "preserves (rules_kept Q d0) (count_over_keys dirs keys)" for keys
  proof (induction keys)
    case (Cons k keys)
    obtain i b where k: "k = (i, b)" by (cases k)
    show ?case unfolding k count_over_keys.simps count_whitelist_entries_def by (intro keeps Cons.IH)
  qed (simp add: keeps)
  show ?thesis unfolding count_whitelist_scope_def resolve_keys_def by (intro keeps count)
qed

lemma rules_new_board: "rules_kept Q d0 d \<Longrightarrow> rules_kept Q d0 (d\<lparr>md_boards := b\<rparr>)"
proof -
  have "dom_ok (d\<lparr>md_boards := b\<rparr>) = dom_ok d" "wl_ok Q (d\<lparr>md_boards := b\<rparr>) = wl_ok Q d"
    "rule_rows (d\<lparr>md_boards := b\<rparr>) = rule_rows d"
    by (simp_all add: dom_ok_def wl_ok_def rule_rows_def)
  then show "rules_kept Q d0 d \<Longrightarrow> rules_kept Q d0 (d\<lparr>md_boards := b\<rparr>)" by (simp only: rules_kept_def)
qed

lemma rules_boards [keeps]: "preserves (rules_kept Q d0) (open_session_board V i)"
    "preserves (rules_kept Q d0) (resolve_board_entry V r)"
  unfolding open_session_board_def resolve_board_entry_def
  by (intro keeps preserves_modifyE rules_new_board; assumption)+


section \<open>The stages before the rows\<close>

text \<open>Nothing is queued before the last stage, and the rules stay those of the start.\<close>

definition before :: "sql_env \<Rightarrow> mdb \<Rightarrow> email list \<Rightarrow> send_state \<Rightarrow> bool" where
  "before Q d0 es s \<longleftrightarrow> rules_kept Q d0 (gw_db (sn_gw s)) \<and> rows_are es (gw_mail (sn_gw s))"

lemma before_dedup [simp]: "before Q d0 es (s\<lparr>sn_dedup := x\<rparr>) = before Q d0 es s"
  by (simp add: before_def)

lemma lift_gw_Inr [steps]: "lift_gw f m s = (Inr y, s') \<longleftrightarrow> (\<exists>g. m (sn_gw s) = (Inr y, g) \<and> s' = s\<lparr>sn_gw := g\<rparr>)"
  by (auto simp: lift_gw_def split: prod.splits sum.splits abort.splits)

lemma lift_gw_state: "sn_gw (snd (lift_gw f m s)) = snd (m (sn_gw s))"
  by (auto simp: lift_gw_def split: prod.splits sum.splits abort.splits)

lemma before_lift [keeps]:
  "preserves (rules_kept Q d0) m \<Longrightarrow> preserves (before Q d0 es) (lift_gw f (on_db m))"
  "preserves (rows_are es) k \<Longrightarrow> preserves (before Q d0 es) (lift_gw f (on_mail k))"
  by (auto simp: preserves_def before_def lift_gw_state on_db_run on_mail_run split: prod.splits)


lemma before_dedup_step [keeps]: "preserves (before Q d0 es) (modifyE (\<lambda>s. s\<lparr>sn_dedup := f s\<rparr>))"
  by (rule preserves_modifyE) simp





section \<open>Who is admitted\<close>














section \<open>The rows\<close>




lemma rows_metas [keeps]: "preserves (rows_are es) (add_mail_id_to_attachment_meta i k)"
  unfolding add_mail_id_to_attachment_meta_def get_attachment_meta_def Let_def
  by (intro keeps preserves_modifyE) (simp add: rows_are_def)







abbreviation mails_of :: "send_state \<Rightarrow> email list" where "mails_of s \<equiv> st_emails (gw_mail (sn_gw s))"



section \<open>The whole request\<close>


text \<open>The request up to the recipients: the sender is the address of the key.\<close>

lemma send_email_runs:
  assumes "send_email V key rq s = (Inr out, s')"
  shows "\<exists>body s1 s2 a d. signed_body (ak_email_address key) (sq_markdown rq) s = (Inr body, s1) \<and>
    check_duplicate V rq (ak_email_address key) body s1 = (Inr (), s2) \<and> parse_addresses (is_shared key) rq = Some a \<and>
    send_to V rq key (ak_email_address key) d body a s2 = (Inr out, s')"
proof -
  let ?raw = "unwrap_or (ak_email_address key) (sq_sender rq)"
  obtain sender persona where f: "sender_forms (is_shared key) ?raw = (sender, persona)"
    by (cases "sender_forms (is_shared key) ?raw")
  from assms obtain body s1 s2 where sender: "sender = ak_email_address key" and
    1: "signed_body sender (sq_markdown rq) s = (Inr body, s1)" and 2: "check_duplicate V rq sender body s1 = (Inr (), s2)" and
    3: "(case parse_addresses (is_shared key) rq of None \<Rightarrow> panicE
        | Some a \<Rightarrow> send_to V rq key sender (if persona = [] then sender else ?raw) body a) s2 = (Inr out, s')"
    unfolding send_email_def send_email_core_def Let_def f prod.case thenE_Inr bindE_Inr guard_Inr by fastforce
  obtain a where "parse_addresses (is_shared key) rq = Some a"
    using 3 by (cases "parse_addresses (is_shared key) rq") (auto simp: pure_Inr)
  then show ?thesis using 1 2 3 sender by auto
qed



section \<open>Suppression of duplicates\<close>

lemma signed_body_leaves:
  assumes "signed_body sender body s = (r, s')"
  shows "sn_dedup s' = sn_dedup s" and "gw_mail (sn_gw s') = gw_mail (sn_gw s)"
proof -
  have "preserves (\<lambda>t. sn_dedup t = sn_dedup s \<and> gw_mail (sn_gw t) = gw_mail (sn_gw s)) (try_gw (on_db m))" for m
    by (auto simp: preserves_def try_gw_def lift_gw_def tryE_def on_db_run split: prod.splits sum.splits abort.splits)
  then have "preserves (\<lambda>t. sn_dedup t = sn_dedup s \<and> gw_mail (sn_gw t) = gw_mail (sn_gw s)) (signed_body sender body)"
    unfolding signed_body_def by (intro keeps)
  from preservesE [OF this _ assms] show "sn_dedup s' = sn_dedup s" "gw_mail (sn_gw s') = gw_mail (sn_gw s)" by simp_all
qed

text \<open>A request answered as queued has marked the hash of its fields at the last instant it read.\<close>

lemma send_rows_marks:
  assumes "send_rows V rq key sender body a hs known bad b og s = (Inr (201, i, ''queued''), s')" and "0 < sv_dedupe_window_secs V"
  shows "\<exists>d. sn_dedup s' = mark (sv_digest V) (st_clock (gw_mail (sn_gw s')) (st_reads (gw_mail (sn_gw s')) - 1)) sender
    (dedup_to rq) (dedup_cc rq) (unwrap_or [] (sq_subject rq)) body d"
proof -
  have marked: "\<exists>d. sn_dedup s2 = mark (sv_digest V) (st_clock (gw_mail (sn_gw s2)) (st_reads (gw_mail (sn_gw s2)) - 1)) sender
    (dedup_to rq) (dedup_cc rq) (unwrap_or [] (sq_subject rq)) body d"
    if "mark_sent V rq sender body s1 = (Inr (), s2)" for s1 s2
    using that assms(2) by (auto simp: mark_sent_def bindE_Inr pure_Inr lift_gw_Inr on_mail_Inr now_ms_def)
  have "\<exists>s1. mark_sent V rq sender body s1 = (Inr (), s')"
    using assms(1) unfolding send_rows_def Let_def
    by (auto simp: bindE_Inr thenE_Inr pure_Inr split: if_splits)
  then show ?thesis using marked by blast
qed

text \<open>
  C33. An identical request within the window is refused. After a request answered as queued, a request of the
  same key with the same body and subject and the same recipients, in whatever order, is answered 409 and
  queues nothing, as long as the table of recent sends is the one the first request left and less time than
  the window of the table has passed since its last instant.
\<close>

theorem resend_suppressed:
  assumes "send_email V key rq s = (Inr (201, i, ''queued''), s')" and "0 < sv_dedupe_window_secs V"
    and "sq_sender rq2 = sq_sender rq" and "sq_markdown rq2 = sq_markdown rq" and "sq_subject rq2 = sq_subject rq"
    and "mset (dedup_to rq2) = mset (dedup_to rq)" and "mset (dedup_cc rq2) = mset (dedup_cc rq)"
    and "sn_dedup t = sn_dedup s'"
    and "fst (signed_body (ak_email_address key) (sq_markdown rq) t) = fst (signed_body (ak_email_address key) (sq_markdown rq) s)"
    and "st_clock (gw_mail (sn_gw t)) (st_reads (gw_mail (sn_gw t))) -
      st_clock (gw_mail (sn_gw s')) (st_reads (gw_mail (sn_gw s')) - 1) < dd_window (sn_dedup t)"
  shows "fst (send_email V key rq2 t) = Inl (Err (duplicate_send V)) \<and> mails_of (snd (send_email V key rq2 t)) = mails_of t"
proof -
  let ?me = "ak_email_address key"
  obtain body s1 s2 a disp where 1: "signed_body ?me (sq_markdown rq) s = (Inr body, s1)"
    and 3: "send_to V rq key ?me disp body a s2 = (Inr (201, i, ''queued''), s')"
    using send_email_runs [OF assms(1)] by blast
  obtain d where d: "sn_dedup s' = mark (sv_digest V) (st_clock (gw_mail (sn_gw s')) (st_reads (gw_mail (sn_gw s')) - 1)) ?me
    (dedup_to rq) (dedup_cc rq) (unwrap_or [] (sq_subject rq)) body d"
    using 3 send_rows_marks [OF _ assms(2)] unfolding send_to_def Let_def bindE_Inr thenE_Inr split_paired_Ex prod.case by blast
  obtain t1 where t1: "signed_body ?me (sq_markdown rq) t = (Inr body, t1)"
    using assms(9) 1 by (cases "signed_body ?me (sq_markdown rq) t") auto
  note same = signed_body_leaves [OF t1]
  let ?now = "st_clock (gw_mail (sn_gw t)) (st_reads (gw_mail (sn_gw t)))"
  have "dd_window (sn_dedup s') = dd_window d" unfolding d by (simp add: mark_def Let_def)
  then have hit: "fst (is_duplicate (sv_digest V) ?now ?me (dedup_to rq2) (dedup_cc rq2) (unwrap_or [] (sq_subject rq2)) body (sn_dedup t))"
    using marked_is_duplicate [of ?now _ d "sv_digest V" ?me "dedup_to rq"] assms(10)
    unfolding is_duplicate_def Let_def hash_key_mset [OF assms(6,7)] assms(5,8) d by fastforce
  have dup: "\<exists>t2. check_duplicate V rq2 ?me body t1 = (Inl (Err (duplicate_send V)), t2) \<and> mails_of t2 = mails_of t"
    using hit assms(2) same
    by (auto simp: check_duplicate_def bindE_run thenE_run run_simps requireE_run lift_gw_def on_mail_run now_ms_def
        split: prod.splits)
  have guards: "require_scope key ''agent'' = Inr ()" "CHR ''@'' \<in> set ?me"
    "fst (sender_forms (is_shared key) (unwrap_or ?me (sq_sender rq))) = ?me"
    using assms(1) unfolding send_email_def send_email_core_def Let_def thenE_Inr guard_Inr
    by (auto simp: thenE_Inr guard_Inr split: prod.splits)
  show ?thesis
    using guards t1 dup unfolding send_email_def send_email_core_def Let_def assms(3,4)
    by (auto simp: thenE_run bindE_run run_simps requireE_run split: prod.splits)
qed


section \<open>A concrete request\<close>

definition demo_send :: "int \<Rightarrow> send_env" where
  "demo_send window = \<lparr>sv_wenv = demo_wenv, sv_sql = demo_sql, sv_registry = [], sv_digest = (\<lambda>t. t), sv_dedupe_window_secs = window,
     sv_order = id, sv_smtp_hostname = None, sv_http_hostname = None, sv_auto_reply_body = None, sv_subject_prefix = [],
     sv_open_ok = (\<lambda>i. False), sv_fresh = (\<lambda>i. empty_db)\<rparr>"

definition demo_send_state :: send_state where
  "demo_send_state = \<lparr>sn_gw = demo_gw\<lparr>gw_db := demo_mdb\<rparr>, sn_dedup = dedup_new 60000 100\<rparr>"

definition demo_send_request :: send_request where
  "demo_send_request = \<lparr>sq_sender = None, sq_to = ''b@y'', sq_cc = None, sq_subject = None, sq_markdown = ''hi'',
     sq_attachments = Some [\<lparr>ar_id = ''att'', ar_filename = ''f'', ar_content_type = ''t''\<rparr>], sq_headers = None\<rparr>"


lemma demo_send_dedup_run: "fst (send_email (demo_send 60) demo_key demo_send_request demo_send_state) = Inr (201, ''u'', ''queued'')"
  by code_simp



text \<open>What the second request depends on: its body, the window, and the time since the first one.\<close>

definition resend_facts :: "send_state \<Rightarrow> (http_error abort + string) \<times> int \<times> int" where
  "resend_facts t = (fst (signed_body ''a@x'' ''hi'' t), dd_window (sn_dedup t),
     st_clock (gw_mail (sn_gw t)) (st_reads (gw_mail (sn_gw t))) - st_clock (gw_mail (sn_gw t)) (st_reads (gw_mail (sn_gw t)) - 1))"

lemma demo_resend_facts:
  "resend_facts (snd (send_email (demo_send 60) demo_key demo_send_request demo_send_state)) = (Inr ''hi'', 60000, 0)"
  by code_simp

lemma demo_body: "fst (signed_body ''a@x'' ''hi'' demo_send_state) = Inr ''hi''"
  by code_simp

theorem resend_suppressed_witness:
  "\<exists>s'. send_email (demo_send 60) demo_key demo_send_request demo_send_state = (Inr (201, ''u'', ''queued''), s') \<and>
     fst (send_email (demo_send 60) demo_key (demo_send_request\<lparr>sq_to := ''B@y ''\<rparr>) s') = Inl (Err (duplicate_send (demo_send 60)))"
proof -
  obtain s' where s': "send_email (demo_send 60) demo_key demo_send_request demo_send_state = (Inr (201, ''u'', ''queued''), s')"
    using demo_send_dedup_run by (cases "send_email (demo_send 60) demo_key demo_send_request demo_send_state") auto
  have state: "fst (signed_body ''a@x'' ''hi'' s') = fst (signed_body ''a@x'' ''hi'' demo_send_state)" "dd_window (sn_dedup s') = 60000"
    "st_clock (gw_mail (sn_gw s')) (st_reads (gw_mail (sn_gw s'))) -
      st_clock (gw_mail (sn_gw s')) (st_reads (gw_mail (sn_gw s')) - 1) = 0"
    using demo_resend_facts s' by (simp_all add: resend_facts_def demo_body)
  let ?rq = "demo_send_request\<lparr>sq_to := ''B@y ''\<rparr>"
  have to: "dedup_to ?rq = dedup_to demo_send_request" by code_simp
  have rq: "0 < sv_dedupe_window_secs (demo_send 60)" "sq_sender ?rq = sq_sender demo_send_request"
    "sq_markdown ?rq = sq_markdown demo_send_request" "sq_subject ?rq = sq_subject demo_send_request"
    "mset (dedup_to ?rq) = mset (dedup_to demo_send_request)" "mset (dedup_cc ?rq) = mset (dedup_cc demo_send_request)"
    by (simp_all only: to) (simp_all add: demo_send_def dedup_cc_def)
  have me: "ak_email_address demo_key = ''a@x''" "sq_markdown demo_send_request = ''hi''"
    by (simp_all add: demo_key_def demo_send_request_def)
  from resend_suppressed [OF s' rq refl] state me
  have "fst (send_email (demo_send 60) demo_key ?rq s') = Inl (Err (duplicate_send (demo_send 60)))" by simp
  then show ?thesis using s' by blast
qed

section \<open>What the code permits\<close>

text \<open>A recipient with crossed brackets ends the task.\<close>

lemma crossed_recipient_panics:
  "fst (send_email (demo_send 0) demo_key (demo_send_request\<lparr>sq_to := ''a>b<c''\<rparr>) demo_send_state) = Inl Panic"
  by code_simp

text \<open>Any attachment id of the request is granted to the internal recipients: no one asks whose it is.\<close>

definition registered_state :: send_state where
  "registered_state = demo_send_state\<lparr>sn_gw := (sn_gw demo_send_state)\<lparr>gw_db := demo_mdb\<lparr>
     md_domains := [demo_domain, demo_domain\<lparr>sd_id := ''d2'', sd_domain := ''b@y''\<rparr>],
     md_whitelists := [demo_entry, demo_entry\<lparr>wl_id := 2, wl_domain_addr := ''b@y'', wl_value := ''a@x''\<rparr>]\<rparr>\<rparr>\<rparr>"

lemma attachment_granted_unchecked:
  "map (\<lambda>p. (ap_attachment_id p, ap_user_email p))
     (st_perms (gw_mail (sn_gw (snd (send_email (demo_send 0) demo_key demo_send_request registered_state))))) = [(''att'', ''b@y'')]"
  by code_simp

text \<open>A pong for an external address is answered without asking the outbound classification further: it returns to
  its sender.\<close>

lemma pong_returns:
  "fst (send_email (demo_send 0) demo_key (demo_send_request\<lparr>sq_subject := Some ''__aimail_pong__:1''\<rparr>) demo_send_state) =
     Inr (200, ''u'', ''pong_redirected'')"
  by code_simp

end
