(* ===== verification/Spec2Isabelle.thy ===== *)
theory Spec2Isabelle
  imports Board_Upkeep Mail_Attachments Access_Properties Delivery_Properties Body_Properties Smtp_Properties Send_Properties
begin

text \<open>
  A verification library for \<open>aimail-gateway\<close>, the mail gateway for agents under \<open>src/\<close>.

  \<^bold>\<open>The program.\<close> Mail comes in over SMTP or over the send API, passes the whitelists, and is stored as a row
  of the mail database. A scheduler drives delivery, to webhooks or to an SMTP relay: a trigger makes the
  first attempt, periodic batches retry, sweep what a crash left behind, and remove what is finished. The
  environment (domains, whitelists, keys, activation codes) is a second database behind caches; API requests
  are signed with the keys. A manager commands an agent by mail. On top of the mails sits the A2A board: a
  shared task list per board address, kept in a SQLite file of its own, driven by mail commands
  (\<open>[A2A] verb task\<close>), by a sweeper that scans all boards, and read over HTTP.

  \<^bold>\<open>The theories\<close>, by part of the program; paths are below \<open>src/src/\<close>.
  \<^item> Foundations. \<open>Prelude\<close>: effects with errors and panics, their weakest preconditions, Rust's string functions,
    and the interfaces \<open>event_machine\<close> (an invariant of every sequence of events) and \<open>text_codec\<close> (stored names
    that parse back). \<open>Json\<close>: values of \<open>serde_json\<close>. \<open>App_Error\<close>: \<open>core/errors.rs\<close>. \<open>Text_Functions\<close>: lines and
    searches on byte strings.
  \<^item> Boards. \<open>Board_Models\<close> (\<open>board/models.rs\<close>), \<open>Board_Db\<close> (\<open>board/db.rs\<close>, one definition per SQL function, and the
    invariant \<open>wf_db\<close>), \<open>Board_Notify\<close>, \<open>Board_Awareness\<close>, \<open>Board_Commands\<close> (\<open>board/commands.rs\<close>, one definition per
    verb and \<open>execute_command\<close>), \<open>Board_Registry\<close> (\<open>board/registry.rs\<close>, \<open>board/addr.rs\<close>; the locale \<open>address_cache\<close> and
    its interpretation \<open>reg\<close>), \<open>Board_Sweeper\<close>, \<open>Board_Interceptor\<close> (\<open>board/interceptor.rs\<close>: what a mail does to the
    boards). Their lemmas: \<open>Board_Workflow\<close> (the locale \<open>statement_invariant\<close>: what every SQL statement keeps, every
    verb keeps; interpretations \<open>wf\<close>, \<open>ids\<close>, \<open>cuts\<close>), \<open>Board_Tracks\<close> (along which edges a verb moves tasks),
    \<open>Board_Panics\<close> (no verb panics), \<open>Board_Properties\<close>, \<open>Board_Access\<close>, \<open>Board_Members\<close>, \<open>Board_Upkeep\<close>.
  \<^item> Mails. \<open>Email_Store\<close> (\<open>core/email/storage.rs\<close>, \<open>records.rs\<close>, the attachment part of \<open>factory.rs\<close>), \<open>Scheduler\<close>
    (\<open>core/scheduler/\<close>), with \<open>Mail_Lifecycle\<close>, \<open>Mail_Properties\<close> and \<open>Mail_Attachments\<close>: the lifecycle of a mail, the
    end of its delivery, attachments.
  \<^item> Environment. \<open>Main_Db\<close> (\<open>core/storage.rs\<close> without its mails), \<open>Env_Factory\<close> (\<open>core/factory.rs\<close>, \<open>core/whitelist.rs\<close>,
    \<open>core/webhook_target.rs\<close>), \<open>Key_Seal\<close> (\<open>core/api/seal.rs\<close>). \<open>Env_Properties\<close>: both caches are transparent.
    \<open>Webhook_Targets\<close>: the block list against the address ranges it stands for.
  \<^item> Access. \<open>Api_Auth\<close> (\<open>core/scope.rs\<close>, \<open>core/api/auth.rs\<close>), \<open>Api_Keys\<close> (\<open>core/api/keys.rs\<close>, \<open>activation.rs\<close>).
    \<open>Access_Properties\<close>: what an accepted request proves, what keys a key creates, one redemption per code.
  \<^item> Sending. \<open>Send_Dedup\<close> (\<open>core/api/dedup.rs\<close>), \<open>Send_Api\<close> (\<open>core/api/send.rs\<close>: \<open>send_email\<close> is the composition of the
    stages of the handler in their order). \<open>Send_Properties\<close>: whom a request reaches, suppression of resends.
  \<^item> Delivery. \<open>Gateway\<close> (the joint state of databases, posts and wake-ups; the constructors of mails and
    \<open>core/api/outbound.rs\<close>), \<open>Manager_Commands\<close> and \<open>Webhook_Delivery\<close> (\<open>core/api/webhook.rs\<close>), \<open>Body_Pipeline\<close>
    (\<open>core/email/bodyproc.rs\<close>, \<open>signature.rs\<close>, \<open>preprocess.rs\<close>). \<open>Manager_Properties\<close>, \<open>Delivery_Properties\<close>,
    \<open>Body_Properties\<close>: the authority and effect of a command, the meaning of success, where requests go.
  \<^item> Receiving. \<open>Mime_Parts\<close> (the MIME part of \<open>core/email/factory.rs\<close>), \<open>Smtp_Receiver\<close> and \<open>Smtp_Session\<close>
    (\<open>core/smtp/receiver.rs\<close>: the callbacks of a session, and the loop over its lines). \<open>Smtp_Properties\<close>: the type of
    a session, what an accepted message stores, refusal of strangers, bounces.
  \<^item> \<open>Board_Samples\<close>, \<open>Mail_Samples\<close>, \<open>Gateway_Samples\<close>: concrete states for the witnesses. This theory: one tick of
    the scheduler over both stores.

  \<^bold>\<open>Modelling decisions.\<close> A table is the list of its rows; a statement maps, filters or appends, and fails
  when a key or a foreign key would break. A handler is a state transformer whose state survives an
  error, because nothing in the code runs in a transaction that rolls back. Panics are outcomes of
  their own. Clocks and random generators are sequences of answers. Strings are byte sequences; case
  mapping and white space are ASCII. Log lines and metrics are left out. What other crates and services
  do is a parameter: digests, JSON text, time parsing (\<open>ext\<close>), the webhook client, the SMTP relay and
  the jitter (\<open>sched\<close>), the address table and the admission gate (\<open>icfg\<close>). A flow runs to its end before
  the next one starts; the interleaving of concurrent deliveries is not modelled beyond the claim that
  separates them.

  \<^bold>\<open>Bounds.\<close> No definition takes fuel: loops run over collected rows, lines or recipients. Timers and
  thresholds of the sweeper and the hash of a send are 64-bit words, the backoff saturates at 64 bits,
  counters of mails are unbounded integers. Where the code iterates over a hash map, the order is a parameter.

  \<^bold>\<open>Not modelled\<close>: the axum handlers around the modelled functions (\<open>core/api/http.rs\<close>, \<open>files.rs\<close>, \<open>monitor.rs\<close>,
  \<open>whoami.rs\<close>, \<open>board/handlers.rs\<close>), which extract requests and print answers; the SMTP sender and the MX
  deliverer, which build mails with \<open>lettre\<close> and resolve names; the text of the welcome mail; opening,
  encryption and migration of the databases; loading of the configuration; the server and the command line.
  Regular expressions, HTML, MIME parsing, cryptography and DNS belong to other crates and are parameters.
  The manifest of the development lists every part with its status.
\<close>

section \<open>One tick of the gateway\<close>






end
